(* ===== verification/Py_Base.thy ===== *)
theory Py_Base
  imports Complex_Main "HOL-Library.AList" "HOL-Library.Char_ord" "HOL-Library.List_Lexorder"
begin

text \<open>
  The prelude: the fragment of Python's data model that the Ouroboros runtime uses on its
  durable JSON records.  A JSON-like value is a \<open>pyval\<close>; a dict is an association list in
  insertion order; an exception is a value of \<open>exc\<close> and a fallible function returns
  \<open>exc + 'a\<close>.  Text is a list of code points below 256 (Latin-1), on which \<open>strip\<close>, \<open>lower\<close>
  and \<open>repr\<close> are exact.  A float is kept as the text of its \<open>repr\<close>.
\<close>

named_theorems py_simps "rules that evaluate the Python primitives on dictionaries and values"

section \<open>Values\<close>

datatype pyval =
    PNone
  | PBool bool
  | PInt int
  | PFloat string
  | PStr string
  | PList "pyval list"
  | PDict "(string \<times> pyval) list"

type_synonym pydict = "(string \<times> pyval) list"

datatype exc =
    ValueError string
  | TypeError string
  | OverflowError string
  | TimeoutError string
  | OSError string
  | StoreBusy
  | LineageIndeterminate string
  | ProjectionCorrupt string
  | StopActionConflict string

fun exc_text :: "exc \<Rightarrow> string" where
  "exc_text (ValueError s) = s"
| "exc_text (TypeError s) = s"
| "exc_text (OverflowError s) = s"
| "exc_text (TimeoutError s) = s"
| "exc_text (OSError s) = s"
| "exc_text StoreBusy = ''''"
| "exc_text (LineageIndeterminate s) = s"
| "exc_text (ProjectionCorrupt s) = s"
| "exc_text (StopActionConflict s) = s"

fun is_dict :: "pyval \<Rightarrow> bool" where
  "is_dict (PDict _) = True"
| "is_dict _ = False"

fun is_list :: "pyval \<Rightarrow> bool" where
  "is_list (PList _) = True"
| "is_list _ = False"

fun is_str :: "pyval \<Rightarrow> bool" where
  "is_str (PStr _) = True"
| "is_str _ = False"

fun the_dict :: "pyval \<Rightarrow> pydict" where
  "the_dict (PDict d) = d"
| "the_dict _ = []"

fun the_list :: "pyval \<Rightarrow> pyval list" where
  "the_list (PList xs) = xs"
| "the_list _ = []"

section \<open>Dictionaries\<close>

definition dget :: "pydict \<Rightarrow> string \<Rightarrow> pyval" where
  "dget d k = (case map_of d k of None \<Rightarrow> PNone | Some v \<Rightarrow> v)"

definition dhas :: "pydict \<Rightarrow> string \<Rightarrow> bool" where
  "dhas d k = (map_of d k \<noteq> None)"

definition dset :: "string \<Rightarrow> pyval \<Rightarrow> pydict \<Rightarrow> pydict" where
  "dset k v d = AList.update k v d"

definition dpop :: "string \<Rightarrow> pydict \<Rightarrow> pydict" where
  "dpop k d = AList.delete k d"

definition dmerge :: "pydict \<Rightarrow> pydict \<Rightarrow> pydict" where
  "dmerge d e = fold (\<lambda>(k, v). dset k v) e d"

definition dsetdefault :: "string \<Rightarrow> pyval \<Rightarrow> pydict \<Rightarrow> pydict" where
  "dsetdefault k v d = (if dhas d k then d else dset k v d)"

lemma map_of_dset [simp]: "map_of (dset k v d) k' = (if k' = k then Some v else map_of d k')"
  by (simp add: dset_def update_conv)

lemma map_of_dpop [simp]: "map_of (dpop k d) k' = (if k' = k then None else map_of d k')"
  by (simp add: dpop_def delete_conv)

lemma dget_dset [simp]: "dget (dset k v d) k' = (if k' = k then v else dget d k')"
  by (simp add: dget_def)

lemma dget_dpop [simp]: "dget (dpop k d) k' = (if k' = k then PNone else dget d k')"
  by (simp add: dget_def)

lemma dhas_dset [simp]: "dhas (dset k v d) k' \<longleftrightarrow> k' = k \<or> dhas d k'"
  by (simp add: dhas_def)

lemma dhas_dpop [simp]: "dhas (dpop k d) k' \<longleftrightarrow> k' \<noteq> k \<and> dhas d k'"
  by (simp add: dhas_def)

lemma dget_Nil [simp]: "dget [] k = PNone"
  by (simp add: dget_def)

lemma dhas_Nil [simp]: "\<not> dhas [] k"
  by (simp add: dhas_def)

lemma dget_Cons [simp]: "dget ((k, v) # d) k' = (if k' = k then v else dget d k')"
  by (simp add: dget_def)

lemma dhas_Cons [simp]: "dhas ((k, v) # d) k' \<longleftrightarrow> k' = k \<or> dhas d k'"
  by (simp add: dhas_def)

lemma dmerge_Nil [simp]: "dmerge d [] = d"
  by (simp add: dmerge_def)

lemma dmerge_Cons [simp]: "dmerge d ((k, v) # e) = dmerge (dset k v d) e"
  by (simp add: dmerge_def)

lemma dmerge_append [simp]: "dmerge d (e @ f) = dmerge (dmerge d e) f"
  by (simp add: dmerge_def)

lemma dset_Nil [simp]: "dset k v [] = [(k, v)]"
  by (simp add: dset_def)

lemma dset_Cons [simp]: "dset k v ((k', v') # d) = (if k = k' then (k, v) # d else (k', v') # dset k v d)"
  by (simp add: dset_def)

lemma dpop_Nil [simp]: "dpop k [] = []"
  by (simp add: dpop_def)

lemma dpop_Cons [simp]: "dpop k ((k', v') # d) = (if k = k' then dpop k d else (k', v') # dpop k d)"
  by (auto simp: dpop_def AList.delete_eq)

lemma dget_not_None_dhas: "dget d k \<noteq> PNone \<Longrightarrow> dhas d k"
  by (auto simp: dget_def dhas_def split: option.splits)

lemma dget_dict_dhas: "dget d k = PDict r \<Longrightarrow> dhas d k"
  by (auto simp: dget_def dhas_def split: option.splits)

lemma dhas_dmerge: "dhas (dmerge d e) k \<longleftrightarrow> dhas d k \<or> dhas e k"
  by (induction e arbitrary: d) auto

lemma dget_dmerge_notin: "\<not> dhas e k \<Longrightarrow> dget (dmerge d e) k = dget d k"
  by (induction e arbitrary: d) auto

lemma dget_dmerge_distinct:
  "distinct (map fst e) \<Longrightarrow> dget (dmerge d e) k = (if dhas e k then dget e k else dget d k)"
proof (induction e arbitrary: d)
  case (Cons p e)
  obtain a v where p: "p = (a, v)" by (cases p)
  have "k = a \<Longrightarrow> \<not> dhas e k"
    using Cons.prems p by (auto simp: dhas_def map_of_eq_None_iff)
  then show ?case using Cons p by (auto simp: dget_dmerge_notin)
qed simp

lemma distinct_dset [simp]: "distinct (map fst d) \<Longrightarrow> distinct (map fst (dset k v d))"
  by (simp add: dset_def distinct_update)

lemma distinct_dpop [simp]: "distinct (map fst d) \<Longrightarrow> distinct (map fst (dpop k d))"
  by (simp add: dpop_def distinct_delete)

lemma distinct_dmerge [simp]: "distinct (map fst d) \<Longrightarrow> distinct (map fst (dmerge d e))"
  by (induction e arbitrary: d) auto

section \<open>Integers and text\<close>

definition digit_char :: "nat \<Rightarrow> char" where
  "digit_char n = char_of (48 + n)"

fun nat_str :: "nat \<Rightarrow> string" where
  "nat_str n = (if n < 10 then [digit_char n] else nat_str (n div 10) @ [digit_char (n mod 10)])"

declare nat_str.simps [simp del]

definition int_str :: "int \<Rightarrow> string" where
  "int_str i = (if i < 0 then ''-'' @ nat_str (nat (- i)) else nat_str (nat i))"

definition zpad :: "nat \<Rightarrow> string \<Rightarrow> string" where
  "zpad w s = replicate (w - length s) (char_of (48 :: nat)) @ s"

definition code :: "char \<Rightarrow> nat" where
  "code c = of_char c"

definition is_ws :: "char \<Rightarrow> bool" where
  "is_ws c = (let n = code c in (9 \<le> n \<and> n \<le> 13) \<or> (28 \<le> n \<and> n \<le> 32) \<or> n = 133 \<or> n = 160)"

definition is_digit :: "char \<Rightarrow> bool" where
  "is_digit c = (48 \<le> code c \<and> code c \<le> 57)"

definition is_alnum_ascii :: "char \<Rightarrow> bool" where
  "is_alnum_ascii c = (is_digit c \<or> (65 \<le> code c \<and> code c \<le> 90) \<or> (97 \<le> code c \<and> code c \<le> 122))"

definition lstrip :: "string \<Rightarrow> string" where
  "lstrip s = dropWhile is_ws s"

definition strip :: "string \<Rightarrow> string" where
  "strip s = rev (dropWhile is_ws (rev (dropWhile is_ws s)))"

definition lower_char :: "char \<Rightarrow> char" where
  "lower_char c = (let n = code c in
     if (65 \<le> n \<and> n \<le> 90) \<or> (192 \<le> n \<and> n \<le> 222 \<and> n \<noteq> 215) then char_of (n + 32) else c)"

definition lower :: "string \<Rightarrow> string" where
  "lower s = map lower_char s"

fun split_ws_aux :: "string \<Rightarrow> string \<Rightarrow> string list" where
  "split_ws_aux acc [] = (if acc = [] then [] else [rev acc])"
| "split_ws_aux acc (c # cs) =
     (if is_ws c then (if acc = [] then split_ws_aux [] cs else rev acc # split_ws_aux [] cs)
      else split_ws_aux (c # acc) cs)"

definition split_ws :: "string \<Rightarrow> string list" where
  "split_ws s = split_ws_aux [] s"

fun join :: "string \<Rightarrow> string list \<Rightarrow> string" where
  "join sep [] = ''''"
| "join sep [x] = x"
| "join sep (x # y # zs) = x @ sep @ join sep (y # zs)"

definition hex_digit :: "nat \<Rightarrow> char" where
  "hex_digit n = (if n < 10 then char_of (48 + n) else char_of (87 + n))"

definition hex2 :: "nat \<Rightarrow> string" where
  "hex2 n = [hex_digit (n div 16), hex_digit (n mod 16)]"

definition printable :: "char \<Rightarrow> bool" where
  "printable c = (let n = code c in (32 \<le> n \<and> n < 127) \<or> (160 < n \<and> n \<noteq> 173))"

definition repr_char :: "char \<Rightarrow> char \<Rightarrow> string" where
  "repr_char q c = (let n = code c in
     if c = q \<or> n = 92 then [char_of (92 :: nat), c]
     else if n = 9 then [char_of (92 :: nat), CHR ''t'']
     else if n = 10 then [char_of (92 :: nat), CHR ''n'']
     else if n = 13 then [char_of (92 :: nat), CHR ''r'']
     else if printable c then [c]
     else [char_of (92 :: nat), CHR ''x''] @ hex2 n)"

definition repr_str :: "string \<Rightarrow> string" where
  "repr_str s = (let sq = char_of (39 :: nat); dq = char_of (34 :: nat);
                     q = (if sq \<in> set s \<and> dq \<notin> set s then dq else sq)
                 in [q] @ concat (map (repr_char q) s) @ [q])"

fun py_repr :: "pyval \<Rightarrow> string"
  and py_repr_list :: "pyval list \<Rightarrow> string list"
  and py_repr_items :: "(string \<times> pyval) list \<Rightarrow> string list" where
  "py_repr PNone = ''None''"
| "py_repr (PBool b) = (if b then ''True'' else ''False'')"
| "py_repr (PInt i) = int_str i"
| "py_repr (PFloat s) = s"
| "py_repr (PStr s) = repr_str s"
| "py_repr (PList xs) = ''['' @ join '', '' (py_repr_list xs) @ '']''"
| "py_repr (PDict d) = ''{'' @ join '', '' (py_repr_items d) @ ''}''"
| "py_repr_list [] = []"
| "py_repr_list (x # xs) = py_repr x # py_repr_list xs"
| "py_repr_items [] = []"
| "py_repr_items ((k, v) # d) = (repr_str k @ '': '' @ py_repr v) # py_repr_items d"

definition py_str :: "pyval \<Rightarrow> string" where
  "py_str v = (case v of PStr s \<Rightarrow> s | _ \<Rightarrow> py_repr v)"

definition float_zero :: "string \<Rightarrow> bool" where
  "float_zero s = list_all (\<lambda>c. c \<in> set ''+-.0'') (takeWhile (\<lambda>c. c \<noteq> CHR ''e'') s)"

fun truthy :: "pyval \<Rightarrow> bool" where
  "truthy PNone = False"
| "truthy (PBool b) = b"
| "truthy (PInt i) = (i \<noteq> 0)"
| "truthy (PFloat s) = (\<not> float_zero s)"
| "truthy (PStr s) = (s \<noteq> '''')"
| "truthy (PList xs) = (xs \<noteq> [])"
| "truthy (PDict d) = (d \<noteq> [])"

text \<open>\<open>str(v or "")\<close>, the reading of a field that most of the code uses.\<close>

definition sor :: "pyval \<Rightarrow> string" where
  "sor v = (if truthy v then py_str v else '''')"

lemma sor_PStr [simp]: "sor (PStr s) = s"
  by (simp add: sor_def py_str_def)

lemma sor_PNone [simp]: "sor PNone = ''''"
  by (simp add: sor_def)

lemma py_str_PStr [simp]: "py_str (PStr s) = s"
  by (simp add: py_str_def)

lemma truthy_dict_nonempty: "truthy (dget r k) \<Longrightarrow> dhas r k"
  by (cases "dget r k") (auto simp: dget_def dhas_def split: option.splits)

section \<open>\<open>int()\<close> on a value\<close>

fun digits_val :: "nat \<Rightarrow> string \<Rightarrow> nat" where
  "digits_val acc [] = acc"
| "digits_val acc (c # cs) = digits_val (acc * 10 + (code c - 48)) cs"

fun underscored :: "bool \<Rightarrow> string \<Rightarrow> bool" where
  "underscored prev [] = prev"
| "underscored prev (c # cs) =
     (if is_digit c then underscored True cs
      else if c = CHR ''_'' \<and> prev then underscored False cs
      else False)"

definition int_literal :: "string \<Rightarrow> int option" where
  "int_literal s0 = (let s = strip s0;
      neg = (case s of c # _ \<Rightarrow> c = CHR ''-'' | [] \<Rightarrow> False);
      body = (case s of c # cs \<Rightarrow> (if c = CHR ''-'' \<or> c = CHR ''+'' then cs else s) | [] \<Rightarrow> []);
      ds = filter is_digit body
    in if underscored False body \<and> length ds \<le> 4300
       then Some (if neg then - int (digits_val 0 ds) else int (digits_val 0 ds)) else None)"

text \<open>The exact value of a decimal literal: sign, coefficient and exponent.\<close>

definition split_at :: "char \<Rightarrow> string \<Rightarrow> string \<times> string option" where
  "split_at c s = (case dropWhile (\<lambda>x. x \<noteq> c) s of
      [] \<Rightarrow> (s, None) | _ # r \<Rightarrow> (takeWhile (\<lambda>x. x \<noteq> c) s, Some r))"

definition signed_digits :: "string \<Rightarrow> int option" where
  "signed_digits s = (case s of [] \<Rightarrow> None
     | c # cs \<Rightarrow> (let ds = (if c = CHR ''-'' \<or> c = CHR ''+'' then cs else s)
                  in if ds \<noteq> [] \<and> list_all is_digit ds
                     then Some (if c = CHR ''-'' then - int (digits_val 0 ds) else int (digits_val 0 ds))
                     else None))"

definition dec_literal :: "string \<Rightarrow> (bool \<times> nat \<times> int) option" where
  "dec_literal s0 = (let
      neg = (case s0 of c # _ \<Rightarrow> c = CHR ''-'' | [] \<Rightarrow> False);
      s = (case s0 of c # cs \<Rightarrow> (if c = CHR ''-'' \<or> c = CHR ''+'' then cs else s0) | [] \<Rightarrow> []);
      (mant, ex) = split_at CHR ''e'' (map (\<lambda>c. if c = CHR ''E'' then CHR ''e'' else c) s);
      (ip, fp) = split_at CHR ''.'' mant;
      fpart = (case fp of None \<Rightarrow> [] | Some f \<Rightarrow> f);
      e = (case ex of None \<Rightarrow> Some 0 | Some t \<Rightarrow> signed_digits t)
    in case e of None \<Rightarrow> None
       | Some x \<Rightarrow> if list_all is_digit ip \<and> list_all is_digit fpart \<and> ip @ fpart \<noteq> []
                    then Some (neg, digits_val 0 (ip @ fpart), x - int (length fpart)) else None)"

definition float_trunc :: "string \<Rightarrow> int option" where
  "float_trunc s = (case dec_literal s of None \<Rightarrow> None
     | Some (neg, c, e) \<Rightarrow>
         (let m = (if 0 \<le> e then int c * 10 ^ nat e else int c div 10 ^ nat (- e))
          in Some (if neg then - m else m)))"

definition py_int :: "pyval \<Rightarrow> exc + int" where
  "py_int v = (case v of
      PBool b \<Rightarrow> Inr (if b then 1 else 0)
    | PInt i \<Rightarrow> Inr i
    | PFloat s \<Rightarrow> (case float_trunc s of Some i \<Rightarrow> Inr i
         | None \<Rightarrow> (if s = ''nan'' then Inl (ValueError ''cannot convert float NaN to integer'')
                    else Inl (OverflowError ''cannot convert float infinity to integer'')))
    | PStr s \<Rightarrow> (case int_literal s of Some i \<Rightarrow> Inr i
         | None \<Rightarrow> Inl (ValueError (''invalid literal for int() with base 10: '' @ repr_str s)))
    | _ \<Rightarrow> Inl (TypeError ''int() argument must be a string, a bytes-like object or a real number''))"

text \<open>\<open>int(v or 0)\<close>.\<close>

definition int_or0 :: "pyval \<Rightarrow> exc + int" where
  "int_or0 v = (if truthy v then py_int v else Inr 0)"

lemma int_or0_PInt [simp]: "int_or0 (PInt i) = Inr i"
  by (simp add: int_or0_def py_int_def)

lemma int_or0_PNone [simp]: "int_or0 PNone = Inr 0"
  by (simp add: int_or0_def)

section \<open>Digits\<close>

lemma digits_val_snoc: "digits_val acc (xs @ [c]) = digits_val acc xs * 10 + (code c - 48)"
  by (induction xs arbitrary: acc) simp_all

lemma code_digit_char: "n < 10 \<Longrightarrow> code (digit_char n) = 48 + n"
  by (simp add: code_def digit_char_def)

lemma digits_val_nat_str: "digits_val 0 (nat_str n) = n"
proof (induction n rule: nat_str.induct)
  case (1 n)
  then show ?case
    by (subst nat_str.simps) (auto simp: digits_val_snoc code_digit_char)
qed

lemma digits_val_zeros: "digits_val 0 (replicate k (char_of (48 :: nat)) @ s) = digits_val 0 s"
  by (induction k) (simp_all add: code_def)

lemma nat_str_digits: "list_all is_digit (nat_str n)"
proof (induction n rule: nat_str.induct)
  case (1 n)
  have "is_digit (digit_char k)" if "k < 10" for k
    using that by (simp add: is_digit_def code_digit_char)
  with 1 show ?case by (subst nat_str.simps) auto
qed

lemma not_ws_digit: "is_digit c \<Longrightarrow> \<not> is_ws c"
  by (simp add: is_digit_def is_ws_def Let_def)

lemma strip_plain: "s \<noteq> '''' \<Longrightarrow> \<not> is_ws (hd s) \<Longrightarrow> \<not> is_ws (last s) \<Longrightarrow> strip s = s"
  by (simp add: strip_def dropWhile_eq_self_iff [THEN iffD2] hd_rev)

lemma nat_str_nonempty [simp]: "nat_str n \<noteq> ''''"
  by (subst nat_str.simps) simp

section \<open>Errors as sums\<close>

text \<open>A step that may raise, and a loop over such steps.\<close>

fun sbind :: "'e + 'a \<Rightarrow> ('a \<Rightarrow> 'e + 'b) \<Rightarrow> 'e + 'b" where
  "sbind (Inl e) f = Inl e"
| "sbind (Inr x) f = f x"

fun sfold :: "('a \<Rightarrow> 'b \<Rightarrow> 'e + 'b) \<Rightarrow> 'a list \<Rightarrow> 'b \<Rightarrow> 'e + 'b" where
  "sfold f [] b = Inr b"
| "sfold f (x # xs) b = sbind (f x b) (sfold f xs)"

definition guard_that :: "bool \<Rightarrow> 'e \<Rightarrow> 'e + unit" where
  "guard_that ok e = (if ok then Inr () else Inl e)"

lemma sbind_Inr_iff: "sbind m f = Inr y \<longleftrightarrow> (\<exists>x. m = Inr x \<and> f x = Inr y)"
  by (cases m) auto

lemma guard_that_Inr [simp]: "guard_that ok e = Inr u \<longleftrightarrow> ok"
  by (simp add: guard_that_def)

lemma sfold_append: "sfold f (xs @ ys) b = sbind (sfold f xs b) (sfold f ys)"
proof (induction xs arbitrary: b)
  case (Cons x xs)
  then show ?case by (cases "f x b") auto
qed simp

end
