(* ===== verification/Task_Results.thy ===== *)
theory Task_Results
  imports Py_Base
begin

text \<open>
  The task-result authority (\<open>ouroboros/task_results.py\<close>, \<open>ouroboros/task_result_schema.py\<close>):
  the status vocabulary and its monotone order, the lineage projection of a task row, the
  validation of task ids, the schema admission of a stored row, and the strict and fail-soft
  readers of the document store.  The store itself (SQLite) is a record holding one document per
  id, the ids whose file was refused, and whether a transaction can be opened now.
\<close>

section \<open>Statuses\<close>

abbreviation "STATUS_REQUESTED \<equiv> ''requested''"
abbreviation "STATUS_SCHEDULED \<equiv> ''scheduled''"
abbreviation "STATUS_RUNNING \<equiv> ''running''"
abbreviation "STATUS_COMPLETED \<equiv> ''completed''"
abbreviation "STATUS_REJECTED_DUPLICATE \<equiv> ''rejected_duplicate''"
abbreviation "STATUS_FAILED \<equiv> ''failed''"
abbreviation "STATUS_INTERRUPTED \<equiv> ''interrupted''"
abbreviation "STATUS_CANCELLED \<equiv> ''cancelled''"
abbreviation "STATUS_CANCEL_REQUESTED \<equiv> ''cancel_requested''"

definition truly_terminal_statuses :: "string list" where
  "truly_terminal_statuses =
     [STATUS_COMPLETED, STATUS_FAILED, STATUS_CANCELLED, STATUS_REJECTED_DUPLICATE]"

definition settled_statuses :: "string list" where
  "settled_statuses =
     [STATUS_COMPLETED, STATUS_FAILED, STATUS_CANCELLED, STATUS_REJECTED_DUPLICATE]"

definition status_rank :: "string \<Rightarrow> nat option" where
  "status_rank s = map_of
     [(STATUS_REQUESTED, 0), (STATUS_SCHEDULED, 1), (STATUS_RUNNING, 2), (STATUS_INTERRUPTED, 2),
      (STATUS_CANCEL_REQUESTED, 3), (STATUS_COMPLETED, 4), (STATUS_FAILED, 4),
      (STATUS_CANCELLED, 4), (STATUS_REJECTED_DUPLICATE, 4)] s"

definition regression_guard_floor :: nat where
  "regression_guard_floor = 3"

definition is_status_regression :: "string \<Rightarrow> string \<Rightarrow> bool" where
  "is_status_regression existing new =
     (if existing \<in> set truly_terminal_statuses then new \<noteq> existing
      else if existing = STATUS_CANCEL_REQUESTED then
        (case status_rank new of None \<Rightarrow> False | Some r \<Rightarrow> r < 3)
      else (case (status_rank existing, status_rank new) of
              (Some re, Some rn) \<Rightarrow> (if regression_guard_floor \<le> re then rn < re else False)
            | _ \<Rightarrow> False))"

definition cancellation_blocks_child_result :: "pyval \<Rightarrow> bool" where
  "cancellation_blocks_child_result result =
     (is_dict result \<and> lower (strip (sor (dget (the_dict result) ''status''))) = STATUS_CANCELLED)"

definition lifecycle_named :: "pyval \<Rightarrow> string \<Rightarrow> pyval" where
  "lifecycle_named axes status =
     (let lifecycle = (if is_dict axes then dget (the_dict axes) ''lifecycle'' else PNone)
      in if \<not> is_dict lifecycle \<or> dget (the_dict lifecycle) ''status'' = PStr status then axes
         else PDict (dset ''lifecycle''
                (PDict (dset ''status'' (PStr status) (the_dict lifecycle))) (the_dict axes)))"

section \<open>Lineage\<close>

record task_lineage =
  lin_task_id :: string
  lin_root_task_id :: string
  lin_parent_task_id :: string
  lin_delegation_role :: string
  lin_original_task_id :: string
  lin_timeout_retry_from :: string
  lin_is_retry_root_attempt :: bool
  lin_is_root_task :: bool

definition lineage_field :: "pydict \<Rightarrow> pyval \<Rightarrow> string \<Rightarrow> string" where
  "lineage_field meta explicit key =
     strip (sor (if explicit \<noteq> PNone then explicit else dget meta key))"

definition resolve_task_lineage ::
  "string \<Rightarrow> pyval \<Rightarrow> pyval \<Rightarrow> pyval \<Rightarrow> pyval \<Rightarrow> pyval \<Rightarrow> pyval \<Rightarrow> task_lineage" where
  "resolve_task_lineage task_id metadata root_task_id parent_task_id delegation_role
      original_task_id timeout_retry_from =
   (let meta = the_dict metadata;
        resolved_task_id = strip task_id;
        root_field = lineage_field meta root_task_id ''root_task_id'';
        resolved_root_id = (if root_field \<noteq> '''' then root_field else resolved_task_id);
        resolved_parent_id = lineage_field meta parent_task_id ''parent_task_id'';
        resolved_role = lower (lineage_field meta delegation_role ''delegation_role'');
        resolved_original_id = lineage_field meta original_task_id ''original_task_id'';
        resolved_retry_from = lineage_field meta timeout_retry_from ''timeout_retry_from'';
        is_regular_root = (resolved_task_id \<noteq> '''' \<and> resolved_root_id = resolved_task_id
                           \<and> resolved_parent_id = '''' \<and> resolved_role \<noteq> ''subagent'');
        is_retry_root = (resolved_task_id \<noteq> '''' \<and> resolved_root_id \<noteq> ''''
                         \<and> resolved_root_id \<noteq> resolved_task_id \<and> resolved_parent_id = ''''
                         \<and> resolved_role = ''root'' \<and> resolved_original_id \<noteq> ''''
                         \<and> resolved_original_id = resolved_retry_from
                         \<and> resolved_original_id \<noteq> resolved_task_id)
    in \<lparr> lin_task_id = resolved_task_id, lin_root_task_id = resolved_root_id,
         lin_parent_task_id = resolved_parent_id, lin_delegation_role = resolved_role,
         lin_original_task_id = resolved_original_id,
         lin_timeout_retry_from = resolved_retry_from,
         lin_is_retry_root_attempt = is_retry_root,
         lin_is_root_task = (is_regular_root \<or> is_retry_root) \<rparr>)"

text \<open>The call shape every reader of a stored row uses.\<close>

definition row_lineage :: "string \<Rightarrow> pydict \<Rightarrow> task_lineage" where
  "row_lineage tid row = resolve_task_lineage tid (dget row ''metadata'') (dget row ''root_task_id'')
     (dget row ''parent_task_id'') (dget row ''delegation_role'') (dget row ''original_task_id'')
     (dget row ''timeout_retry_from'')"

section \<open>Identities and schema admission\<close>

definition task_id_matches :: "string \<Rightarrow> bool" where
  "task_id_matches s = (case s of [] \<Rightarrow> False
     | c # cs \<Rightarrow> is_alnum_ascii c \<and> length cs \<le> 127
                 \<and> list_all (\<lambda>x. is_alnum_ascii x \<or> x \<in> set ''_.-'') cs)"

definition validate_task_id :: "pyval \<Rightarrow> exc + string" where
  "validate_task_id task_id = (let s = strip (sor task_id)
     in if task_id_matches s then Inr s
        else Inl (ValueError ''task_id must match [A-Za-z0-9][A-Za-z0-9_.-]{0,127}''))"

definition SCHEMA_VERSION_KEY :: string where
  "SCHEMA_VERSION_KEY = ''_schema_version''"

definition task_result_schema_refusal :: "pyval \<Rightarrow> string" where
  "task_result_schema_refusal data = (case data of
     PDict d \<Rightarrow>
       (case dget d SCHEMA_VERSION_KEY of
          PNone \<Rightarrow> ''unstamped_pre_7_0''
        | PInt stamp \<Rightarrow>
            (if stamp < 1 then ''invalid_stamp''
             else if 1 < stamp then ''future_schema''
             else (let contract = dget d ''task_contract'';
                       profile = (if is_dict contract then dget (the_dict contract) ''budget_profile''
                                  else PNone)
                   in if is_dict profile
                         \<and> sor (dget (the_dict profile) ''improvement_policy'') = ''until_deadline''
                      then ''retired_contract_until_deadline'' else ''''))
        | _ \<Rightarrow> ''invalid_stamp'')
   | _ \<Rightarrow> ''malformed'')"

text \<open>Python's \<open>stamp != 1\<close> on a JSON value other than a bool: equal to an int or a float 1.\<close>

definition stamp_is_one :: "pyval \<Rightarrow> bool" where
  "stamp_is_one v = (v = PInt 1 \<or> v = PFloat ''1.0'')"

definition require_writable_task_result_schema :: "pydict \<Rightarrow> string \<Rightarrow> exc + unit" where
  "require_writable_task_result_schema existing path =
     (let stamp = dget existing SCHEMA_VERSION_KEY
      in if stamp \<noteq> PNone \<and> \<not> stamp_is_one stamp
         then Inl (ValueError (''TASK_RESULT_SCHEMA_REFUSED: refusing to write schema-1 fields over a row stamped ''
                @ py_repr stamp @ (if path \<noteq> '''' then '': '' @ path else '''')))
         else Inr ())"

definition stamp_task_result_schema :: "pydict \<Rightarrow> pydict" where
  "stamp_task_result_schema row = dset SCHEMA_VERSION_KEY (PInt 1) row"

section \<open>The document store and its readers\<close>

record task_store =
  ts_docs :: "(string \<times> pydict) list"
  ts_occupied :: "(string \<times> string) list"
  ts_busy :: bool

definition read_document :: "task_store \<Rightarrow> string \<Rightarrow> exc + pydict option" where
  "read_document st tid = (if ts_busy st then Inl StoreBusy else Inr (map_of (ts_docs st) tid))"

definition patch_document ::
  "(pydict \<Rightarrow> exc + pydict option) \<Rightarrow> string \<Rightarrow> task_store \<Rightarrow> (exc + pydict) \<times> task_store" where
  "patch_document mut tid st =
     (if ts_busy st then (Inl StoreBusy, st)
      else let current = (case map_of (ts_docs st) tid of None \<Rightarrow> [] | Some d \<Rightarrow> d)
           in case mut current of
                Inl e \<Rightarrow> (Inl e, st)
              | Inr None \<Rightarrow> (Inr current, st)
              | Inr (Some d) \<Rightarrow> (let d' = dset ''task_id'' (PStr tid) d
                   in (Inr d', st\<lparr>ts_docs := AList.update tid d' (ts_docs st)\<rparr>)))"

definition normalize_swarm_efficiency :: "pydict \<Rightarrow> pydict" where
  "normalize_swarm_efficiency data = (case dget data ''swarm_efficiency'' of
     PDict v \<Rightarrow>
       (let rename = (\<lambda>old new v. if dhas v old then dsetdefault new (dget v old) (dpop old v) else v)
        in dset ''swarm_efficiency''
             (PDict (rename ''inter_wave_latency_sec_total'' ''fanout_interval_sec_total''
                (rename ''wave_count'' ''fanout_count'' v))) data)
   | _ \<Rightarrow> data)"

definition refuse_occupied :: "task_store \<Rightarrow> string \<Rightarrow> exc + unit" where
  "refuse_occupied st tid =
     (if ts_busy st then Inl StoreBusy
      else case map_of (ts_occupied st) tid of
        Some (c # cs) \<Rightarrow> Inl (ValueError (''task result authority is unreadable or invalid: task:'' @ tid))
      | _ \<Rightarrow> Inr ())"

definition admit_stored :: "pydict \<Rightarrow> string \<Rightarrow> bool \<Rightarrow> string \<Rightarrow> exc + unit" where
  "admit_stored data task_id strict noun =
     (if strict \<and> (sor (dget data ''task_id'') \<noteq> task_id \<or> \<not> is_str (dget data ''status'')
                    \<or> strip (sor (dget data ''status'')) = '''')
      then Inl (ValueError (noun @ '' is unreadable or invalid: task:'' @ task_id))
      else Inr ())"

definition load_task_result :: "task_store \<Rightarrow> pyval \<Rightarrow> bool \<Rightarrow> exc + pydict option" where
  "load_task_result st task_id strict = (case validate_task_id task_id of
     Inl e \<Rightarrow> (if strict then Inl e else Inr None)
   | Inr tid \<Rightarrow> (case read_document st tid of
        Inl e \<Rightarrow> Inl e
      | Inr None \<Rightarrow> (if strict then (case refuse_occupied st tid of Inl e \<Rightarrow> Inl e | Inr _ \<Rightarrow> Inr None)
                     else Inr None)
      | Inr (Some data) \<Rightarrow> (case admit_stored data tid strict ''task result authority'' of
            Inl e \<Rightarrow> Inl e
          | Inr _ \<Rightarrow> Inr (Some (normalize_swarm_efficiency data)))))"

text \<open>\<open>(load_task_result(...) or \<lbrace>\<rbrace>).get(...)\<close>: an absent row reads as the empty dict.\<close>

definition doc_or_empty :: "pydict option \<Rightarrow> pydict" where
  "doc_or_empty r = (case r of None \<Rightarrow> [] | Some d \<Rightarrow> d)"

section \<open>Reconciled presence placeholders\<close>

definition pstr_in :: "pyval \<Rightarrow> string list \<Rightarrow> bool" where
  "pstr_in v xs = (case v of PStr s \<Rightarrow> s \<in> set xs | _ \<Rightarrow> False)"

definition is_reconciled_presence_placeholder :: "pydict \<Rightarrow> bool" where
  "is_reconciled_presence_placeholder row =
     (let meta = the_dict (dget row ''metadata'')
      in dget row ''status'' = PStr STATUS_FAILED \<and> \<not> truthy (dget row ''terminal_origin'')
         \<and> pstr_in (dget row ''status_reconciled_from'') [STATUS_RUNNING, STATUS_INTERRUPTED]
         \<and> pstr_in (dget row ''reason_code'')
              [''orphaned_running_after_worker_restart'', ''interrupted_retry_lost'']
         \<and> (dget meta ''source'' = PStr ''presence'' \<or> is_dict (dget meta ''presence'')))"

definition reopen_projection_keys :: "string list" where
  "reopen_projection_keys = [''canonical_terminal_projection'',
     ''canonical_terminal_projection_ready'', ''canonical_terminal_projection_origin'', ''terminal_time'']"

definition reopen_cleared_keys :: "string list" where
  "reopen_cleared_keys = [''reason_code'', ''outcome_axes'', ''artifact_status'',
     ''artifact_bundle'', ''result'', ''status_reconciled_from''] @ reopen_projection_keys"

definition last_n :: "nat \<Rightarrow> string \<Rightarrow> string" where
  "last_n n s = drop (length s - n) s"

definition reopen_mutate :: "string \<Rightarrow> string \<Rightarrow> pydict \<Rightarrow> exc + pydict option" where
  "reopen_mutate now tid existing =
     (if \<not> is_reconciled_presence_placeholder existing then Inr None
      else case require_writable_task_result_schema existing (''task:'' @ tid) of
        Inl e \<Rightarrow> Inl e
      | Inr _ \<Rightarrow>
         (let mark = map (\<lambda>k. (k, dget existing k)) (filter (dhas existing)
                ([''status'', ''reason_code'', ''status_reconciled_from'', ''ts''] @ reopen_projection_keys));
              kept = filter (\<lambda>(k, v). k \<notin> set reopen_cleared_keys) existing;
              superseded = dset ''result'' (PStr (last_n 500 (sor (dget existing ''result'')))) mark
          in Inr (Some (stamp_task_result_schema (dmerge kept
               [(''status'', PStr STATUS_RUNNING), (''ts'', PStr now), (''updated_at'', PStr now),
                (''superseded_placeholder'', PDict superseded)])))))"

definition reopen_reconciled_presence_placeholder ::
  "string \<Rightarrow> pyval \<Rightarrow> task_store \<Rightarrow> (exc + bool) \<times> task_store" where
  "reopen_reconciled_presence_placeholder now task_id st =
     (case validate_task_id task_id of
        Inl e \<Rightarrow> (Inl e, st)
      | Inr tid \<Rightarrow>
         (let key = py_str task_id;
              current = doc_or_empty (map_of (ts_docs st) key)
          in case patch_document (reopen_mutate now tid) key st of
               (Inl e, st') \<Rightarrow> (Inl e, st')
             | (Inr _, st') \<Rightarrow> (Inr (is_reconciled_presence_placeholder current), st')))"

end
