(* ===== verification/Py_Hash.thy ===== *)
theory Py_Hash
  imports Py_Base "HOL-Library.Word"
begin

text \<open>
  The parts of Python's \<open>hashlib\<close> and \<open>json\<close> that the runtime's receipts and fingerprints use:
  UTF-8 encoding of Latin-1 text, \<open>json.dumps\<close> of a sequence of strings, and SHA-256 on 32-bit
  words (FIPS 180-4), with the hexadecimal digest.  No proof of the development depends on a
  property of the digest beyond its being a function.
\<close>

unbundle bit_operations_syntax

definition utf8 :: "string \<Rightarrow> nat list" where
  "utf8 s = concat (map (\<lambda>c. let n = code c in
      if n < 128 then [n] else [192 + n div 64, 128 + n mod 64]) s)"

definition json_escape_char :: "char \<Rightarrow> string" where
  "json_escape_char c = (let n = code c; bs = char_of (92 :: nat) in
     if n = 34 \<or> n = 92 then [bs, c]
     else if n = 8 then [bs, CHR ''b''] else if n = 9 then [bs, CHR ''t'']
     else if n = 10 then [bs, CHR ''n''] else if n = 12 then [bs, CHR ''f'']
     else if n = 13 then [bs, CHR ''r'']
     else if n < 32 \<or> 126 < n then [bs, CHR ''u'', CHR ''0'', CHR ''0''] @ hex2 n
     else [c])"

definition json_string :: "string \<Rightarrow> string" where
  "json_string s = [char_of (34 :: nat)] @ concat (map json_escape_char s) @ [char_of (34 :: nat)]"

definition json_string_list :: "string list \<Rightarrow> string" where
  "json_string_list xs = ''['' @ join '', '' (map json_string xs) @ '']''"

section \<open>SHA-256\<close>

text \<open>The constants are the first 32 fractional bits of the cube roots of the first 64 primes, and of
  the square roots of the first eight.\<close>

definition int_root_upto :: "nat \<Rightarrow> int \<Rightarrow> nat \<Rightarrow> int" where
  "int_root_upto k n bits =
     fold (\<lambda>b r. if (r + 2 ^ b) ^ k \<le> n then r + 2 ^ b else r) (rev [0..<bits]) 0"

definition root_bits :: "nat \<Rightarrow> int \<Rightarrow> 32 word" where
  "root_bits k p = word_of_int (int_root_upto k (p * 2 ^ (32 * k)) 40)"

definition small_primes :: "int list" where
  "small_primes = filter (\<lambda>n. list_all (\<lambda>d. n mod d \<noteq> 0) [2..n - 1]) [2..311]"

definition sha_k :: "32 word list" where
  "sha_k = map (root_bits 3) small_primes"

definition sha_h0 :: "32 word list" where
  "sha_h0 = map (root_bits 2) (take 8 small_primes)"

definition rotr :: "nat \<Rightarrow> 32 word \<Rightarrow> 32 word" where
  "rotr n w = (drop_bit n w) OR (push_bit (32 - n) w)"

definition sha_small0 :: "32 word \<Rightarrow> 32 word" where
  "sha_small0 x = rotr 7 x XOR rotr 18 x XOR drop_bit 3 x"

definition sha_small1 :: "32 word \<Rightarrow> 32 word" where
  "sha_small1 x = rotr 17 x XOR rotr 19 x XOR drop_bit 10 x"

definition sha_big0 :: "32 word \<Rightarrow> 32 word" where
  "sha_big0 x = rotr 2 x XOR rotr 13 x XOR rotr 22 x"

definition sha_big1 :: "32 word \<Rightarrow> 32 word" where
  "sha_big1 x = rotr 6 x XOR rotr 11 x XOR rotr 25 x"

text \<open>The message schedule, newest word first: sixteen words in, sixty-four out.\<close>

fun sha_expand :: "nat \<Rightarrow> 32 word list \<Rightarrow> 32 word list" where
  "sha_expand 0 ws = ws"
| "sha_expand (Suc n) ws =
     sha_expand n ((sha_small1 (ws ! 1) + ws ! 6 + sha_small0 (ws ! 14) + ws ! 15) # ws)"

fun sha_round :: "32 word list \<Rightarrow> 32 word \<times> 32 word \<Rightarrow> 32 word list" where
  "sha_round [a, b, c, d, e, f, g, h] (k, w) =
     (let t1 = h + sha_big1 e + ((e AND f) XOR ((NOT e) AND g)) + k + w;
          t2 = sha_big0 a + ((a AND b) XOR (a AND c) XOR (b AND c))
      in [t1 + t2, a, b, c, d + t1, e, f, g])"
| "sha_round st _ = st"

definition sha_block :: "32 word list \<Rightarrow> 32 word list \<Rightarrow> 32 word list" where
  "sha_block st block =
     map2 (+) st (foldl sha_round st (zip sha_k (rev (sha_expand 48 (rev block)))))"

definition be_bytes :: "nat \<Rightarrow> nat \<Rightarrow> nat list" where
  "be_bytes width n = map (\<lambda>i. n div 256 ^ (width - 1 - i) mod 256) [0..<width]"

definition sha_pad :: "nat list \<Rightarrow> nat list" where
  "sha_pad bs = bs @ [128] @ replicate ((119 - length bs mod 64) mod 64) 0
                @ be_bytes 8 (8 * length bs)"

fun words_be :: "nat list \<Rightarrow> 32 word list" where
  "words_be (a # b # c # d # r) =
     word_of_nat (a * 16777216 + b * 65536 + c * 256 + d) # words_be r"
| "words_be _ = []"

fun sha_blocks :: "nat \<Rightarrow> 32 word list \<Rightarrow> 32 word list \<Rightarrow> 32 word list" where
  "sha_blocks 0 st ws = st"
| "sha_blocks (Suc n) st ws = sha_blocks n (sha_block st (take 16 ws)) (drop 16 ws)"

definition sha256_hex :: "nat list \<Rightarrow> string" where
  "sha256_hex bs = (let p = sha_pad bs
     in concat (map (\<lambda>w. concat (map hex2 (be_bytes 4 (unat w))))
          (sha_blocks (length p div 64) sha_h0 (words_be p))))"

definition sha256_text :: "string \<Rightarrow> string" where
  "sha256_text s = sha256_hex (utf8 s)"

end
