(* ===== verification/Cancel_Lineage.thy ===== *)
theory Cancel_Lineage
  imports Task_Results Py_Hash
begin

text \<open>
  The two validated lineage walks of \<open>ouroboros/cancel_intents.py\<close>
  (\<open>_validated_single_cancel_target\<close>, \<open>_validated_retry_root_cancel_key\<close>) over the strict
  task-result reader, and the stop receipts of \<open>supervisor/followup_policy.py\<close>
  (\<open>new_stop_fields\<close>).
\<close>

definition RETRY_LINEAGE_MAX_HOPS :: nat where
  "RETRY_LINEAGE_MAX_HOPS = 32"

definition load_strict_or :: "task_store \<Rightarrow> string \<Rightarrow> exc + pydict option" where
  "load_strict_or st tid = (case load_task_result st (PStr tid) True of
     Inl e \<Rightarrow> Inl (LineageIndeterminate (''task-result authority is unreadable for '' @ tid))
   | Inr r \<Rightarrow> Inr r)"

text \<open>The reciprocity check of one hop: the successor names its predecessor three times and its
  own row is a retry-root attempt of the same logical root.\<close>

definition retry_successor_ok :: "string \<Rightarrow> string \<Rightarrow> string \<Rightarrow> pydict \<Rightarrow> bool" where
  "retry_successor_ok logical_root current_id successor_id successor =
     (let lineage = row_lineage successor_id successor
      in sor (dget successor ''supersedes_task_id'') = current_id
         \<and> sor (dget successor ''original_task_id'') = current_id
         \<and> sor (dget successor ''timeout_retry_from'') = current_id
         \<and> lin_is_retry_root_attempt lineage
         \<and> lin_root_task_id lineage = logical_root)"

text \<open>The loop over \<open>range(_RETRY_LINEAGE_MAX_HOPS + 1)\<close>; \<open>hop\<close> iterations are left, the last one
  (\<open>_hop >= _RETRY_LINEAGE_MAX_HOPS\<close>) may not follow another successor.\<close>

fun lineage_walk ::
  "task_store \<Rightarrow> string \<Rightarrow> nat \<Rightarrow> string option \<Rightarrow> string list \<Rightarrow> string \<Rightarrow> exc + string" where
  "lineage_walk st task_id 0 logical seen current_id =
     Inl (LineageIndeterminate (''timeout retry lineage from '' @ task_id @ '' exceeds the integrity bound''))"
| "lineage_walk st task_id (Suc left) logical seen current_id =
     (case load_strict_or st current_id of Inl e \<Rightarrow> Inl e
      | Inr row \<Rightarrow>
        (let current = doc_or_empty row;
             logical_root = (case logical of Some l \<Rightarrow> l
               | None \<Rightarrow> (if truthy (dget current ''root_task_id'')
                         then py_str (dget current ''root_task_id'') else current_id));
             superseded_by = strip (sor (dget current ''superseded_by''));
             retry_task_id = strip (sor (dget current ''retry_task_id''))
         in if superseded_by = '''' \<and> retry_task_id = current_id then Inr current_id
            else if superseded_by = '''' \<and> retry_task_id = '''' then Inr current_id
            else if superseded_by = '''' \<or> superseded_by \<noteq> retry_task_id
            then Inl (LineageIndeterminate (''timeout retry lineage from '' @ current_id @ '' is not reciprocal''))
            else case validate_task_id (PStr superseded_by) of Inl e \<Rightarrow> Inl e
            | Inr successor_id \<Rightarrow>
              (if successor_id \<in> set seen
               then Inl (LineageIndeterminate (''timeout retry lineage from '' @ task_id @ '' contains a cycle''))
               else if left = 0
               then Inl (LineageIndeterminate (''timeout retry lineage from '' @ task_id @ '' exceeds the integrity bound''))
               else case load_strict_or st successor_id of Inl e \<Rightarrow> Inl e
               | Inr None \<Rightarrow> Inl (LineageIndeterminate (''timeout retry successor '' @ successor_id @ '' has no durable result''))
               | Inr (Some successor) \<Rightarrow>
                  (if \<not> retry_successor_ok logical_root current_id successor_id successor
                   then Inl (LineageIndeterminate (''timeout retry lineage '' @ current_id @ '' -> '' @ successor_id @ '' is incomplete''))
                   else lineage_walk st task_id left (Some logical_root) (successor_id # seen) successor_id))))"

definition validated_single_cancel_target :: "task_store \<Rightarrow> string \<Rightarrow> exc + string" where
  "validated_single_cancel_target st task_id = (case validate_task_id (PStr task_id) of
     Inl e \<Rightarrow> Inl e
   | Inr current_id \<Rightarrow>
       lineage_walk st task_id (RETRY_LINEAGE_MAX_HOPS + 1) None [current_id] current_id)"

definition validated_retry_root_cancel_key :: "task_store \<Rightarrow> string \<Rightarrow> pyval \<Rightarrow> exc + string" where
  "validated_retry_root_cancel_key st task_id task_hint = (case validate_task_id (PStr task_id) of
     Inl e \<Rightarrow> Inl e
   | Inr tid \<Rightarrow>
     (case load_strict_or st tid of Inl e \<Rightarrow> Inl e
      | Inr None \<Rightarrow>
          (if lin_is_retry_root_attempt (row_lineage tid (the_dict task_hint))
           then Inl (LineageIndeterminate (''task-result authority has no durable row for retry leaf '' @ tid))
           else Inr '''')
      | Inr (Some current) \<Rightarrow>
          (let lineage = row_lineage tid current
           in if \<not> lin_is_retry_root_attempt lineage then Inr ''''
              else case validate_task_id (PStr (lin_root_task_id lineage)) of Inl e \<Rightarrow> Inl e
              | Inr logical_root \<Rightarrow>
                 (case validated_single_cancel_target st logical_root of Inl e \<Rightarrow> Inl e
                  | Inr leaf \<Rightarrow>
                     (if leaf \<noteq> tid
                      then Inl (LineageIndeterminate (''logical retry root '' @ logical_root @ '' does not resolve to '' @ tid))
                      else Inr logical_root)))))"

section \<open>Stop receipts\<close>

definition stop_sources :: "string list" where
  "stop_sources = [''http_single'', ''http_cascade'', ''http_graceful'', ''owner'', ''owner_stop'',
                   ''agent_tool'', ''owner_restart'']"

text \<open>\<open>fresh\<close> is \<open>uuid4().hex\<close>; the result is the fields to merge and whether a known action was
  replayed.  A carrier that is not an object raises, as \<open>.get\<close> and \<open>dict()\<close> do.\<close>

definition new_stop_fields ::
  "string \<Rightarrow> string \<Rightarrow> string \<Rightarrow> pyval \<Rightarrow> string \<Rightarrow> string list \<Rightarrow> exc + pydict \<times> bool" where
  "new_stop_fields fresh now source previous action_id action_binding =
     (if source \<notin> set stop_sources then Inr ([], False)
      else if truthy previous \<and> \<not> is_dict previous
      then Inl (TypeError ''previous stop is not an object'')
      else
        let prior = the_dict previous; held = dget prior ''action_receipts''
        in if truthy held \<and> \<not> is_dict held then Inl (TypeError ''action_receipts is not an object'')
        else
          let receipts = the_dict held;
              control = (\<lambda>rs. [(''followup_stop'', PDict ([(''control_id'', PStr fresh),
                 (''source'', PStr source), (''requested_at'', PStr now)]
                 @ (if rs = [] then [] else [(''action_receipts'', PDict rs)])))])
          in if action_id = '''' then Inr (control receipts, False)
             else
               let key = sha256_text action_id; binding = sha256_text (json_string_list action_binding)
               in if dhas receipts key
                  then (if dget receipts key \<noteq> PStr binding
                        then Inl (StopActionConflict ''stop_action_id reused with a different action'')
                        else Inr ([(''followup_stop'', PDict prior)], True))
                  else Inr (control (dset key (PStr binding) receipts), False))"

end
