(* ===== verification/Json_Store.thy ===== *)
theory Json_Store
  imports Py_Base
begin

text \<open>
  The locked read-modify-write of one durable JSON object (\<open>ouroboros/utils.py\<close>:
  \<open>read_json_dict\<close>, \<open>update_json_locked\<close>).  The file is absent, unreadable or an object; the
  outcome of taking the sidecar lock and of the atomic write is an input.  A mutator sees the
  current object and may thread a second store of type \<open>'s\<close> (a mutator that writes another
  document keeps that write when this one fails).  \<open>Inr (Some d)\<close> replaces the object,
  \<open>Inr None\<close> aborts, \<open>Inl e\<close> raises.
\<close>

datatype json_file = FAbsent | FMalformed | FObject pydict

datatype io = IoOk | IoLockTimeout | IoWriteFails

fun read_json_dict :: "json_file \<Rightarrow> pydict option" where
  "read_json_dict FAbsent = None"
| "read_json_dict FMalformed = None"
| "read_json_dict (FObject d) = Some d"

type_synonym ('s, 'a) mutator = "pydict \<Rightarrow> 's \<Rightarrow> (exc + pydict option \<times> 'a) \<times> 's"

definition update_json_locked ::
  "io \<Rightarrow> bool \<Rightarrow> bool \<Rightarrow> ('s, 'a) mutator \<Rightarrow> 's \<Rightarrow> json_file \<Rightarrow> (exc + pydict \<times> 'a) \<times> 's \<times> json_file" where
  "update_json_locked io strict_existing_dict reject_existing_empty_dict mut s file =
     (if io = IoLockTimeout then (Inl (TimeoutError ''could not acquire lock''), s, file)
      else if read_json_dict file = None \<and> strict_existing_dict \<and> file \<noteq> FAbsent
      then (Inl (ValueError ''update_json_locked: existing JSON is malformed or is not an object''), s, file)
      else
        let current = (case read_json_dict file of None \<Rightarrow> [] | Some d \<Rightarrow> d)
        in if reject_existing_empty_dict \<and> file \<noteq> FAbsent \<and> current = []
           then (Inl (ValueError ''update_json_locked: existing empty JSON object has no schema''), s, file)
           else case mut current s of
                  (Inl e, s') \<Rightarrow> (Inl e, s', file)
                | (Inr (None, a), s') \<Rightarrow> (Inr (current, a), s', file)
                | (Inr (Some d, a), s') \<Rightarrow>
                    (if io = IoWriteFails then (Inl (OSError ''atomic write failed''), s', file)
                     else (Inr (d, a), s', FObject d)))"

text \<open>A mutator over the object alone.\<close>

definition plain_mutator :: "(pydict \<Rightarrow> exc + pydict option \<times> 'a) \<Rightarrow> ('s, 'a) mutator" where
  "plain_mutator m d s = (m d, s)"

lemma update_json_locked_malformed:
  "update_json_locked io True rej mut s FMalformed = (r, s', f')
   \<Longrightarrow> s' = s \<and> f' = FMalformed \<and> (\<exists>e. r = Inl e)"
  by (auto simp: update_json_locked_def split: if_splits)

text \<open>The object a mutator sees, and the three ways a locked update ends.\<close>

definition object_of :: "json_file \<Rightarrow> pydict" where
  "object_of f = (case read_json_dict f of None \<Rightarrow> [] | Some d \<Rightarrow> d)"

lemma object_of_simps [simp]:
  "object_of FAbsent = []" "object_of FMalformed = []" "object_of (FObject d) = d"
  by (simp_all add: object_of_def)

lemma update_json_locked_cases:
  assumes "update_json_locked io True False mut s f = (r, s', f')"
  obtains (failed) e where "r = Inl e" and "f' = f"
  | (aborted) a where "r = Inr (object_of f, a)" and "mut (object_of f) s = (Inr (None, a), s')"
      and "f' = f" and "f \<noteq> FMalformed"
  | (written) d a where "r = Inr (d, a)" and "mut (object_of f) s = (Inr (Some d, a), s')"
      and "f' = FObject d" and "f \<noteq> FMalformed"
  using assms
  by (cases f) (auto simp: update_json_locked_def split: if_splits prod.splits sum.splits option.splits)

text \<open>When the lock and the write succeed on a readable file, the update is the mutator.\<close>

lemma update_json_locked_ok:
  "f \<noteq> FMalformed \<Longrightarrow> update_json_locked IoOk True False mut s f =
     (case mut (object_of f) s of
        (Inl e, s') \<Rightarrow> (Inl e, s', f)
      | (Inr (None, a), s') \<Rightarrow> (Inr (object_of f, a), s', f)
      | (Inr (Some d, a), s') \<Rightarrow> (Inr (d, a), s', FObject d))"
  by (cases f) (auto simp: update_json_locked_def split: sum.splits option.splits prod.splits)

text \<open>A mutator that returns no new object leaves the file and its own store as they were.\<close>

lemma update_json_locked_no_write:
  assumes "update_json_locked io True False mut s f = (r, s', f')"
    and "mut (object_of f) s = (m, s)" and "\<And>d a. m \<noteq> Inr (Some d, a)"
  shows "f' = f \<and> s' = s \<and> ((\<exists>e. r = Inl e) \<or> (\<exists>a. m = Inr (None, a) \<and> r = Inr (object_of f, a)))"
  using assms
  by (cases f) (auto simp: update_json_locked_def split: if_splits sum.splits option.splits prod.splits)

end
