(* ===== verification/Py_Time.thy ===== *)
theory Py_Time
  imports Py_Base
begin

text \<open>
  \<open>datetime.fromisoformat\<close> (the Python 3.10 grammar, the oldest version the package supports:
  a date, one separator character, hours, minutes, seconds, three or six fraction digits and a
  numeric offset) with \<open>timestamp()\<close>, a reading without an offset counting as UTC, in integer
  microseconds since the epoch; and \<open>str.replace\<close> of one character.
\<close>

definition replace_char :: "char \<Rightarrow> string \<Rightarrow> string \<Rightarrow> string" where
  "replace_char c r s = concat (map (\<lambda>x. if x = c then r else [x]) s)"

definition num_field :: "string \<Rightarrow> int option" where
  "num_field s = (if s \<noteq> [] \<and> list_all is_digit s then Some (int (digits_val 0 s)) else None)"

definition leap_year :: "int \<Rightarrow> bool" where
  "leap_year y = (y mod 4 = 0 \<and> (y mod 100 \<noteq> 0 \<or> y mod 400 = 0))"

definition days_in_month :: "int \<Rightarrow> int \<Rightarrow> int" where
  "days_in_month y m = (if m = 2 then (if leap_year y then 29 else 28)
                        else if m \<in> {4, 6, 9, 11} then 30 else 31)"

definition days_before_month :: "int \<Rightarrow> int \<Rightarrow> int" where
  "days_before_month y m = sum_list (map (days_in_month y) (map int [1..<nat m]))"

definition date_ordinal :: "int \<Rightarrow> int \<Rightarrow> int \<Rightarrow> int" where
  "date_ordinal y m d =
     (let p = y - 1 in p * 365 + p div 4 - p div 100 + p div 400 + days_before_month y m + d)"

definition parse_date :: "string \<Rightarrow> int option" where
  "parse_date s =
     (if length s = 10 \<and> s ! 4 = CHR ''-'' \<and> s ! 7 = CHR ''-'' then
        (case (num_field (take 4 s), num_field (take 2 (drop 5 s)), num_field (drop 8 s)) of
           (Some y, Some m, Some d) \<Rightarrow>
             (if 1 \<le> y \<and> 1 \<le> m \<and> m \<le> 12 \<and> 1 \<le> d \<and> d \<le> days_in_month y m
              then Some (date_ordinal y m d) else None)
         | _ \<Rightarrow> None)
      else None)"

text \<open>Up to \<open>n\<close> two-digit components separated by colons, and the unread rest.\<close>

fun hms_comps :: "nat \<Rightarrow> string \<Rightarrow> (int list \<times> string) option" where
  "hms_comps 0 s = None"
| "hms_comps (Suc n) s =
     (if length s < 2 then None else
      case num_field (take 2 s) of None \<Rightarrow> None
      | Some v \<Rightarrow>
         (let r = drop 2 s in
          if r = [] \<or> n = 0 then Some ([v], r)
          else if hd r \<noteq> CHR '':'' then None
          else case hms_comps n (tl r) of None \<Rightarrow> None | Some (vs, r') \<Rightarrow> Some (v # vs, r')))"

definition parse_hh_mm_ss_ff :: "string \<Rightarrow> (int \<times> int \<times> int \<times> int) option" where
  "parse_hh_mm_ss_ff s = (case hms_comps 3 s of None \<Rightarrow> None
     | Some (vs, r) \<Rightarrow>
        (let comp = (\<lambda>i. if i < length vs then vs ! i else 0);
             micro = (if r = [] then Some 0
                      else if hd r \<noteq> CHR ''.'' then None
                      else if length (tl r) = 3 then map_option (\<lambda>x. x * 1000) (num_field (tl r))
                      else if length (tl r) = 6 then num_field (tl r) else None)
         in case micro of None \<Rightarrow> None | Some u \<Rightarrow> Some (comp 0, comp 1, comp 2, u)))"

definition clock_us :: "int \<times> int \<times> int \<times> int \<Rightarrow> int" where
  "clock_us t = (case t of (h, m, s, u) \<Rightarrow> ((h * 60 + m) * 60 + s) * 1000000 + u)"

definition parse_time :: "string \<Rightarrow> (int \<times> int) option" where
  "parse_time t =
     (let clock = takeWhile (\<lambda>c. c \<noteq> CHR ''-'' \<and> c \<noteq> CHR ''+'') t;
          zone = drop (length clock) t;
          offset = (if zone = [] then Some 0
                    else if length (tl zone) \<notin> {5, 8, 15} then None
                    else case parse_hh_mm_ss_ff (tl zone) of None \<Rightarrow> None
                      | Some z \<Rightarrow> (let us = clock_us z in
                          if us < 86400000000 then Some (if hd zone = CHR ''-'' then - us else us)
                          else None))
      in case (parse_hh_mm_ss_ff clock, offset) of
           (Some (h, m, s, u), Some off) \<Rightarrow>
             (if h < 24 \<and> m < 60 \<and> s < 60 then Some (clock_us (h, m, s, u), off) else None)
         | _ \<Rightarrow> None)"

definition iso_timestamp_us :: "string \<Rightarrow> int option" where
  "iso_timestamp_us s = (case parse_date (take 10 s) of None \<Rightarrow> None
     | Some days \<Rightarrow>
        (let t = drop 11 s in
         case (if t = [] then Some (0, 0) else parse_time t) of None \<Rightarrow> None
         | Some (us, off) \<Rightarrow> Some ((days - 719163) * 86400000000 + us - off)))"

end
