(* ===== verification/Cancel_Intents.thy ===== *)
theory Cancel_Intents
  imports Cancel_Lineage Json_Store Py_Time
begin

text \<open>
  The durable cancel-intent projection (\<open>ouroboros/cancel_intents.py\<close>): the state is the
  projection file, the append-only forensic trail, the task-result store that the lineage checks
  read and the settle writes, and the in-process memo of disclosed malformed rows.  Each public
  function of the module is one definition, its \<open>_mutate\<close> closure one more; the environment
  record carries the clock, the process id, the liveness probe, the fresh identifiers and the
  outcome of the file lock and write.
\<close>

abbreviation "INTENT_REQUESTED \<equiv> ''requested''"
abbreviation "INTENT_CLAIMED \<equiv> ''claimed''"
abbreviation "SCOPE_SINGLE \<equiv> ''single''"
abbreviation "SCOPE_CASCADE \<equiv> ''cascade''"
abbreviation "STOP_POLICY_IMMEDIATE \<equiv> ''immediate''"
abbreviation "STOP_POLICY_FINALIZE \<equiv> ''finalize_then_cancel''"
abbreviation "SETTLED_NOT_FOUND \<equiv> ''not_found''"

definition CLAIM_STALE_US :: int where
  "CLAIM_STALE_US = 180000000"

record cancel_env =
  env_root :: string
  env_now :: string
  env_now_us :: int
  env_pid :: int
  env_alive :: "int \<Rightarrow> bool option"
  env_fresh_request :: string
  env_fresh_control :: string
  env_io :: io

record cancel_world =
  cw_file :: json_file
  cw_trail :: "pydict list"
  cw_store :: task_store
  cw_disclosed :: "string list"

section \<open>Reading rows\<close>

definition stop_policy :: "pyval \<Rightarrow> string" where
  "stop_policy intent = (if is_dict intent
       \<and> sor (dget (the_dict intent) ''stop_policy'') = STOP_POLICY_FINALIZE
     then STOP_POLICY_FINALIZE else STOP_POLICY_IMMEDIATE)"

definition forensic :: "cancel_env \<Rightarrow> pydict \<Rightarrow> cancel_world \<Rightarrow> cancel_world" where
  "forensic env row w = w\<lparr>cw_trail := cw_trail w @
     [dmerge [(''ts'', PStr (env_now env)), (''type'', PStr ''cancel_intent'')] row]\<rparr>"

definition load_intents :: "bool \<Rightarrow> pydict \<Rightarrow> exc + pydict" where
  "load_intents strict data = (case dget data ''intents'' of
     PDict intents \<Rightarrow> Inr intents
   | v \<Rightarrow> (if strict \<and> v \<noteq> PNone
           then Inl (ValueError (''cancel-intent projection '' @ repr_str ''intents'' @ '' is malformed (not an object)''))
           else Inr []))"

definition projection :: "pydict \<Rightarrow> pydict" where
  "projection intents = [(''schema_version'', PInt 1), (''intents'', PDict intents)]"

definition refuse_corrupt ::
  "cancel_env \<Rightarrow> string \<Rightarrow> string \<Rightarrow> exc \<Rightarrow> cancel_world \<Rightarrow> exc \<times> cancel_world" where
  "refuse_corrupt env task_id op e w = (ProjectionCorrupt (exc_text e),
     forensic env [(''event'', PStr ''projection_corrupt_refused''), (''task_id'', PStr task_id),
       (''op'', PStr op), (''error'', PStr (take 200 (exc_text e)))] w)"

definition settled_status :: "task_store \<Rightarrow> string \<Rightarrow> string" where
  "settled_status st task_id = (case load_task_result st (PStr task_id) False of
     Inl _ \<Rightarrow> ''''
   | Inr r \<Rightarrow> (let status = sor (dget (doc_or_empty r) ''status'')
               in if status \<in> set settled_statuses then status else ''''))"

definition malformed_row_memo_key :: "cancel_env \<Rightarrow> string \<Rightarrow> pyval \<Rightarrow> string" where
  "malformed_row_memo_key env task_id row =
     take 16 (sha256_text (env_root env @ '':'' @ task_id @ '':'' @ py_repr row))"

definition disclose_one :: "cancel_env \<Rightarrow> pydict \<Rightarrow> string \<Rightarrow> string list \<Rightarrow> string list" where
  "disclose_one env intents tid memo =
     (if length memo < 1024 then List.insert (malformed_row_memo_key env tid (dget intents tid)) memo
      else memo)"

definition dict_rows :: "pydict \<Rightarrow> pydict" where
  "dict_rows intents = filter (\<lambda>(tid, row). is_dict row) intents"

definition malformed_rows :: "pydict \<Rightarrow> string list" where
  "malformed_rows intents = map fst (filter (\<lambda>(tid, row). \<not> is_dict row) intents)"

definition malformed_message :: "string list \<Rightarrow> string" where
  "malformed_message tids = ''malformed intent row(s): '' @ join '', '' (take 5 tids)"

definition active_intents ::
  "cancel_env \<Rightarrow> bool \<Rightarrow> bool \<Rightarrow> cancel_world \<Rightarrow> (exc + pydict) \<times> cancel_world" where
  "active_intents env disclose_corruption strict w =
     (if cw_file w = FAbsent then (Inr [], w)
      else
        case (case read_json_dict (cw_file w) of
                None \<Rightarrow> Inl (ValueError ''projection file is malformed or is not an object'')
              | Some data \<Rightarrow> load_intents True data) of
          Inl e \<Rightarrow>
            (let w' = (if disclose_corruption
                 then forensic env [(''event'', PStr ''projection_corrupt_refused''),
                        (''op'', PStr ''active_intents''), (''error'', PStr (take 200 (exc_text e)))] w
                 else w)
             in if strict then (Inl (ProjectionCorrupt (exc_text e)), w') else (Inr [], w'))
        | Inr intents \<Rightarrow>
            (let malformed = malformed_rows intents;
                 fresh = filter (\<lambda>tid. malformed_row_memo_key env tid (dget intents tid)
                                       \<notin> set (cw_disclosed w)) malformed;
                 w' = (if disclose_corruption \<and> fresh \<noteq> []
                       then forensic env [(''event'', PStr ''projection_corrupt_refused''),
                              (''op'', PStr ''active_intents_row''),
                              (''error'', PStr (take 200 (malformed_message fresh)))]
                              (w\<lparr>cw_disclosed := fold (disclose_one env intents) fresh (cw_disclosed w)\<rparr>)
                       else w)
             in if strict \<and> malformed \<noteq> []
                then (Inl (ProjectionCorrupt (malformed_message malformed)), w')
                else (Inr (dict_rows intents), w')))"

definition active_intent :: "cancel_env \<Rightarrow> bool \<Rightarrow> pyval \<Rightarrow> cancel_world \<Rightarrow> exc + pydict option" where
  "active_intent env strict task_id w = (case validate_task_id task_id of
     Inl e \<Rightarrow> (if strict then Inl e else Inr None)
   | Inr tid \<Rightarrow> (case fst (active_intents env False strict w) of
        Inl e \<Rightarrow> Inl e
      | Inr rows \<Rightarrow> (case dget rows tid of PDict row \<Rightarrow> Inr (Some row) | _ \<Rightarrow> Inr None)))"

definition has_active_intent :: "cancel_env \<Rightarrow> bool \<Rightarrow> pyval \<Rightarrow> cancel_world \<Rightarrow> exc + bool" where
  "has_active_intent env strict task_id w =
     map_sum id (\<lambda>r. r \<noteq> None) (active_intent env strict task_id w)"

section \<open>Staleness and abandonment of a claim\<close>

definition claim_is_stale :: "cancel_env \<Rightarrow> pyval \<Rightarrow> bool" where
  "claim_is_stale env intent =
     (if \<not> is_dict intent \<or> dget (the_dict intent) ''state'' \<noteq> PStr INTENT_CLAIMED then False
      else case iso_timestamp_us (replace_char CHR ''Z'' ''+00:00''
                  (sor (dget (the_dict intent) ''claimed_at''))) of
             None \<Rightarrow> True
           | Some claimed_ts \<Rightarrow> CLAIM_STALE_US < env_now_us env - claimed_ts)"

definition claim_is_abandoned :: "cancel_env \<Rightarrow> pyval \<Rightarrow> exc + bool" where
  "claim_is_abandoned env intent =
     (if \<not> is_dict intent \<or> dget (the_dict intent) ''state'' \<noteq> PStr INTENT_CLAIMED then Inr False
      else case (case int_or0 (dget (the_dict intent) ''claim_pid'') of
                   Inl (TypeError s) \<Rightarrow> Inr 0 | Inl (ValueError s) \<Rightarrow> Inr 0
                 | Inl e \<Rightarrow> Inl e | Inr i \<Rightarrow> Inr i) of
             Inl e \<Rightarrow> Inl e
           | Inr pid \<Rightarrow>
               (case (if 0 < pid then env_alive env pid else None) of
                  Some alive \<Rightarrow> Inr (\<not> alive)
                | None \<Rightarrow> Inr (claim_is_stale env intent)))"

definition generation_mismatch :: "pydict \<Rightarrow> int option \<Rightarrow> string \<Rightarrow> exc + string" where
  "generation_mismatch row expected_generation request_id =
     (if request_id \<noteq> '''' \<and> sor (dget row ''request_id'') \<noteq> request_id
      then Inr (''request_id '' @ py_repr (dget row ''request_id'') @ '' != '' @ repr_str request_id)
      else case expected_generation of None \<Rightarrow> Inr ''''
      | Some g \<Rightarrow>
         (case (case int_or0 (dget row ''generation'') of
                  Inl (TypeError s) \<Rightarrow> Inr 0 | Inl (ValueError s) \<Rightarrow> Inr 0
                | Inl e \<Rightarrow> Inl e | Inr i \<Rightarrow> Inr i) of
            Inl e \<Rightarrow> Inl e
          | Inr current \<Rightarrow> (if current = g then Inr ''''
              else Inr (''generation '' @ int_str current @ '' != '' @ int_str g))))"

section \<open>\<open>request_cancel\<close>\<close>

record cancel_args =
  ca_reason :: string
  ca_source :: string
  ca_requested_by :: string
  ca_scope :: string
  ca_allow_settled_target :: bool
  ca_stop_policy :: string
  ca_observation :: "pydict option"
  ca_stop_action_id :: pyval

definition has_request :: "pyval \<Rightarrow> bool" where
  "has_request v = (is_dict v \<and> truthy (dget (the_dict v) ''request_id''))"

definition malformed_row_error :: "string \<Rightarrow> exc" where
  "malformed_row_error tid = ValueError (''cancel-intent row for '' @ tid @ '' is malformed (not an object)'')"

definition malformed_row :: "pyval \<Rightarrow> bool" where
  "malformed_row v = (v \<noteq> PNone \<and> \<not> is_dict v)"

text \<open>The canonicalisation of the target: the key the request is recorded under, whether a retry
  leaf's intent was re-keyed to the logical root, and the rows after that re-keying.\<close>

definition resolve_request_target ::
  "task_store \<Rightarrow> string \<Rightarrow> string \<Rightarrow> pydict \<Rightarrow> exc + string \<times> bool \<times> pydict" where
  "resolve_request_target st tid scope_text intents =
     (let requested_existing = dget intents tid
      in if malformed_row requested_existing then Inl (malformed_row_error tid)
         else if has_request requested_existing then Inr (tid, False, intents)
         else case validated_retry_root_cancel_key st tid PNone of Inl e \<Rightarrow> Inl e
         | Inr retry_root_id \<Rightarrow>
           (let retry_root_existing =
                  (if retry_root_id \<noteq> '''' then dget intents retry_root_id else PNone)
            in if malformed_row retry_root_existing then Inl (malformed_row_error retry_root_id)
               else if has_request retry_root_existing
                    \<and> sor (dget (the_dict retry_root_existing) ''scope'') = SCOPE_CASCADE
               then Inr (retry_root_id, False, intents)
               else if scope_text = SCOPE_CASCADE then
                 (case validated_single_cancel_target st tid of Inl e \<Rightarrow> Inl e
                  | Inr leaf_id \<Rightarrow>
                    (let leaf_existing = (if leaf_id \<noteq> tid then dget intents leaf_id else PNone)
                     in if malformed_row leaf_existing then Inl (malformed_row_error leaf_id)
                        else if has_request leaf_existing then
                          (if dget (the_dict leaf_existing) ''state'' = PStr INTENT_CLAIMED
                           then Inl (LineageIndeterminate (''cannot re-key a claimed retry intent from ''
                                      @ leaf_id @ '' to '' @ tid))
                           else Inr (tid, True,
                             dset tid (PDict (dmerge (the_dict leaf_existing)
                               [(''task_id'', PStr tid), (''scope'', PStr SCOPE_CASCADE)]))
                               (dpop leaf_id intents)))
                        else Inr (tid, False, intents)))
               else
                 (case validated_single_cancel_target st tid of Inl e \<Rightarrow> Inl e
                  | Inr target \<Rightarrow> Inr (target, False, intents))))"

record request_outcome =
  ro_minted :: pydict
  ro_target :: string
  ro_status :: string
  ro_hardened :: bool
  ro_observed :: "pydict option"

definition observation_for :: "string \<Rightarrow> pydict \<Rightarrow> pydict" where
  "observation_for target_id obs =
     dset ''matches_cancel_target'' (PBool (dget obs ''observed_task_id'' = PStr target_id)) obs"

definition rekey_observation :: "bool \<Rightarrow> string \<Rightarrow> pydict \<Rightarrow> pydict" where
  "rekey_observation rekeyed target_id row =
     (case dget row ''observation'' of
        PDict obs \<Rightarrow> (if rekeyed then dset ''observation'' (PDict (observation_for target_id obs)) row
                      else row)
      | _ \<Rightarrow> row)"

text \<open>What a repeated request does to the active row: transfer the stop control, widen the scope,
  harden the policy.\<close>

definition widen_scope :: "string \<Rightarrow> pydict \<Rightarrow> pydict \<Rightarrow> pydict" where
  "widen_scope scope_text existing row =
     (if scope_text = SCOPE_CASCADE \<and> sor (dget existing ''scope'') \<noteq> SCOPE_CASCADE
      then dset ''scope'' (PStr scope_text) row else row)"

definition hardens :: "string \<Rightarrow> pydict \<Rightarrow> bool" where
  "hardens policy_text existing =
     (policy_text = STOP_POLICY_IMMEDIATE \<and> stop_policy (PDict existing) = STOP_POLICY_FINALIZE)"

definition harden_policy :: "string \<Rightarrow> string \<Rightarrow> pydict \<Rightarrow> pydict \<Rightarrow> pydict" where
  "harden_policy now policy_text existing row =
     (if hardens policy_text existing
      then dset ''hardened_at'' (PStr now) (dset ''stop_policy'' (PStr STOP_POLICY_IMMEDIATE) row)
      else row)"

definition repeated_request_row ::
  "string \<Rightarrow> bool \<Rightarrow> string \<Rightarrow> string \<Rightarrow> string \<Rightarrow> pydict \<Rightarrow> pydict \<Rightarrow> pydict" where
  "repeated_request_row now rekeyed target_id scope_text policy_text stop_fields existing =
     harden_policy now policy_text existing (widen_scope scope_text existing
       (rekey_observation rekeyed target_id (dmerge existing stop_fields)))"

definition fresh_intent_row ::
  "cancel_env \<Rightarrow> cancel_args \<Rightarrow> string \<Rightarrow> string \<Rightarrow> string \<Rightarrow> string \<Rightarrow> pydict \<Rightarrow> pydict option \<Rightarrow> pydict" where
  "fresh_intent_row env a reason_text scope_text policy_text target_id stop_fields observed =
     (let row = dmerge (dmerge
            [(''request_id'', PStr (''ci_'' @ env_fresh_request env)), (''task_id'', PStr target_id),
             (''state'', PStr INTENT_REQUESTED), (''reason'', PStr reason_text),
             (''source'', PStr (ca_source a)), (''requested_by'', PStr (ca_requested_by a)),
             (''requested_at'', PStr (env_now env)), (''generation'', PInt 0),
             (''scope'', PStr (if scope_text \<noteq> '''' then scope_text else SCOPE_SINGLE))] stop_fields)
            (case observed of None \<Rightarrow> [] | Some obs \<Rightarrow> [(''observation'', PDict obs)])
      in if policy_text = STOP_POLICY_FINALIZE
         then dset ''stop_policy'' (PStr STOP_POLICY_FINALIZE) row else row)"

text \<open>The decision over the row the target already has, once the stop fields are known: a replayed
  stop action, a settled target nobody owns, a repeated request, or a fresh intent.\<close>

definition request_decide ::
  "cancel_env \<Rightarrow> cancel_args \<Rightarrow> string \<Rightarrow> bool \<Rightarrow> pydict \<Rightarrow> string \<Rightarrow> pydict option \<Rightarrow> pydict \<times> bool
   \<Rightarrow> pydict option \<times> request_outcome" where
  "request_decide env a target_id rekeyed intents target_status observed stop =
     (let reason_text = join '' '' (split_ws (ca_reason a));
          policy_text = strip (ca_stop_policy a);
          scope_text = strip (ca_scope a);
          existing_val = dget intents target_id;
          existing = the_dict existing_val;
          status = (if target_status \<in> set settled_statuses then target_status else '''');
          stop_fields = fst stop;
          out = \<lparr>ro_minted = [], ro_target = target_id, ro_status = status,
                 ro_hardened = False, ro_observed = observed\<rparr>
      in if snd stop then
           (let base = (if existing \<noteq> [] then existing
                  else dmerge [(''task_id'', PStr target_id), (''status'', PStr target_status),
                               (''already_settled'', PBool (status \<noteq> ''''))] stop_fields)
            in (None, out\<lparr>ro_minted := dmerge base
                 [(''already_requested'', PBool True), (''stop_action_replayed'', PBool True)]\<rparr>))
         else if status \<noteq> '''' \<and> \<not> ca_allow_settled_target a \<and> \<not> has_request existing_val then
           (None, out\<lparr>ro_minted := [(''task_id'', PStr target_id),
              (''already_requested'', PBool False), (''already_settled'', PBool True),
              (''status'', PStr status)]
              @ (case observed of None \<Rightarrow> [] | Some obs \<Rightarrow> [(''observation'', PDict obs)])\<rparr>)
         else if has_request existing_val then
           (let updated = repeated_request_row (env_now env) rekeyed target_id scope_text
                            policy_text stop_fields existing;
                changed = (rekeyed \<or> stop_fields \<noteq> []
                   \<or> (scope_text = SCOPE_CASCADE \<and> sor (dget existing ''scope'') \<noteq> SCOPE_CASCADE)
                   \<or> hardens policy_text existing);
                minted = dset ''already_requested'' (PBool True) existing
            in if changed
               then (Some (projection (dset target_id (PDict updated) intents)),
                     out\<lparr>ro_minted := dmerge minted updated, ro_hardened := hardens policy_text existing\<rparr>)
               else (None, out\<lparr>ro_minted := minted\<rparr>))
         else
           (let row = fresh_intent_row env a reason_text scope_text policy_text target_id
                        stop_fields observed
            in (Some (projection (dset target_id (PDict row) intents)),
                out\<lparr>ro_minted := dset ''already_requested'' (PBool False) row\<rparr>)))"

text \<open>The stop control the request continues: the active row's, else the target result's.\<close>

definition previous_stop :: "pydict \<Rightarrow> pydict \<Rightarrow> pyval" where
  "previous_stop existing target_result =
     (if truthy (dget existing ''followup_stop'') then dget existing ''followup_stop''
      else dget target_result ''followup_stop'')"

definition request_at_target ::
  "cancel_env \<Rightarrow> cancel_args \<Rightarrow> task_store \<Rightarrow> string \<Rightarrow> bool \<Rightarrow> pydict
   \<Rightarrow> exc + pydict option \<times> request_outcome" where
  "request_at_target env a st target_id rekeyed intents =
     (let existing_val = dget intents target_id
      in if malformed_row existing_val then Inl (malformed_row_error target_id)
         else case load_strict_or st target_id of Inl e \<Rightarrow> Inl e
         | Inr target_row \<Rightarrow>
           (let target_result = doc_or_empty target_row
            in case new_stop_fields (env_fresh_control env) (env_now env) (ca_source a)
                      (previous_stop (the_dict existing_val) target_result)
                      (py_str (ca_stop_action_id a))
                      [ca_source a, ca_requested_by a, strip (ca_scope a), strip (ca_stop_policy a)] of
                 Inl e \<Rightarrow> Inl e
               | Inr stop \<Rightarrow> Inr (request_decide env a target_id rekeyed intents
                    (sor (dget target_result ''status''))
                    (map_option (observation_for target_id) (ca_observation a)) stop)))"

definition request_cancel_mutate ::
  "cancel_env \<Rightarrow> cancel_args \<Rightarrow> string \<Rightarrow> task_store \<Rightarrow> pydict \<Rightarrow> exc + pydict option \<times> request_outcome" where
  "request_cancel_mutate env a tid st current =
     (case load_intents True current of Inl e \<Rightarrow> Inl e
      | Inr intents0 \<Rightarrow>
       (case resolve_request_target st tid (strip (ca_scope a)) intents0 of Inl e \<Rightarrow> Inl e
        | Inr (target_id, rekeyed, intents) \<Rightarrow> request_at_target env a st target_id rekeyed intents))"

definition requested_task_fields :: "string \<Rightarrow> string \<Rightarrow> pydict" where
  "requested_task_fields tid target = (if target \<noteq> tid then [(''requested_task_id'', PStr tid)] else [])"

definition request_cancel_forensics ::
  "cancel_env \<Rightarrow> cancel_args \<Rightarrow> string \<Rightarrow> request_outcome \<Rightarrow> cancel_world \<Rightarrow> cancel_world" where
  "request_cancel_forensics env a tid out w =
     (let minted = ro_minted out; target = ro_target out;
          reason_text = join '' '' (split_ws (ca_reason a))
      in if truthy (dget minted ''already_settled'') then
           forensic env ([(''event'', PStr ''already_settled''), (''task_id'', PStr target),
             (''requested_task_id'', PStr tid), (''status'', PStr (sor (dget minted ''status''))),
             (''source'', PStr (ca_source a)), (''reason'', PStr reason_text)]
             @ (case ro_observed out of None \<Rightarrow> [] | Some obs \<Rightarrow> [(''observation'', PDict obs)])) w
         else if \<not> truthy (dget minted ''already_requested'') then
           forensic env ([(''event'', PStr ''requested''), (''task_id'', PStr target)]
             @ requested_task_fields tid target
             @ [(''request_id'', dget minted ''request_id''), (''source'', dget minted ''source''),
                (''requested_by'', dget minted ''requested_by''), (''scope'', dget minted ''scope''),
                (''reason'', PStr reason_text)]
             @ (if dhas minted ''observation'' then [(''observation'', dget minted ''observation'')] else [])
             @ (if truthy (dget minted ''stop_policy'') then [(''stop_policy'', dget minted ''stop_policy'')] else [])
             @ (if ro_status out \<noteq> '''' then [(''settled_target_status'', PStr (ro_status out))] else [])) w
         else if ro_hardened out then
           forensic env ([(''event'', PStr ''stop_policy_hardened''), (''task_id'', PStr target)]
             @ requested_task_fields tid target
             @ [(''request_id'', dget minted ''request_id''), (''stop_policy'', PStr STOP_POLICY_IMMEDIATE)]) w
         else w)"

definition request_cancel ::
  "cancel_env \<Rightarrow> cancel_args \<Rightarrow> pyval \<Rightarrow> cancel_world \<Rightarrow> (exc + pydict) \<times> cancel_world" where
  "request_cancel env a task_id w =
     (case validate_task_id task_id of Inl e \<Rightarrow> (Inl e, w)
      | Inr tid \<Rightarrow>
        (if \<not> is_str (ca_stop_action_id a) \<or> 200 < length (py_str (ca_stop_action_id a))
         then (Inl (ValueError ''stop_action_id must be a string of at most 200 characters''), w)
         else case update_json_locked (env_io env) True False
                     (plain_mutator (request_cancel_mutate env a tid (cw_store w))) () (cw_file w) of
           (Inl (LineageIndeterminate s), _, f) \<Rightarrow>
             (Inl (LineageIndeterminate s),
              forensic env [(''event'', PStr ''retry_lineage_refused''), (''task_id'', PStr tid),
                (''op'', PStr ''request_cancel''), (''error'', PStr (take 200 s))] (w\<lparr>cw_file := f\<rparr>))
         | (Inl (ValueError s), _, f) \<Rightarrow>
             (let (e, w') = refuse_corrupt env tid ''request_cancel'' (ValueError s) (w\<lparr>cw_file := f\<rparr>)
              in (Inl e, w'))
         | (Inl e, _, f) \<Rightarrow> (Inl e, w\<lparr>cw_file := f\<rparr>)
         | (Inr (_, out), _, f) \<Rightarrow>
             (Inr (dmerge (dsetdefault ''already_settled'' (PBool False) (ro_minted out))
                    (requested_task_fields tid (ro_target out))),
              request_cancel_forensics env a tid out (w\<lparr>cw_file := f\<rparr>))))"

end
