(* ===== verification/Cancel_Ops.thy ===== *)
theory Cancel_Ops
  imports Cancel_Intents
begin

text \<open>
  The lifecycle operations on an active cancel intent (\<open>ouroboros/cancel_intents.py\<close>): the
  owner-stop resolution, the drain stamp, the scope record, the claim, the release, the settle,
  the ownership re-check and the public projections.
\<close>

section \<open>Owner-stop resolution and the drain stamp\<close>

definition resolve_owner_stop_intent ::
  "cancel_env \<Rightarrow> bool \<Rightarrow> pyval \<Rightarrow> cancel_world \<Rightarrow> exc + string \<times> pydict" where
  "resolve_owner_stop_intent env propagate_busy task_id w =
     (case validate_task_id task_id of
        Inl _ \<Rightarrow> Inr ('''', [])
      | Inr tid \<Rightarrow>
        (case active_intent env False (PStr tid) w of
           Inl e \<Rightarrow> Inl e
         | Inr (Some exact) \<Rightarrow>
             (if stop_policy (PDict exact) = STOP_POLICY_FINALIZE then Inr (tid, exact) else Inr (tid, []))
         | Inr None \<Rightarrow>
           (case load_task_result (cw_store w) (PStr tid) True of
              Inl StoreBusy \<Rightarrow> (if propagate_busy then Inl StoreBusy else Inr (tid, []))
            | Inl _ \<Rightarrow> Inr (tid, [])
            | Inr row \<Rightarrow>
              (let logical_root = strip (sor (dget (doc_or_empty row) ''root_task_id''))
               in if logical_root = '''' \<or> logical_root = tid then Inr (tid, [])
                  else case active_intent env False (PStr logical_root) w of
                    Inr (Some logical) \<Rightarrow>
                      (if sor (dget logical ''scope'') = SCOPE_CASCADE
                          \<and> stop_policy (PDict logical) = STOP_POLICY_FINALIZE
                          \<and> validated_single_cancel_target (cw_store w) logical_root = Inr tid
                       then Inr (logical_root, logical) else Inr (tid, []))
                  | _ \<Rightarrow> Inr (tid, [])))))"

definition mark_drained_mutate :: "string \<Rightarrow> string \<Rightarrow> pydict \<Rightarrow> exc + pydict option \<times> pydict" where
  "mark_drained_mutate tid stamp current = (case load_intents True current of
     Inl e \<Rightarrow> Inl e
   | Inr intents \<Rightarrow>
      (case dget intents tid of
         PDict row \<Rightarrow>
           (if stop_policy (PDict row) \<noteq> STOP_POLICY_FINALIZE then Inr (None, [])
            else if sor (dget row ''control_drained_at'') \<noteq> '''' then Inr (None, [])
            else (let row' = dset ''control_drained_at'' (PStr stamp) row
                  in Inr (Some (projection (dset tid (PDict row') intents)), row')))
       | _ \<Rightarrow> Inr (None, [])))"

definition mark_finalize_control_drained ::
  "cancel_env \<Rightarrow> string \<Rightarrow> pyval \<Rightarrow> cancel_world \<Rightarrow> (exc + bool) \<times> cancel_world" where
  "mark_finalize_control_drained env drained_at task_id w =
     (case validate_task_id task_id of
        Inl _ \<Rightarrow> (Inr False, w)
      | Inr requested_tid \<Rightarrow>
        (case resolve_owner_stop_intent env False (PStr requested_tid) w of
           Inl e \<Rightarrow> (Inl e, w)
         | Inr (tid, _) \<Rightarrow>
           (let stamp = (if drained_at \<noteq> '''' then drained_at else env_now env)
            in case update_json_locked (env_io env) True False
                      (plain_mutator (mark_drained_mutate tid stamp)) () (cw_file w) of
                 (Inl (ValueError s), _, f) \<Rightarrow>
                   (let (e, w') = refuse_corrupt env tid ''mark_finalize_control_drained'' (ValueError s)
                                    (w\<lparr>cw_file := f\<rparr>) in (Inl e, w'))
               | (Inl _, _, f) \<Rightarrow> (Inr False, w\<lparr>cw_file := f\<rparr>)
               | (Inr (_, recorded), _, f) \<Rightarrow>
                   (if recorded \<noteq> []
                    then (Inr True, forensic env [(''event'', PStr ''finalize_control_drained''),
                           (''task_id'', PStr tid), (''request_id'', dget recorded ''request_id''),
                           (''control_drained_at'', PStr stamp)] (w\<lparr>cw_file := f\<rparr>))
                    else (Inr False, w\<lparr>cw_file := f\<rparr>)))))"

section \<open>Scope\<close>

datatype scope_outcome = ScopeUnchanged | ScopeNarrowRefused pydict | ScopeRecorded

definition mark_scope_mutate :: "string \<Rightarrow> string \<Rightarrow> pydict \<Rightarrow> exc + pydict option \<times> scope_outcome" where
  "mark_scope_mutate tid scope_text current = (case load_intents True current of
     Inl e \<Rightarrow> Inl e
   | Inr intents \<Rightarrow>
      (case dget intents tid of
         PDict row \<Rightarrow>
           (if sor (dget row ''scope'') = scope_text then Inr (None, ScopeUnchanged)
            else if sor (dget row ''scope'') = SCOPE_CASCADE then Inr (None, ScopeNarrowRefused row)
            else Inr (Some (projection (dset tid (PDict (dset ''scope'' (PStr scope_text) row)) intents)),
                      ScopeRecorded))
       | _ \<Rightarrow> Inr (None, ScopeUnchanged)))"

definition mark_intent_scope ::
  "cancel_env \<Rightarrow> string \<Rightarrow> pyval \<Rightarrow> cancel_world \<Rightarrow> (exc + bool) \<times> cancel_world" where
  "mark_intent_scope env scope task_id w =
     (case validate_task_id task_id of
        Inl _ \<Rightarrow> (Inr False, w)
      | Inr tid \<Rightarrow>
        (let scope_text = strip scope
         in if scope_text = '''' then (Inr False, w)
            else case update_json_locked (env_io env) True False
                        (plain_mutator (mark_scope_mutate tid scope_text)) () (cw_file w) of
              (Inl (ValueError s), _, f) \<Rightarrow>
                (let (e, w') = refuse_corrupt env tid ''mark_intent_scope'' (ValueError s) (w\<lparr>cw_file := f\<rparr>)
                 in (Inl e, w'))
            | (Inl _, _, f) \<Rightarrow> (Inr False, w\<lparr>cw_file := f\<rparr>)
            | (Inr (_, ScopeNarrowRefused row), _, f) \<Rightarrow>
                (Inr False, forensic env [(''event'', PStr ''scope_narrow_refused''), (''task_id'', PStr tid),
                   (''request_id'', dget row ''request_id''), (''scope'', PStr SCOPE_CASCADE),
                   (''requested_scope'', PStr scope_text)] (w\<lparr>cw_file := f\<rparr>))
            | (Inr (_, ScopeRecorded), _, f) \<Rightarrow>
                (Inr True, forensic env [(''event'', PStr ''scope_recorded''), (''task_id'', PStr tid),
                   (''scope'', PStr scope_text)] (w\<lparr>cw_file := f\<rparr>))
            | (Inr (_, ScopeUnchanged), _, f) \<Rightarrow> (Inr False, w\<lparr>cw_file := f\<rparr>)))"

section \<open>Claim\<close>

datatype claim_outcome = ClaimAbsent | ClaimRefused pydict | ClaimTaken pydict

definition claimed_row :: "cancel_env \<Rightarrow> string \<Rightarrow> int \<Rightarrow> pydict \<Rightarrow> pydict" where
  "claimed_row env owner g row =
     dset ''generation'' (PInt (g + 1)) (dset ''claimed_at'' (PStr (env_now env))
       (dset ''claim_pid'' (PInt (env_pid env)) (dset ''claim_owner'' (PStr owner)
         (dset ''state'' (PStr INTENT_CLAIMED) row))))"

definition claim_mutate ::
  "cancel_env \<Rightarrow> string \<Rightarrow> string \<Rightarrow> pydict \<Rightarrow> exc + pydict option \<times> claim_outcome" where
  "claim_mutate env tid owner current = (case load_intents True current of
     Inl e \<Rightarrow> Inl e
   | Inr intents \<Rightarrow>
      (if malformed_rows intents \<noteq> [] then Inl (ValueError (malformed_message (malformed_rows intents)))
       else case dget intents tid of
         PDict row \<Rightarrow>
           (case (if dget row ''state'' = PStr INTENT_CLAIMED
                  then map_sum id Not (claim_is_abandoned env (PDict row)) else Inr False) of
              Inl e \<Rightarrow> Inl e
            | Inr True \<Rightarrow> Inr (None, ClaimRefused row)
            | Inr False \<Rightarrow>
               (case int_or0 (dget row ''generation'') of Inl e \<Rightarrow> Inl e
                | Inr g \<Rightarrow> (let row' = claimed_row env owner g row
                           in Inr (Some (projection (dset tid (PDict row') intents)), ClaimTaken row'))))
       | _ \<Rightarrow> Inr (None, ClaimAbsent)))"

definition claim_intent ::
  "cancel_env \<Rightarrow> string \<Rightarrow> pyval \<Rightarrow> cancel_world \<Rightarrow> (exc + pydict option) \<times> cancel_world" where
  "claim_intent env owner task_id w =
     (case validate_task_id task_id of
        Inl _ \<Rightarrow> (Inr None, w)
      | Inr tid \<Rightarrow>
        (case update_json_locked (env_io env) True False
                (plain_mutator (claim_mutate env tid owner)) () (cw_file w) of
           (Inl (ValueError s), _, f) \<Rightarrow>
             (let (e, w') = refuse_corrupt env tid ''claim_intent'' (ValueError s) (w\<lparr>cw_file := f\<rparr>)
              in (Inl e, w'))
         | (Inl e, _, f) \<Rightarrow> (Inl e, w\<lparr>cw_file := f\<rparr>)
         | (Inr (_, ClaimTaken row), _, f) \<Rightarrow>
             (Inr (Some row), forensic env [(''event'', PStr ''claimed''), (''task_id'', PStr tid),
                (''request_id'', dget row ''request_id''), (''claim_owner'', dget row ''claim_owner''),
                (''generation'', dget row ''generation'')] (w\<lparr>cw_file := f\<rparr>))
         | (Inr (_, ClaimRefused row), _, f) \<Rightarrow>
             (if row = [] then (Inr None, w\<lparr>cw_file := f\<rparr>)
              else (Inr (Some (dset ''claim_refused'' (PBool True) row)),
                forensic env [(''event'', PStr ''claim_refused''), (''task_id'', PStr tid),
                  (''request_id'', dget row ''request_id''), (''claim_owner'', dget row ''claim_owner''),
                  (''generation'', dget row ''generation''), (''owner'', PStr owner)] (w\<lparr>cw_file := f\<rparr>)))
         | (Inr (_, ClaimAbsent), _, f) \<Rightarrow> (Inr None, w\<lparr>cw_file := f\<rparr>)))"

section \<open>Release\<close>

definition reopened_row :: "string \<Rightarrow> pydict \<Rightarrow> pydict" where
  "reopened_row last_error row =
     dpop ''claimed_at'' (dpop ''claim_pid'' (dpop ''claim_owner''
       (dset ''last_error'' (PStr last_error) (dset ''state'' (PStr INTENT_REQUESTED) row))))"

datatype fence_outcome = FenceAbsent | FenceRefused pydict string | FencePassed pydict

definition release_mutate ::
  "string \<Rightarrow> string \<Rightarrow> int option \<Rightarrow> string \<Rightarrow> pydict \<Rightarrow> exc + pydict option \<times> fence_outcome" where
  "release_mutate tid err expected_generation request_id current = (case load_intents True current of
     Inl e \<Rightarrow> Inl e
   | Inr intents \<Rightarrow>
      (case dget intents tid of
         PDict row \<Rightarrow>
           (if dget row ''state'' \<noteq> PStr INTENT_CLAIMED then Inr (None, FenceAbsent)
            else case generation_mismatch row expected_generation request_id of
              Inl e \<Rightarrow> Inl e
            | Inr reason \<Rightarrow>
               (if reason \<noteq> '''' then Inr (None, FenceRefused row reason)
                else (let row' = reopened_row (take 500 err) row
                      in Inr (Some (projection (dset tid (PDict row') intents)), FencePassed row'))))
       | _ \<Rightarrow> Inr (None, FenceAbsent)))"

definition expected_generation_val :: "int option \<Rightarrow> pyval" where
  "expected_generation_val g = (case g of None \<Rightarrow> PNone | Some i \<Rightarrow> PInt i)"

definition release_claim ::
  "cancel_env \<Rightarrow> string \<Rightarrow> int option \<Rightarrow> string \<Rightarrow> pyval \<Rightarrow> cancel_world \<Rightarrow> (exc + bool) \<times> cancel_world" where
  "release_claim env err expected_generation request_id task_id w =
     (case validate_task_id task_id of
        Inl _ \<Rightarrow> (Inr False, w)
      | Inr tid \<Rightarrow>
        (case update_json_locked (env_io env) True False
                (plain_mutator (release_mutate tid err expected_generation request_id)) () (cw_file w) of
           (Inl (ValueError s), _, f) \<Rightarrow>
             (let (e, w') = refuse_corrupt env tid ''release_claim'' (ValueError s) (w\<lparr>cw_file := f\<rparr>)
              in (Inl e, w'))
         | (Inl e, _, f) \<Rightarrow> (Inl e, w\<lparr>cw_file := f\<rparr>)
         | (Inr (_, FencePassed row), _, f) \<Rightarrow>
             (Inr True, forensic env [(''event'', PStr ''claim_released''), (''task_id'', PStr tid),
                (''request_id'', dget row ''request_id''), (''error'', PStr (take 500 err))] (w\<lparr>cw_file := f\<rparr>))
         | (Inr (_, FenceRefused row reason), _, f) \<Rightarrow>
             (Inr False, forensic env [(''event'', PStr ''claim_release_refused''), (''task_id'', PStr tid),
                (''request_id'', dget row ''request_id''), (''reason'', PStr reason),
                (''expected_generation'', expected_generation_val expected_generation)] (w\<lparr>cw_file := f\<rparr>))
         | (Inr (_, FenceAbsent), _, f) \<Rightarrow> (Inr False, w\<lparr>cw_file := f\<rparr>)))"

section \<open>Settle\<close>

datatype settle_outcome =
  SettleAbsent | Settled pydict | SettleMismatch pydict string | CascadeDeferred pydict bool

definition retain_stop :: "string \<Rightarrow> pydict \<Rightarrow> pydict \<Rightarrow> exc + pydict option" where
  "retain_stop outcome row result =
     (if result = [] then (if outcome = SETTLED_NOT_FOUND then Inr None
                           else Inl (ValueError ''followup_stop_result_missing''))
      else case require_writable_task_result_schema result '''' of Inl e \<Rightarrow> Inl e
           | Inr _ \<Rightarrow> Inr (Some (dset ''followup_stop'' (dget row ''followup_stop'') result)))"

definition settle_mutate ::
  "string \<Rightarrow> string \<Rightarrow> int option \<Rightarrow> string \<Rightarrow> bool \<Rightarrow> (task_store, settle_outcome) mutator" where
  "settle_mutate tid outcome expected_generation request_id allow_cascade_scope current st =
     (case load_intents True current of
        Inl e \<Rightarrow> (Inl e, st)
      | Inr intents \<Rightarrow>
        (case dget intents tid of
           PDict row \<Rightarrow>
             (if \<not> allow_cascade_scope \<and> sor (dget row ''scope'') = SCOPE_CASCADE then
                (case generation_mismatch row expected_generation request_id of
                   Inl e \<Rightarrow> (Inl e, st)
                 | Inr reason \<Rightarrow>
                   (if dget row ''state'' = PStr INTENT_CLAIMED \<and> reason = '''' \<and> expected_generation \<noteq> None
                    then (Inr (Some (projection (dset tid (PDict (reopened_row
                            ''cascade settle deferred to postcondition'' row)) intents)),
                            CascadeDeferred row True), st)
                    else (Inr (None, CascadeDeferred row False), st)))
              else case generation_mismatch row expected_generation request_id of
                Inl e \<Rightarrow> (Inl e, st)
              | Inr reason \<Rightarrow>
                (if reason \<noteq> '''' then (Inr (None, SettleMismatch row reason), st)
                 else case (if truthy (dget row ''followup_stop'')
                            then patch_document (retain_stop outcome row) tid st
                            else (Inr [], st)) of
                   (Inl e, st') \<Rightarrow> (Inl e, st')
                 | (Inr _, st') \<Rightarrow>
                     (Inr (Some (projection (dpop tid intents)), Settled row), st')))
         | _ \<Rightarrow> (Inr (None, SettleAbsent), st)))"

definition settle_intent ::
  "cancel_env \<Rightarrow> string \<Rightarrow> string \<Rightarrow> int option \<Rightarrow> string \<Rightarrow> bool \<Rightarrow> pyval \<Rightarrow> cancel_world
   \<Rightarrow> (exc + pydict option) \<times> cancel_world" where
  "settle_intent env outcome detail expected_generation request_id allow_cascade_scope task_id w =
     (case validate_task_id task_id of
        Inl _ \<Rightarrow> (Inr None, w)
      | Inr tid \<Rightarrow>
        (case update_json_locked (env_io env) True False
                (settle_mutate tid outcome expected_generation request_id allow_cascade_scope)
                (cw_store w) (cw_file w) of
           (Inl (ValueError s), st, f) \<Rightarrow>
             (let (e, w') = refuse_corrupt env tid ''settle_intent'' (ValueError s)
                              (w\<lparr>cw_file := f, cw_store := st\<rparr>)
              in (Inl e, w'))
         | (Inl e, st, f) \<Rightarrow> (Inl e, w\<lparr>cw_file := f, cw_store := st\<rparr>)
         | (Inr (_, Settled row), st, f) \<Rightarrow>
             (if row = [] then (Inr None, w\<lparr>cw_file := f, cw_store := st\<rparr>)
              else (Inr (Some row), forensic env [(''event'', PStr ''settled''), (''task_id'', PStr tid),
                (''request_id'', dget row ''request_id''), (''outcome'', PStr outcome),
                (''detail'', PStr (take 500 detail)), (''generation'', dget row ''generation'')]
                (w\<lparr>cw_file := f, cw_store := st\<rparr>)))
         | (Inr (_, CascadeDeferred row released), st, f) \<Rightarrow>
             (Inr None, forensic env [(''event'', PStr ''cascade_settle_deferred''), (''task_id'', PStr tid),
                (''request_id'', dget row ''request_id''), (''outcome'', PStr outcome),
                (''detail'', PStr (take 500 detail)), (''claim_released'', PBool released)]
                (w\<lparr>cw_file := f, cw_store := st\<rparr>))
         | (Inr (_, SettleMismatch row reason), st, f) \<Rightarrow>
             (Inr None, forensic env [(''event'', PStr ''settle_refused''), (''task_id'', PStr tid),
                (''request_id'', dget row ''request_id''), (''outcome'', PStr outcome),
                (''reason'', PStr reason),
                (''expected_generation'', expected_generation_val expected_generation)]
                (w\<lparr>cw_file := f, cw_store := st\<rparr>))
         | (Inr (_, SettleAbsent), st, f) \<Rightarrow> (Inr None, w\<lparr>cw_file := f, cw_store := st\<rparr>)))"

section \<open>Ownership re-check and public projections\<close>

definition int_eq :: "exc + int \<Rightarrow> exc + int \<Rightarrow> bool" where
  "int_eq a b = (case (a, b) of (Inr i, Inr j) \<Rightarrow> i = j | _ \<Rightarrow> False)"

definition claim_still_owned :: "cancel_env \<Rightarrow> pyval \<Rightarrow> pyval \<Rightarrow> cancel_world \<Rightarrow> bool" where
  "claim_still_owned env task_id claim w =
     (if \<not> is_dict claim \<or> \<not> truthy (dget (the_dict claim) ''request_id'') then True
      else case active_intent env False task_id w of
             Inr (Some row) \<Rightarrow>
               dget row ''state'' = PStr INTENT_CLAIMED
               \<and> sor (dget row ''request_id'') = sor (dget (the_dict claim) ''request_id'')
               \<and> int_eq (int_or0 (dget row ''generation'')) (int_or0 (dget (the_dict claim) ''generation''))
               \<and> int_eq (int_or0 (dget row ''claim_pid'')) (Inr (env_pid env))
           | _ \<Rightarrow> False)"

definition cancel_state_fields ::
  "cancel_env \<Rightarrow> pyval \<Rightarrow> pydict option \<Rightarrow> cancel_world \<Rightarrow> exc + pydict" where
  "cancel_state_fields env task_id intents w =
     (case (case intents of
              None \<Rightarrow> active_intent env False task_id w
            | Some rows \<Rightarrow> (case dget rows (py_str task_id) of PDict row \<Rightarrow> Inr (Some row) | _ \<Rightarrow> Inr None)) of
        Inl e \<Rightarrow> Inl e
      | Inr None \<Rightarrow> Inr []
      | Inr (Some intent) \<Rightarrow> Inr ([(''cancel_state'', PStr ''pending'')]
          @ (if truthy (dget intent ''reason'')
             then [(''cancel_reason'', PStr (sor (dget intent ''reason'')))] else [])
          @ (if stop_policy (PDict intent) = STOP_POLICY_FINALIZE
             then [(''stop_policy'', PStr STOP_POLICY_FINALIZE)] else [])))"

text \<open>The fact read of the fail-soft branch (\<open>task_facts\<close>) returns the stored columns of one row.\<close>

definition cancel_pending ::
  "cancel_env \<Rightarrow> bool \<Rightarrow> bool \<Rightarrow> pyval \<Rightarrow> cancel_world \<Rightarrow> exc + bool" where
  "cancel_pending env strict propagate_busy task_id w =
     (case has_active_intent env strict task_id w of
        Inr True \<Rightarrow> Inr True
      | r \<Rightarrow>
        (case (if strict then (case r of Inl e \<Rightarrow> Some e | _ \<Rightarrow> None) else None) of
           Some e \<Rightarrow> Inl e
         | None \<Rightarrow>
           (case (if strict then map_sum id doc_or_empty (load_task_result (cw_store w) task_id True)
                  else case validate_task_id task_id of Inl e \<Rightarrow> Inl e
                    | Inr tid \<Rightarrow> map_sum id doc_or_empty (read_document (cw_store w) tid)) of
              Inl StoreBusy \<Rightarrow> (if strict \<or> propagate_busy then Inl StoreBusy else Inr False)
            | Inl e \<Rightarrow> (if strict then Inl e else Inr False)
            | Inr result \<Rightarrow> Inr (sor (dget result ''status'') = STATUS_CANCEL_REQUESTED))))"

end
