(* ===== verification/Cancel_Spec.thy ===== *)
theory Cancel_Spec
  imports Cancel_Ops
begin

text \<open>
  The abstract specification of the cancel-intent projection: what one operation may do to one
  active row (\<open>row_step\<close>) and to the set of rows (\<open>intents_step\<close>), and the refinement: every
  operation of the module either leaves the rows unchanged or performs one such step.
\<close>

section \<open>The rows of a projection file\<close>

definition intents_of :: "json_file \<Rightarrow> pydict" where
  "intents_of f = the_dict (dget (object_of f) ''intents'')"

definition row_at :: "cancel_world \<Rightarrow> string \<Rightarrow> pydict option" where
  "row_at w tid = (case dget (intents_of (cw_file w)) tid of PDict r \<Rightarrow> Some r | _ \<Rightarrow> None)"

lemma intents_of_projection [simp]: "intents_of (FObject (projection i)) = i"
  by (simp add: intents_of_def projection_def)

lemma load_intents_rows: "load_intents True (object_of f) = Inr i \<Longrightarrow> i = intents_of f"
  by (auto simp: load_intents_def intents_of_def split: pyval.splits if_splits)

section \<open>Steps of one row\<close>

inductive row_step :: "pydict \<Rightarrow> pydict \<Rightarrow> bool" where
  drain: "stop_policy (PDict r) = STOP_POLICY_FINALIZE \<Longrightarrow> sor (dget r ''control_drained_at'') = ''''
     \<Longrightarrow> row_step r (dset ''control_drained_at'' (PStr stamp) r)"
| widen: "sor (dget r ''scope'') \<noteq> SCOPE_CASCADE \<Longrightarrow> s \<noteq> ''''
     \<Longrightarrow> row_step r (dset ''scope'' (PStr s) r)"
| claim: "dget r ''state'' = PStr INTENT_CLAIMED \<longrightarrow> claim_is_abandoned env (PDict r) = Inr True
     \<Longrightarrow> int_or0 (dget r ''generation'') = Inr g \<Longrightarrow> row_step r (claimed_row env owner g r)"
| release: "dget r ''state'' = PStr INTENT_CLAIMED \<Longrightarrow> row_step r (reopened_row e r)"
| repeat: "has_request (PDict r) \<Longrightarrow> stop_fields = [] \<or> (\<exists>v. stop_fields = [(''followup_stop'', v)])
     \<Longrightarrow> row_step r (repeated_request_row now rekeyed t scope_text policy_text stop_fields r)"

text \<open>A step that loses no request: one row is updated, a request is minted, or the intent of an
  unclaimed retry leaf is re-keyed to its logical root.\<close>

inductive live_step :: "pydict \<Rightarrow> pydict \<Rightarrow> bool" where
  row: "dget i t = PDict r \<Longrightarrow> row_step r r' \<Longrightarrow> live_step i (dset t (PDict r') i)"
| mint: "\<not> has_request (dget i t) \<Longrightarrow> \<not> malformed_row (dget i t)
     \<Longrightarrow> stop_fields = [] \<or> (\<exists>v. stop_fields = [(''followup_stop'', v)])
     \<Longrightarrow> row = fresh_intent_row env a reason (strip scope) policy t stop_fields observed
     \<Longrightarrow> live_step i (dset t (PDict row) i)"
| rekey: "dget i leaf = PDict r \<Longrightarrow> leaf \<noteq> t \<Longrightarrow> has_request (PDict r) \<Longrightarrow> \<not> has_request (dget i t)
     \<Longrightarrow> dget r ''state'' \<noteq> PStr INTENT_CLAIMED
     \<Longrightarrow> row_step (dmerge r [(''task_id'', PStr t), (''scope'', PStr SCOPE_CASCADE)]) r'
     \<Longrightarrow> live_step i (dset t (PDict r') (dset t x (dpop leaf i)))"

text \<open>Any step: a live one, or the settlement of one intent.\<close>

inductive intents_step :: "pydict \<Rightarrow> pydict \<Rightarrow> bool" where
  live: "live_step i i' \<Longrightarrow> intents_step i i'"
| settle: "dget i t = PDict r \<Longrightarrow> intents_step i (dpop t i)"

section \<open>What refinement means for a mutator and for the file\<close>

lemma plain_mutator_eq: "plain_mutator m d s = (x, s') \<longleftrightarrow> m d = x \<and> s' = s"
  by (auto simp: plain_mutator_def)

definition refines_file :: "(pydict \<Rightarrow> pydict \<Rightarrow> bool) \<Rightarrow> json_file \<Rightarrow> json_file \<Rightarrow> bool" where
  "refines_file R f f' = (f' = f \<or>
     (f \<noteq> FMalformed \<and> (\<exists>i'. f' = FObject (projection i') \<and> load_intents True (object_of f) = Inr (intents_of f)
        \<and> R (intents_of f) i')))"

lemma refines_file_refl [simp]: "refines_file R f f"
  by (simp add: refines_file_def)

lemma refines_file_live: "refines_file live_step f f' \<Longrightarrow> refines_file intents_step f f'"
  by (auto simp: refines_file_def intro: intents_step.live)

text \<open>The contract of a mutator: what it returns as a new object is an abstract step.\<close>

definition refines_mutator :: "(pydict \<Rightarrow> pydict \<Rightarrow> bool) \<Rightarrow> ('s, 'a) mutator \<Rightarrow> bool" where
  "refines_mutator R mut = (\<forall>d s s' d' a. mut d s = (Inr (Some d', a), s') \<longrightarrow>
     (\<exists>i i'. load_intents True d = Inr i \<and> d' = projection i' \<and> R i i'))"

lemma refines_mutatorD:
  assumes "refines_mutator R mut" and "update_json_locked io True False mut s f = (r, s', f')"
  shows "refines_file R f f'"
  using assms(2)
proof (cases rule: update_json_locked_cases)
  case (written d a)
  then obtain i i' where "load_intents True (object_of f) = Inr i" "d = projection i'" "R i i'"
    using assms(1) unfolding refines_mutator_def by blast
  then show ?thesis
    using written load_intents_rows[of f i] by (auto simp: refines_file_def)
qed simp_all

lemma projection_eq_iff [simp]: "projection i = projection j \<longleftrightarrow> i = j"
  by (simp add: projection_def)

lemma map_sum_Not_Inr: "map_sum id Not x = Inr b \<longleftrightarrow> x = Inr (\<not> b)"
  by (cases x) auto

section \<open>Refinement of the lifecycle mutators\<close>

lemma mark_drained_refines: "refines_mutator live_step (plain_mutator (mark_drained_mutate tid stamp))"
  by (auto simp: refines_mutator_def plain_mutator_eq mark_drained_mutate_def Let_def
      split: sum.splits pyval.splits if_splits intro: live_step.row row_step.drain)

lemma mark_scope_refines:
  "scope_text \<noteq> '''' \<Longrightarrow> refines_mutator live_step (plain_mutator (mark_scope_mutate tid scope_text))"
  by (auto simp: refines_mutator_def plain_mutator_eq mark_scope_mutate_def
      split: sum.splits pyval.splits if_splits intro: live_step.row row_step.widen)

lemma claim_refines: "refines_mutator live_step (plain_mutator (claim_mutate env tid owner))"
  unfolding refines_mutator_def plain_mutator_eq claim_mutate_def Let_def
  by (auto split: sum.splits pyval.splits if_splits bool.splits simp: map_sum_Not_Inr
      intro!: live_step.row row_step.claim)

lemma release_refines: "refines_mutator live_step (plain_mutator (release_mutate tid err g rid))"
  by (auto simp: refines_mutator_def plain_mutator_eq release_mutate_def Let_def
      split: sum.splits pyval.splits if_splits intro!: live_step.row row_step.release)

lemma intents_step_release:
  "dget i t = PDict r \<Longrightarrow> dget r ''state'' = PStr INTENT_CLAIMED
   \<Longrightarrow> intents_step i (dset t (PDict (reopened_row e r)) i)"
  by (blast intro: intents_step.live live_step.row row_step.release)

lemma settle_refines: "refines_mutator intents_step (settle_mutate tid outcome g rid allow)"
  by (auto simp: refines_mutator_def settle_mutate_def
      split: sum.splits pyval.splits if_splits prod.splits
      intro!: intents_step.settle intents_step_release)

section \<open>Refinement of the request\<close>

lemma new_stop_fields_shape:
  "new_stop_fields fresh now src prev aid binding = Inr (sf, rep)
   \<Longrightarrow> sf = [] \<or> (\<exists>v. sf = [(''followup_stop'', v)])"
  by (auto simp: new_stop_fields_def Let_def split: if_splits)

lemma resolve_request_target_cases:
  assumes "resolve_request_target st tid scope_text i = Inr (target, rekeyed, i')"
  obtains (plain) "\<not> rekeyed" and "i' = i"
  | (rekeyed) leaf r where "rekeyed" and "target = tid" and "leaf \<noteq> tid" and "dget i leaf = PDict r"
      and "has_request (PDict r)" and "dget r ''state'' \<noteq> PStr INTENT_CLAIMED"
      and "\<not> has_request (dget i tid)"
      and "i' = dset tid (PDict (dmerge r [(''task_id'', PStr tid), (''scope'', PStr SCOPE_CASCADE)])) (dpop leaf i)"
proof (cases rekeyed)
  case True
  have "\<exists>leaf r. target = tid \<and> leaf \<noteq> tid \<and> dget i leaf = PDict r \<and> has_request (PDict r)
      \<and> dget r ''state'' \<noteq> PStr INTENT_CLAIMED \<and> \<not> has_request (dget i tid)
      \<and> i' = dset tid (PDict (dmerge r [(''task_id'', PStr tid), (''scope'', PStr SCOPE_CASCADE)])) (dpop leaf i)"
    using assms True
    by (auto simp: resolve_request_target_def Let_def has_request_def
        split: if_splits sum.splits elim!: is_dict.elims(2))
  then show ?thesis using that(2) True by blast
next
  case False
  then have "i' = i" using assms
    by (auto simp: resolve_request_target_def Let_def split: if_splits sum.splits)
  then show ?thesis using that(1) False by blast
qed


lemma has_request_is_dict: "has_request v \<Longrightarrow> v = PDict (the_dict v)"
  by (cases v) (auto simp: has_request_def)

text \<open>A decision that writes is either a repeated request over an active row or a fresh mint.\<close>

lemma request_decide_written:
  assumes "request_decide env a t rk i ts obs stop = (Some d', out)"
  shows "(has_request (dget i t) \<and> d' = projection (dset t (PDict (repeated_request_row (env_now env) rk t
            (strip (ca_scope a)) (strip (ca_stop_policy a)) (fst stop) (the_dict (dget i t)))) i))
     \<or> (\<not> has_request (dget i t) \<and> d' = projection (dset t (PDict (fresh_intent_row env a
            (join '' '' (split_ws (ca_reason a))) (strip (ca_scope a)) (strip (ca_stop_policy a)) t
            (fst stop) obs)) i))"
  using assms unfolding request_decide_def Let_def by (auto split: if_splits)

lemma request_at_target_written:
  assumes "request_at_target env a st t rk i = Inr (Some d', out)"
  obtains sf rep ts where "\<not> malformed_row (dget i t)"
    "sf = [] \<or> (\<exists>v. sf = [(''followup_stop'', v)])"
    "request_decide env a t rk i ts (map_option (observation_for t) (ca_observation a)) (sf, rep) = (Some d', out)"
  using assms that new_stop_fields_shape
  by (simp add: request_at_target_def Let_def split: if_splits sum.splits) (metis surj_pair)

lemma request_cancel_refines: "refines_mutator live_step (plain_mutator (request_cancel_mutate env a tid st))"
  unfolding refines_mutator_def plain_mutator_eq
proof (intro allI impI, elim conjE)
  fix d d' out
  assume "request_cancel_mutate env a tid st d = Inr (Some d', out)"
  then obtain i t rk i' where load: "load_intents True d = Inr i"
    and target: "resolve_request_target st tid (strip (ca_scope a)) i = Inr (t, rk, i')"
    and at: "request_at_target env a st t rk i' = Inr (Some d', out)"
    by (auto simp: request_cancel_mutate_def split: sum.splits prod.splits)
  obtain sf rep ts where wf: "\<not> malformed_row (dget i' t)"
    and sf: "sf = [] \<or> (\<exists>v. sf = [(''followup_stop'', v)])"
    and dec: "request_decide env a t rk i' ts (map_option (observation_for t) (ca_observation a)) (sf, rep) = (Some d', out)"
    by (rule request_at_target_written[OF at])
  have "\<exists>j. d' = projection j \<and> live_step i j"
    using target
  proof (cases rule: resolve_request_target_cases)
    case plain
    then show ?thesis
      using request_decide_written[OF dec] wf sf has_request_is_dict
      by simp (metis live_step.row live_step.mint row_step.repeat)
  next
    case (rekeyed leaf r)
    let ?r = "dmerge r [(''task_id'', PStr tid), (''scope'', PStr SCOPE_CASCADE)]"
    have req: "has_request (PDict ?r)" using rekeyed by (simp add: has_request_def)
    have d': "d' = projection (dset tid (PDict (repeated_request_row (env_now env) rk tid
            (strip (ca_scope a)) (strip (ca_stop_policy a)) sf ?r)) i')"
      using request_decide_written[OF dec] req rekeyed by simp
    show ?thesis
      unfolding d' using rekeyed sf req
      by (auto intro!: live_step.rekey row_step.repeat)
  qed
  then show "\<exists>i i'. load_intents True d = Inr i \<and> d' = projection i' \<and> live_step i i'"
    using load by blast
qed

section \<open>Order and well-formedness of rows\<close>

text \<open>The monotone order: the request keeps its identity, its generation does not decrease, a
  cascade stays a cascade, an immediate stop stays immediate, the first drain stamp is kept.\<close>

definition row_le :: "pydict \<Rightarrow> pydict \<Rightarrow> bool" where
  "row_le r r' \<longleftrightarrow> dget r' ''request_id'' = dget r ''request_id''
     \<and> (\<forall>g. int_or0 (dget r ''generation'') = Inr g
          \<longrightarrow> (\<exists>g'. int_or0 (dget r' ''generation'') = Inr g' \<and> g \<le> g'))
     \<and> (sor (dget r ''scope'') = SCOPE_CASCADE \<longrightarrow> sor (dget r' ''scope'') = SCOPE_CASCADE)
     \<and> (stop_policy (PDict r) = STOP_POLICY_IMMEDIATE \<longrightarrow> stop_policy (PDict r') = STOP_POLICY_IMMEDIATE)
     \<and> (sor (dget r ''control_drained_at'') \<noteq> ''''
          \<longrightarrow> dget r' ''control_drained_at'' = dget r ''control_drained_at'')"

lemma row_le_refl [simp]: "row_le r r"
  by (auto simp: row_le_def)

lemma row_le_trans:
  assumes a: "row_le r s" and b: "row_le s t"
  shows "row_le r t"
proof -
  have "\<exists>g'. int_or0 (dget t ''generation'') = Inr g' \<and> g \<le> g'"
    if g: "int_or0 (dget r ''generation'') = Inr g" for g
  proof -
    obtain h where h: "int_or0 (dget s ''generation'') = Inr h" "g \<le> h"
      using a g unfolding row_le_def by blast
    obtain k where "int_or0 (dget t ''generation'') = Inr k" "h \<le> k"
      using b h(1) unfolding row_le_def by blast
    then show ?thesis using h(2) by auto
  qed
  then show ?thesis using a b unfolding row_le_def by simp
qed

lemma stop_policy_dict:
  "stop_policy (PDict r) = STOP_POLICY_IMMEDIATE \<longleftrightarrow> sor (dget r ''stop_policy'') \<noteq> STOP_POLICY_FINALIZE"
  "stop_policy (PDict r) = STOP_POLICY_FINALIZE \<longleftrightarrow> sor (dget r ''stop_policy'') = STOP_POLICY_FINALIZE"
  by (simp_all add: stop_policy_def)

lemma rekey_observation_frame [simp]:
  "k \<noteq> ''observation'' \<Longrightarrow> map_of (rekey_observation rk t row) k = map_of row k"
  by (auto simp: rekey_observation_def split: pyval.splits)

lemma harden_policy_frame [simp]:
  "k \<noteq> ''stop_policy'' \<Longrightarrow> k \<noteq> ''hardened_at'' \<Longrightarrow> map_of (harden_policy now pol ex row) k = map_of row k"
  by (simp add: harden_policy_def)

lemma widen_scope_frame [simp]: "k \<noteq> ''scope'' \<Longrightarrow> map_of (widen_scope sc ex row) k = map_of row k"
  by (simp add: widen_scope_def)

lemma map_of_dmerge_stop_fields:
  "sf = [] \<or> (\<exists>v. sf = [(''followup_stop'', v)]) \<Longrightarrow> k \<noteq> ''followup_stop''
   \<Longrightarrow> map_of (dmerge r sf) k = map_of r k"
  by auto

lemma repeated_request_row_map_of:
  assumes "sf = [] \<or> (\<exists>v. sf = [(''followup_stop'', v)])"
  shows "k \<noteq> ''observation'' \<Longrightarrow> k \<noteq> ''followup_stop'' \<Longrightarrow> k \<noteq> ''scope'' \<Longrightarrow> k \<noteq> ''stop_policy''
     \<Longrightarrow> k \<noteq> ''hardened_at'' \<Longrightarrow> map_of (repeated_request_row now rk t sc pol sf r) k = map_of r k"
  using map_of_dmerge_stop_fields[OF assms] by (simp add: repeated_request_row_def)

lemma repeated_request_row_dget:
  assumes "sf = [] \<or> (\<exists>v. sf = [(''followup_stop'', v)])"
  shows "k \<noteq> ''observation'' \<Longrightarrow> k \<noteq> ''followup_stop'' \<Longrightarrow> k \<noteq> ''scope'' \<Longrightarrow> k \<noteq> ''stop_policy''
     \<Longrightarrow> k \<noteq> ''hardened_at'' \<Longrightarrow> dget (repeated_request_row now rk t sc pol sf r) k = dget r k"
  by (simp add: dget_def repeated_request_row_map_of[OF assms])

lemma repeated_request_row_scope:
  assumes "sf = [] \<or> (\<exists>v. sf = [(''followup_stop'', v)])"
  shows "dget (repeated_request_row now rk t sc pol sf r) ''scope'' =
     (if sc = SCOPE_CASCADE \<and> sor (dget r ''scope'') \<noteq> SCOPE_CASCADE then PStr sc else dget r ''scope'')"
  by (simp add: dget_def repeated_request_row_def widen_scope_def map_of_dmerge_stop_fields[OF assms])

lemma repeated_request_row_policy:
  assumes "sf = [] \<or> (\<exists>v. sf = [(''followup_stop'', v)])"
  shows "dget (repeated_request_row now rk t sc pol sf r) ''stop_policy'' =
     (if hardens pol r then PStr STOP_POLICY_IMMEDIATE else dget r ''stop_policy'')"
  by (simp add: dget_def repeated_request_row_def harden_policy_def map_of_dmerge_stop_fields[OF assms])

lemma row_leI:
  assumes "dget r' ''request_id'' = dget r ''request_id''" "dget r' ''generation'' = dget r ''generation''"
    and "sor (dget r ''scope'') = SCOPE_CASCADE \<Longrightarrow> sor (dget r' ''scope'') = SCOPE_CASCADE"
    and "stop_policy (PDict r) = STOP_POLICY_IMMEDIATE \<Longrightarrow> stop_policy (PDict r') = STOP_POLICY_IMMEDIATE"
    and "sor (dget r ''control_drained_at'') \<noteq> '''' \<Longrightarrow> dget r' ''control_drained_at'' = dget r ''control_drained_at''"
  shows "row_le r r'"
  using assms unfolding row_le_def by simp

lemma row_le_claimed: "int_or0 (dget r ''generation'') = Inr g \<Longrightarrow> row_le r (claimed_row env owner g r)"
  by (simp add: row_le_def claimed_row_def stop_policy_def)

lemma row_le_reopened: "row_le r (reopened_row e r)"
  by (rule row_leI) (simp_all add: reopened_row_def stop_policy_def)

lemma row_le_repeated:
  assumes "sf = [] \<or> (\<exists>v. sf = [(''followup_stop'', v)])"
  shows "row_le r (repeated_request_row now rk t sc pol sf r)"
  by (rule row_leI) (simp_all add: repeated_request_row_dget[OF assms] stop_policy_dict
      repeated_request_row_scope[OF assms] repeated_request_row_policy[OF assms])

lemma row_step_le: "row_step r r' \<Longrightarrow> row_le r r'"
proof (induction rule: row_step.induct)
  case (drain r stamp)
  show ?case by (rule row_leI) (simp_all add: stop_policy_def drain.hyps)
next
  case (widen r s)
  show ?case by (rule row_leI) (simp_all add: stop_policy_def widen.hyps)
qed (simp_all add: row_le_claimed row_le_reopened row_le_repeated)

section \<open>Well-formed projections\<close>

text \<open>An active row: its own key as task id, a minted request id, a non-empty scope, a policy of the
  vocabulary, and claim fields exactly while it is claimed.\<close>

definition str_where :: "(string \<Rightarrow> bool) \<Rightarrow> pyval \<Rightarrow> bool" where
  "str_where P v = (case v of PStr s \<Rightarrow> P s | _ \<Rightarrow> False)"

definition int_where :: "(int \<Rightarrow> bool) \<Rightarrow> pyval \<Rightarrow> bool" where
  "int_where P v = (case v of PInt i \<Rightarrow> P i | _ \<Rightarrow> False)"

lemma str_where_PStr [simp]: "str_where P (PStr s) = P s"
  by (simp add: str_where_def)

lemma int_where_PInt [simp]: "int_where P (PInt i) = P i"
  by (simp add: int_where_def)

lemma str_whereD: "str_where P v \<Longrightarrow> \<exists>s. v = PStr s \<and> P s"
  by (cases v) (auto simp: str_where_def)

lemma int_whereD: "int_where P v \<Longrightarrow> \<exists>i. v = PInt i \<and> P i"
  by (cases v) (auto simp: int_where_def)

definition wf_claim :: "pydict \<Rightarrow> bool" where
  "wf_claim r = ((dget r ''state'' = PStr INTENT_REQUESTED \<and> \<not> dhas r ''claim_owner''
        \<and> \<not> dhas r ''claim_pid'' \<and> \<not> dhas r ''claimed_at'' \<and> int_where (\<lambda>g. 0 \<le> g) (dget r ''generation''))
     \<or> (dget r ''state'' = PStr INTENT_CLAIMED \<and> is_str (dget r ''claim_owner'')
        \<and> int_where (\<lambda>p. True) (dget r ''claim_pid'') \<and> is_str (dget r ''claimed_at'')
        \<and> int_where (\<lambda>g. 1 \<le> g) (dget r ''generation'')))"

definition wf_row :: "string \<Rightarrow> pydict \<Rightarrow> bool" where
  "wf_row t r = (distinct (map fst r) \<and> dget r ''task_id'' = PStr t
     \<and> str_where (\<lambda>s. take 3 s = ''ci_'') (dget r ''request_id'')
     \<and> str_where (\<lambda>s. s \<noteq> '''') (dget r ''scope'')
     \<and> dget r ''stop_policy'' \<in> {PNone, PStr STOP_POLICY_FINALIZE, PStr STOP_POLICY_IMMEDIATE}
     \<and> wf_claim r)"

definition wf_intents :: "pydict \<Rightarrow> bool" where
  "wf_intents i = (distinct (map fst i) \<and>
     list_all (\<lambda>(t, v). is_dict v \<and> wf_row t (the_dict v)) i)"

definition wf_projection :: "json_file \<Rightarrow> bool" where
  "wf_projection f = (f = FAbsent \<or>
     (f \<noteq> FMalformed \<and> is_dict (dget (object_of f) ''intents'') \<and> wf_intents (intents_of f)))"

lemma dget_in_set: "dget i t = PDict r \<Longrightarrow> (t, PDict r) \<in> set i"
  by (auto simp: dget_def split: option.splits dest: map_of_SomeD)

lemma wf_intents_row: "wf_intents i \<Longrightarrow> dget i t = PDict r \<Longrightarrow> wf_row t r"
  by (drule dget_in_set) (auto simp: wf_intents_def list_all_iff)

lemma set_dset: "set (dset k v d) \<subseteq> insert (k, v) (set d)"
  by (induction d) (auto split: if_splits)

lemma set_dpop: "set (dpop k d) \<subseteq> set d"
  by (auto simp: dpop_def AList.delete_eq)

lemma wf_intents_dset: "wf_intents i \<Longrightarrow> wf_row t r \<Longrightarrow> wf_intents (dset t (PDict r) i)"
  using set_dset[of t "PDict r" i] by (fastforce simp: wf_intents_def list_all_iff)

lemma wf_intents_dpop: "wf_intents i \<Longrightarrow> wf_intents (dpop t i)"
  using set_dpop[of t i] by (auto simp: wf_intents_def list_all_iff)

lemma wf_row_has_request: "wf_row t r \<Longrightarrow> has_request (PDict r)"
  by (auto simp: wf_row_def has_request_def dest!: str_whereD)

lemma wf_claim_claimed:
  "wf_claim r \<Longrightarrow> int_or0 (dget r ''generation'') = Inr g \<Longrightarrow> wf_claim (claimed_row env owner g r)"
  by (auto simp: wf_claim_def claimed_row_def dest!: int_whereD)

lemma wf_claim_reopened: "wf_claim r \<Longrightarrow> wf_claim (reopened_row e r)"
  by (auto simp: wf_claim_def reopened_row_def dest!: int_whereD)

lemma wf_claim_cong:
  "(\<And>k. k \<in> {''state'', ''claim_owner'', ''claim_pid'', ''claimed_at'', ''generation''}
      \<Longrightarrow> map_of r' k = map_of r k) \<Longrightarrow> wf_claim r' = wf_claim r"
  by (simp add: wf_claim_def dget_def dhas_def)

lemma distinct_repeated [simp]:
  "distinct (map fst r) \<Longrightarrow> distinct (map fst (repeated_request_row now rk t sc pol sf r))"
  by (simp add: repeated_request_row_def harden_policy_def widen_scope_def rekey_observation_def
      split: pyval.splits)

lemma wf_row_repeated:
  assumes "sf = [] \<or> (\<exists>v. sf = [(''followup_stop'', v)])" and wf: "wf_row t r"
  shows "wf_row t (repeated_request_row now rk u sc pol sf r)"
proof -
  let ?r = "repeated_request_row now rk u sc pol sf r"
  have "wf_claim ?r = wf_claim r"
    by (rule wf_claim_cong) (auto simp: repeated_request_row_map_of[OF assms(1)])
  then show ?thesis
    using wf by (auto simp: wf_row_def repeated_request_row_dget[OF assms(1)]
        repeated_request_row_scope[OF assms(1)] repeated_request_row_policy[OF assms(1)])
qed

lemma wf_row_step:
  assumes "row_step r r'" and "wf_row t r"
  shows "wf_row t r'"
  using assms
proof (induction rule: row_step.induct)
  case (drain r stamp)
  have "wf_claim (dset ''control_drained_at'' (PStr stamp) r) = wf_claim r"
    by (rule wf_claim_cong) auto
  then show ?case using drain.prems by (simp add: wf_row_def)
next
  case (widen r s)
  have "wf_claim (dset ''scope'' (PStr s) r) = wf_claim r"
    by (rule wf_claim_cong) auto
  then show ?case using widen by (simp add: wf_row_def)
next
  case (claim r env g owner)
  then have "wf_claim (claimed_row env owner g r)" by (simp add: wf_claim_claimed wf_row_def)
  then show ?case using claim.prems by (simp add: wf_row_def claimed_row_def)
next
  case (release r e)
  then have "wf_claim (reopened_row e r)" by (simp add: wf_claim_reopened wf_row_def)
  then show ?case using release.prems by (simp add: wf_row_def reopened_row_def)
next
  case (repeat r sf now rk u sc pol)
  then show ?case by (simp add: wf_row_repeated)
qed

lemma dget_dmerge_stop_fields:
  "sf = [] \<or> (\<exists>v. sf = [(''followup_stop'', v)]) \<Longrightarrow> k \<noteq> ''followup_stop''
   \<Longrightarrow> dget (dmerge r sf) k = dget r k"
  "sf = [] \<or> (\<exists>v. sf = [(''followup_stop'', v)]) \<Longrightarrow> k \<noteq> ''followup_stop''
   \<Longrightarrow> dhas (dmerge r sf) k = dhas r k"
  by (simp_all add: dget_def dhas_def map_of_dmerge_stop_fields)

definition fresh_base :: "cancel_env \<Rightarrow> cancel_args \<Rightarrow> string \<Rightarrow> string \<Rightarrow> string \<Rightarrow> pydict" where
  "fresh_base env a reason sc t =
     [(''request_id'', PStr (''ci_'' @ env_fresh_request env)), (''task_id'', PStr t),
      (''state'', PStr INTENT_REQUESTED), (''reason'', PStr reason),
      (''source'', PStr (ca_source a)), (''requested_by'', PStr (ca_requested_by a)),
      (''requested_at'', PStr (env_now env)), (''generation'', PInt 0),
      (''scope'', PStr (if sc \<noteq> '''' then sc else SCOPE_SINGLE))]"

lemma fresh_intent_row_eq:
  "fresh_intent_row env a reason sc pol t sf obs =
     (let row = (case obs of None \<Rightarrow> dmerge (fresh_base env a reason sc t) sf
                 | Some ob \<Rightarrow> dset ''observation'' (PDict ob) (dmerge (fresh_base env a reason sc t) sf))
      in if pol = STOP_POLICY_FINALIZE then dset ''stop_policy'' (PStr STOP_POLICY_FINALIZE) row else row)"
  by (cases obs) (simp_all add: fresh_intent_row_def fresh_base_def)

lemma wf_row_fresh:
  assumes "sf = [] \<or> (\<exists>v. sf = [(''followup_stop'', v)])"
  shows "wf_row t (fresh_intent_row env a reason sc pol t sf obs)"
proof -
  have wf: "wf_row t (dmerge (fresh_base env a reason sc t) sf)"
    by (simp add: wf_row_def wf_claim_def dget_dmerge_stop_fields[OF assms] fresh_base_def)
  have obs: "wf_row t (dset ''observation'' v r)" if "wf_row t r" for v r
    using that by (simp add: wf_row_def wf_claim_def)
  have pol: "wf_row t (dset ''stop_policy'' (PStr STOP_POLICY_FINALIZE) r)" if "wf_row t r" for r
    using that by (simp add: wf_row_def wf_claim_def)
  show ?thesis
    by (cases obs) (simp_all add: fresh_intent_row_eq Let_def wf obs pol)
qed

lemma wf_row_rekeyed:
  "wf_row leaf r \<Longrightarrow> wf_row t (dmerge r [(''task_id'', PStr t), (''scope'', PStr SCOPE_CASCADE)])"
proof -
  assume wf: "wf_row leaf r"
  have "wf_claim (dmerge r [(''task_id'', PStr t), (''scope'', PStr SCOPE_CASCADE)]) = wf_claim r"
    by (rule wf_claim_cong) auto
  then show ?thesis using wf by (simp add: wf_row_def)
qed

lemma dset_overwrites: "dset t v (dset t x d) = dset t v d"
  by (induction d) auto

lemma wf_intents_step:
  assumes "intents_step i i'" and wf: "wf_intents i"
  shows "wf_intents i'"
  using assms(1)
proof cases
  case live
  then show ?thesis
  proof cases
    case (row t r r')
    then show ?thesis using wf by (auto intro: wf_intents_dset wf_row_step wf_intents_row)
  next
    case (mint t sf row env a reason sc pol obs)
    then show ?thesis using wf by (simp add: wf_intents_dset wf_row_fresh)
  next
    case (rekey leaf r t r' x)
    then have "wf_row t r'"
      using wf_row_step[OF rekey(7) wf_row_rekeyed[OF wf_intents_row[OF wf rekey(2)]]] by simp
    then show ?thesis using rekey(1) wf by (simp add: dset_overwrites wf_intents_dset wf_intents_dpop)
  qed
next
  case (settle t r)
  then show ?thesis using wf by (simp add: wf_intents_dpop)
qed

lemma refines_file_wf:
  assumes "refines_file intents_step f f'" and "wf_projection f"
  shows "wf_projection f'"
proof (cases "f' = f")
  case False
  then obtain i' where f': "f' = FObject (projection i')" and step: "intents_step (intents_of f) i'"
    using assms(1) by (auto simp: refines_file_def)
  have "wf_intents (intents_of f)"
    using assms(2) by (auto simp: wf_projection_def intents_of_def wf_intents_def)
  then have "wf_intents i'" by (rule wf_intents_step[OF step])
  then show ?thesis using f' by (simp add: wf_projection_def) (simp add: projection_def)
qed (use assms in simp)

end
