(* ===== verification/Cancel_Runs.thy ===== *)
theory Cancel_Runs
  imports Cancel_Spec
begin

text \<open>
  The interface of the projection: an operation refines an abstract step of the rows and only
  appends to the forensic trail (locale \<open>projection_op\<close>); a live operation loses no request
  (\<open>live_projection_op\<close>).  Every operation of the module interprets one of the two, and runs are
  sequences of operations, each with its own environment.
\<close>

definition appends_trail :: "cancel_world \<Rightarrow> cancel_world \<Rightarrow> bool" where
  "appends_trail w w' = (take (length (cw_trail w)) (cw_trail w') = cw_trail w)"

lemma appends_trail_refl [simp]: "appends_trail w w"
  by (simp add: appends_trail_def)

lemma appends_trail_forensic [simp]: "appends_trail w (forensic env row (w\<lparr>cw_file := f, cw_store := st\<rparr>))"
  "appends_trail w (forensic env row (w\<lparr>cw_file := f\<rparr>))" "appends_trail w (w\<lparr>cw_file := f\<rparr>)"
  "appends_trail w (w\<lparr>cw_file := f, cw_store := st\<rparr>)"
  by (simp_all add: appends_trail_def forensic_def)

lemma cw_forensic [simp]:
  "cw_file (forensic env row w) = cw_file w" "cw_store (forensic env row w) = cw_store w"
  by (simp_all add: forensic_def)

lemma refuse_corrupt_snd [simp]:
  "cw_file (snd (refuse_corrupt env t op e w)) = cw_file w"
  "cw_store (snd (refuse_corrupt env t op e w)) = cw_store w"
  by (simp_all add: refuse_corrupt_def)

lemma refuse_corrupt_trail [simp]:
  "appends_trail w (snd (refuse_corrupt env t op e (w\<lparr>cw_file := f\<rparr>)))"
  "appends_trail w (snd (refuse_corrupt env t op e (w\<lparr>cw_file := f, cw_store := st\<rparr>)))"
  by (simp_all add: refuse_corrupt_def)

section \<open>The interface\<close>

locale projection_op =
  fixes op :: "cancel_world \<Rightarrow> 'r \<times> cancel_world"
  assumes refines: "refines_file intents_step (cw_file w) (cw_file (snd (op w)))"
    and trail: "appends_trail w (snd (op w))"
begin

lemma fail_closed:
  "cw_file w = FMalformed \<or> (dget (object_of (cw_file w)) ''intents'' \<noteq> PNone
      \<and> \<not> is_dict (dget (object_of (cw_file w)) ''intents''))
   \<Longrightarrow> cw_file (snd (op w)) = cw_file w"
  using refines[of w] by (auto simp: refines_file_def load_intents_def split: pyval.splits if_splits)

lemma keeps_wf: "wf_projection (cw_file w) \<Longrightarrow> wf_projection (cw_file (snd (op w)))"
  using refines[of w] by (rule refines_file_wf)

end

locale live_projection_op = projection_op op for op :: "cancel_world \<Rightarrow> 'r \<times> cancel_world" +
  assumes refines_live: "refines_file live_step (cw_file w) (cw_file (snd (op w)))"

section \<open>Every operation implements the interface\<close>

lemma claim_intent_refines:
  "refines_file live_step (cw_file w) (cw_file (snd (claim_intent env owner task_id w)))
   \<and> appends_trail w (snd (claim_intent env owner task_id w))
   \<and> cw_store (snd (claim_intent env owner task_id w)) = cw_store w"
proof (cases "validate_task_id task_id")
  case (Inr tid)
  obtain r u f where U: "update_json_locked (env_io env) True False
      (plain_mutator (claim_mutate env tid owner)) () (cw_file w) = (r, u, f)" by (metis prod_cases3)
  show ?thesis
    using refines_mutatorD[OF claim_refines U]
    by (auto simp: claim_intent_def Inr U split_beta
        split: sum.splits exc.splits claim_outcome.splits prod.splits if_splits)
qed (simp add: claim_intent_def)

lemma release_claim_refines:
  "refines_file live_step (cw_file w) (cw_file (snd (release_claim env err g rid task_id w)))
   \<and> appends_trail w (snd (release_claim env err g rid task_id w))
   \<and> cw_store (snd (release_claim env err g rid task_id w)) = cw_store w"
proof (cases "validate_task_id task_id")
  case (Inr tid)
  obtain r u f where U: "update_json_locked (env_io env) True False
      (plain_mutator (release_mutate tid err g rid)) () (cw_file w) = (r, u, f)" by (metis prod_cases3)
  show ?thesis
    using refines_mutatorD[OF release_refines U]
    by (auto simp: release_claim_def Inr U split_beta
        split: sum.splits exc.splits fence_outcome.splits prod.splits if_splits)
qed (simp add: release_claim_def)

lemma mark_intent_scope_refines:
  "refines_file live_step (cw_file w) (cw_file (snd (mark_intent_scope env scope task_id w)))
   \<and> appends_trail w (snd (mark_intent_scope env scope task_id w))
   \<and> cw_store (snd (mark_intent_scope env scope task_id w)) = cw_store w"
proof (cases "validate_task_id task_id")
  case (Inr tid)
  show ?thesis
  proof (cases "strip scope = ''''")
    case False
    obtain r u f where U: "update_json_locked (env_io env) True False
        (plain_mutator (mark_scope_mutate tid (strip scope))) () (cw_file w) = (r, u, f)"
      by (metis prod_cases3)
    show ?thesis
      using refines_mutatorD[OF mark_scope_refines[OF False] U] False
      by (auto simp: mark_intent_scope_def Inr U Let_def split_beta
          split: sum.splits exc.splits scope_outcome.splits prod.splits)
  qed (simp add: mark_intent_scope_def Inr)
qed (simp add: mark_intent_scope_def)

lemma mark_finalize_control_drained_refines:
  "refines_file live_step (cw_file w) (cw_file (snd (mark_finalize_control_drained env at_ts task_id w)))
   \<and> appends_trail w (snd (mark_finalize_control_drained env at_ts task_id w))
   \<and> cw_store (snd (mark_finalize_control_drained env at_ts task_id w)) = cw_store w"
proof (cases "validate_task_id task_id")
  case (Inr requested)
  show ?thesis
  proof (cases "resolve_owner_stop_intent env False (PStr requested) w")
    case (Inr p)
    obtain tid row where p: "p = (tid, row)" by (cases p)
    define stamp where "stamp = (if at_ts \<noteq> '''' then at_ts else env_now env)"
    obtain r u f where U: "update_json_locked (env_io env) True False
        (plain_mutator (mark_drained_mutate tid stamp)) () (cw_file w) = (r, u, f)"
      by (metis prod_cases3)
    show ?thesis
      using refines_mutatorD[OF mark_drained_refines U] \<open>validate_task_id task_id = Inr requested\<close> Inr
      by (auto simp: mark_finalize_control_drained_def p U Let_def split_beta stamp_def[symmetric]
          split: sum.splits exc.splits prod.splits)
  qed (simp add: mark_finalize_control_drained_def Inr)
qed (simp add: mark_finalize_control_drained_def)

lemma request_cancel_op_refines:
  "refines_file live_step (cw_file w) (cw_file (snd (request_cancel env a task_id w)))
   \<and> appends_trail w (snd (request_cancel env a task_id w))
   \<and> cw_store (snd (request_cancel env a task_id w)) = cw_store w"
proof (cases "validate_task_id task_id")
  case (Inr tid)
  obtain r u f where U: "update_json_locked (env_io env) True False
      (plain_mutator (request_cancel_mutate env a tid (cw_store w))) () (cw_file w) = (r, u, f)"
    by (metis prod_cases3)
  show ?thesis
    using refines_mutatorD[OF request_cancel_refines U]
    by (simp add: request_cancel_def Inr U split_beta request_cancel_forensics_def Let_def
        split: sum.split exc.split prod.split)
qed (simp add: request_cancel_def)

lemma settle_intent_refines:
  "refines_file intents_step (cw_file w) (cw_file (snd (settle_intent env outcome detail g rid allow task_id w)))
   \<and> appends_trail w (snd (settle_intent env outcome detail g rid allow task_id w))"
proof (cases "validate_task_id task_id")
  case (Inr tid)
  obtain r u f where U: "update_json_locked (env_io env) True False
      (settle_mutate tid outcome g rid allow) (cw_store w) (cw_file w) = (r, u, f)" by (metis prod_cases3)
  show ?thesis
    using refines_mutatorD[OF settle_refines U]
    by (auto simp: settle_intent_def Inr U split_beta
        split: sum.splits exc.splits settle_outcome.splits prod.splits if_splits)
qed (simp add: settle_intent_def)

interpretation request: live_projection_op "request_cancel env a task_id" for env a task_id
  using request_cancel_op_refines by unfold_locales (blast intro: refines_file_live)+

interpretation drain: live_projection_op "mark_finalize_control_drained env at_ts task_id" for env at_ts task_id
  using mark_finalize_control_drained_refines by unfold_locales (blast intro: refines_file_live)+

interpretation scope: live_projection_op "mark_intent_scope env scope_text task_id" for env scope_text task_id
  using mark_intent_scope_refines by unfold_locales (blast intro: refines_file_live)+

interpretation claim: live_projection_op "claim_intent env owner task_id" for env owner task_id
  using claim_intent_refines by unfold_locales (blast intro: refines_file_live)+

interpretation release: live_projection_op "release_claim env err g rid task_id" for env err g rid task_id
  using release_claim_refines by unfold_locales (blast intro: refines_file_live)+

interpretation settle: projection_op "settle_intent env outcome detail g rid allow task_id"
  for env outcome detail g rid allow task_id
  using settle_intent_refines by unfold_locales blast+

section \<open>Runs\<close>

datatype cancel_op =
    OpRequest cancel_env cancel_args pyval
  | OpDrain cancel_env string pyval
  | OpScope cancel_env string pyval
  | OpClaim cancel_env string pyval
  | OpRelease cancel_env string "int option" string pyval
  | OpSettle cancel_env string string "int option" string bool pyval

fun exec_op :: "cancel_op \<Rightarrow> cancel_world \<Rightarrow> cancel_world" where
  "exec_op (OpRequest env a t) w = snd (request_cancel env a t w)"
| "exec_op (OpDrain env at_ts t) w = snd (mark_finalize_control_drained env at_ts t w)"
| "exec_op (OpScope env s t) w = snd (mark_intent_scope env s t w)"
| "exec_op (OpClaim env owner t) w = snd (claim_intent env owner t w)"
| "exec_op (OpRelease env err g rid t) w = snd (release_claim env err g rid t w)"
| "exec_op (OpSettle env outcome detail g rid allow t) w =
     snd (settle_intent env outcome detail g rid allow t w)"

fun is_settle :: "cancel_op \<Rightarrow> bool" where
  "is_settle (OpSettle _ _ _ _ _ _ _) = True"
| "is_settle _ = False"

definition exec_ops :: "cancel_op list \<Rightarrow> cancel_world \<Rightarrow> cancel_world" where
  "exec_ops ops w = fold exec_op ops w"

lemma exec_op_refines: "refines_file intents_step (cw_file w) (cw_file (exec_op op w))"
  by (cases op) (simp_all add: request.refines drain.refines scope.refines claim.refines
      release.refines settle.refines)

lemma exec_op_live: "\<not> is_settle op \<Longrightarrow> refines_file live_step (cw_file w) (cw_file (exec_op op w))"
  by (cases op) (simp_all add: request.refines_live drain.refines_live scope.refines_live
      claim.refines_live release.refines_live)

lemma exec_op_wf: "wf_projection (cw_file w) \<Longrightarrow> wf_projection (cw_file (exec_op op w))"
  by (rule refines_file_wf[OF exec_op_refines])

lemma exec_ops_wf: "wf_projection (cw_file w) \<Longrightarrow> wf_projection (cw_file (exec_ops ops w))"
  unfolding exec_ops_def by (induction ops arbitrary: w) (simp_all add: exec_op_wf)

end
