(* ===== verification/Cancel_Props.thy ===== *)
theory Cancel_Props
  imports Cancel_Runs
begin

text \<open>
  The properties of cancel custody: reachable projections are well formed, requests only get
  stricter and are never lost, a live claim is exclusive, a superseded claimant is fenced off,
  completion wins over a late cancel, a cascade is settled by its postcondition alone, and the
  lineage walk returns the end of a reciprocal retry chain.
\<close>

definition fresh_world :: "task_store \<Rightarrow> cancel_world" where
  "fresh_world st = \<lparr>cw_file = FAbsent, cw_trail = [], cw_store = st, cw_disclosed = []\<rparr>"

section \<open>Rows under steps and runs\<close>

lemma live_step_row_le:
  assumes "live_step i i'" and "dget i t = PDict r" and "has_request (PDict r)" and "dget i' t = PDict r'"
  shows "row_le r r'"
  using assms(1)
proof cases
  case (row u q q')
  then show ?thesis using assms row_step_le by (cases "t = u") auto
next
  case (mint u sf row env a reason sc pol obs)
  then show ?thesis using assms by (cases "t = u") auto
next
  case (rekey leaf q u q' x)
  then show ?thesis using assms by (cases "t = u"; cases "t = leaf") auto
qed

lemma intents_step_row_le:
  assumes "intents_step i i'" and "dget i t = PDict r" and "has_request (PDict r)" and "dget i' t = PDict r'"
  shows "row_le r r'"
  using assms(1)
proof cases
  case live
  then show ?thesis using assms live_step_row_le by blast
next
  case (settle u q)
  then show ?thesis using assms by (cases "t = u") auto
qed

lemma row_at_dget: "row_at w t = Some r \<longleftrightarrow> dget (intents_of (cw_file w)) t = PDict r"
  by (auto simp: row_at_def split: pyval.splits)

lemma exec_op_row_le:
  assumes "row_at w t = Some r" and "has_request (PDict r)" and "row_at (exec_op op w) t = Some r'"
  shows "row_le r r'"
  using exec_op_refines[of w op] assms intents_step_row_le
  by (auto simp: refines_file_def row_at_dget)

fun persists :: "string \<Rightarrow> cancel_op list \<Rightarrow> cancel_world \<Rightarrow> bool" where
  "persists t [] w = True"
| "persists t (op # ops) w = (row_at (exec_op op w) t \<noteq> None \<and> persists t ops (exec_op op w))"

lemma row_le_has_request: "row_le r r' \<Longrightarrow> has_request (PDict r) \<Longrightarrow> has_request (PDict r')"
  by (simp add: row_le_def has_request_def)

lemma persists_row_le:
  "row_at w t = Some r \<Longrightarrow> has_request (PDict r) \<Longrightarrow> persists t ops w
   \<Longrightarrow> \<exists>r'. row_at (exec_ops ops w) t = Some r' \<and> row_le r r'"
proof (induction ops arbitrary: w r)
  case (Cons op ops)
  then obtain q where q: "row_at (exec_op op w) t = Some q" by auto
  have le: "row_le r q" using exec_op_row_le Cons.prems(1,2) q by blast
  obtain r' where "row_at (exec_ops ops (exec_op op w)) t = Some r'" "row_le q r'"
    using Cons.IH[OF q row_le_has_request[OF le Cons.prems(2)]] Cons.prems(3) by auto
  then show ?case using le row_le_trans by (auto simp: exec_ops_def)
qed (simp add: exec_ops_def)

section \<open>No request is lost\<close>

definition active_request_ids :: "cancel_world \<Rightarrow> pyval list" where
  "active_request_ids w = map (\<lambda>(t, v). dget (the_dict v) ''request_id'')
     (filter (\<lambda>(t, v). has_request v) (intents_of (cw_file w)))"

lemma active_request_ids_iff:
  assumes "distinct (map fst (intents_of (cw_file w)))"
  shows "rid \<in> set (active_request_ids w) \<longleftrightarrow>
    (\<exists>t r. dget (intents_of (cw_file w)) t = PDict r \<and> has_request (PDict r) \<and> dget r ''request_id'' = rid)"
proof
  assume "rid \<in> set (active_request_ids w)"
  then obtain t v where tv: "(t, v) \<in> set (intents_of (cw_file w))" "has_request v"
    "dget (the_dict v) ''request_id'' = rid" by (auto simp: active_request_ids_def)
  then have "dget (intents_of (cw_file w)) t = v"
    using map_of_is_SomeI[OF assms tv(1)] by (simp add: dget_def)
  then show "\<exists>t r. dget (intents_of (cw_file w)) t = PDict r \<and> has_request (PDict r) \<and> dget r ''request_id'' = rid"
    using tv has_request_is_dict[OF tv(2)] by metis
next
  assume "\<exists>t r. dget (intents_of (cw_file w)) t = PDict r \<and> has_request (PDict r) \<and> dget r ''request_id'' = rid"
  then obtain t r where "(t, PDict r) \<in> set (intents_of (cw_file w))" "has_request (PDict r)"
    "dget r ''request_id'' = rid" using dget_in_set by blast
  then show "rid \<in> set (active_request_ids w)"
    unfolding active_request_ids_def by force
qed

lemma wf_projection_distinct: "wf_projection f \<Longrightarrow> distinct (map fst (intents_of f))"
  by (auto simp: wf_projection_def wf_intents_def intents_of_def)

lemma live_step_keeps_ids:
  assumes "live_step i i'" and "dget i t = PDict r" and "has_request (PDict r)"
  shows "\<exists>u q. dget i' u = PDict q \<and> has_request (PDict q) \<and> dget q ''request_id'' = dget r ''request_id''"
  using assms(1)
proof cases
  case (row u q q')
  then have "row_le q q'" using row_step_le by blast
  then show ?thesis
    using row assms by (cases "t = u") (auto simp: row_le_def has_request_def intro!: exI[of _ t])
next
  case (mint u sf row env a reason sc pol obs)
  then have "t \<noteq> u" using assms by auto
  then show ?thesis using mint assms by (auto intro!: exI[of _ t])
next
  case (rekey leaf q u q' x)
  show ?thesis
  proof (cases "t = leaf")
    case True
    have "dget q' ''request_id'' = dget q ''request_id''"
      using row_step_le[OF rekey(7)] by (simp add: row_le_def)
    then show ?thesis using rekey True assms by (auto simp: has_request_def intro!: exI[of _ u])
  next
    case False
    then show ?thesis using rekey assms by (cases "t = u") (auto intro!: exI[of _ t])
  qed
qed

lemma exec_op_keeps_ids:
  assumes "\<not> is_settle op" and "wf_projection (cw_file w)"
  shows "set (active_request_ids w) \<subseteq> set (active_request_ids (exec_op op w))"
proof (cases "cw_file (exec_op op w) = cw_file w")
  case False
  then have step: "live_step (intents_of (cw_file w)) (intents_of (cw_file (exec_op op w)))"
    using exec_op_live[OF assms(1), of w] by (auto simp: refines_file_def)
  show ?thesis
    using live_step_keeps_ids[OF step]
    by (auto simp: active_request_ids_iff wf_projection_distinct assms(2) exec_op_wf)
qed (simp add: active_request_ids_def)


section \<open>Properties of runs\<close>

text \<open>C1: Whatever sequence of requests, drains, scope records, claims, releases and settles runs
  over a fresh projection, by whichever processes and with whichever lock and write failures, the
  projection file stays well formed: one row per task, keyed by its own task id, with a minted
  request id, a known stop policy, and claim fields exactly while the row is claimed.\<close>

theorem cancel_projection_well_formed:
  "wf_projection (cw_file (exec_ops ops (fresh_world st)))"
  by (rule exec_ops_wf) (simp add: fresh_world_def wf_projection_def)

text \<open>C2: While an intent stays in the projection, no operation weakens it: its request id never
  changes, its generation never decreases, a cascade never narrows, an immediate stop never
  softens, and the first drain stamp is kept.\<close>

theorem cancel_intent_monotone:
  assumes "row_at w t = Some r" and "has_request (PDict r)" and "persists t ops w"
  shows "\<exists>r'. row_at (exec_ops ops w) t = Some r' \<and> row_le r r'"
  using persists_row_le[OF assms] .

lemma exec_ops_Cons [simp]: "exec_ops (op # ops) w = exec_ops ops (exec_op op w)"
  by (simp add: exec_ops_def)

lemma exec_ops_Nil [simp]: "exec_ops [] w = w"
  by (simp add: exec_ops_def)

lemma exec_ops_keeps_ids:
  "list_all (\<lambda>op. \<not> is_settle op) ops \<Longrightarrow> wf_projection (cw_file w)
   \<Longrightarrow> set (active_request_ids w) \<subseteq> set (active_request_ids (exec_ops ops w))"
proof (induction ops arbitrary: w)
  case (Cons op ops)
  then have "set (active_request_ids w) \<subseteq> set (active_request_ids (exec_op op w))"
    by (intro exec_op_keeps_ids) auto
  also have "\<dots> \<subseteq> set (active_request_ids (exec_ops ops (exec_op op w)))"
    using Cons by (intro Cons.IH) (auto intro: exec_op_wf)
  finally show ?case by simp
qed simp

lemma exec_ops_append: "exec_ops (xs @ ys) w = exec_ops ys (exec_ops xs w)"
  by (simp add: exec_ops_def)

text \<open>C5: No operation other than a settle loses a request: after any run, a further run without
  settles keeps every active request id in the projection, a re-keyed one under its logical root.\<close>

theorem only_settle_retires_a_request:
  assumes "list_all (\<lambda>op. \<not> is_settle op) live_ops"
  shows "set (active_request_ids (exec_ops ops (fresh_world st)))
    \<subseteq> set (active_request_ids (exec_ops (ops @ live_ops) (fresh_world st)))"
  using exec_ops_keeps_ids[OF assms] cancel_projection_well_formed by (simp add: exec_ops_append)

text \<open>A projection file that cannot be read stays byte for byte as it is, whatever runs over it.\<close>

lemma exec_op_malformed: "cw_file w = FMalformed \<Longrightarrow> cw_file (exec_op op w) = FMalformed"
  using exec_op_refines[of w op] by (simp add: refines_file_def)

section \<open>Operations that abort\<close>

lemma load_intents_row_at:
  "load_intents True (object_of (cw_file w)) = Inr i \<Longrightarrow> row_at w t = Some r \<Longrightarrow> dget i t = PDict r"
  using load_intents_rows by (simp add: row_at_dget)

lemma claim_intent_aborts:
  assumes "validate_task_id task_id = Inr tid"
    and "\<And>d a. claim_mutate env tid owner (object_of (cw_file w)) \<noteq> Inr (Some d, a)"
  shows "cw_file (snd (claim_intent env owner task_id w)) = cw_file w
    \<and> (fst (claim_intent env owner task_id w) \<in> range Inl
       \<or> (claim_mutate env tid owner (object_of (cw_file w)) = Inr (None, ClaimAbsent)
            \<and> fst (claim_intent env owner task_id w) = Inr None)
       \<or> (\<exists>r. claim_mutate env tid owner (object_of (cw_file w)) = Inr (None, ClaimRefused r)
            \<and> fst (claim_intent env owner task_id w) = Inr (Some (dset ''claim_refused'' (PBool True) r))))"
proof -
  obtain r u f where U: "update_json_locked (env_io env) True False
      (plain_mutator (claim_mutate env tid owner)) () (cw_file w) = (r, u, f)" by (metis prod_cases3)
  have cm: "\<And>d a. claim_mutate env tid owner d = Inr (None, a) \<Longrightarrow> (\<forall>row. a \<noteq> ClaimTaken row) \<and> a \<noteq> ClaimRefused []"
    by (auto simp: claim_mutate_def Let_def split: sum.splits pyval.splits if_splits bool.splits)
  have N: "f = cw_file w" "(\<exists>e. r = Inl e) \<or> (\<exists>a. claim_mutate env tid owner (object_of (cw_file w)) = Inr (None, a)
      \<and> r = Inr (object_of (cw_file w), a))"
    using update_json_locked_no_write[OF U plain_mutator_def assms(2)] by auto
  from N(2) show ?thesis
  proof
    assume "\<exists>e. r = Inl e"
    then obtain e where "r = Inl e" ..
    then show ?thesis using U N(1) assms(1)
      by (cases e) (simp_all add: claim_intent_def refuse_corrupt_def split_beta)
  next
    assume "\<exists>a. claim_mutate env tid owner (object_of (cw_file w)) = Inr (None, a) \<and> r = Inr (object_of (cw_file w), a)"
    then obtain a where a: "claim_mutate env tid owner (object_of (cw_file w)) = Inr (None, a)"
      "r = Inr (object_of (cw_file w), a)" by blast
    then show ?thesis using U N(1) assms(1) cm[OF a(1)]
      by (cases a) (simp_all add: claim_intent_def)
  qed
qed

lemma release_claim_aborts:
  assumes "validate_task_id task_id = Inr tid"
    and "\<And>d a. release_mutate tid err g rid (object_of (cw_file w)) \<noteq> Inr (Some d, a)"
  shows "cw_file (snd (release_claim env err g rid task_id w)) = cw_file w
    \<and> fst (release_claim env err g rid task_id w) \<in> range Inl \<union> {Inr False}"
proof -
  obtain r u f where U: "update_json_locked (env_io env) True False
      (plain_mutator (release_mutate tid err g rid)) () (cw_file w) = (r, u, f)" by (metis prod_cases3)
  have rm: "\<And>d a row. release_mutate tid err g rid d = Inr (None, a) \<Longrightarrow> a \<noteq> FencePassed row"
    by (auto simp: release_mutate_def Let_def split: sum.splits pyval.splits if_splits)
  show ?thesis
    using update_json_locked_no_write[OF U plain_mutator_def assms(2)] rm assms(1)
    by (auto simp: release_claim_def U split_beta refuse_corrupt_def split: exc.splits fence_outcome.splits)
qed

lemma settle_intent_aborts:
  assumes "validate_task_id task_id = Inr tid"
    and "settle_mutate tid outcome g rid allow (object_of (cw_file w)) (cw_store w) = (m, cw_store w)"
    and "\<And>d a. m \<noteq> Inr (Some d, a)"
  shows "cw_file (snd (settle_intent env outcome detail g rid allow task_id w)) = cw_file w
    \<and> cw_store (snd (settle_intent env outcome detail g rid allow task_id w)) = cw_store w
    \<and> fst (settle_intent env outcome detail g rid allow task_id w) \<in> range Inl \<union> {Inr None}"
proof -
  obtain r u f where U: "update_json_locked (env_io env) True False
      (settle_mutate tid outcome g rid allow) (cw_store w) (cw_file w) = (r, u, f)" by (metis prod_cases3)
  have sm: "\<And>d st st' a row. settle_mutate tid outcome g rid allow d st = (Inr (None, a), st') \<Longrightarrow> a \<noteq> Settled row"
    by (auto simp: settle_mutate_def split: sum.splits pyval.splits if_splits prod.splits)
  show ?thesis
    using update_json_locked_no_write[OF U assms(2,3)] sm assms(1,2)
    by (auto simp: settle_intent_def U split_beta refuse_corrupt_def split: exc.splits settle_outcome.splits)
qed

section \<open>Exclusive claims and the generation fence\<close>

text \<open>C4: A claim whose process is alive is never stolen, however old it is: another attempt to
  claim the same intent leaves the projection unchanged and is refused (or the file was
  unreadable or the lock was not taken, and it raises).\<close>

theorem live_claim_never_stolen:
  assumes "row_at w tid = Some r" and "validate_task_id task_id = Inr tid"
    and "dget r ''state'' = PStr INTENT_CLAIMED" and "int_or0 (dget r ''claim_pid'') = Inr p" and "0 < p"
    and "env_alive env p = Some True"
  shows "cw_file (snd (claim_intent env owner task_id w)) = cw_file w
    \<and> fst (claim_intent env owner task_id w) \<in>
        range Inl \<union> {Inr (Some (dset ''claim_refused'' (PBool True) r))}"
proof -
  have "claim_is_abandoned env (PDict r) = Inr False"
    using assms(3-6) by (simp add: claim_is_abandoned_def)
  then have m: "claim_mutate env tid owner (object_of (cw_file w)) \<in> range Inl \<union> {Inr (None, ClaimRefused r)}"
    using load_intents_row_at[of w _ tid r] assms(1,3) by (auto simp: claim_mutate_def split: sum.splits)
  show ?thesis
    using claim_intent_aborts[OF assms(2), of env owner w] m by auto
qed

text \<open>The generation is a fence: a release or a settle that names another generation than the
  row's changes neither the projection nor the task results, and reports no success.\<close>

lemma stale_generation_fence:
  assumes "row_at w tid = Some r" and "validate_task_id task_id = Inr tid"
    and "int_or0 (dget r ''generation'') = Inr g" and "g \<noteq> e"
  shows "cw_file (snd (release_claim env err (Some e) rid task_id w)) = cw_file w
    \<and> fst (release_claim env err (Some e) rid task_id w) \<noteq> Inr True
    \<and> cw_file (snd (settle_intent env outcome detail (Some e) rid allow task_id w)) = cw_file w
    \<and> cw_store (snd (settle_intent env outcome detail (Some e) rid allow task_id w)) = cw_store w
    \<and> fst (settle_intent env outcome detail (Some e) rid allow task_id w) \<in> range Inl \<union> {Inr None}"
proof -
  have "\<exists>s. s \<noteq> [] \<and> generation_mismatch r (Some e) rid = Inr s"
    using assms(3,4) by (cases "rid \<noteq> [] \<and> sor (dget r ''request_id'') \<noteq> rid") (auto simp: generation_mismatch_def)
  then obtain s where s: "s \<noteq> []" "generation_mismatch r (Some e) rid = Inr s" by blast
  have m: "release_mutate tid err (Some e) rid (object_of (cw_file w))
      \<in> range Inl \<union> {Inr (None, FenceAbsent), Inr (None, FenceRefused r s)}"
    using load_intents_row_at[of w _ tid r] assms(1) s by (auto simp: release_mutate_def split: sum.splits)
  have n: "settle_mutate tid outcome (Some e) rid allow (object_of (cw_file w)) (cw_store w)
      \<in> (range Inl \<union> {Inr (None, CascadeDeferred r False), Inr (None, SettleMismatch r s)}) \<times> {cw_store w}"
    using load_intents_row_at[of w _ tid r] assms(1) s by (auto simp: settle_mutate_def split: sum.splits)
  then obtain x where x: "settle_mutate tid outcome (Some e) rid allow (object_of (cw_file w)) (cw_store w)
      = (x, cw_store w)" "\<And>d a. x \<noteq> Inr (Some d, a)" by auto
  show ?thesis
    using release_claim_aborts[OF assms(2), of err "Some e" rid w env] m
      settle_intent_aborts[OF assms(2) x, of env detail] by auto
qed

section \<open>Operations that succeed\<close>

lemma claim_intent_taken:
  assumes "claim_intent env owner task_id w = (Inr (Some r), w')" and "dget r ''claim_refused'' = PNone"
  obtains tid q g where "validate_task_id task_id = Inr tid" and "row_at w tid = Some q"
    and "int_or0 (dget q ''generation'') = Inr g" and "r = claimed_row env owner g q"
    and "cw_file w' = FObject (projection (dset tid (PDict r) (intents_of (cw_file w))))"
    and "cw_store w' = cw_store w"
proof -
  obtain tid where tid: "validate_task_id task_id = Inr tid"
    using assms(1) by (cases "validate_task_id task_id") (simp_all add: claim_intent_def)
  obtain res u f where U: "update_json_locked (env_io env) True False
      (plain_mutator (claim_mutate env tid owner)) () (cw_file w) = (res, u, f)" by (metis prod_cases3)
  obtain d where res: "res = Inr (d, ClaimTaken r)" and w': "cw_file w' = f" "cw_store w' = cw_store w"
    using assms tid U
    by (auto simp: claim_intent_def split_beta split: sum.splits exc.splits claim_outcome.splits if_splits)
  have "\<exists>q g. row_at w tid = Some q \<and> int_or0 (dget q ''generation'') = Inr g \<and> r = claimed_row env owner g q
      \<and> f = FObject (projection (dset tid (PDict r) (intents_of (cw_file w))))"
    using U
  proof (cases rule: update_json_locked_cases)
    case (written d' a)
    then show ?thesis using res load_intents_rows
      by (auto simp: plain_mutator_eq claim_mutate_def Let_def row_at_dget
          split: sum.splits pyval.splits if_splits bool.splits)
  qed (use res in \<open>auto simp: plain_mutator_eq claim_mutate_def Let_def
          split: sum.splits pyval.splits if_splits bool.splits\<close>)
  then show thesis using that tid w' by blast
qed

lemma settle_intent_done:
  assumes "settle_intent env outcome detail g rid allow task_id w = (Inr (Some r), w')"
  obtains tid doc where "validate_task_id task_id = Inr tid" and "row_at w tid = Some r"
    and "generation_mismatch r g rid = Inr ''''" and "allow \<or> sor (dget r ''scope'') \<noteq> SCOPE_CASCADE"
    and "cw_file w' = FObject (projection (dpop tid (intents_of (cw_file w))))"
    and "(if truthy (dget r ''followup_stop'') then patch_document (retain_stop outcome r) tid (cw_store w)
          else (Inr [], cw_store w)) = (Inr doc, cw_store w')"
proof -
  obtain tid where tid: "validate_task_id task_id = Inr tid"
    using assms(1) by (cases "validate_task_id task_id") (simp_all add: settle_intent_def)
  obtain res st f where U: "update_json_locked (env_io env) True False
      (settle_mutate tid outcome g rid allow) (cw_store w) (cw_file w) = (res, st, f)" by (metis prod_cases3)
  obtain d where res: "res = Inr (d, Settled r)" and w': "cw_file w' = f" "cw_store w' = st"
    using assms tid U
    by (auto simp: settle_intent_def split_beta split: sum.splits exc.splits settle_outcome.splits if_splits)
  have "row_at w tid = Some r \<and> generation_mismatch r g rid = Inr ''''
      \<and> (allow \<or> sor (dget r ''scope'') \<noteq> SCOPE_CASCADE)
      \<and> f = FObject (projection (dpop tid (intents_of (cw_file w))))
      \<and> (\<exists>doc. (if truthy (dget r ''followup_stop'') then patch_document (retain_stop outcome r) tid (cw_store w)
          else (Inr [], cw_store w)) = (Inr doc, st))"
    using U
  proof (cases rule: update_json_locked_cases)
    case (written d' a)
    then show ?thesis using res load_intents_rows
      by (auto simp: settle_mutate_def row_at_dget split: sum.splits pyval.splits if_splits prod.splits)
  qed (use res in \<open>auto simp: settle_mutate_def
          split: sum.splits pyval.splits if_splits prod.splits\<close>)
  then show thesis using that tid w' by blast
qed

section \<open>Custody\<close>

lemma wf_row_generation: "wf_row t r \<Longrightarrow> \<exists>g. int_or0 (dget r ''generation'') = Inr g"
  by (auto simp: wf_row_def wf_claim_def dest!: int_whereD)

text \<open>C3: A superseded claimant cannot finish the cancellation.  After an attempt took the claim of an
  intent, and any operations that keep the intent active followed, and a second attempt took the
  claim over, neither a settle nor a release under the first attempt's generation changes the
  projection or the task results.\<close>

theorem superseded_claimant_is_fenced:
  assumes "claim_intent env1 owner1 task_id w = (Inr (Some r1), w1)" and "dget r1 ''claim_refused'' = PNone"
    and "int_or0 (dget r1 ''generation'') = Inr g1" and "has_request (PDict r1)"
    and "validate_task_id task_id = Inr tid" and "persists tid ops w1"
    and "claim_intent env2 owner2 task_id (exec_ops ops w1) = (Inr (Some r2), w2)"
    and "dget r2 ''claim_refused'' = PNone"
  shows "cw_file (snd (settle_intent env outcome detail (Some g1) rid allow task_id w2)) = cw_file w2
    \<and> cw_store (snd (settle_intent env outcome detail (Some g1) rid allow task_id w2)) = cw_store w2
    \<and> fst (settle_intent env outcome detail (Some g1) rid allow task_id w2) \<in> range Inl \<union> {Inr None}
    \<and> cw_file (snd (release_claim env err (Some g1) rid task_id w2)) = cw_file w2
    \<and> fst (release_claim env err (Some g1) rid task_id w2) \<noteq> Inr True"
proof -
  have "row_at w1 tid = Some r1"
    by (rule claim_intent_taken[OF assms(1,2)]) (use assms(5) in \<open>simp add: row_at_dget\<close>)
  then obtain q where q: "row_at (exec_ops ops w1) tid = Some q" "row_le r1 q"
    using persists_row_le assms(4,6) by blast
  obtain g where g: "int_or0 (dget q ''generation'') = Inr g" "r2 = claimed_row env2 owner2 g q"
    and w2: "row_at w2 tid = Some r2"
    by (rule claim_intent_taken[OF assms(7,8)]) (use assms(5) q(1) in \<open>simp add: row_at_dget\<close>)
  have "g1 \<le> g" using q(2) assms(3) g(1) by (auto simp: row_le_def)
  moreover have "int_or0 (dget r2 ''generation'') = Inr (g + 1)" using g(2) by (simp add: claimed_row_def)
  ultimately show ?thesis
    using stale_generation_fence[OF w2 assms(5), of "g + 1" g1] by auto
qed

text \<open>A claim that was granted is owned by exactly its claimant: the ownership re-check made
  before the terminal write succeeds for the process that holds the claim and fails for any other.\<close>

theorem granted_claim_is_owned:
  assumes "claim_intent env owner task_id w = (Inr (Some r), w')" and "dget r ''claim_refused'' = PNone"
    and "has_request (PDict r)"
  shows "claim_still_owned env' task_id (PDict r) w' \<longleftrightarrow> env_pid env = env_pid env'"
proof -
  obtain tid q g where tid: "validate_task_id task_id = Inr tid" and r: "r = claimed_row env owner g q"
    and f: "cw_file w' = FObject (projection (dset tid (PDict r) (intents_of (cw_file w))))"
    by (rule claim_intent_taken[OF assms(1,2)])
  have row: "dget (dict_rows (dset tid (PDict r) i)) tid = PDict r" for i
    by (induction i) (auto simp: dict_rows_def)
  have "active_intent env' False task_id w' = Inr (Some r)"
    unfolding active_intent_def active_intents_def
    by (simp add: tid f row[of "intents_of (cw_file w)"] projection_def load_intents_def)
  then have "claim_still_owned env' task_id (PDict r) w' =
      (dget r ''state'' = PStr INTENT_CLAIMED \<and> int_eq (int_or0 (dget r ''generation'')) (int_or0 (dget r ''generation''))
       \<and> int_eq (int_or0 (dget r ''claim_pid'')) (Inr (env_pid env')))"
    using assms(3) unfolding claim_still_owned_def has_request_def by simp
  moreover have "dget r ''state'' = PStr INTENT_CLAIMED" "dget r ''generation'' = PInt (g + 1)"
    "dget r ''claim_pid'' = PInt (env_pid env)"
    by (simp_all add: r claimed_row_def)
  ultimately show ?thesis by (simp add: int_eq_def)
qed

section \<open>Settlement\<close>

lemma row_at_projection: "cw_file w = FObject (projection i) \<Longrightarrow> row_at w t = (case dget i t of PDict r \<Rightarrow> Some r | _ \<Rightarrow> None)"
  by (simp add: row_at_def)

lemma retain_stop_patched:
  assumes "patch_document (retain_stop outcome r) tid st = (Inr doc, st')" and "outcome \<noteq> SETTLED_NOT_FOUND"
  shows "\<exists>doc. map_of (ts_docs st') tid = Some doc \<and> dget doc ''followup_stop'' = dget r ''followup_stop''"
  using assms
  by (auto simp: patch_document_def retain_stop_def Let_def update_conv split: if_splits option.splits sum.splits)

text \<open>A settle that succeeds returns the row that was active and removes exactly it: every other
  intent stays, and a recorded follow-up stop has been copied into the task result (unless the
  task has no result and the outcome is not_found).\<close>

theorem settle_removes_exactly_one_intent:
  assumes "settle_intent env outcome detail g rid allow task_id w = (Inr (Some r), w')"
    and "validate_task_id task_id = Inr tid"
  shows "row_at w tid = Some r \<and> row_at w' tid = None \<and> (\<forall>t. t \<noteq> tid \<longrightarrow> row_at w' t = row_at w t)
    \<and> (truthy (dget r ''followup_stop'') \<and> outcome \<noteq> SETTLED_NOT_FOUND \<longrightarrow>
        (\<exists>doc. map_of (ts_docs (cw_store w')) tid = Some doc \<and> dget doc ''followup_stop'' = dget r ''followup_stop''))"
proof -
  obtain doc where r: "row_at w tid = Some r"
    and f: "cw_file w' = FObject (projection (dpop tid (intents_of (cw_file w))))"
    and st: "(if truthy (dget r ''followup_stop'') then patch_document (retain_stop outcome r) tid (cw_store w)
          else (Inr [], cw_store w)) = (Inr doc, cw_store w')"
    by (rule settle_intent_done[OF assms(1)]) (use assms(2) in auto)
  have "\<exists>doc. map_of (ts_docs (cw_store w')) tid = Some doc \<and> dget doc ''followup_stop'' = dget r ''followup_stop''"
    if "truthy (dget r ''followup_stop'')" "outcome \<noteq> SETTLED_NOT_FOUND"
    using retain_stop_patched st that by auto
  moreover have "intents_of (cw_file w') = dpop tid (intents_of (cw_file w))" using f by simp
  ultimately show ?thesis using r by (simp add: row_at_def)
qed

lemma settle_mutate_cascade:
  assumes "dget i tid = PDict r" and "sor (dget r ''scope'') = SCOPE_CASCADE" and "load_intents True d = Inr i"
  shows "settle_mutate tid outcome g rid False d st \<in>
     (range Inl \<union> {Inr (None, CascadeDeferred r False),
        Inr (Some (projection (dset tid (PDict (reopened_row ''cascade settle deferred to postcondition'' r)) i)),
             CascadeDeferred r True)}) \<times> {st}"
  using assms by (auto simp: settle_mutate_def split: sum.split)

text \<open>C6: A cascade intent is settled by the cascade postcondition only: any other settle reports
  nothing settled, writes no task result, and leaves the same request active as a cascade.\<close>

theorem cascade_settles_only_by_postcondition:
  assumes "row_at w tid = Some r" and "sor (dget r ''scope'') = SCOPE_CASCADE"
    and "validate_task_id task_id = Inr tid"
  shows "fst (settle_intent env outcome detail g rid False task_id w) \<in> range Inl \<union> {Inr None}
    \<and> cw_store (snd (settle_intent env outcome detail g rid False task_id w)) = cw_store w
    \<and> (\<exists>r'. row_at (snd (settle_intent env outcome detail g rid False task_id w)) tid = Some r'
          \<and> dget r' ''request_id'' = dget r ''request_id'' \<and> sor (dget r' ''scope'') = SCOPE_CASCADE)"
proof -
  obtain res st f where U: "update_json_locked (env_io env) True False
      (settle_mutate tid outcome g rid False) (cw_store w) (cw_file w) = (res, st, f)" by (metis prod_cases3)
  have r: "dget (intents_of (cw_file w)) tid = PDict r" using assms(1) by (simp add: row_at_dget)
  have m: "settle_mutate tid outcome g rid False (object_of (cw_file w)) (cw_store w) \<in>
     (range Inl \<union> {Inr (None, CascadeDeferred r False),
        Inr (Some (projection (dset tid (PDict (reopened_row ''cascade settle deferred to postcondition'' r))
           (intents_of (cw_file w)))), CascadeDeferred r True)}) \<times> {cw_store w}"
  proof (cases "load_intents True (object_of (cw_file w))")
    case (Inl e)
    then show ?thesis by (simp add: settle_mutate_def)
  next
    case (Inr i)
    then show ?thesis using settle_mutate_cascade[of i tid r] r assms(2) load_intents_rows by metis
  qed
  let ?w' = "snd (settle_intent env outcome detail g rid False task_id w)"
  have eff: "fst (settle_intent env outcome detail g rid False task_id w) \<in> range Inl \<union> {Inr None}
    \<and> cw_store ?w' = st \<and> cw_file ?w' = f" if "\<forall>d q. res \<noteq> Inr (d, Settled q)"
    using U assms(3) that
    by (auto simp: settle_intent_def split_beta refuse_corrupt_def
        split: sum.splits exc.splits settle_outcome.splits)
  have st: "st = cw_store w \<and> (\<forall>d q. res \<noteq> Inr (d, Settled q))
      \<and> (f = cw_file w \<or> f = FObject (projection (dset tid (PDict (reopened_row
            ''cascade settle deferred to postcondition'' r)) (intents_of (cw_file w)))))"
    using U m by (cases "cw_file w") (auto simp: update_json_locked_def split: if_splits sum.splits option.splits prod.splits)
  then show ?thesis
    using eff r assms(2) by (auto simp: row_at_dget reopened_row_def)
qed

section \<open>Completion wins\<close>

lemma request_cancel_done:
  assumes "request_cancel env a task_id w = (Inr m, w')" and "validate_task_id task_id = Inr tid"
  obtains d out f where "update_json_locked (env_io env) True False
      (plain_mutator (request_cancel_mutate env a tid (cw_store w))) () (cw_file w) = (Inr (d, out), (), f)"
    and "cw_file w' = f"
    and "m = dmerge (dsetdefault ''already_settled'' (PBool False) (ro_minted out))
              (requested_task_fields tid (ro_target out))"
proof -
  obtain res u f where U: "update_json_locked (env_io env) True False
      (plain_mutator (request_cancel_mutate env a tid (cw_store w))) () (cw_file w) = (res, u, f)" by (metis prod_cases3)
  show thesis
    using assms U that
    by (auto simp: request_cancel_def split_beta request_cancel_forensics_def Let_def
        split: sum.splits exc.splits if_splits)
qed

lemma request_cancel_mutate_decides:
  assumes "request_cancel_mutate env a tid st d = Inr (o1, out)" and "load_intents True d = Inr i0"
    and "resolve_request_target st tid (strip (ca_scope a)) i0 = Inr (t, rk, i)" and "load_strict_or st t = Inr row"
  obtains stop where "fst stop = [] \<or> (\<exists>v. fst stop = [(''followup_stop'', v)])"
    and "\<not> malformed_row (dget i t)"
    and "request_decide env a t rk i (sor (dget (doc_or_empty row) ''status''))
           (map_option (observation_for t) (ca_observation a)) stop = (o1, out)"
proof -
  have at: "request_at_target env a st t rk i = Inr (o1, out)"
    using assms(1-3) by (simp add: request_cancel_mutate_def)
  then have ok: "\<not> malformed_row (dget i t)" by (auto simp: request_at_target_def Let_def)
  let ?n = "new_stop_fields (env_fresh_control env) (env_now env) (ca_source a)
      (previous_stop (the_dict (dget i t)) (doc_or_empty row)) (py_str (ca_stop_action_id a))
      [ca_source a, ca_requested_by a, strip (ca_scope a), strip (ca_stop_policy a)]"
  obtain stop where n: "?n = Inr stop"
    using at ok assms(4) by (cases ?n) (auto simp: request_at_target_def Let_def)
  show thesis
  proof (rule that[of stop])
    show "fst stop = [] \<or> (\<exists>v. fst stop = [(''followup_stop'', v)])"
      using new_stop_fields_shape[of _ _ _ _ _ _ "fst stop" "snd stop"] n by simp
    show "request_decide env a t rk i (sor (dget (doc_or_empty row) ''status''))
           (map_option (observation_for t) (ca_observation a)) stop = (o1, out)"
      using at ok assms(4) n by (simp add: request_at_target_def Let_def)
  qed (rule ok)
qed

lemma request_decide_settled:
  assumes t: "dget i t = PNone" and ts: "ts \<in> set settled_statuses" and a: "\<not> ca_allow_settled_target a"
    and sf: "fst stop = [] \<or> (\<exists>v. fst stop = [(''followup_stop'', v)])"
    and dec: "request_decide env a t rk i ts obs stop = (d, out)"
  shows "d = None \<and> truthy (dget (ro_minted out) ''already_settled'')"
proof -
  have ne: "ts \<noteq> ''''" using ts by (auto simp: settled_statuses_def)
  note keep = dget_dmerge_stop_fields(1)[OF sf]
  show ?thesis
  proof (cases "snd stop")
    case True
    then show ?thesis using dec by (auto simp: request_decide_def Let_def t ts ne keep)
  next
    case False
    then show ?thesis using dec by (auto simp: request_decide_def Let_def t ts ne a has_request_def)
  qed
qed

text \<open>C7: Natural completion wins over a late cancel: a request whose target already has a settled
  result and no active intent, made without proof of live ownership, records nothing in the
  projection and answers that the task is already settled.\<close>

theorem completion_wins_over_late_cancel:
  assumes "request_cancel env a task_id w = (Inr m, w')" and "validate_task_id task_id = Inr tid"
    and "resolve_request_target (cw_store w) tid (strip (ca_scope a)) (intents_of (cw_file w)) = Inr (target, rk, i)"
    and "dget i target = PNone"
    and "load_strict_or (cw_store w) target = Inr (Some doc)" and "sor (dget doc ''status'') \<in> set settled_statuses"
    and "\<not> ca_allow_settled_target a"
  shows "cw_file w' = cw_file w \<and> truthy (dget m ''already_settled'')"
proof -
  obtain d out f where U: "update_json_locked (env_io env) True False
      (plain_mutator (request_cancel_mutate env a tid (cw_store w))) () (cw_file w) = (Inr (d, out), (), f)"
    and w': "cw_file w' = f"
    and m: "m = dmerge (dsetdefault ''already_settled'' (PBool False) (ro_minted out))
              (requested_task_fields tid (ro_target out))"
    using assms(1,2) by (rule request_cancel_done)
  have "\<exists>o1. request_cancel_mutate env a tid (cw_store w) (object_of (cw_file w)) = Inr (o1, out)
      \<and> (o1 = None \<longrightarrow> f = cw_file w)"
    using U by (cases rule: update_json_locked_cases) (auto simp: plain_mutator_eq)
  then obtain o1 where o1: "request_cancel_mutate env a tid (cw_store w) (object_of (cw_file w)) = Inr (o1, out)"
    "o1 = None \<longrightarrow> f = cw_file w" by blast
  obtain i0 where i0: "load_intents True (object_of (cw_file w)) = Inr i0"
    using o1(1) by (cases "load_intents True (object_of (cw_file w))") (simp_all add: request_cancel_mutate_def)
  then have "resolve_request_target (cw_store w) tid (strip (ca_scope a)) i0 = Inr (target, rk, i)"
    using assms(3) load_intents_rows by simp
  from o1(1) i0 this assms(5) have "o1 = None \<and> truthy (dget (ro_minted out) ''already_settled'')"
    by (rule request_cancel_mutate_decides)
      (use request_decide_settled assms(4,6,7) in \<open>auto simp: doc_or_empty_def\<close>)
  then show ?thesis
    using o1(2) w' truthy_dict_nonempty
    by (auto simp: m dsetdefault_def requested_task_fields_def)
qed

section \<open>An accepted request is durable\<close>

lemma requested_fields_dget [simp]:
  "k \<noteq> ''requested_task_id'' \<Longrightarrow> dget (dmerge d (requested_task_fields tid t)) k = dget d k"
  by (simp add: requested_task_fields_def)

lemma request_decide_records:
  assumes dec: "request_decide env a t rk i ts obs stop = (d, out)"
    and sf: "fst stop = [] \<or> (\<exists>v. fst stop = [(''followup_stop'', v)])"
    and "\<not> truthy (dget (ro_minted out) ''already_settled'')"
    and "\<not> truthy (dget (ro_minted out) ''stop_action_replayed'')"
    and wf: "\<And>r. dget i t = PDict r \<Longrightarrow> distinct (map fst r)"
  shows "\<exists>r. has_request (PDict r) \<and> dget r ''request_id'' = dget (ro_minted out) ''request_id''
     \<and> (d = Some (projection (dset t (PDict r) i)) \<or> (d = None \<and> \<not> rk \<and> dget i t = PDict r))"
proof -
  have nr: "\<not> snd stop" using assms by (auto simp: request_decide_def Let_def)
  show ?thesis
  proof (cases "has_request (dget i t)")
    case True
    define r where "r = the_dict (dget i t)"
    have r: "dget i t = PDict r" using True has_request_is_dict by (auto simp: r_def)
    define u where "u = repeated_request_row (env_now env) rk t (strip (ca_scope a)) (strip (ca_stop_policy a)) (fst stop) r"
    have d: "distinct (map fst u)" using wf[OF r] by (simp add: u_def)
    have uk: "dget u ''request_id'' = dget r ''request_id''" 
      using repeated_request_row_dget[OF sf] by (simp add: u_def)
    have hu: "has_request (PDict u)" "dhas u ''request_id''"
      using True uk r truthy_dict_nonempty[of u "''request_id''"] by (auto simp: has_request_def)
    show ?thesis
    proof (cases "rk \<or> fst stop \<noteq> [] \<or> (strip (ca_scope a) = SCOPE_CASCADE \<and> sor (dget r ''scope'') \<noteq> SCOPE_CASCADE)
                   \<or> hardens (strip (ca_stop_policy a)) r")
      case ch: True
      have "d = Some (projection (dset t (PDict u) i))"
        "ro_minted out = dmerge (dset ''already_requested'' (PBool True) r) u"
        using dec nr True ch unfolding request_decide_def Let_def u_def r by auto
      then show ?thesis using hu d uk by (auto simp: dget_dmerge_distinct)
    next
      case ch: False
      then have "d = None" "ro_minted out = dset ''already_requested'' (PBool True) r"
        using dec nr True ch unfolding request_decide_def Let_def r by auto
      then show ?thesis using ch r True by auto
    qed
  next
    case False
    define fr where "fr = fresh_intent_row env a (join '' '' (split_ws (ca_reason a))) (strip (ca_scope a))
      (strip (ca_stop_policy a)) t (fst stop) obs"
    have fr: "dget fr ''request_id'' = PStr (''ci_'' @ env_fresh_request env)"
      using dget_dmerge_stop_fields(1)[OF sf]
      by (cases obs) (simp_all add: fr_def fresh_intent_row_eq fresh_base_def Let_def)
    have "d = Some (projection (dset t (PDict fr) i)) \<and> ro_minted out = dset ''already_requested'' (PBool False) fr"
      using dec nr False assms(3) unfolding request_decide_def Let_def fr_def by (auto split: if_splits)
    then show ?thesis using fr by (intro exI[of _ fr]) (simp add: has_request_def)
  qed
qed

text \<open>C8: A request that is accepted is durable: unless it reports that the task was already settled
  or that a stop action was replayed, the projection it leaves holds an active intent with exactly
  the returned request id.\<close>

theorem accepted_request_is_durable:
  assumes "request_cancel env a task_id w = (Inr m, w')" and "wf_projection (cw_file w)"
    and "\<not> truthy (dget m ''already_settled'')" and "\<not> truthy (dget m ''stop_action_replayed'')"
  shows "\<exists>t r. row_at w' t = Some r \<and> has_request (PDict r) \<and> dget r ''request_id'' = dget m ''request_id''"
proof -
  obtain tid where tid: "validate_task_id task_id = Inr tid"
    using assms(1) by (cases "validate_task_id task_id") (simp_all add: request_cancel_def)
  obtain d out f where U: "update_json_locked (env_io env) True False
      (plain_mutator (request_cancel_mutate env a tid (cw_store w))) () (cw_file w) = (Inr (d, out), (), f)"
    and w': "cw_file w' = f"
    and m: "m = dmerge (dsetdefault ''already_settled'' (PBool False) (ro_minted out))
              (requested_task_fields tid (ro_target out))"
    using assms(1) tid by (rule request_cancel_done)
  have minted: "\<not> truthy (dget (ro_minted out) ''already_settled'')"
    "\<not> truthy (dget (ro_minted out) ''stop_action_replayed'')"
    "dget m ''request_id'' = dget (ro_minted out) ''request_id''"
    using assms(3,4) truthy_dict_nonempty by (auto simp: m dsetdefault_def split: if_splits)
  obtain o1 where o1: "request_cancel_mutate env a tid (cw_store w) (object_of (cw_file w)) = Inr (o1, out)"
    "(case o1 of None \<Rightarrow> f = cw_file w | Some d \<Rightarrow> f = FObject d)"
    using U by (cases rule: update_json_locked_cases) (auto simp: plain_mutator_eq)
  obtain i0 t rk i row where i0: "load_intents True (object_of (cw_file w)) = Inr i0"
    and res: "resolve_request_target (cw_store w) tid (strip (ca_scope a)) i0 = Inr (t, rk, i)"
    and row: "load_strict_or (cw_store w) t = Inr row"
    using o1(1) by (auto simp: request_cancel_mutate_def request_at_target_def Let_def
        split: sum.splits prod.splits if_splits)
  have wf: "wf_intents i0" using assms(2) load_intents_rows[OF i0] i0
    by (auto simp: wf_projection_def intents_of_def wf_intents_def)
  have wi: "distinct (map fst r)" if "dget i t = PDict r" for r
    using res
  proof (cases rule: resolve_request_target_cases)
    case plain
    then show ?thesis using wf_intents_row[OF wf] that by (auto simp: wf_row_def)
  next
    case (rekeyed leaf q)
    then show ?thesis using wf_intents_row[OF wf] that by (auto simp: wf_row_def)
  qed
  obtain r where r: "has_request (PDict r)" "dget r ''request_id'' = dget (ro_minted out) ''request_id''"
    "o1 = Some (projection (dset t (PDict r) i)) \<or> (o1 = None \<and> \<not> rk \<and> dget i t = PDict r)"
    using o1(1) i0 res row
  proof (rule request_cancel_mutate_decides)
    fix stop
    assume "fst stop = [] \<or> (\<exists>v. fst stop = [(''followup_stop'', v)])" and "request_decide env a t rk i
        (sor (dget (doc_or_empty row) ''status'')) (map_option (observation_for t) (ca_observation a)) stop = (o1, out)"
    then show thesis using request_decide_records minted(1,2) wi that by blast
  qed
  have "row_at w' t = Some r"
    using r(3)
  proof
    assume "o1 = None \<and> \<not> rk \<and> dget i t = PDict r"
    then have "i = i0" "f = cw_file w" "dget i t = PDict r"
      using res o1(2) by (auto elim: resolve_request_target_cases)
    then show ?thesis using load_intents_rows[OF i0] w' by (simp add: row_at_dget)
  qed (use o1(2) w' in \<open>simp add: row_at_dget\<close>)
  then show ?thesis using r minted(3) by metis
qed

section \<open>The lineage walk\<close>

text \<open>One reciprocal hop, and the end of a chain.\<close>

definition lineage_hop :: "task_store \<Rightarrow> string \<Rightarrow> string \<Rightarrow> string \<Rightarrow> bool" where
  "lineage_hop st logical current_id successor_id = (case (load_strict_or st current_id, load_strict_or st successor_id) of
     (Inr row, Inr (Some successor)) \<Rightarrow>
        strip (sor (dget (doc_or_empty row) ''superseded_by'')) = strip (sor (dget (doc_or_empty row) ''retry_task_id''))
        \<and> validate_task_id (PStr (strip (sor (dget (doc_or_empty row) ''superseded_by'')))) = Inr successor_id
        \<and> retry_successor_ok logical current_id successor_id successor
   | _ \<Rightarrow> False)"

definition lineage_leaf :: "task_store \<Rightarrow> string \<Rightarrow> bool" where
  "lineage_leaf st leaf = (case load_strict_or st leaf of
     Inr row \<Rightarrow> strip (sor (dget (doc_or_empty row) ''superseded_by'')) = ''''
        \<and> strip (sor (dget (doc_or_empty row) ''retry_task_id'')) \<in> {'''', leaf}
   | Inl _ \<Rightarrow> False)"

lemma lineage_walk_path:
  "lineage_walk st task_id n logical seen cur = Inr leaf \<Longrightarrow> cur \<in> set seen \<Longrightarrow>
   \<exists>path lg. hd path = cur \<and> last path = leaf \<and> path \<noteq> [] \<and> length path \<le> n \<and> distinct path
     \<and> set (tl path) \<inter> set seen = {} \<and> successively (lineage_hop st lg) path
     \<and> lineage_leaf st leaf \<and> (logical \<noteq> None \<longrightarrow> logical = Some lg)"
proof (induction n arbitrary: logical seen cur)
  case (Suc left)
  obtain row where row: "load_strict_or st cur = Inr row"
    using Suc.prems(1) by (cases "load_strict_or st cur") simp_all
  define sup where "sup = strip (sor (dget (doc_or_empty row) ''superseded_by''))"
  define rt where "rt = strip (sor (dget (doc_or_empty row) ''retry_task_id''))"
  define lg where "lg = (case logical of Some l \<Rightarrow> l
               | None \<Rightarrow> (if truthy (dget (doc_or_empty row) ''root_task_id'')
                         then py_str (dget (doc_or_empty row) ''root_task_id'') else cur))"
  note body = Suc.prems(1)[unfolded lineage_walk.simps row sum.case Let_def, folded sup_def rt_def lg_def]
  show ?case
  proof (cases "sup = '''' \<and> (rt = cur \<or> rt = '''')")
    case True
    then have "leaf = cur" using body by (auto split: if_splits)
    moreover have "lineage_leaf st cur" using True row by (auto simp: lineage_leaf_def sup_def rt_def)
    ultimately show ?thesis
      by (intro exI[of _ "[cur]"] exI[of _ lg]) (auto simp: lg_def split: option.splits)
  next
    case False
    then have sr: "sup \<noteq> ''''" "sup = rt" using body by (auto split: if_splits)
    obtain nxt where nxt: "validate_task_id (PStr sup) = Inr nxt"
      using body sr by (cases "validate_task_id (PStr sup)") (auto split: if_splits)
    have new: "nxt \<notin> set seen" "left \<noteq> 0" using body sr nxt by (auto split: if_splits)
    obtain succ where succ: "load_strict_or st nxt = Inr (Some succ)" and ok: "retry_successor_ok lg cur nxt succ"
      and walk: "lineage_walk st task_id left (Some lg) (nxt # seen) nxt = Inr leaf"
      using body sr nxt new by (auto split: if_splits sum.splits option.splits)
    have hop: "lineage_hop st lg cur nxt"
      using row succ ok nxt sr by (simp add: lineage_hop_def sup_def rt_def)
    obtain path lg' where p: "hd path = nxt" "last path = leaf" "path \<noteq> []" "length path \<le> left" "distinct path"
      "set (tl path) \<inter> set (nxt # seen) = {}" "successively (lineage_hop st lg') path" "lineage_leaf st leaf" "lg' = lg"
      using Suc.IH[OF walk] by auto
    have "cur \<notin> set path" using p(1,3,6) new(1) Suc.prems(2) by (cases path) auto
    then show ?thesis
      using p new(1) hop by (intro exI[of _ "cur # path"] exI[of _ lg])
        (cases path; auto simp: lg_def split: option.splits)
  qed
qed simp

text \<open>The cancel target of a historical task id is the end of a reciprocal retry chain: when
  the walk answers, there is a path of at most 33 distinct ids from the validated id to the answer,
  each hop names its successor twice and is named back by it under one logical root, and the last
  id has no other successor.\<close>

theorem cancel_target_ends_a_reciprocal_chain:
  assumes "validated_single_cancel_target st task_id = Inr leaf"
  shows "\<exists>tid path lg. validate_task_id (PStr task_id) = Inr tid \<and> hd path = tid \<and> last path = leaf
     \<and> path \<noteq> [] \<and> length path \<le> 33 \<and> distinct path \<and> successively (lineage_hop st lg) path
     \<and> lineage_leaf st leaf"
proof -
  obtain tid where tid: "validate_task_id (PStr task_id) = Inr tid"
    and walk: "lineage_walk st task_id 33 None [tid] tid = Inr leaf"
    using assms by (auto simp: validated_single_cancel_target_def RETRY_LINEAGE_MAX_HOPS_def split: sum.splits)
  show ?thesis using lineage_walk_path[OF walk] tid by (metis list.set_intros(1))
qed

section \<open>Stop receipts\<close>

lemma dset_not_Nil [simp]: "dset k v d \<noteq> []"
  by (cases d) (auto simp: dset_def)

lemma new_stop_fields_recorded:
  assumes "new_stop_fields fresh now source previous action binding = Inr (stop, False)"
    and "action \<noteq> ''''" and "source \<in> set stop_sources"
  obtains prior receipts where "stop = [(''followup_stop'', PDict prior)]"
    and "dget prior ''action_receipts'' = PDict receipts" and "prior \<noteq> []"
    and "dget receipts (sha256_text action) = PStr (sha256_text (json_string_list binding))"
    and "dhas receipts (sha256_text action)"
proof -
  define held where "held = dget (the_dict previous) ''action_receipts''"
  have 1: "\<not> (truthy previous \<and> \<not> is_dict previous)"
  proof
    assume "truthy previous \<and> \<not> is_dict previous"
    then show False using assms by (simp add: new_stop_fields_def)
  qed
  have 2: "\<not> (truthy held \<and> \<not> is_dict held)"
  proof
    assume "truthy held \<and> \<not> is_dict held"
    then show False using assms 1 by (simp add: new_stop_fields_def held_def Let_def)
  qed
  note * = 1 2
  have new: "\<not> dhas (the_dict held) (sha256_text action)"
  proof
    assume "dhas (the_dict held) (sha256_text action)"
    then show False using assms * by (simp add: new_stop_fields_def held_def[symmetric] Let_def split: if_splits)
  qed
  have "stop = [(''followup_stop'', PDict ([(''control_id'', PStr fresh), (''source'', PStr source), (''requested_at'', PStr now),
      (''action_receipts'', PDict (dset (sha256_text action) (PStr (sha256_text (json_string_list binding))) (the_dict held)))]))]"
    using assms * new by (simp add: new_stop_fields_def Let_def held_def[symmetric])
  then show thesis by (rule that) (simp, simp, simp, simp)
qed

text \<open>A stop action is recorded once: repeating an accepted action id with the same arguments
  returns the control already recorded, with its identity unchanged, and repeating it with
  arguments of another digest is refused.\<close>

theorem stop_action_replay:
  assumes "new_stop_fields fresh now source previous action binding = Inr (stop, False)"
    and "action \<noteq> ''''" and "source \<in> set stop_sources" and "source' \<in> set stop_sources"
  shows "new_stop_fields fresh' now' source' (dget stop ''followup_stop'') action binding' =
     (if sha256_text (json_string_list binding') = sha256_text (json_string_list binding)
      then Inr (stop, True)
      else Inl (StopActionConflict ''stop_action_id reused with a different action''))"
proof -
  obtain prior receipts where p: "stop = [(''followup_stop'', PDict prior)]"
    "dget prior ''action_receipts'' = PDict receipts" "prior \<noteq> []"
    "dget receipts (sha256_text action) = PStr (sha256_text (json_string_list binding))"
    "dhas receipts (sha256_text action)"
    by (rule new_stop_fields_recorded[OF assms(1-3)])
  show ?thesis
    using assms(2,4) p(2-5) by (simp add: new_stop_fields_def Let_def p(1))
qed

end
