(* ===== verification/Cancel_Witnesses.thy ===== *)
theory Cancel_Witnesses
  imports Cancel_Props
begin

text \<open>Concrete runs that satisfy the hypotheses of the cancel properties.\<close>

definition sample_env :: cancel_env where
  "sample_env = \<lparr>env_root = ''/data'', env_now = ''2026-08-11T10:00:00+00:00'',
     env_now_us = 1786442400000000, env_pid = 41, env_alive = (\<lambda>p. Some (p = 41 \<or> p = 43)),
     env_fresh_request = ''a1'', env_fresh_control = ''b1'', env_io = IoOk\<rparr>"

definition other_env :: cancel_env where
  "other_env = sample_env\<lparr>env_pid := 43, env_alive := (\<lambda>p. Some (p = 43)), env_fresh_request := ''a2''\<rparr>"

definition sample_args :: cancel_args where
  "sample_args = \<lparr>ca_reason = ''wrap  up'', ca_source = ''http_single'', ca_requested_by = ''host'',
     ca_scope = '''', ca_allow_settled_target = False, ca_stop_policy = STOP_POLICY_FINALIZE,
     ca_observation = None, ca_stop_action_id = PStr ''''\<rparr>"

definition sample_store :: task_store where
  "sample_store = \<lparr>ts_docs = [(''t1'', [(''task_id'', PStr ''t1''), (''status'', PStr ''running'')]),
       (''t2'', [(''task_id'', PStr ''t2''), (''status'', PStr ''completed'')])],
     ts_occupied = [], ts_busy = False\<rparr>"

definition requested_world :: cancel_world where
  "requested_world = snd (request_cancel sample_env sample_args (PStr ''t1'') (fresh_world sample_store))"

definition requested_row :: pydict where
  "requested_row = the (row_at requested_world ''t1'')"

definition claimed_world :: cancel_world where
  "claimed_world = snd (claim_intent sample_env ''custody'' (PStr ''t1'') requested_world)"

definition first_claim :: pydict where
  "first_claim = the (row_at claimed_world ''t1'')"

definition hardening_ops :: "cancel_op list" where
  "hardening_ops = [OpScope sample_env SCOPE_CASCADE (PStr ''t1''),
     OpRequest sample_env (sample_args\<lparr>ca_stop_policy := STOP_POLICY_IMMEDIATE\<rparr>) (PStr ''t1'')]"

theorem cancel_intent_monotone_witness:
  "\<exists>r'. row_at (exec_ops hardening_ops requested_world) ''t1'' = Some r' \<and> row_le requested_row r'"
proof (rule cancel_intent_monotone)
  show "row_at requested_world ''t1'' = Some requested_row" by code_simp
  show "has_request (PDict requested_row)" by code_simp
  show "persists ''t1'' hardening_ops requested_world" by code_simp
qed

theorem only_settle_retires_a_request_witness:
  "set (active_request_ids (exec_ops [OpRequest sample_env sample_args (PStr ''t1'')] (fresh_world sample_store)))
    \<subseteq> set (active_request_ids (exec_ops ([OpRequest sample_env sample_args (PStr ''t1'')] @ hardening_ops)
         (fresh_world sample_store)))
   \<and> active_request_ids requested_world \<noteq> []"
proof
  show "active_request_ids requested_world \<noteq> []" by code_simp
qed (rule only_settle_retires_a_request, simp add: hardening_ops_def)

theorem live_claim_never_stolen_witness:
  "cw_file (snd (claim_intent sample_env ''watchdog'' (PStr ''t1'') claimed_world)) = cw_file claimed_world
    \<and> fst (claim_intent sample_env ''watchdog'' (PStr ''t1'') claimed_world) \<in>
        range Inl \<union> {Inr (Some (dset ''claim_refused'' (PBool True) first_claim))}"
proof (rule live_claim_never_stolen)
  show "row_at claimed_world ''t1'' = Some first_claim" by code_simp
  show "validate_task_id (PStr ''t1'') = Inr ''t1''" by code_simp
  show "dget first_claim ''state'' = PStr INTENT_CLAIMED" by code_simp
  show "int_or0 (dget first_claim ''claim_pid'') = Inr 41" by code_simp
  show "env_alive sample_env 41 = Some True" by (simp add: sample_env_def)
qed simp

definition takeover_world :: cancel_world where
  "takeover_world = snd (claim_intent other_env ''watchdog'' (PStr ''t1'') claimed_world)"

definition second_claim :: pydict where
  "second_claim = the (row_at takeover_world ''t1'')"

theorem superseded_claimant_is_fenced_witness:
  "cw_file (snd (settle_intent sample_env ''cancelled'' '''' (Some 1) '''' True (PStr ''t1'') takeover_world)) = cw_file takeover_world
    \<and> cw_store (snd (settle_intent sample_env ''cancelled'' '''' (Some 1) '''' True (PStr ''t1'') takeover_world)) = cw_store takeover_world
    \<and> fst (settle_intent sample_env ''cancelled'' '''' (Some 1) '''' True (PStr ''t1'') takeover_world) \<in> range Inl \<union> {Inr None}
    \<and> cw_file (snd (release_claim sample_env '''' (Some 1) '''' (PStr ''t1'') takeover_world)) = cw_file takeover_world
    \<and> fst (release_claim sample_env '''' (Some 1) '''' (PStr ''t1'') takeover_world) \<noteq> Inr True"
proof (rule superseded_claimant_is_fenced)
  show "claim_intent sample_env ''custody'' (PStr ''t1'') requested_world = (Inr (Some first_claim), claimed_world)"
    unfolding first_claim_def claimed_world_def by code_simp
  show "dget first_claim ''claim_refused'' = PNone" by code_simp
  show "int_or0 (dget first_claim ''generation'') = Inr 1" by code_simp
  show "has_request (PDict first_claim)" by code_simp
  show "validate_task_id (PStr ''t1'') = Inr ''t1''" by code_simp
  show "persists ''t1'' [] claimed_world" by simp
  show "claim_intent other_env ''watchdog'' (PStr ''t1'') (exec_ops [] claimed_world) = (Inr (Some second_claim), takeover_world)"
    unfolding second_claim_def takeover_world_def by code_simp
  show "dget second_claim ''claim_refused'' = PNone" by code_simp
qed

theorem granted_claim_is_owned_witness:
  "claim_still_owned sample_env (PStr ''t1'') (PDict first_claim) claimed_world \<longleftrightarrow> env_pid sample_env = env_pid sample_env"
proof (rule granted_claim_is_owned)
  show "claim_intent sample_env ''custody'' (PStr ''t1'') requested_world = (Inr (Some first_claim), claimed_world)"
    unfolding first_claim_def claimed_world_def by code_simp
  show "dget first_claim ''claim_refused'' = PNone" by code_simp
  show "has_request (PDict first_claim)" by code_simp
qed

definition settled_world :: cancel_world where
  "settled_world = snd (settle_intent sample_env ''cancelled'' '''' (Some 1) ''ci_a1'' False (PStr ''t1'') claimed_world)"

theorem settle_removes_exactly_one_intent_witness:
  "row_at claimed_world ''t1'' = Some first_claim \<and> row_at settled_world ''t1'' = None
    \<and> (\<exists>doc. map_of (ts_docs (cw_store settled_world)) ''t1'' = Some doc
         \<and> dget doc ''followup_stop'' = dget first_claim ''followup_stop'')"
proof -
  have "settle_intent sample_env ''cancelled'' '''' (Some 1) ''ci_a1'' False (PStr ''t1'') claimed_world
      = (Inr (Some first_claim), settled_world)"
    unfolding first_claim_def settled_world_def by code_simp
  moreover have "validate_task_id (PStr ''t1'') = Inr ''t1''" by code_simp
  moreover have "truthy (dget first_claim ''followup_stop'')" by code_simp
  ultimately show ?thesis using settle_removes_exactly_one_intent by fastforce
qed

definition cascade_world :: cancel_world where
  "cascade_world = snd (mark_intent_scope sample_env SCOPE_CASCADE (PStr ''t1'') claimed_world)"

definition cascade_row :: pydict where
  "cascade_row = the (row_at cascade_world ''t1'')"

theorem cascade_settles_only_by_postcondition_witness:
  "fst (settle_intent sample_env ''cancelled'' '''' (Some 1) '''' False (PStr ''t1'') cascade_world) \<in> range Inl \<union> {Inr None}
    \<and> cw_store (snd (settle_intent sample_env ''cancelled'' '''' (Some 1) '''' False (PStr ''t1'') cascade_world)) = cw_store cascade_world
    \<and> (\<exists>r'. row_at (snd (settle_intent sample_env ''cancelled'' '''' (Some 1) '''' False (PStr ''t1'') cascade_world)) ''t1'' = Some r'
          \<and> dget r' ''request_id'' = dget cascade_row ''request_id'' \<and> sor (dget r' ''scope'') = SCOPE_CASCADE)"
proof (rule cascade_settles_only_by_postcondition)
  show "row_at cascade_world ''t1'' = Some cascade_row" by code_simp
  show "sor (dget cascade_row ''scope'') = SCOPE_CASCADE" by code_simp
  show "validate_task_id (PStr ''t1'') = Inr ''t1''" by code_simp
qed

definition late_request :: "(exc + pydict) \<times> cancel_world" where
  "late_request = request_cancel sample_env sample_args (PStr ''t2'') requested_world"

theorem completion_wins_over_late_cancel_witness:
  "cw_file (snd late_request) = cw_file requested_world \<and> truthy (dget (projr (fst late_request)) ''already_settled'')"
proof (rule completion_wins_over_late_cancel)
  show "request_cancel sample_env sample_args (PStr ''t2'') requested_world = (Inr (projr (fst late_request)), snd late_request)"
    unfolding late_request_def by code_simp
  show "validate_task_id (PStr ''t2'') = Inr ''t2''" by code_simp
  show "resolve_request_target (cw_store requested_world) ''t2'' (strip (ca_scope sample_args)) (intents_of (cw_file requested_world))
      = Inr (''t2'', False, intents_of (cw_file requested_world))" by code_simp
  show "dget (intents_of (cw_file requested_world)) ''t2'' = PNone" by code_simp
  show "load_strict_or (cw_store requested_world) ''t2''
      = Inr (Some [(''task_id'', PStr ''t2''), (''status'', PStr ''completed'')])" by code_simp
  show "sor (dget [(''task_id'', PStr ''t2''), (''status'', PStr ''completed'')] ''status'') \<in> set settled_statuses"
    by code_simp
  show "\<not> ca_allow_settled_target sample_args" by code_simp
qed

theorem accepted_request_is_durable_witness:
  "\<exists>t r. row_at requested_world t = Some r \<and> has_request (PDict r)
     \<and> dget r ''request_id'' = dget (projr (fst (request_cancel sample_env sample_args (PStr ''t1'') (fresh_world sample_store)))) ''request_id''"
proof (rule accepted_request_is_durable)
  show "request_cancel sample_env sample_args (PStr ''t1'') (fresh_world sample_store)
      = (Inr (projr (fst (request_cancel sample_env sample_args (PStr ''t1'') (fresh_world sample_store)))), requested_world)"
    unfolding requested_world_def by code_simp
  show "wf_projection (cw_file (fresh_world sample_store))" by code_simp
  show "\<not> truthy (dget (projr (fst (request_cancel sample_env sample_args (PStr ''t1'') (fresh_world sample_store)))) ''already_settled'')"
    by code_simp
  show "\<not> truthy (dget (projr (fst (request_cancel sample_env sample_args (PStr ''t1'') (fresh_world sample_store)))) ''stop_action_replayed'')"
    by code_simp
qed

definition retry_store :: task_store where
  "retry_store = \<lparr>ts_docs =
     [(''r1'', [(''task_id'', PStr ''r1''), (''status'', PStr ''failed''), (''superseded_by'', PStr ''r2''),
                (''retry_task_id'', PStr ''r2'')]),
      (''r2'', [(''task_id'', PStr ''r2''), (''status'', PStr ''running''), (''supersedes_task_id'', PStr ''r1''),
                (''original_task_id'', PStr ''r1''), (''timeout_retry_from'', PStr ''r1''),
                (''root_task_id'', PStr ''r1''), (''delegation_role'', PStr ''root'')])],
     ts_occupied = [], ts_busy = False\<rparr>"

theorem cancel_target_ends_a_reciprocal_chain_witness:
  "\<exists>tid path lg. validate_task_id (PStr ''r1'') = Inr tid \<and> hd path = tid \<and> last path = ''r2''
     \<and> path \<noteq> [] \<and> length path \<le> 33 \<and> distinct path \<and> successively (lineage_hop retry_store lg) path
     \<and> lineage_leaf retry_store ''r2''"
  by (rule cancel_target_ends_a_reciprocal_chain) code_simp

theorem stop_action_replay_witness:
  "new_stop_fields ''f2'' ''later'' ''http_single'' (PDict [(''control_id'', PStr ''f1''), (''source'', PStr ''owner''),
       (''requested_at'', PStr ''now''), (''action_receipts'', PDict [(sha256_text ''act'', PStr (sha256_text (json_string_list [''owner''])))])])
     ''act'' [''http_single''] =
     (if sha256_text (json_string_list [''http_single'']) = sha256_text (json_string_list [''owner''])
      then Inr ([(''followup_stop'', PDict [(''control_id'', PStr ''f1''), (''source'', PStr ''owner''),
       (''requested_at'', PStr ''now''), (''action_receipts'', PDict [(sha256_text ''act'', PStr (sha256_text (json_string_list [''owner''])))])])], True)
      else Inl (StopActionConflict ''stop_action_id reused with a different action''))"
proof -
  have "new_stop_fields ''f1'' ''now'' ''owner'' PNone ''act'' [''owner''] =
     Inr ([(''followup_stop'', PDict [(''control_id'', PStr ''f1''), (''source'', PStr ''owner''),
       (''requested_at'', PStr ''now''), (''action_receipts'', PDict [(sha256_text ''act'', PStr (sha256_text (json_string_list [''owner''])))])])], False)"
    by (simp add: new_stop_fields_def stop_sources_def Let_def)
  from stop_action_replay[OF this, of "''http_single''" "''f2''" "''later''" "[''http_single'']"]
  show ?thesis by (simp add: stop_sources_def)
qed

end
