(* ===== verification/Review_Records.thy ===== *)
theory Review_Records
  imports Py_Hash Py_Time
begin

text \<open>
  The record types of the review ledger and the pure rules that shape them
  (\<open>ouroboros/review_state_records.py\<close>): obligations, readiness debts, advisory runs and commit
  attempts; the repository scope filter; fingerprints; the allocation of public ids; the identity
  of an attempt; the small text and timestamp helpers.  Durations are integer microseconds.
\<close>

abbreviation "LEGACY_CURRENT_REPO_KEY \<equiv> ''__legacy_current_repo__''"
abbreviation "DEFAULT_TOOL_NAME \<equiv> ''commit_reviewed''"

definition MAX_ATTEMPT_HISTORY :: nat where
  "MAX_ATTEMPT_HISTORY = 50"

definition MAX_COMMIT_READINESS_DEBTS :: nat where
  "MAX_COMMIT_READINESS_DEBTS = 50"

definition REVIEW_ATTEMPT_TTL_SEC :: int where
  "REVIEW_ATTEMPT_TTL_SEC = 1800"

definition REVIEW_ATTEMPT_GRACE_SEC :: int where
  "REVIEW_ATTEMPT_GRACE_SEC = 120"

definition open_debt_statuses :: "string list" where
  "open_debt_statuses = [''detected'', ''queued'', ''reopened'']"

section \<open>Records\<close>

record obligation_item =
  ob_id :: string
  ob_item :: string
  ob_severity :: string
  ob_reason :: string
  ob_source_attempt_ts :: string
  ob_source_attempt_msg :: string
  ob_status :: string
  ob_resolved_by :: string
  ob_repo_key :: string
  ob_fingerprint :: string
  ob_created_ts :: string
  ob_updated_ts :: string

record debt_item =
  de_id :: string
  de_category :: string
  de_summary :: string
  de_severity :: string
  de_status :: string
  de_repo_key :: string
  de_fingerprint :: string
  de_title :: string
  de_source :: string
  de_source_obligation_ids :: "string list"
  de_evidence :: "string list"
  de_first_seen_at :: string
  de_last_seen_at :: string
  de_updated_at :: string
  de_verified_at :: string
  de_occurrence_count :: int
  de_consecutive_observations :: int

record advisory_run =
  ru_snapshot_hash :: string
  ru_commit_message :: string
  ru_status :: string
  ru_ts :: string
  ru_items :: "pyval list"
  ru_snapshot_summary :: string
  ru_raw_result :: string
  ru_reason_kind :: string
  ru_review_rebuttal :: string
  ru_execution :: pydict
  ru_bypass_reason :: string
  ru_bypassed_by_task :: string
  ru_snapshot_paths :: "string list option"
  ru_repo_key :: string
  ru_tool_name :: string
  ru_task_id :: string
  ru_attempt :: int
  ru_phase :: string
  ru_created_ts :: string
  ru_updated_ts :: string
  ru_readiness_warnings :: "string list"
  ru_prompt_chars :: int
  ru_model_used :: string
  ru_session_id :: string
  ru_duration_us :: int

record commit_attempt =
  at_ts :: string
  at_commit_message :: string
  at_status :: string
  at_snapshot_hash :: string
  at_block_reason :: string
  at_block_details :: string
  at_duration_us :: int
  at_task_id :: string
  at_critical_findings :: "pyval list"
  at_repo_key :: string
  at_tool_name :: string
  at_attempt :: int
  at_phase :: string
  at_blocked :: bool
  at_advisory_findings :: "pyval list"
  at_obligation_ids :: "string list"
  at_readiness_warnings :: "string list"
  at_late_result_pending :: bool
  at_pre_review_fingerprint :: string
  at_post_review_fingerprint :: string
  at_fingerprint_status :: string
  at_degraded_reasons :: "string list"
  at_started_ts :: string
  at_updated_ts :: string
  at_finished_ts :: string
  at_triad_models :: "string list"
  at_scope_model :: string
  at_triad_raw_results :: "pyval list"
  at_scope_raw_result :: pydict
  at_block_class :: string
  at_rebuttal_sha256 :: string
  at_paid :: bool
  at_review_contract_fingerprint :: string
  at_review_retry_key :: string
  at_root_task_id :: string
  at_review_budget_repo_key :: string
  at_review_owner_session_id :: string
  at_review_owner_pid :: int
  at_raw_stripped :: bool
  at_author_disposition :: pydict
  at_review_record_id :: string
  at_review_input :: pydict

definition run_execution_pending :: "advisory_run \<Rightarrow> bool" where
  "run_execution_pending run = (ru_status run = ''pending''
     \<or> truthy (dget (ru_execution run) ''pending_invocation_id'')
     \<or> dget (ru_execution run) ''operation_state'' \<in> {PStr ''in_flight'', PStr ''custody_lost''})"

definition run_blocks_preflight :: "advisory_run \<Rightarrow> bool" where
  "run_blocks_preflight run = (run_execution_pending run \<and> ru_bypass_reason run = '''')"

section \<open>Text, fingerprints and timestamps\<close>

definition str_or :: "string \<Rightarrow> string \<Rightarrow> string" where
  "str_or a b = (if a \<noteq> '''' then a else b)"

definition dget_or :: "pydict \<Rightarrow> string \<Rightarrow> pyval \<Rightarrow> pyval" where
  "dget_or d k v = (if dhas d k then dget d k else v)"

definition upper_char :: "char \<Rightarrow> char" where
  "upper_char c = (let n = code c in
     if (97 \<le> n \<and> n \<le> 122) \<or> (224 \<le> n \<and> n \<le> 254 \<and> n \<noteq> 247) then char_of (n - 32) else c)"

definition upper :: "string \<Rightarrow> string" where
  "upper s = map upper_char s"

definition normalize_fingerprint_text :: "string \<Rightarrow> string" where
  "normalize_fingerprint_text s = lower (join '' '' (split_ws s))"

definition normalize_obligation_item_key :: "string \<Rightarrow> string" where
  "normalize_obligation_item_key item_name = (let text = normalize_fingerprint_text item_name in
     if text = '''' then ''''
     else if take 4 text = ''bug_'' \<or> take 5 text = ''risk_'' then ''''
     else if \<not> list_all (\<lambda>c. is_digit c \<or> (97 \<le> code c \<and> code c \<le> 122) \<or> c = CHR ''_'') text then ''''
     else text)"

definition stable_digest :: "string list \<Rightarrow> string" where
  "stable_digest parts = take 12 (sha256_text (join '' | '' (map normalize_fingerprint_text parts)))"

definition make_obligation_fingerprint :: "string \<Rightarrow> string \<Rightarrow> string" where
  "make_obligation_fingerprint item reason = (let canonical_item = normalize_obligation_item_key item in
     if canonical_item \<noteq> ''''
     then ''finding:'' @ canonical_item @ '':'' @ stable_digest [canonical_item, reason]
     else ''finding:'' @ stable_digest [item, reason])"

definition looks_like_public_obligation_id :: "string \<Rightarrow> bool" where
  "looks_like_public_obligation_id value = (let text = lower (strip value)
     in take 4 text = ''obl-'' \<and> 4 \<le> length (drop 4 text) \<and> list_all is_digit (drop 4 text))"

definition max_iso_ts :: "string \<Rightarrow> string \<Rightarrow> string" where
  "max_iso_ts left right = max left right"

definition min_iso_ts :: "string \<Rightarrow> string \<Rightarrow> string" where
  "min_iso_ts left right = (if left = '''' then right else if right = '''' then left else min left right)"

definition parse_iso_ts :: "(int \<Rightarrow> int) \<Rightarrow> string \<Rightarrow> int option" where
  "parse_iso_ts local_us value = (if value = '''' then None
     else let raw = replace_char CHR ''Z'' ''+00:00'' value
          in if list_ex (\<lambda>c. c = CHR ''+'' \<or> c = CHR ''-'') (drop 11 raw)
             then iso_timestamp_us raw else map_option local_us (iso_timestamp_us raw))"

fun dedupe_aux :: "string list \<Rightarrow> string list \<Rightarrow> string list" where
  "dedupe_aux seen [] = []"
| "dedupe_aux seen (item # items) = (let text = strip item in
     if text = '''' \<or> text \<in> set seen then dedupe_aux seen items
     else text # dedupe_aux (text # seen) items)"

definition dedupe_strings :: "string list \<Rightarrow> string list" where
  "dedupe_strings items = dedupe_aux [] items"

definition normalize_findings :: "pyval list \<Rightarrow> pyval list" where
  "normalize_findings items = concat (map (\<lambda>item.
     if is_dict item then [item]
     else if truthy item then [PDict [(''reason'', PStr (py_str item)), (''severity'', PStr ''advisory'')]]
     else []) items)"

section \<open>Scope and lifecycle filters\<close>

definition in_repo_scope :: "string list \<Rightarrow> string \<Rightarrow> string \<Rightarrow> bool" where
  "in_repo_scope keys repo_key key =
     (key = repo_key \<or> (repo_key \<notin> set keys \<and> key \<in> {'''', LEGACY_CURRENT_REPO_KEY}))"

definition filter_repo_scope :: "('r \<Rightarrow> string) \<Rightarrow> 'r list \<Rightarrow> string option \<Rightarrow> 'r list" where
  "filter_repo_scope key_of records repo_key = (case repo_key of None \<Rightarrow> records
     | Some k \<Rightarrow> filter (\<lambda>r. in_repo_scope (map key_of records) k (key_of r)) records)"

definition filter_lifecycle_records ::
  "('r \<Rightarrow> string) \<Rightarrow> ('r \<Rightarrow> string) \<Rightarrow> ('r \<Rightarrow> string) \<Rightarrow> ('r \<Rightarrow> int) \<Rightarrow> 'r list
   \<Rightarrow> string option \<Rightarrow> string option \<Rightarrow> string option \<Rightarrow> int option \<Rightarrow> 'r list" where
  "filter_lifecycle_records key_of tool_of task_of attempt_of records repo_key tool_name task_id attempt =
     filter (\<lambda>r. (case tool_name of None \<Rightarrow> True | Some t \<Rightarrow> tool_of r = t)
                 \<and> (case task_id of None \<Rightarrow> True | Some t \<Rightarrow> task_of r = t)
                 \<and> (case attempt of None \<Rightarrow> True | Some n \<Rightarrow> attempt_of r = n))
       (filter_repo_scope key_of records repo_key)"

section \<open>Public ids\<close>

definition render_id :: "string \<Rightarrow> nat \<Rightarrow> string" where
  "render_id prefix seq = prefix @ zpad 4 (nat_str seq)"

lemma render_id_inj: "render_id p m = render_id p n \<Longrightarrow> m = n"
proof -
  assume "render_id p m = render_id p n"
  then have "digits_val 0 (zpad 4 (nat_str m)) = digits_val 0 (zpad 4 (nat_str n))"
    by (simp add: render_id_def)
  then show "m = n" by (simp add: zpad_def digits_val_zeros digits_val_nat_str)
qed

function allocate_loop :: "string \<Rightarrow> string list \<Rightarrow> nat \<Rightarrow> string \<times> nat" where
  "allocate_loop prefix used seq =
     (if render_id prefix seq \<notin> set used then (render_id prefix seq, seq + 1)
      else allocate_loop prefix used (seq + 1))"
  by pat_completeness auto

termination
proof (relation "measure (\<lambda>(prefix, used, seq). card {u \<in> set used. \<exists>n\<ge>seq. u = render_id prefix n})")
  fix prefix used seq
  assume used: "\<not> render_id prefix seq \<notin> set used"
  let ?A = "\<lambda>s. {u \<in> set used. \<exists>n\<ge>s. u = render_id prefix n}"
  have "?A (seq + 1) \<subset> ?A seq"
  proof
    show "?A (seq + 1) \<subseteq> ?A seq" by (auto intro: Suc_leD)
    have "render_id prefix seq \<in> ?A seq" using used by auto
    moreover have "render_id prefix seq \<notin> ?A (seq + 1)" using render_id_inj by force
    ultimately show "?A (seq + 1) \<noteq> ?A seq" by blast
  qed
  then have "card (?A (seq + 1)) < card (?A seq)" by (intro psubset_card_mono) auto
  then show "((prefix, used, seq + 1), prefix, used, seq) \<in>
      measure (\<lambda>(prefix, used, seq). card {u \<in> set used. \<exists>n\<ge>seq. u = render_id prefix n})"
    by simp
qed simp

declare allocate_loop.simps [simp del]

definition allocate_prefixed_id :: "string list \<Rightarrow> int \<Rightarrow> string \<Rightarrow> string \<times> int" where
  "allocate_prefixed_id ids next_seq prefix =
     (let used = filter (\<lambda>s. s \<noteq> '''') (map strip ids);
          (c, n) = allocate_loop prefix used (nat (max 1 (if next_seq = 0 then 1 else next_seq)))
      in (c, int n))"

definition infer_next_prefixed_sequence :: "string list \<Rightarrow> string \<Rightarrow> int" where
  "infer_next_prefixed_sequence ids prefix =
     (let seqs = map (\<lambda>s. int (digits_val 0 (drop (length prefix) s)))
            (filter (\<lambda>s. lower (take (length prefix) s) = lower prefix \<and> drop (length prefix) s \<noteq> ''''
                        \<and> list_all is_digit (drop (length prefix) s)) (map strip ids));
          max_seen = foldl max 0 seqs
      in if 0 < max_seen then max_seen + 1 else 1)"

section \<open>Attempts\<close>

definition attempt_identity_tuple :: "commit_attempt \<Rightarrow> string \<times> string \<times> string \<times> string" where
  "attempt_identity_tuple a =
     (str_or (at_repo_key a) LEGACY_CURRENT_REPO_KEY, str_or (at_tool_name a) DEFAULT_TOOL_NAME,
      at_task_id a,
      if 0 < at_attempt a then ''attempt:'' @ int_str (at_attempt a)
      else ''ts:'' @ str_or (at_started_ts a) (at_ts a))"

definition attempt_order_key :: "(int \<Rightarrow> int) \<Rightarrow> commit_attempt \<Rightarrow> int \<times> int \<times> string" where
  "attempt_order_key local_us a =
     (let ts_value = str_or (at_finished_ts a) (str_or (at_updated_ts a) (str_or (at_started_ts a) (at_ts a)))
      in (case parse_iso_ts local_us ts_value of Some t \<Rightarrow> t | None \<Rightarrow> 0, at_attempt a, ts_value))"

definition infer_review_phase :: "string \<Rightarrow> string \<Rightarrow> string" where
  "infer_review_phase status block_reason =
     (if status = ''reviewing'' then ''review''
      else if status = ''blocked'' then
        (if block_reason = ''no_advisory'' then ''advisory_gate''
         else if block_reason = ''preflight'' then ''preflight''
         else ''blocking_review'')
      else if status = ''succeeded'' then ''commit''
      else if status = ''failed'' then ''infra''
      else ''review'')"

text \<open>\<open>truncate_review_artifact\<close> (\<open>ouroboros/utils.py\<close>); the two code points of the warning sign lie
  outside Latin-1 and are stood for by the unused controls 128 and 129.\<close>

definition warning_sign :: string where
  "warning_sign = [char_of (128 :: nat), char_of (129 :: nat)]"

definition truncate_review_artifact :: "string \<Rightarrow> nat \<Rightarrow> string" where
  "truncate_review_artifact text limit =
     (if length text \<le> limit then text
      else let marker = [char_of (10 :: nat)] @ warning_sign @ '' OMISSION NOTE: truncated at '' @ nat_str limit
                          @ '' chars; original length '' @ nat_str (length text)
           in if length text - limit \<le> length marker then text else take limit text @ marker)"

end
