(* ===== verification/Commit_Block_Class.thy ===== *)
theory Commit_Block_Class
  imports Review_Records
begin

text \<open>
  The classification of a blocked commit review (\<open>ouroboros/tools/commit_gate.py\<close>): reviewer
  verdict, infrastructure fact, or neither; recorded at block time and inferred for older rows.
\<close>

abbreviation "BLOCK_CLASS_VERDICT \<equiv> ''verdict''"
abbreviation "BLOCK_CLASS_INFRA \<equiv> ''infra''"

definition refusal_block_reasons :: "string list" where
  "refusal_block_reasons = [''identical_diff_refused'', ''review_cycles_exhausted'', ''attempt_cap_reached'']"

definition triad_verdict_block_reasons :: "string list" where
  "triad_verdict_block_reasons = [''critical_findings'']"

definition scope_actor_rows :: "pydict \<Rightarrow> pydict list" where
  "scope_actor_rows raw =
     (let rows = map the_dict (filter is_dict (the_list (dget raw ''raw_results'')))
      in if rows \<noteq> [] then rows else if raw \<noteq> [] then [raw] else [])"

definition scope_verdict_blocked :: "bool \<Rightarrow> pydict \<Rightarrow> bool" where
  "scope_verdict_blocked scope_blocked scope_raw_result =
     (scope_blocked \<and> list_ex (\<lambda>row. sor (dget row ''status'') = ''responded''
                                  \<and> truthy (dget row ''critical_findings''))
                        (scope_actor_rows scope_raw_result))"

definition classify_review_block :: "bool \<Rightarrow> string \<Rightarrow> bool \<Rightarrow> pydict \<Rightarrow> string" where
  "classify_review_block triad_blocked triad_block_reason scope_blocked scope_raw_result =
     (if triad_blocked \<and> triad_block_reason \<in> set triad_verdict_block_reasons then BLOCK_CLASS_VERDICT
      else if scope_verdict_blocked scope_blocked scope_raw_result then BLOCK_CLASS_VERDICT
      else BLOCK_CLASS_INFRA)"

definition attempt_block_class :: "commit_attempt \<Rightarrow> string" where
  "attempt_block_class item =
     (if at_block_class item \<noteq> '''' then at_block_class item
      else if at_status item \<noteq> ''blocked'' then ''''
      else if at_block_reason item \<in> set refusal_block_reasons then ''''
      else if at_phase item = ''revalidation'' then BLOCK_CLASS_INFRA
      else if at_phase item \<noteq> ''blocking_review'' then ''''
      else if at_block_reason item \<in> set triad_verdict_block_reasons then BLOCK_CLASS_VERDICT
      else if at_block_reason item = ''scope_blocked''
              \<and> scope_verdict_blocked True (at_scope_raw_result item) then BLOCK_CLASS_VERDICT
      else BLOCK_CLASS_INFRA)"

end
