(* ===== verification/Review_Custody.thy ===== *)
theory Review_Custody
  imports Commit_Block_Class
begin

text \<open>
  Custody of in-flight review invocations and the hygiene of the attempt history
  (\<open>ouroboros/review_state_custody.py\<close>), and the merge of two rows of one attempt
  (\<open>_merge_attempt\<close> of \<open>ouroboros/review_state_records.py\<close>), which compacts a stripped row again.
\<close>

definition active_review_operation_states :: "string list" where
  "active_review_operation_states = [''in_flight'', ''custody_lost'']"

definition attempt_review_roster_rows :: "commit_attempt \<Rightarrow> pydict list" where
  "attempt_review_roster_rows item =
     (let rows = map the_dict (filter is_dict (at_triad_raw_results item));
          scope = at_scope_raw_result item
      in if scope = [] then rows
         else case dget scope ''raw_results'' of
           PList raw \<Rightarrow> rows @ map the_dict (filter is_dict raw)
         | _ \<Rightarrow> (if dhas scope ''raw_results'' then rows else rows @ [scope]))"

definition review_roster_row_is_pending :: "pydict \<Rightarrow> bool" where
  "review_roster_row_is_pending row =
     (strip (sor (dget row ''pending_invocation_id'')) \<noteq> '''' \<or> truthy (dget row ''late_result_pending'')
      \<or> sor (dget row ''operation_state'') \<in> set active_review_operation_states)"

definition attempt_has_active_review_custody :: "commit_attempt \<Rightarrow> bool" where
  "attempt_has_active_review_custody item =
     (at_status item = ''reviewing'' \<or> at_late_result_pending item
      \<or> list_ex (\<lambda>row. strip (sor (dget row ''pending_invocation_id'')) \<noteq> ''''
                     \<or> sor (dget row ''operation_state'') = ''in_flight'') (attempt_review_roster_rows item))"

definition attempt_history_evictable :: "commit_attempt \<Rightarrow> bool" where
  "attempt_history_evictable item =
     (if attempt_has_active_review_custody item then False
      else if at_paid item then False
      else attempt_block_class item \<noteq> BLOCK_CLASS_VERDICT)"

definition STRIPPED_DETAILS_LIMIT :: nat where
  "STRIPPED_DETAILS_LIMIT = 600"

definition STRIPPED_MESSAGE_LIMIT :: nat where
  "STRIPPED_MESSAGE_LIMIT = 300"

definition strip_attempt_heavy_payload :: "bool \<Rightarrow> commit_attempt \<Rightarrow> commit_attempt" where
  "strip_attempt_heavy_payload force item =
     (if attempt_has_active_review_custody item then item
      else if at_raw_stripped item \<and> \<not> force then item
      else item\<lparr>
        at_block_class := (if at_block_class item \<noteq> '''' then at_block_class item else attempt_block_class item),
        at_triad_raw_results := [],
        at_scope_raw_result := [],
        at_block_details := truncate_review_artifact (at_block_details item) STRIPPED_DETAILS_LIMIT,
        at_commit_message := truncate_review_artifact (at_commit_message item) STRIPPED_MESSAGE_LIMIT,
        at_raw_stripped := True\<rparr>)"

definition list_or :: "'a list \<Rightarrow> 'a list \<Rightarrow> 'a list" where
  "list_or a b = (if a \<noteq> [] then a else b)"

definition int_or :: "int \<Rightarrow> int \<Rightarrow> int" where
  "int_or a b = (if a \<noteq> 0 then a else b)"

definition merge_attempt :: "string \<Rightarrow> commit_attempt \<Rightarrow> commit_attempt \<Rightarrow> commit_attempt" where
  "merge_attempt now existing incoming =
     (let first = (\<lambda>get. str_or (get incoming) (get existing));
          merged = \<lparr>
            at_ts = first at_ts,
            at_commit_message = first at_commit_message,
            at_status = first at_status,
            at_snapshot_hash = first at_snapshot_hash,
            at_block_reason = first at_block_reason,
            at_block_details = first at_block_details,
            at_duration_us = int_or (at_duration_us incoming) (at_duration_us existing),
            at_task_id = first at_task_id,
            at_critical_findings = at_critical_findings incoming,
            at_repo_key = first at_repo_key,
            at_tool_name = first at_tool_name,
            at_attempt = int_or (at_attempt incoming) (at_attempt existing),
            at_phase = first at_phase,
            at_blocked = (at_blocked incoming \<or> at_status incoming = ''blocked''),
            at_advisory_findings = at_advisory_findings incoming,
            at_obligation_ids = at_obligation_ids incoming,
            at_readiness_warnings = at_readiness_warnings incoming,
            at_late_result_pending = at_late_result_pending incoming,
            at_pre_review_fingerprint = first at_pre_review_fingerprint,
            at_post_review_fingerprint = first at_post_review_fingerprint,
            at_fingerprint_status = first at_fingerprint_status,
            at_degraded_reasons = list_or (at_degraded_reasons incoming) (at_degraded_reasons existing),
            at_started_ts = str_or (at_started_ts existing) (str_or (at_started_ts incoming) (at_ts existing)),
            at_updated_ts = str_or (at_updated_ts incoming) (str_or (at_updated_ts existing) now),
            at_finished_ts = str_or (at_finished_ts incoming) (at_finished_ts existing),
            at_triad_models = list_or (at_triad_models incoming) (at_triad_models existing),
            at_scope_model = first at_scope_model,
            at_triad_raw_results = list_or (at_triad_raw_results incoming) (at_triad_raw_results existing),
            at_scope_raw_result = list_or (at_scope_raw_result incoming) (at_scope_raw_result existing),
            at_block_class = first at_block_class,
            at_rebuttal_sha256 = first at_rebuttal_sha256,
            at_paid = (at_paid incoming \<or> at_paid existing),
            at_review_contract_fingerprint = first at_review_contract_fingerprint,
            at_review_retry_key = first at_review_retry_key,
            at_root_task_id = first at_root_task_id,
            at_review_budget_repo_key =
              str_or (at_review_budget_repo_key existing) (at_review_budget_repo_key incoming),
            at_review_owner_session_id = first at_review_owner_session_id,
            at_review_owner_pid = int_or (at_review_owner_pid incoming) (at_review_owner_pid existing),
            at_raw_stripped = (at_raw_stripped incoming \<or> at_raw_stripped existing),
            at_author_disposition = list_or (at_author_disposition incoming) (at_author_disposition existing),
            at_review_record_id = first at_review_record_id,
            at_review_input = list_or (at_review_input incoming) (at_review_input existing) \<rparr>
      in if at_raw_stripped merged then strip_attempt_heavy_payload True merged else merged)"

text \<open>The mutable row objects of the roster, rewritten one by one with a flag threaded through: the
  triad rows first, then the scope rows (or the historical single-row wrapper).\<close>

fun map_rows :: "(pydict \<Rightarrow> 's \<Rightarrow> pydict \<times> 's) \<Rightarrow> pyval list \<Rightarrow> 's \<Rightarrow> pyval list \<times> 's" where
  "map_rows f [] s = ([], s)"
| "map_rows f (PDict row # rows) s =
     (let (row', s') = f row s; (rows', s'') = map_rows f rows s' in (PDict row' # rows', s''))"
| "map_rows f (v # rows) s = (let (rows', s') = map_rows f rows s in (v # rows', s'))"

definition map_roster ::
  "(pydict \<Rightarrow> 's \<Rightarrow> pydict \<times> 's) \<Rightarrow> commit_attempt \<Rightarrow> 's \<Rightarrow> commit_attempt \<times> 's" where
  "map_roster f item s =
     (let (triad, s1) = map_rows f (at_triad_raw_results item) s;
          item1 = item\<lparr>at_triad_raw_results := triad\<rparr>;
          scope = at_scope_raw_result item
      in if scope = [] then (item1, s1)
         else case dget scope ''raw_results'' of
           PList raw \<Rightarrow> (let (raw', s2) = map_rows f raw s1
              in (item1\<lparr>at_scope_raw_result := dset ''raw_results'' (PList raw') scope\<rparr>, s2))
         | _ \<Rightarrow> (if dhas scope ''raw_results'' then (item1, s1)
                 else let (row', s2) = f scope s1 in (item1\<lparr>at_scope_raw_result := row'\<rparr>, s2)))"

end
