(* ===== verification/Review_Model.thy ===== *)
theory Review_Model
  imports Review_Custody
begin

text \<open>
  The in-memory review ledger (\<open>ouroboros/review_state_model.py\<close>, class \<open>AdvisoryReviewState\<close>) and
  its transitions.  A method that mutates the object is a function to the new state; objects the
  Python code shares by reference are positions in the state's lists.  Each operation reads the
  clock once (\<open>now\<close>).
\<close>

record review_state =
  rs_runs :: "advisory_run list"
  rs_attempts :: "commit_attempt list"
  rs_obligations :: "obligation_item list"
  rs_next_obligation_seq :: int
  rs_debts :: "debt_item list"
  rs_next_debt_seq :: int
  rs_stale_ts :: string
  rs_stale_reason :: string
  rs_stale_repo_key :: string
  rs_stale_task_id :: string

definition empty_review_state :: review_state where
  "empty_review_state = \<lparr>rs_runs = [], rs_attempts = [], rs_obligations = [], rs_next_obligation_seq = 1,
     rs_debts = [], rs_next_debt_seq = 1, rs_stale_ts = '''', rs_stale_reason = '''',
     rs_stale_repo_key = '''', rs_stale_task_id = ''''\<rparr>"

section \<open>Reading\<close>

definition filter_attempts ::
  "review_state \<Rightarrow> string option \<Rightarrow> string option \<Rightarrow> string option \<Rightarrow> int option \<Rightarrow> commit_attempt list" where
  "filter_attempts st = filter_lifecycle_records at_repo_key at_tool_name at_task_id at_attempt (rs_attempts st)"

definition filter_advisory_runs ::
  "review_state \<Rightarrow> string option \<Rightarrow> string option \<Rightarrow> string option \<Rightarrow> int option \<Rightarrow> advisory_run list" where
  "filter_advisory_runs st = filter_lifecycle_records ru_repo_key ru_tool_name ru_task_id ru_attempt (rs_runs st)"

definition last_opt :: "'a list \<Rightarrow> 'a option" where
  "last_opt xs = (if xs = [] then None else Some (last xs))"

definition latest_attempt_for ::
  "review_state \<Rightarrow> string option \<Rightarrow> string option \<Rightarrow> string option \<Rightarrow> int option \<Rightarrow> commit_attempt option" where
  "latest_attempt_for st repo_key tool_name task_id attempt =
     last_opt (filter_attempts st repo_key tool_name task_id attempt)"

definition get_active_attempts :: "review_state \<Rightarrow> string option \<Rightarrow> commit_attempt list" where
  "get_active_attempts st repo_key =
     filter_repo_scope at_repo_key (filter attempt_has_active_review_custody (rs_attempts st)) repo_key"

definition next_attempt_number :: "review_state \<Rightarrow> string \<Rightarrow> string \<Rightarrow> string \<Rightarrow> int" where
  "next_attempt_number st repo_key tool_name task_id =
     (case map at_attempt (filter_attempts st (Some repo_key) (Some tool_name) (Some task_id) None) of
        [] \<Rightarrow> 0 | n # ns \<Rightarrow> foldl max n ns) + 1"

definition find_by_hash :: "review_state \<Rightarrow> string \<Rightarrow> string option \<Rightarrow> advisory_run option" where
  "find_by_hash st snapshot_hash repo_key =
     find (\<lambda>run. ru_snapshot_hash run = snapshot_hash)
       (rev (filter_repo_scope ru_repo_key (rs_runs st) repo_key))"

definition fresh_run_statuses :: "string list" where
  "fresh_run_statuses = [''fresh'', ''bypassed'', ''skipped'']"

definition is_fresh :: "review_state \<Rightarrow> string \<Rightarrow> string option \<Rightarrow> bool" where
  "is_fresh st snapshot_hash repo_key = (case find_by_hash st snapshot_hash repo_key of
     None \<Rightarrow> False | Some run \<Rightarrow> ru_status run \<in> set fresh_run_statuses)"

definition get_open_obligations :: "review_state \<Rightarrow> string option \<Rightarrow> obligation_item list" where
  "get_open_obligations st repo_key =
     filter (\<lambda>ob. ob_status ob = ''still_open'') (filter_repo_scope ob_repo_key (rs_obligations st) repo_key)"

section \<open>Obligations\<close>

definition hydrate_obligation :: "string \<Rightarrow> obligation_item \<Rightarrow> obligation_item" where
  "hydrate_obligation now ob =
     (let fp = str_or (ob_fingerprint ob) (make_obligation_fingerprint (ob_item ob) (ob_reason ob));
          base_ts = str_or (ob_updated_ts ob) (str_or (ob_created_ts ob) (str_or (ob_source_attempt_ts ob) now));
          created = str_or (ob_created_ts ob) (str_or (ob_source_attempt_ts ob) base_ts);
          updated = str_or (ob_updated_ts ob) (str_or (ob_source_attempt_ts ob) created)
      in ob\<lparr>ob_repo_key := str_or (ob_repo_key ob) LEGACY_CURRENT_REPO_KEY, ob_fingerprint := fp,
            ob_created_ts := created, ob_updated_ts := updated\<rparr>)"

definition coalesce_into :: "obligation_item \<Rightarrow> obligation_item \<Rightarrow> obligation_item" where
  "coalesce_into existing ob =
     (let newer = (ob_source_attempt_ts ob \<noteq> '''' \<and> ob_source_attempt_ts existing \<le> ob_source_attempt_ts ob)
      in existing\<lparr>
        ob_id := (if \<not> looks_like_public_obligation_id (ob_id existing)
                     \<and> looks_like_public_obligation_id (ob_id ob) then ob_id ob else ob_id existing),
        ob_item := str_or (ob_item existing) (ob_item ob),
        ob_reason := str_or (ob_reason existing) (ob_reason ob),
        ob_severity := str_or (ob_severity existing) (ob_severity ob),
        ob_source_attempt_ts := (if newer then ob_source_attempt_ts ob else ob_source_attempt_ts existing),
        ob_source_attempt_msg := (if newer \<and> ob_source_attempt_msg ob \<noteq> '''' then ob_source_attempt_msg ob
                                  else ob_source_attempt_msg existing),
        ob_created_ts := min_iso_ts (ob_created_ts existing) (ob_created_ts ob),
        ob_updated_ts := max_iso_ts (ob_updated_ts existing) (ob_updated_ts ob)\<rparr>)"

definition obligation_merge_key :: "obligation_item \<Rightarrow> string \<times> string" where
  "obligation_merge_key ob = (ob_repo_key ob, str_or (ob_fingerprint ob) (ob_id ob))"

fun coalesce_loop ::
  "string \<Rightarrow> obligation_item list \<Rightarrow> ((string \<times> string) \<times> nat) list \<Rightarrow> obligation_item list \<Rightarrow> obligation_item list" where
  "coalesce_loop now [] merged_open ordered = ordered"
| "coalesce_loop now (ob0 # obs) merged_open ordered =
     (let ob = hydrate_obligation now ob0
      in if ob_status ob \<noteq> ''still_open'' then coalesce_loop now obs merged_open (ordered @ [ob])
         else case map_of merged_open (obligation_merge_key ob) of
           None \<Rightarrow> coalesce_loop now obs ((obligation_merge_key ob, length ordered) # merged_open) (ordered @ [ob])
         | Some i \<Rightarrow> coalesce_loop now obs merged_open (ordered[i := coalesce_into (ordered ! i) ob]))"

definition coalesce_open_obligations :: "string \<Rightarrow> review_state \<Rightarrow> review_state" where
  "coalesce_open_obligations now st = st\<lparr>rs_obligations := coalesce_loop now (rs_obligations st) [] []\<rparr>"

definition touch_obligation ::
  "string \<Rightarrow> commit_attempt \<Rightarrow> string \<Rightarrow> string \<Rightarrow> string \<Rightarrow> obligation_item \<Rightarrow> obligation_item" where
  "touch_obligation now attempt item reason severity ob =
     (let seen_ts = str_or (at_ts attempt) now;
          item' = str_or (ob_item ob) item;
          reason' = str_or (ob_reason ob) reason
      in ob\<lparr>ob_item := item',
            ob_severity := str_or (ob_severity ob) (str_or severity ''critical''),
            ob_repo_key := str_or (ob_repo_key ob) (str_or (at_repo_key attempt) LEGACY_CURRENT_REPO_KEY),
            ob_reason := reason',
            ob_source_attempt_ts := seen_ts,
            ob_source_attempt_msg := at_commit_message attempt,
            ob_fingerprint := str_or (ob_fingerprint ob) (make_obligation_fingerprint item' reason'),
            ob_created_ts := str_or (ob_created_ts ob) seen_ts,
            ob_updated_ts := seen_ts\<rparr>)"

definition allocate_obligation_id :: "review_state \<Rightarrow> string \<times> review_state" where
  "allocate_obligation_id st =
     (let (c, n) = allocate_prefixed_id (map ob_id (rs_obligations st)) (rs_next_obligation_seq st) ''obl-''
      in (c, st\<lparr>rs_next_obligation_seq := n\<rparr>))"

text \<open>The fields of one reviewer finding.\<close>

definition finding_text :: "pydict \<Rightarrow> string \<Rightarrow> string \<Rightarrow> string" where
  "finding_text f k dflt = py_str (dget_or f k (PStr dflt))"

definition is_critical_failure :: "pydict \<Rightarrow> bool" where
  "is_critical_failure f = (upper (finding_text f ''verdict'' '''') = ''FAIL''
     \<and> lower (finding_text f ''severity'' '''') = ''critical'')"

record obligation_index =
  ix_by_id :: "(string \<times> nat) list"
  ix_by_fingerprint :: "(string \<times> nat) list"
  ix_touched :: "string list"

definition open_obligation_positions :: "review_state \<Rightarrow> string \<Rightarrow> nat list" where
  "open_obligation_positions st repo_key =
     filter (\<lambda>i. in_repo_scope (map ob_repo_key (rs_obligations st)) repo_key (ob_repo_key (rs_obligations st ! i))
                 \<and> ob_status (rs_obligations st ! i) = ''still_open'') [0..<length (rs_obligations st)]"

definition obligation_index_of :: "review_state \<Rightarrow> string \<Rightarrow> obligation_index" where
  "obligation_index_of st repo_key =
     (let obs = rs_obligations st; ps = open_obligation_positions st repo_key
      in \<lparr>ix_by_id = fold (\<lambda>i. AList.update (ob_id (obs ! i)) i) ps [],
          ix_by_fingerprint = fold (\<lambda>i. AList.update (ob_fingerprint (obs ! i)) i)
             (filter (\<lambda>i. ob_fingerprint (obs ! i) \<noteq> '''') ps) [],
          ix_touched = []\<rparr>)"

definition new_obligation :: "commit_attempt \<Rightarrow> string \<Rightarrow> string \<Rightarrow> string \<Rightarrow> string \<Rightarrow> string \<Rightarrow> obligation_item" where
  "new_obligation attempt oid item severity reason fingerprint =
     \<lparr>ob_id = oid, ob_item = item, ob_severity = severity, ob_reason = reason,
      ob_source_attempt_ts = at_ts attempt, ob_source_attempt_msg = at_commit_message attempt,
      ob_status = ''still_open'', ob_resolved_by = '''', ob_repo_key = at_repo_key attempt,
      ob_fingerprint = fingerprint, ob_created_ts = '''', ob_updated_ts = ''''\<rparr>"

text \<open>The obligation a critical finding folds into, if any: the one it names, the one with its
  fingerprint, the one a semantic redirect names.\<close>

definition matching_obligation ::
  "(string \<times> string) list \<Rightarrow> obligation_index \<Rightarrow> string \<Rightarrow> string \<Rightarrow> nat option" where
  "matching_obligation redirects ix raw_explicit_id fingerprint =
     (let explicit = (if looks_like_public_obligation_id raw_explicit_id
                      then map_of (ix_by_id ix) raw_explicit_id else None);
          redirected = (if redirects = [] then None
             else map_of (ix_by_id ix) (case map_of redirects fingerprint of None \<Rightarrow> '''' | Some t \<Rightarrow> t))
      in if explicit \<noteq> None then explicit
         else if map_of (ix_by_fingerprint ix) fingerprint \<noteq> None
         then map_of (ix_by_fingerprint ix) fingerprint
         else redirected)"

definition fold_finding ::
  "string \<Rightarrow> (string \<times> string) list \<Rightarrow> commit_attempt \<Rightarrow> pyval \<Rightarrow> review_state \<times> obligation_index
   \<Rightarrow> review_state \<times> obligation_index" where
  "fold_finding now redirects attempt finding acc =
     (case finding of
        PDict f \<Rightarrow>
          (if \<not> is_critical_failure f then acc
           else let (st, ix) = acc;
                    item = finding_text f ''item'' ''unknown'';
                    reason = finding_text f ''reason'' '''';
                    severity = finding_text f ''severity'' ''critical'';
                    fingerprint = make_obligation_fingerprint item reason;
                    (st1, pos) =
                      (case matching_obligation redirects ix (strip (sor (dget f ''obligation_id''))) fingerprint of
                         Some i \<Rightarrow> (st, i)
                       | None \<Rightarrow>
                          (let (oid, st') = allocate_obligation_id st
                           in (st'\<lparr>rs_obligations := rs_obligations st'
                                 @ [new_obligation attempt oid item severity reason fingerprint]\<rparr>,
                               length (rs_obligations st))));
                    ob = touch_obligation now attempt item reason severity (rs_obligations st1 ! pos)
                in (st1\<lparr>rs_obligations := (rs_obligations st1)[pos := ob]\<rparr>,
                    ix\<lparr>ix_by_id := AList.update (ob_id ob) pos (ix_by_id ix),
                       ix_by_fingerprint := AList.update (ob_fingerprint ob) pos (ix_by_fingerprint ix),
                       ix_touched := ix_touched ix @ [ob_id ob]\<rparr>))
      | _ \<Rightarrow> acc)"

definition update_obligations_from_attempt ::
  "string \<Rightarrow> (string \<times> string) list \<Rightarrow> commit_attempt \<Rightarrow> review_state \<Rightarrow> string list \<times> review_state" where
  "update_obligations_from_attempt now redirects attempt st =
     (if at_critical_findings attempt = [] then ([], st)
      else let st0 = coalesce_open_obligations now st;
               (st1, ix) = fold (fold_finding now redirects attempt) (at_critical_findings attempt)
                             (st0, obligation_index_of st0 (at_repo_key attempt))
           in (dedupe_strings (ix_touched ix), coalesce_open_obligations now st1))"

end
