(* ===== verification/Review_Ledger.thy ===== *)
theory Review_Ledger
  imports Review_Model
begin

text \<open>
  The readiness debts and the attempt history of the review ledger
  (\<open>ouroboros/review_state_model.py\<close>, continued): the observations debts are derived from, their
  synchronisation, the upsert, trimming and recording of attempts, the effects of a successful
  commit, expiry, the reconciliation of a dead owner's rows, and the stale marker.
\<close>

section \<open>Readiness debts\<close>

definition debt_is_open :: "debt_item \<Rightarrow> bool" where
  "debt_is_open debt = (de_status debt \<in> set open_debt_statuses)"

definition hydrate_debt :: "string \<Rightarrow> debt_item \<Rightarrow> debt_item" where
  "hydrate_debt now debt =
     (let repo = str_or (de_repo_key debt) LEGACY_CURRENT_REPO_KEY;
          base_ts = str_or (de_updated_at debt) (str_or (de_last_seen_at debt) (str_or (de_first_seen_at debt) now));
          occ = max 1 (int_or (de_occurrence_count debt) 1);
          cons = (if debt_is_open debt then max 1 (int_or (de_consecutive_observations debt) (int_or occ 1))
                  else max 0 (de_consecutive_observations debt))
      in debt\<lparr>
        de_repo_key := repo,
        de_fingerprint := str_or (de_fingerprint debt)
           (de_category debt @ '':'' @ stable_digest [de_summary debt, repo]),
        de_first_seen_at := str_or (de_first_seen_at debt) base_ts,
        de_last_seen_at := str_or (de_last_seen_at debt) base_ts,
        de_updated_at := str_or (de_updated_at debt) base_ts,
        de_source_obligation_ids := dedupe_strings (de_source_obligation_ids debt),
        de_evidence := take 5 (dedupe_strings (de_evidence debt)),
        de_occurrence_count := occ,
        de_consecutive_observations := cons\<rparr>)"

record debt_observation =
  do_category :: string
  do_title :: string
  do_summary :: string
  do_repo_key :: string
  do_fingerprint :: string
  do_source :: string
  do_source_obligation_ids :: "string list"
  do_evidence :: "string list"

definition remember_observation ::
  "(string \<times> debt_observation) list \<Rightarrow> debt_observation \<Rightarrow> (string \<times> debt_observation) list" where
  "remember_observation observations ob =
     (let fingerprint = strip (do_fingerprint ob)
      in if fingerprint = '''' then observations
         else case map_of observations fingerprint of
           None \<Rightarrow> observations @ [(fingerprint, ob)]
         | Some existing \<Rightarrow> AList.update fingerprint
             (existing\<lparr>do_source_obligation_ids :=
                  dedupe_strings (do_source_obligation_ids existing @ do_source_obligation_ids ob),
                do_evidence := take 5 (dedupe_strings (do_evidence existing @ do_evidence ob))\<rparr>)
             observations)"

definition obligation_counts :: "commit_attempt list \<Rightarrow> (string \<times> nat) list" where
  "obligation_counts blocked = fold (\<lambda>oid counts. AList.update oid
       (1 + (case map_of counts oid of None \<Rightarrow> 0 | Some n \<Rightarrow> n)) counts)
     (concat (map (\<lambda>a. dedupe_strings (at_obligation_ids a)) blocked)) []"

definition repeat_observation :: "string option \<Rightarrow> obligation_item \<Rightarrow> string \<Rightarrow> nat \<Rightarrow> debt_observation" where
  "repeat_observation repo_key ob oid count =
     (let item_name = str_or (ob_item ob) oid
      in \<lparr>do_category = ''obligation_repeat'', do_title = ''Repeated blocked obligation'',
          do_summary = item_name @ '' repeated across '' @ nat_str count @ '' blocked reviewed attempts.'',
          do_repo_key = str_or (ob_repo_key ob) (case repo_key of None \<Rightarrow> '''' | Some k \<Rightarrow> k),
          do_fingerprint = ''obligation_repeat:'' @ oid, do_source = ''review_state'',
          do_source_obligation_ids = [oid],
          do_evidence = (if ob_reason ob \<noteq> '''' then [item_name @ '': '' @ ob_reason ob] else [])
             @ [oid @ '': blocked_attempts='' @ nat_str count]\<rparr>)"

definition repeat_observations :: "review_state \<Rightarrow> string option \<Rightarrow> debt_observation list" where
  "repeat_observations st repo_key =
     (let blocked = filter (\<lambda>a. at_status a = ''blocked'' \<or> at_blocked a) (filter_attempts st repo_key None None None);
          open_obs = fold (\<lambda>ob. AList.update (ob_id ob) ob) (get_open_obligations st repo_key) []
      in concat (map (\<lambda>(oid, count).
           if count < 2 then [] else case map_of open_obs oid of None \<Rightarrow> []
             | Some ob \<Rightarrow> [repeat_observation repo_key ob oid count])
           (sort_key fst (obligation_counts blocked))))"

definition stale_observations :: "review_state \<Rightarrow> string option \<Rightarrow> debt_observation list" where
  "stale_observations st repo_key =
     (let stale_matches_repo = (case repo_key of None \<Rightarrow> True | Some k \<Rightarrow> rs_stale_repo_key st \<in> {'''', k})
      in if rs_stale_ts st \<noteq> '''' \<and> stale_matches_repo then
           [\<lparr>do_category = ''advisory_stale'', do_title = ''Advisory freshness debt'',
             do_summary = ''Fresh advisory coverage was invalidated by a worktree mutation before the next reviewed attempt.'',
             do_repo_key = str_or (rs_stale_repo_key st) (case repo_key of None \<Rightarrow> '''' | Some k \<Rightarrow> k),
             do_fingerprint = ''advisory_stale'', do_source = ''review_state'', do_source_obligation_ids = [],
             do_evidence = [str_or (rs_stale_reason st) ''worktree mutation invalidated advisory freshness'']\<rparr>]
         else [])"

definition warning_observation ::
  "string \<Rightarrow> string \<Rightarrow> string \<Rightarrow> string list \<Rightarrow> string \<Rightarrow> debt_observation list" where
  "warning_observation prefix source repo ids warning =
     (let warning_text = strip warning
      in if warning_text = '''' then []
         else [\<lparr>do_category = ''readiness_warning'', do_title = ''Readiness warning debt'',
                do_summary = warning_text, do_repo_key = repo,
                do_fingerprint = prefix @ stable_digest [warning_text], do_source = source,
                do_source_obligation_ids = ids, do_evidence = [warning_text]\<rparr>])"

definition latest_success_ts :: "commit_attempt list \<Rightarrow> string" where
  "latest_success_ts attempts = (case find (\<lambda>a. at_status a = ''succeeded'') (rev attempts) of None \<Rightarrow> ''''
     | Some a \<Rightarrow> str_or (at_finished_ts a) (str_or (at_updated_ts a) (at_ts a)))"

definition attempt_warning_observations :: "review_state \<Rightarrow> string option \<Rightarrow> debt_observation list" where
  "attempt_warning_observations st repo_key =
     (case last_opt (filter_attempts st repo_key None None None) of None \<Rightarrow> []
      | Some a \<Rightarrow> (if at_status a = ''succeeded'' then []
          else concat (map (warning_observation ''readiness_warning:attempt:'' ''review_state''
                 (str_or (at_repo_key a) (case repo_key of None \<Rightarrow> '''' | Some k \<Rightarrow> k)) (at_obligation_ids a))
               (at_readiness_warnings a))))"

definition run_warning_observations :: "review_state \<Rightarrow> string option \<Rightarrow> debt_observation list" where
  "run_warning_observations st repo_key =
     (case last_opt (filter_advisory_runs st repo_key None None None) of None \<Rightarrow> []
      | Some run \<Rightarrow>
         (let success = latest_success_ts (filter_attempts st repo_key None None None);
              run_ts = str_or (ru_updated_ts run) (ru_ts run);
              resolved = (success \<noteq> '''' \<and> run_ts \<noteq> '''' \<and> max_iso_ts run_ts success = success)
          in if resolved then []
             else concat (map (warning_observation ''readiness_warning:advisory:'' ''advisory_review''
                    (str_or (ru_repo_key run) (case repo_key of None \<Rightarrow> '''' | Some k \<Rightarrow> k)) [])
                  (ru_readiness_warnings run))))"

definition build_debt_observations :: "review_state \<Rightarrow> string option \<Rightarrow> debt_observation list" where
  "build_debt_observations st repo_key =
     map snd (foldl remember_observation []
       (repeat_observations st repo_key @ stale_observations st repo_key
        @ attempt_warning_observations st repo_key @ run_warning_observations st repo_key))"

definition debt_key :: "debt_item \<Rightarrow> string \<times> string" where
  "debt_key debt = (de_repo_key debt, str_or (de_fingerprint debt) (de_id debt))"

definition observation_key :: "debt_observation \<Rightarrow> string \<times> string" where
  "observation_key ob = (str_or (do_repo_key ob) LEGACY_CURRENT_REPO_KEY, do_fingerprint ob)"

definition new_debt :: "string \<Rightarrow> string \<Rightarrow> debt_observation \<Rightarrow> debt_item" where
  "new_debt now did ob =
     \<lparr>de_id = did, de_category = do_category ob, de_summary = do_summary ob, de_severity = ''warning'',
      de_status = ''detected'', de_repo_key = str_or (do_repo_key ob) LEGACY_CURRENT_REPO_KEY,
      de_fingerprint = do_fingerprint ob, de_title = str_or (do_title ob) ''Commit readiness debt'',
      de_source = str_or (do_source ob) ''review_state'',
      de_source_obligation_ids = do_source_obligation_ids ob, de_evidence = take 5 (do_evidence ob),
      de_first_seen_at = now, de_last_seen_at = now, de_updated_at = now, de_verified_at = '''',
      de_occurrence_count = 1, de_consecutive_observations = 1\<rparr>"

definition refresh_debt :: "string \<Rightarrow> debt_observation \<Rightarrow> debt_item \<Rightarrow> debt_item" where
  "refresh_debt now ob debt =
     (let previous_status = str_or (de_status debt) ''detected''
      in debt\<lparr>
        de_status := (if previous_status = ''detected'' then ''queued''
                      else if previous_status = ''verified'' then ''reopened'' else de_status debt),
        de_category := str_or (do_category ob) (de_category debt),
        de_summary := str_or (do_summary ob) (de_summary debt),
        de_severity := ''warning'',
        de_repo_key := str_or (do_repo_key ob) (de_repo_key debt),
        de_fingerprint := str_or (do_fingerprint ob) (de_fingerprint debt),
        de_title := str_or (do_title ob) (de_title debt),
        de_source := str_or (do_source ob) (de_source debt),
        de_source_obligation_ids := dedupe_strings (do_source_obligation_ids ob),
        de_evidence := take 5 (dedupe_strings (do_evidence ob)),
        de_last_seen_at := now,
        de_updated_at := now,
        de_occurrence_count := de_occurrence_count debt + 1,
        de_consecutive_observations := de_consecutive_observations debt + 1,
        de_verified_at := ''''\<rparr>)"

definition verify_debt :: "string \<Rightarrow> debt_item \<Rightarrow> debt_item" where
  "verify_debt now debt =
     (if debt_is_open debt
      then debt\<lparr>de_status := ''verified'', de_verified_at := now, de_updated_at := now,
                de_consecutive_observations := 0\<rparr>
      else debt)"

definition allocate_debt_id :: "debt_item list \<times> int \<Rightarrow> string \<times> (debt_item list \<times> int)" where
  "allocate_debt_id ds = (let (c, n) = allocate_prefixed_id (map de_id (fst ds)) (snd ds) ''crd-'' in (c, (fst ds, n)))"

type_synonym debt_loop = "debt_item list \<times> int \<times> ((string \<times> string) \<times> nat) list"

definition observe_debt :: "string \<Rightarrow> (string \<times> string) \<times> debt_observation \<Rightarrow> debt_loop \<Rightarrow> debt_loop" where
  "observe_debt now entry acc =
     (case (entry, acc) of ((key, ob), (debts, seq, existing)) \<Rightarrow>
        (case map_of existing key of
           None \<Rightarrow> (let (did, ds) = allocate_debt_id (debts, seq)
                   in (fst ds @ [new_debt now did ob], snd ds, AList.update key (length debts) existing))
         | Some i \<Rightarrow> (debts[i := refresh_debt now ob (debts ! i)], seq, existing)))"

definition debt_sort_key :: "debt_item \<Rightarrow> string" where
  "debt_sort_key debt = str_or (de_updated_at debt) (str_or (de_last_seen_at debt) (de_first_seen_at debt))"

text \<open>\<open>list.sort(key=..., reverse=True)\<close>: descending, equal keys in their old order.\<close>

definition sort_desc :: "('a \<Rightarrow> string) \<Rightarrow> 'a list \<Rightarrow> 'a list" where
  "sort_desc key xs = rev (sort_key key (rev xs))"

definition trim_debts :: "debt_item list \<Rightarrow> debt_item list" where
  "trim_debts debts =
     (let open_items = sort_desc debt_sort_key (filter debt_is_open debts);
          closed_items = sort_desc debt_sort_key (filter (\<lambda>d. \<not> debt_is_open d) debts)
      in open_items @ take (MAX_COMMIT_READINESS_DEBTS - length open_items) closed_items)"

definition close_unobserved_debts ::
  "string \<Rightarrow> string option \<Rightarrow> ((string \<times> string) \<times> debt_observation) list \<Rightarrow> debt_item list \<Rightarrow> debt_item list" where
  "close_unobserved_debts now repo_key observed debts =
     map (\<lambda>d. if (case repo_key of None \<Rightarrow> True | Some k \<Rightarrow> in_repo_scope (map de_repo_key debts) k (de_repo_key d))
                 \<and> map_of observed (debt_key d) = None
              then verify_debt now d else d) debts"

definition sync_commit_readiness_debts :: "string \<Rightarrow> string option \<Rightarrow> review_state \<Rightarrow> review_state" where
  "sync_commit_readiness_debts now repo_key st =
     (let debts0 = map (hydrate_debt now) (rs_debts st);
          observed = fold (\<lambda>ob. AList.update (observation_key ob) ob) (build_debt_observations st repo_key) [];
          existing = fold (\<lambda>i. AList.update (debt_key (debts0 ! i)) i) [0..<length debts0] [];
          (debts1, seq1, _) = fold (observe_debt now) observed (debts0, rs_next_debt_seq st, existing)
      in st\<lparr>rs_debts := trim_debts (close_unobserved_debts now repo_key observed debts1),
            rs_next_debt_seq := seq1\<rparr>)"

section \<open>Attempt history\<close>

fun evict_attempts :: "nat \<Rightarrow> commit_attempt list \<Rightarrow> commit_attempt list" where
  "evict_attempts 0 items = items"
| "evict_attempts (Suc overflow) [] = []"
| "evict_attempts (Suc overflow) (item # items) =
     (if attempt_history_evictable item then evict_attempts overflow items
      else item # evict_attempts (Suc overflow) items)"

definition compact_old_attempts :: "commit_attempt list \<Rightarrow> commit_attempt list" where
  "compact_old_attempts items =
     (let old = length items - MAX_ATTEMPT_HISTORY
      in map (strip_attempt_heavy_payload False) (take old items) @ drop old items)"

definition trim_attempt_history :: "commit_attempt list \<Rightarrow> commit_attempt list" where
  "trim_attempt_history attempts =
     (let overflow = length attempts - MAX_ATTEMPT_HISTORY
      in if overflow = 0 then attempts else compact_old_attempts (evict_attempts overflow attempts))"

definition attempt_position :: "commit_attempt list \<Rightarrow> string \<times> string \<times> string \<times> string \<Rightarrow> nat option" where
  "attempt_position attempts key =
     find (\<lambda>i. attempt_identity_tuple (attempts ! i) = key) [0..<length attempts]"

definition upsert_attempt :: "string \<Rightarrow> commit_attempt \<Rightarrow> review_state \<Rightarrow> commit_attempt \<times> review_state" where
  "upsert_attempt now attempt st =
     (case attempt_position (rs_attempts st) (attempt_identity_tuple attempt) of
        Some i \<Rightarrow> (let merged = merge_attempt now (rs_attempts st ! i) attempt
                  in (merged, st\<lparr>rs_attempts := (rs_attempts st)[i := merged]\<rparr>))
      | None \<Rightarrow> (attempt, st\<lparr>rs_attempts := trim_attempt_history (rs_attempts st @ [attempt])\<rparr>))"

text \<open>A mutation of the recorded object, seen through the list when the object is still in it.\<close>

definition rewrite_attempt :: "commit_attempt \<Rightarrow> commit_attempt \<Rightarrow> review_state \<Rightarrow> review_state" where
  "rewrite_attempt old new st = (case attempt_position (rs_attempts st) (attempt_identity_tuple old) of
     Some i \<Rightarrow> st\<lparr>rs_attempts := (rs_attempts st)[i := new]\<rparr> | None \<Rightarrow> st)"

definition clear_stale_marker :: "review_state \<Rightarrow> review_state" where
  "clear_stale_marker st = st\<lparr>rs_stale_ts := '''', rs_stale_reason := '''', rs_stale_repo_key := '''',
     rs_stale_task_id := ''''\<rparr>"

definition on_successful_commit :: "string \<Rightarrow> string option \<Rightarrow> review_state \<Rightarrow> review_state" where
  "on_successful_commit now repo_key st =
     (case repo_key of
        None \<Rightarrow> (clear_stale_marker st)\<lparr>rs_obligations := [],
                  rs_debts := map (\<lambda>d. verify_debt now (hydrate_debt now d)) (rs_debts st)\<rparr>
      | Some k \<Rightarrow>
         (let settled = filter_repo_scope ob_repo_key (rs_obligations st) repo_key;
              st1 = st\<lparr>rs_obligations := filter (\<lambda>ob. ob \<notin> set settled) (rs_obligations st)\<rparr>;
              st2 = (if rs_stale_repo_key st1 \<in> {'''', k} then clear_stale_marker st1 else st1)
          in sync_commit_readiness_debts now repo_key st2))"

definition opt_repo :: "string \<Rightarrow> string option" where
  "opt_repo k = (if k = '''' then None else Some k)"

definition stamp_attempt :: "string \<Rightarrow> commit_attempt \<Rightarrow> commit_attempt" where
  "stamp_attempt now a =
     (let started = str_or (at_started_ts a) (str_or (at_ts a) now)
      in a\<lparr>at_tool_name := str_or (at_tool_name a) DEFAULT_TOOL_NAME,
           at_repo_key := str_or (at_repo_key a) LEGACY_CURRENT_REPO_KEY,
           at_blocked := (at_blocked a \<or> at_status a = ''blocked''),
           at_started_ts := started,
           at_ts := str_or (at_ts a) started,
           at_updated_ts := now,
           at_finished_ts := (if at_status a \<in> {''blocked'', ''failed'', ''succeeded'', ''reviewed''}
                              then str_or (at_finished_ts a) now else at_finished_ts a)\<rparr>)"

definition record_attempt ::
  "string \<Rightarrow> (string \<times> string) list \<Rightarrow> commit_attempt \<Rightarrow> review_state \<Rightarrow> commit_attempt \<times> review_state" where
  "record_attempt now redirects attempt0 st =
     (let (merged, st1) = upsert_attempt now (stamp_attempt now attempt0) st
      in if at_status merged = ''blocked'' \<or> at_blocked merged then
           (let (ids, st2) = update_obligations_from_attempt now redirects (merged\<lparr>at_blocked := True\<rparr>) st1;
                final = merged\<lparr>at_blocked := True, at_obligation_ids := ids\<rparr>;
                (_, st3) = upsert_attempt now final (rewrite_attempt merged final st2)
            in (final, sync_commit_readiness_debts now (opt_repo (at_repo_key final)) st3))
         else if at_status merged = ''succeeded'' then
           (merged, sync_commit_readiness_debts now (opt_repo (at_repo_key merged))
              (on_successful_commit now (Some (at_repo_key merged)) st1))
         else (merged, sync_commit_readiness_debts now (opt_repo (at_repo_key merged)) st1))"

definition add_blocking_attempt :: "string \<Rightarrow> commit_attempt \<Rightarrow> review_state \<Rightarrow> review_state" where
  "add_blocking_attempt now attempt st =
     snd (record_attempt now [] (attempt\<lparr>at_status := ''blocked'', at_blocked := True\<rparr>) st)"

text \<open>The getter hydrates the debts it looks at, so it returns the state as well.\<close>

definition get_open_commit_readiness_debts ::
  "string \<Rightarrow> review_state \<Rightarrow> string option \<Rightarrow> debt_item list \<times> review_state" where
  "get_open_commit_readiness_debts now st repo_key =
     (filter debt_is_open (map (hydrate_debt now) (filter_repo_scope de_repo_key (rs_debts st) repo_key)),
      st\<lparr>rs_debts := map (\<lambda>d. if (case repo_key of None \<Rightarrow> True
           | Some k \<Rightarrow> in_repo_scope (map de_repo_key (rs_debts st)) k (de_repo_key d))
         then hydrate_debt now d else d) (rs_debts st)\<rparr>)"

section \<open>Expiry and reconciliation\<close>

definition round_tenth_us :: "int \<Rightarrow> int" where
  "round_tenth_us us = (let q = us div 100000; r = us mod 100000
     in (if 50000 < r \<or> (r = 50000 \<and> q mod 2 = 1) then q + 1 else q) * 100000)"

definition expires :: "(int \<Rightarrow> int) \<Rightarrow> int \<Rightarrow> int \<Rightarrow> commit_attempt \<Rightarrow> int option" where
  "expires local_us now_epoch ttl_grace_sec item =
     (if at_status item \<noteq> ''reviewing'' \<and> \<not> at_late_result_pending item then None
      else if at_late_result_pending item \<or> (at_status item = ''reviewing'' \<and> at_paid item) then None
      else case parse_iso_ts local_us (str_or (at_started_ts item) (at_ts item)) of None \<Rightarrow> None
      | Some started \<Rightarrow> (let age = max 0 (now_epoch - started)
          in if age < ttl_grace_sec * 1000000 then None else Some age))"

definition expired_attempt :: "string \<Rightarrow> int \<Rightarrow> int \<Rightarrow> commit_attempt \<Rightarrow> commit_attempt" where
  "expired_attempt now_ts ttl_grace_sec age item =
     item\<lparr>at_status := ''failed'', at_phase := ''expired'', at_blocked := False,
       at_block_reason := ''infra_failure'',
       at_block_details := ''Auto-expired stale reviewed attempt after '' @ int_str ttl_grace_sec @ ''s TTL+grace.'',
       at_duration_us := max (at_duration_us item) (round_tenth_us age),
       at_finished_ts := now_ts, at_updated_ts := now_ts, at_late_result_pending := False,
       at_readiness_warnings := dedupe_strings (at_readiness_warnings item
          @ [''Previous reviewed attempt auto-expired after exceeding TTL+grace.''])\<rparr>"

definition expire_stale_attempts ::
  "(int \<Rightarrow> int) \<Rightarrow> string \<Rightarrow> int \<Rightarrow> int \<Rightarrow> review_state \<Rightarrow> commit_attempt list \<times> review_state" where
  "expire_stale_attempts local_us now_ts ttl_sec grace_sec st =
     (case parse_iso_ts local_us now_ts of None \<Rightarrow> ([], st)
      | Some now_epoch \<Rightarrow>
         (let limit = ttl_sec + grace_sec;
              step = (\<lambda>item. case expires local_us now_epoch limit item of None \<Rightarrow> item
                        | Some age \<Rightarrow> expired_attempt now_ts limit age item)
          in (map step (filter (\<lambda>item. expires local_us now_epoch limit item \<noteq> None) (rs_attempts st)),
              st\<lparr>rs_attempts := map step (rs_attempts st)\<rparr>)))"

text \<open>One roster row of a dead owner: kept when a delegated token is on it, given the recovered token
  of its operation, else settled as lost.\<close>

definition reconcile_row :: "(string \<times> string) list \<Rightarrow> pydict \<Rightarrow> bool \<Rightarrow> pydict \<times> bool" where
  "reconcile_row recoverable row changed =
     (if \<not> review_roster_row_is_pending row then (row, changed)
      else if strip (sor (dget row ''pending_invocation_id'')) \<noteq> '''' then (row, changed)
      else let operation_id = strip (sor (dget row ''operation_id''));
               token = (case map_of recoverable operation_id of None \<Rightarrow> '''' | Some t \<Rightarrow> t)
           in if token \<noteq> ''''
              then (dset ''late_result_pending'' (PBool True) (dset ''pending_invocation_id'' (PStr token) row), True)
              else (dmerge row [(''operation_state'', PStr ''settled''), (''late_result_pending'', PBool False),
                      (''status'', PStr ''error''), (''failure_code'', PStr ''process_local_review_worker_lost''),
                      (''error'', PStr ''process-local review owner process was confirmed dead'')], True))"

definition reconcile_attempt ::
  "string \<Rightarrow> (string \<times> string) list \<Rightarrow> int list \<Rightarrow> commit_attempt \<Rightarrow> commit_attempt \<times> bool" where
  "reconcile_attempt stamp recoverable dead_pids item =
     (if \<not> attempt_has_active_review_custody item then (item, False)
      else if at_review_owner_pid item \<notin> set dead_pids then (item, False)
      else let (item1, item_changed) = map_roster (reconcile_row recoverable) item False;
               still_pending = list_ex review_roster_row_is_pending (attempt_review_roster_rows item1)
           in if \<not> item_changed \<and> still_pending then (item1, False)
              else if \<not> item_changed \<and> \<not> (at_status item1 = ''reviewing'' \<or> at_late_result_pending item1)
              then (item1, False)
              else (item1\<lparr>
                at_status := (if still_pending then ''reviewing'' else ''failed''),
                at_phase := (if still_pending then ''late_wait'' else ''infra''),
                at_block_reason := (if still_pending then ''review_late_result_pending'' else ''infra_failure''),
                at_block_details := (if still_pending
                  then ''The process-local review owner was confirmed dead; delegated rows remain available for exact reconciliation.''
                  else ''Confirmed owner death proved every tokenless review worker was lost; the paid attempt failed without a review verdict.''),
                at_late_result_pending := still_pending,
                at_finished_ts := (if still_pending then at_finished_ts item1 else stamp),
                at_updated_ts := stamp\<rparr>, True))"

definition reconcile_after_owner_loss ::
  "string \<Rightarrow> (string \<times> string) list \<Rightarrow> int list \<Rightarrow> review_state \<Rightarrow> commit_attempt list \<times> review_state" where
  "reconcile_after_owner_loss stamp recoverable confirmed_dead_owner_pids st =
     (let dead_pids = filter (\<lambda>p. 0 < p) confirmed_dead_owner_pids
      in if dead_pids = [] then ([], st)
         else let results = map (reconcile_attempt stamp recoverable dead_pids) (rs_attempts st)
              in (map fst (filter snd results), st\<lparr>rs_attempts := map fst results\<rparr>))"

section \<open>The stale marker\<close>

definition mark_stale :: "string \<Rightarrow> string \<Rightarrow> review_state \<Rightarrow> review_state" where
  "mark_stale now snapshot_hash st = st\<lparr>rs_runs := map (\<lambda>run.
     if ru_snapshot_hash run = snapshot_hash then run\<lparr>ru_status := ''stale'', ru_updated_ts := now\<rparr> else run)
     (rs_runs st)\<rparr>"

definition invalidates_run :: "advisory_run list \<Rightarrow> string \<Rightarrow> advisory_run \<Rightarrow> bool" where
  "invalidates_run invalidatable repo_key run =
     (let exact = list_ex (\<lambda>r. ru_repo_key r = repo_key) invalidatable
      in ru_status run \<in> set fresh_run_statuses \<and> (repo_key = '''' \<or> \<not> exact \<or> ru_repo_key run = repo_key))"

definition mark_repo_stale ::
  "string \<Rightarrow> string \<Rightarrow> string \<Rightarrow> string \<Rightarrow> string \<Rightarrow> string \<Rightarrow> review_state \<Rightarrow> nat \<times> review_state" where
  "mark_repo_stale now repo_key reason_ts reason stale_repo_key stale_task_id st =
     (let invalidatable = filter (\<lambda>run. ru_status run \<in> set fresh_run_statuses) (rs_runs st);
          targets = filter (invalidates_run invalidatable repo_key) (rs_runs st);
          stamp = str_or reason_ts now
      in if invalidatable = [] then (0, st)
         else (length targets, sync_commit_readiness_debts now (opt_repo (str_or stale_repo_key repo_key))
           (st\<lparr>rs_runs := map (\<lambda>run. if invalidates_run invalidatable repo_key run
                 then run\<lparr>ru_status := ''stale'', ru_updated_ts := stamp\<rparr> else run) (rs_runs st),
               rs_stale_ts := stamp, rs_stale_reason := reason,
               rs_stale_repo_key := str_or stale_repo_key repo_key, rs_stale_task_id := stale_task_id\<rparr>)))"

definition marker_postdates :: "review_state \<Rightarrow> string \<Rightarrow> string \<Rightarrow> bool" where
  "marker_postdates st look_ts repo_key =
     (rs_stale_ts st \<noteq> '''' \<and> look_ts \<noteq> '''' \<and> rs_stale_repo_key st \<in> {'''', repo_key} \<and> look_ts \<le> rs_stale_ts st)"

definition mark_look_stale ::
  "string \<Rightarrow> string \<Rightarrow> string \<Rightarrow> string \<Rightarrow> string \<Rightarrow> string \<Rightarrow> review_state \<Rightarrow> bool \<times> review_state" where
  "mark_look_stale now look_ts reason_ts reason stale_repo_key stale_task_id st =
     (if look_ts = '''' \<or> marker_postdates st look_ts stale_repo_key then (False, st)
      else (True, st\<lparr>rs_stale_ts := str_or reason_ts now, rs_stale_reason := reason,
              rs_stale_repo_key := stale_repo_key, rs_stale_task_id := stale_task_id\<rparr>))"

definition stale_marker_provenance :: "review_state \<Rightarrow> string \<Rightarrow> string \<times> string \<times> string" where
  "stale_marker_provenance st task_id =
     (if rs_stale_ts st = '''' then ('''', '''', '''')
      else (rs_stale_task_id st,
            if rs_stale_task_id st \<noteq> '''' \<and> task_id \<noteq> ''''
            then (if rs_stale_task_id st = task_id then ''this_task'' else ''other_task'') else ''unknown'',
            rs_stale_repo_key st))"

definition stale_marker_attribution_note :: "review_state \<Rightarrow> string \<Rightarrow> string" where
  "stale_marker_attribution_note st task_id =
     (case stale_marker_provenance st task_id of (writer, attribution, repo) \<Rightarrow>
        (if attribution = ''this_task'' then ''this task ('' @ writer @ '')''
         else if attribution = ''other_task''
         then ''another task ('' @ writer @ ''); the shared checkout stays stale for every task on it''
         else if writer \<noteq> '''' then ''task '' @ writer
         else ''an unrecorded writer (legacy or unattributed marker)'')
        @ (if repo = '''' then ''; checkout scope ambiguous or unrecorded, so it applies to every checkout'' else ''''))"

end
