(* ===== verification/Commit_Gate.thy ===== *)
theory Commit_Gate
  imports Review_Ledger
begin

text \<open>
  The commit-side Max-Review-Cycles machinery (\<open>ouroboros/tools/commit_gate.py\<close>): the free refusal
  of a byte-identical resubmission and the per-root ceiling of paid review cycles, both read from
  the review ledger.  The loaded ledger is an argument (\<open>None\<close> when loading it raised), as are the
  owner's cycle cap, the enforcement switch and the provenance lookup of a review-change copy.
  The em dash and the ellipsis of the messages are stood for by unused control characters.
\<close>

definition em_dash :: string where
  "em_dash = [char_of (151 :: nat)]"

definition ellipsis :: string where
  "ellipsis = [char_of (134 :: nat)]"

definition newline :: string where
  "newline = [char_of (10 :: nat)]"

definition compute_rebuttal_sha256 :: "pyval \<Rightarrow> string" where
  "compute_rebuttal_sha256 review_rebuttal = (let text = strip (sor review_rebuttal)
     in if text = '''' then '''' else sha256_text text)"

definition resolve_root_task_id :: "pyval \<Rightarrow> string \<Rightarrow> string \<Rightarrow> string" where
  "resolve_root_task_id task_metadata root_task_id task_id =
     (let meta = dget (the_dict task_metadata) ''root_task_id''
      in if truthy meta then py_str meta else str_or root_task_id task_id)"

definition continuation_source :: "string \<Rightarrow> bool \<Rightarrow> string" where
  "continuation_source status late_result_pending =
     (if status = ''blocked'' then ''blocked_review''
      else if late_result_pending then ''late_result_pending''
      else if status = ''failed'' then ''review_failure''
      else '''')"

definition attempt_accepts_reviewing_update :: "commit_attempt option \<Rightarrow> bool" where
  "attempt_accepts_reviewing_update existing =
     (case existing of None \<Rightarrow> False | Some a \<Rightarrow> attempt_has_active_review_custody a)"

section \<open>The identical-diff refusal\<close>

definition quote_finding :: "pydict \<Rightarrow> string" where
  "quote_finding f =
     (let label = (if truthy (dget f ''item'') then py_str (dget f ''item'')
                   else if truthy (dget f ''reason'') then py_str (dget f ''reason'') else ''?'')
      in ''  - [CRITICAL] '' @ label @ '': '' @ truncate_review_artifact (sor (dget f ''reason'')) 200)"

definition quote_verdict_attempt :: "commit_attempt \<Rightarrow> string" where
  "quote_verdict_attempt item =
     (let findings = map the_dict (filter is_dict (at_critical_findings item));
          details = strip (at_block_details item);
          head = ''Recorded verdict: attempt #'' @ int_str (at_attempt item) @ '' (''
             @ str_or (at_ts item) ''unknown ts'' @ '', block_reason=''
             @ str_or (at_block_reason item) ''unknown''
             @ (if at_rebuttal_sha256 item \<noteq> ''''
                then '', rebuttal_sha256='' @ take 12 (at_rebuttal_sha256 item) @ ellipsis else '''') @ '')''
      in join newline ([head] @ map quote_finding (take 5 findings)
           @ (if 5 < length findings
              then [''  '' @ ellipsis @ '' and '' @ nat_str (length findings - 5)
                    @ '' more critical finding(s) in review_status.''] else [])
           @ (if details \<noteq> '''' \<and> findings = [] then [truncate_review_artifact details 600] else [])))"

definition infra_failure_phases :: "string list" where
  "infra_failure_phases = [''infra'', ''expired'']"

text \<open>A row the walk passes over: in flight, a refusal record, a preflight fact, an infrastructure
  fact, an infrastructure failure.\<close>

definition streak_skips :: "commit_attempt \<Rightarrow> bool" where
  "streak_skips item =
     (at_status item = ''reviewing''
      \<or> at_block_reason item \<in> set refusal_block_reasons
      \<or> (at_status item = ''blocked'' \<and> attempt_block_class item = '''')
      \<or> attempt_block_class item = BLOCK_CLASS_INFRA
      \<or> (at_status item = ''failed'' \<and> at_phase item \<in> set infra_failure_phases))"

definition verdict_row_for :: "string \<Rightarrow> commit_attempt \<Rightarrow> bool" where
  "verdict_row_for fp item = (at_status item = ''blocked'' \<and> attempt_block_class item = BLOCK_CLASS_VERDICT
     \<and> at_pre_review_fingerprint item = fp)"

fun walk_streak ::
  "commit_attempt list \<Rightarrow> string \<Rightarrow> string \<Rightarrow> commit_attempt option \<Rightarrow> string list
   \<Rightarrow> commit_attempt option \<times> string list" where
  "walk_streak [] fp contract last_verdict seen = (last_verdict, seen)"
| "walk_streak (item # items) fp contract last_verdict seen =
     (if streak_skips item then walk_streak items fp contract last_verdict seen
      else if verdict_row_for fp item then
        (if contract = '''' \<or> at_review_contract_fingerprint item \<noteq> contract
         then (case last_verdict of None \<Rightarrow> (None, seen) | Some v \<Rightarrow> (Some v, seen))
         else walk_streak items fp contract
                (case last_verdict of None \<Rightarrow> Some item | Some v \<Rightarrow> Some v)
                (if at_rebuttal_sha256 item \<noteq> '''' \<and> at_paid item
                 then List.insert (at_rebuttal_sha256 item) seen else seen))
      else (last_verdict, seen))"

definition walk_identical_verdict_streak ::
  "commit_attempt list \<Rightarrow> string \<Rightarrow> string \<Rightarrow> commit_attempt option \<times> string list" where
  "walk_identical_verdict_streak attempts fp contract_fingerprint =
     walk_streak (rev attempts) fp contract_fingerprint None []"

definition identical_diff_message :: "bool \<Rightarrow> commit_attempt \<Rightarrow> string" where
  "identical_diff_message repeated item =
     warning_sign @ '' IDENTICAL_DIFF_REFUSED: this exact staged diff was already reviewed and BLOCKED '' @ em_dash
     @ '' you appear to have forgotten to change anything. Identical bytes are never re-reviewed for pay.''
     @ (if repeated then newline @ ''The supplied review_rebuttal is byte-identical to one already spent on this streak ''
          @ em_dash @ '' a repeated rebuttal does not buy another review.'' else '''')
     @ newline @ quote_verdict_attempt item @ newline
     @ ''Honest exits: change the code (any change to the staged diff starts a fresh paid review); supply a NEW review_rebuttal with genuinely new evidence (buys exactly one paid re-review); escalate the disagreement to the owner; or finalize honestly without this commit.''"

definition check_identical_verdict_refusal ::
  "review_state option \<Rightarrow> string \<Rightarrow> string \<Rightarrow> string \<Rightarrow> string \<Rightarrow> string \<Rightarrow> string" where
  "check_identical_verdict_refusal ledger repo_key tool_name fingerprint rebuttal_sha256 contract_fingerprint =
     (let fp = strip fingerprint
      in if fp = '''' then ''''
         else case ledger of None \<Rightarrow> ''''
         | Some st \<Rightarrow>
           (case walk_identical_verdict_streak (filter_attempts st (Some repo_key) (Some tool_name) None None)
                   fp contract_fingerprint of
              (None, seen) \<Rightarrow> ''''
            | (Some v, seen) \<Rightarrow>
               (if rebuttal_sha256 \<noteq> '''' \<and> rebuttal_sha256 \<notin> set seen then ''''
                else identical_diff_message (rebuttal_sha256 \<noteq> '''') v)))"

section \<open>The ceiling of paid cycles\<close>

definition is_paid_for :: "string \<Rightarrow> commit_attempt \<Rightarrow> bool" where
  "is_paid_for rid item = (at_paid item \<and> at_root_task_id item = rid)"

definition custody_review_tools :: "string list" where
  "custody_review_tools = [''review_change'', ''review_result'', ''review_skill'']"

text \<open>\<open>owner_of\<close> resolves the accounting owner of a physical repository key (\<open>paid_repo_key\<close>); the
  key of the current repository resolves to its own owner.\<close>

definition count_paid_review_cycles ::
  "(string \<Rightarrow> string) \<Rightarrow> review_state \<Rightarrow> string \<Rightarrow> string \<Rightarrow> string \<Rightarrow> nat" where
  "count_paid_review_cycles owner_of st tool repo_key rid =
     (if rid = '''' then 0
      else if tool \<in> set custody_review_tools then
        length (filter (\<lambda>a. is_paid_for rid a
            \<and> (tool \<in> {''review_result'', ''review_skill''}
               \<or> str_or (at_review_budget_repo_key a) (owner_of (at_repo_key a)) = owner_of repo_key))
          (filter_attempts st None (Some tool) None None))
      else length (filter (is_paid_for rid) (filter_attempts st (Some repo_key) (Some tool) None None)))"

record ceiling_facts =
  cf_message :: string
  cf_cycles_paid :: nat
  cf_cap :: nat

definition ceiling_message :: "bool \<Rightarrow> string \<Rightarrow> nat \<Rightarrow> nat \<Rightarrow> string" where
  "ceiling_message blocks rid paid cap =
     warning_sign @ '' REVIEW_CYCLES_EXHAUSTED: this task tree (root '' @ rid @ '') already spent '' @ nat_str paid
     @ '' of '' @ nat_str cap
     @ '' paid review wave(s) (OUROBOROS_REVIEW_MAX_CYCLES). Refusing to buy another review.'' @ newline
     @ (if blocks then
          ''Honest exits: finalize honestly with what is already reviewed and committed; escalate to the owner (the ceiling is the owner'' @ [char_of (39 :: nat)]
          @ ''s Max Review Cycles setting '' @ em_dash
          @ '' 3/5/unlimited are one settings change away); or leave the remaining work to a follow-up task with its own budget. A rebuttal cannot buy past the ceiling ''
          @ em_dash @ '' rebuttal cycles count toward it.''
        else ''The paid review allowance is spent. Decide whether what was reviewed is enough: finish, or land with a plain statement of what was not reviewed.'')"

definition check_review_cycles_ceiling ::
  "nat option \<Rightarrow> bool \<Rightarrow> (string \<Rightarrow> string) \<Rightarrow> review_state option \<Rightarrow> string \<Rightarrow> string \<Rightarrow> string \<Rightarrow> ceiling_facts option" where
  "check_review_cycles_ceiling cap blocks owner_of ledger tool repo_key rid =
     (case (cap, ledger) of
        (Some c, Some st) \<Rightarrow>
          (if rid = '''' then None
           else let paid = count_paid_review_cycles owner_of st tool repo_key rid
                in if paid < c then None
                   else Some \<lparr>cf_message = ceiling_message blocks rid paid c, cf_cycles_paid = paid, cf_cap = c\<rparr>)
      | _ \<Rightarrow> None)"

end
