(* ===== verification/Review_History.thy ===== *)
theory Review_History
  imports Commit_Gate
begin

text \<open>
  Facts about the attempt history of the review ledger: compaction and eviction keep the authority of
  a row, merging keeps its identity, and recording an attempt keeps every authoritative row of every
  other attempt.
\<close>

named_theorems row_simps

lemma str_or_simps [simp]: "str_or '''' b = b" "a \<noteq> '''' \<Longrightarrow> str_or a b = a" "str_or a a = a"
  by (auto simp: str_or_def)

lemma str_or_eq_Nil [simp]: "str_or a b = '''' \<longleftrightarrow> a = '''' \<and> b = ''''"
  by (simp add: str_or_def)

lemma scope_rows_of_empty [simp]: "scope_actor_rows [] = []"
  by (simp add: scope_actor_rows_def dget_def)

lemma scope_verdict_of_empty [simp]: "\<not> scope_verdict_blocked b []"
  by (simp add: scope_verdict_blocked_def)

lemma strip_fields [row_simps]:
  fixes f a
  defines "b \<equiv> strip_attempt_heavy_payload f a"
  shows "at_status b = at_status a" "at_paid b = at_paid a" "at_block_reason b = at_block_reason a"
    "at_phase b = at_phase a" "at_late_result_pending b = at_late_result_pending a"
    "at_repo_key b = at_repo_key a" "at_tool_name b = at_tool_name a" "at_task_id b = at_task_id a"
    "at_attempt b = at_attempt a" "at_started_ts b = at_started_ts a" "at_ts b = at_ts a"
    "at_root_task_id b = at_root_task_id a" "at_review_budget_repo_key b = at_review_budget_repo_key a"
    "at_pre_review_fingerprint b = at_pre_review_fingerprint a"
    "at_review_contract_fingerprint b = at_review_contract_fingerprint a"
    "at_rebuttal_sha256 b = at_rebuttal_sha256 a" "at_critical_findings b = at_critical_findings a"
    "at_blocked b = at_blocked a" "at_obligation_ids b = at_obligation_ids a"
  by (simp_all add: b_def strip_attempt_heavy_payload_def)

lemma strip_class [row_simps]: "attempt_block_class (strip_attempt_heavy_payload f a) = attempt_block_class a"
  by (simp add: strip_attempt_heavy_payload_def attempt_block_class_def)

lemma strip_custody [row_simps]:
  "attempt_has_active_review_custody (strip_attempt_heavy_payload f a) = attempt_has_active_review_custody a"
  by (auto simp: strip_attempt_heavy_payload_def attempt_has_active_review_custody_def attempt_review_roster_rows_def)

lemma strip_identity [row_simps]:
  "attempt_identity_tuple (strip_attempt_heavy_payload f a) = attempt_identity_tuple a"
  by (simp add: attempt_identity_tuple_def strip_fields)

lemma strip_evictable [row_simps]:
  "attempt_history_evictable (strip_attempt_heavy_payload f a) = attempt_history_evictable a"
  by (simp add: attempt_history_evictable_def row_simps)

text \<open>What is left of a row when the payloads compaction may drop are hidden, the class of the row
  written out.\<close>

definition accounting_row :: "commit_attempt \<Rightarrow> commit_attempt" where
  "accounting_row a = a\<lparr>at_block_class := attempt_block_class a, at_triad_raw_results := [],
     at_scope_raw_result := [], at_block_details := '''', at_commit_message := '''', at_raw_stripped := False\<rparr>"

lemma accounting_row_strip [row_simps]: "accounting_row (strip_attempt_heavy_payload f a) = accounting_row a"
proof -
  have "attempt_block_class (strip_attempt_heavy_payload f a) = attempt_block_class a" by (rule strip_class)
  then show ?thesis by (simp add: accounting_row_def) (simp add: strip_attempt_heavy_payload_def)
qed

lemma evict_keeps:
  "(\<And>a. P a \<Longrightarrow> \<not> attempt_history_evictable a) \<Longrightarrow> filter P (evict_attempts n xs) = filter P xs"
  by (induction n xs rule: evict_attempts.induct) auto

lemma evict_length:
  "length (evict_attempts n xs) + n = length xs \<or> list_all (\<lambda>a. \<not> attempt_history_evictable a) (evict_attempts n xs)"
  by (induction n xs rule: evict_attempts.induct) auto

lemma evict_set: "set (evict_attempts n xs) \<subseteq> set xs"
  by (induction n xs rule: evict_attempts.induct) auto

lemma evict_snoc:
  "\<not> attempt_history_evictable a \<Longrightarrow> evict_attempts n (xs @ [a]) = evict_attempts n xs @ [a]"
  by (induction n xs rule: evict_attempts.induct) auto

lemma compact_keeps:
  assumes "\<And>a. P (strip_attempt_heavy_payload False a) = P a" "\<And>a. g (strip_attempt_heavy_payload False a) = g a"
  shows "map g (filter P (compact_old_attempts xs)) = map g (filter P xs)"
proof -
  have m: "map g (filter P (map (strip_attempt_heavy_payload False) ys)) = map g (filter P ys)" for ys
    by (induction ys) (simp_all add: assms)
  have "map g (filter P (take n xs)) @ map g (filter P (drop n xs)) = map g (filter P xs)" for n
    by (metis append_take_drop_id filter_append map_append)
  then show ?thesis by (simp add: compact_old_attempts_def Let_def m)
qed

lemma compact_length [simp]: "length (compact_old_attempts xs) = length xs"
  by (simp add: compact_old_attempts_def Let_def)

lemma trim_keeps:
  assumes "\<And>a. P (strip_attempt_heavy_payload False a) = P a" "\<And>a. g (strip_attempt_heavy_payload False a) = g a"
    "\<And>a. P a \<Longrightarrow> \<not> attempt_history_evictable a"
  shows "map g (filter P (trim_attempt_history xs)) = map g (filter P xs)"
  by (simp add: trim_attempt_history_def Let_def compact_keeps [of P g, OF assms(1,2)] evict_keeps [of P, OF assms(3)])

lemma trim_length:
  "length (trim_attempt_history xs) \<le> MAX_ATTEMPT_HISTORY
   \<or> list_all (\<lambda>a. \<not> attempt_history_evictable a) (trim_attempt_history xs)"
proof (cases "length xs - MAX_ATTEMPT_HISTORY = 0")
  case True
  then show ?thesis by (simp add: trim_attempt_history_def)
next
  case False
  let ?n = "length xs - MAX_ATTEMPT_HISTORY"
  have stays: "list_all Q (compact_old_attempts ys)"
    if "list_all Q ys" "\<And>a. Q a \<Longrightarrow> Q (strip_attempt_heavy_payload False a)" for Q ys
    using that unfolding compact_old_attempts_def Let_def list_all_iff
    by (auto dest: in_set_takeD in_set_dropD)
  from False show ?thesis
    using evict_length [of ?n xs] stays [of "\<lambda>a. \<not> attempt_history_evictable a" "evict_attempts ?n xs"]
    by (auto simp: trim_attempt_history_def Let_def strip_evictable)
qed

lemma trim_snoc:
  assumes "\<not> attempt_history_evictable a"
  shows "\<exists>ys. trim_attempt_history (xs @ [a]) = ys @ [a]
           \<and> attempt_identity_tuple ` set ys \<subseteq> attempt_identity_tuple ` set xs"
proof (cases "length (xs @ [a]) - MAX_ATTEMPT_HISTORY = 0")
  case True
  then show ?thesis by (auto simp: trim_attempt_history_def)
next
  case False
  let ?n = "length (xs @ [a]) - MAX_ATTEMPT_HISTORY"
  let ?es = "evict_attempts ?n xs"
  let ?old = "Suc (length ?es) - MAX_ATTEMPT_HISTORY"
  have old: "?old \<le> length ?es" by (simp add: MAX_ATTEMPT_HISTORY_def)
  have "trim_attempt_history (xs @ [a])
      = (map (strip_attempt_heavy_payload False) (take ?old ?es) @ drop ?old ?es) @ [a]"
    using False old by (simp add: trim_attempt_history_def Let_def evict_snoc [OF assms] compact_old_attempts_def)
  moreover have "attempt_identity_tuple ` set (map (strip_attempt_heavy_payload False) (take ?old ?es) @ drop ?old ?es)
      \<subseteq> attempt_identity_tuple ` set xs"
    using evict_set [of ?n xs]
    by (auto simp: row_simps dest!: in_set_takeD in_set_dropD)
  ultimately show ?thesis by blast
qed

section \<open>Merging and upserting\<close>

lemma merge_fields [row_simps]:
  fixes now e i
  defines "m \<equiv> merge_attempt now e i"
  shows "at_status m = str_or (at_status i) (at_status e)" "at_paid m = (at_paid i \<or> at_paid e)"
    "at_repo_key m = str_or (at_repo_key i) (at_repo_key e)"
    "at_tool_name m = str_or (at_tool_name i) (at_tool_name e)"
    "at_task_id m = str_or (at_task_id i) (at_task_id e)"
    "at_attempt m = int_or (at_attempt i) (at_attempt e)"
    "at_started_ts m = str_or (at_started_ts e) (str_or (at_started_ts i) (at_ts e))"
    "at_ts m = str_or (at_ts i) (at_ts e)"
    "at_root_task_id m = str_or (at_root_task_id i) (at_root_task_id e)"
    "at_review_budget_repo_key m = str_or (at_review_budget_repo_key e) (at_review_budget_repo_key i)"
    "at_pre_review_fingerprint m = str_or (at_pre_review_fingerprint i) (at_pre_review_fingerprint e)"
    "at_review_contract_fingerprint m = str_or (at_review_contract_fingerprint i) (at_review_contract_fingerprint e)"
    "at_rebuttal_sha256 m = str_or (at_rebuttal_sha256 i) (at_rebuttal_sha256 e)"
    "at_block_reason m = str_or (at_block_reason i) (at_block_reason e)"
    "at_phase m = str_or (at_phase i) (at_phase e)"
    "at_critical_findings m = at_critical_findings i"
    "at_blocked m = (at_blocked i \<or> at_status i = ''blocked'')"
  by (simp_all add: m_def merge_attempt_def Let_def row_simps)

lemma merge_raw_stripped: "at_raw_stripped (merge_attempt now e i) = (at_raw_stripped i \<or> at_raw_stripped e)"
  by (simp add: merge_attempt_def Let_def strip_attempt_heavy_payload_def)

lemma merge_identity:
  assumes same: "attempt_identity_tuple e = attempt_identity_tuple i"
  shows "attempt_identity_tuple (merge_attempt now e i) = attempt_identity_tuple i"
proof -
  have "(if 0 < int_or (at_attempt i) (at_attempt e) then ''attempt:'' @ int_str (int_or (at_attempt i) (at_attempt e))
         else ''ts:'' @ str_or (str_or (at_started_ts e) (str_or (at_started_ts i) (at_ts e))) (str_or (at_ts i) (at_ts e)))
      = (if 0 < at_attempt i then ''attempt:'' @ int_str (at_attempt i)
         else ''ts:'' @ str_or (at_started_ts i) (at_ts i))"
    using same by (auto simp: attempt_identity_tuple_def int_or_def str_or_def split: if_splits)
  moreover have "str_or (str_or (at_repo_key i) (at_repo_key e)) LEGACY_CURRENT_REPO_KEY
      = str_or (at_repo_key i) LEGACY_CURRENT_REPO_KEY"
    "str_or (str_or (at_tool_name i) (at_tool_name e)) DEFAULT_TOOL_NAME = str_or (at_tool_name i) DEFAULT_TOOL_NAME"
    "str_or (at_task_id i) (at_task_id e) = at_task_id i"
    using same by (auto simp: attempt_identity_tuple_def str_or_def split: if_splits)
  ultimately show ?thesis unfolding attempt_identity_tuple_def merge_fields by simp
qed

lemma identity_of_annotated [simp]:
  "attempt_identity_tuple (a\<lparr>at_blocked := b, at_obligation_ids := ids\<rparr>) = attempt_identity_tuple a"
  by (simp add: attempt_identity_tuple_def)

lemma attempt_position_Some:
  "attempt_position xs key = Some i \<Longrightarrow> i < length xs \<and> attempt_identity_tuple (xs ! i) = key
     \<and> (\<forall>j<i. attempt_identity_tuple (xs ! j) \<noteq> key)"
proof -
  assume "attempt_position xs key = Some i"
  then obtain k where "k < length [0..<length xs]" "i = [0..<length xs] ! k"
    "attempt_identity_tuple (xs ! ([0..<length xs] ! k)) = key"
    "\<forall>j<k. attempt_identity_tuple (xs ! ([0..<length xs] ! j)) \<noteq> key"
    unfolding attempt_position_def find_Some_iff by metis
  then show ?thesis by simp
qed

lemma attempt_position_None:
  "attempt_position xs key = None \<longleftrightarrow> key \<notin> attempt_identity_tuple ` set xs"
  by (fastforce simp: attempt_position_def find_None_iff in_set_conv_nth)

lemma filter_update_out:
  "i < length xs \<Longrightarrow> \<not> P (xs ! i) \<Longrightarrow> \<not> P y \<Longrightarrow> filter P (xs[i := y]) = filter P xs"
  by (induction xs arbitrary: i) (auto split: nat.split simp: nth_Cons')

lemma filter_update_mono:
  "i < length xs \<Longrightarrow> (P (xs ! i) \<Longrightarrow> P y) \<Longrightarrow> length (filter P xs) \<le> length (filter P (xs[i := y]))"
proof (induction xs arbitrary: i)
  case (Cons x xs)
  show ?case
  proof (cases i)
    case 0
    with Cons.prems show ?thesis by auto
  next
    case (Suc j)
    with Cons show ?thesis by auto
  qed
qed simp

text \<open>The authoritative rows of every attempt but one, with the facts a gate can read.\<close>

definition kept_rows :: "string \<times> string \<times> string \<times> string \<Rightarrow> commit_attempt list \<Rightarrow> commit_attempt list" where
  "kept_rows key xs = map accounting_row
     (filter (\<lambda>a. \<not> attempt_history_evictable a \<and> attempt_identity_tuple a \<noteq> key) xs)"

lemma kept_rows_trim: "kept_rows key (trim_attempt_history xs) = kept_rows key xs"
  unfolding kept_rows_def by (rule trim_keeps) (simp_all add: row_simps)

lemma kept_rows_update:
  "i < length xs \<Longrightarrow> attempt_identity_tuple (xs ! i) = key \<Longrightarrow> attempt_identity_tuple y = key
   \<Longrightarrow> kept_rows key (xs[i := y]) = kept_rows key xs"
  unfolding kept_rows_def by (subst filter_update_out) auto

lemma kept_rows_snoc: "attempt_identity_tuple a = key \<Longrightarrow> kept_rows key (xs @ [a]) = kept_rows key xs"
  by (simp add: kept_rows_def)

lemma upsert_identity: "attempt_identity_tuple (fst (upsert_attempt now a st)) = attempt_identity_tuple a"
  by (auto simp: upsert_attempt_def Let_def merge_identity dest: attempt_position_Some split: option.split)

lemma kept_rows_upsert:
  "kept_rows (attempt_identity_tuple a) (rs_attempts (snd (upsert_attempt now a st)))
     = kept_rows (attempt_identity_tuple a) (rs_attempts st)"
  by (auto simp: upsert_attempt_def Let_def kept_rows_trim kept_rows_snoc merge_identity
      dest!: attempt_position_Some intro!: kept_rows_update split: option.split)

lemma kept_rows_rewrite:
  "attempt_identity_tuple a = key \<Longrightarrow> attempt_identity_tuple b = key
   \<Longrightarrow> kept_rows key (rs_attempts (rewrite_attempt a b st)) = kept_rows key (rs_attempts st)"
  by (auto simp: rewrite_attempt_def dest!: attempt_position_Some intro!: kept_rows_update split: option.split)

section \<open>The attempts of each operation\<close>

lemma sync_debts_frame [simp]:
  "rs_attempts (sync_commit_readiness_debts now k st) = rs_attempts st"
  "rs_obligations (sync_commit_readiness_debts now k st) = rs_obligations st"
  "rs_runs (sync_commit_readiness_debts now k st) = rs_runs st"
  "rs_next_obligation_seq (sync_commit_readiness_debts now k st) = rs_next_obligation_seq st"
  "rs_stale_ts (sync_commit_readiness_debts now k st) = rs_stale_ts st"
  "rs_stale_repo_key (sync_commit_readiness_debts now k st) = rs_stale_repo_key st"
  by (simp_all add: sync_commit_readiness_debts_def Let_def split: prod.split)

lemma fold_finding_attempts [simp]: "rs_attempts (fst (fold_finding now red a f acc)) = rs_attempts (fst acc)"
  by (auto simp: fold_finding_def Let_def allocate_obligation_id_def split: pyval.split prod.split option.split)

lemma fold_findings_attempts [simp]:
  "rs_attempts (fst (fold (fold_finding now red a) fs acc)) = rs_attempts (fst acc)"
  by (induction fs arbitrary: acc) simp_all

lemma coalesce_attempts [simp]: "rs_attempts (coalesce_open_obligations now st) = rs_attempts st"
  by (simp add: coalesce_open_obligations_def)

lemma update_obligations_attempts [simp]:
  "rs_attempts (snd (update_obligations_from_attempt now red a st)) = rs_attempts st"
  by (simp add: update_obligations_from_attempt_def Let_def split_beta)

lemma on_successful_commit_attempts [simp]: "rs_attempts (on_successful_commit now k st) = rs_attempts st"
  by (simp add: on_successful_commit_def clear_stale_marker_def Let_def split: option.split)

lemma accounting_row_identity: "accounting_row a = accounting_row b \<Longrightarrow> attempt_identity_tuple a = attempt_identity_tuple b"
  unfolding accounting_row_def by (cases a; cases b) (simp add: attempt_identity_tuple_def)

text \<open>The rows after an attempt is recorded: one upsert, then for a blocked attempt the write-back of
  its obligation ids and a second upsert of the same row.\<close>

definition recorded_rows :: "string \<Rightarrow> commit_attempt \<Rightarrow> string list \<Rightarrow> review_state \<Rightarrow> review_state" where
  "recorded_rows now a ids st =
     (let (merged, st1) = upsert_attempt now (stamp_attempt now a) st;
          final = merged\<lparr>at_blocked := True, at_obligation_ids := ids\<rparr>
      in if at_status merged = ''blocked'' \<or> at_blocked merged
         then snd (upsert_attempt now final (rewrite_attempt merged final st1)) else st1)"

lemma upsert_rows_cong:
  "rs_attempts st = rs_attempts st' \<Longrightarrow> fst (upsert_attempt now a st) = fst (upsert_attempt now a st')
     \<and> rs_attempts (snd (upsert_attempt now a st)) = rs_attempts (snd (upsert_attempt now a st'))"
  by (simp add: upsert_attempt_def Let_def split: option.split)

lemma rewrite_rows_cong:
  "rs_attempts st = rs_attempts st' \<Longrightarrow> rs_attempts (rewrite_attempt a b st) = rs_attempts (rewrite_attempt a b st')"
  by (simp add: rewrite_attempt_def split: option.split)

lemma record_attempt_rows:
  "\<exists>ids. rs_attempts (snd (record_attempt now red a st)) = rs_attempts (recorded_rows now a ids st)"
proof -
  obtain merged st1 where u: "upsert_attempt now (stamp_attempt now a) st = (merged, st1)" by fastforce
  obtain ids st2 where ob: "update_obligations_from_attempt now red (merged\<lparr>at_blocked := True\<rparr>) st1 = (ids, st2)"
    by fastforce
  let ?final = "merged\<lparr>at_blocked := True, at_obligation_ids := ids\<rparr>"
  have "rs_attempts st2 = rs_attempts st1" using update_obligations_attempts [of now red "merged\<lparr>at_blocked := True\<rparr>" st1] ob
    by simp
  then have "rs_attempts (snd (upsert_attempt now ?final (rewrite_attempt merged ?final st2)))
      = rs_attempts (snd (upsert_attempt now ?final (rewrite_attempt merged ?final st1)))"
    using upsert_rows_cong [OF rewrite_rows_cong] by metis
  then have "rs_attempts (snd (record_attempt now red a st)) = rs_attempts (recorded_rows now a ids st)"
    by (simp add: record_attempt_def recorded_rows_def u ob Let_def split_beta)
  then show ?thesis by blast
qed

lemma kept_rows_recorded:
  "kept_rows (attempt_identity_tuple (stamp_attempt now a)) (rs_attempts (recorded_rows now a ids st))
     = kept_rows (attempt_identity_tuple (stamp_attempt now a)) (rs_attempts st)"
proof -
  let ?key = "attempt_identity_tuple (stamp_attempt now a)"
  obtain merged st1 where u: "upsert_attempt now (stamp_attempt now a) st = (merged, st1)" by fastforce
  let ?final = "merged\<lparr>at_blocked := True, at_obligation_ids := ids\<rparr>"
  have m: "attempt_identity_tuple merged = ?key" using upsert_identity [of now "stamp_attempt now a" st] u by simp
  then have f: "attempt_identity_tuple ?final = ?key" by simp
  have 1: "kept_rows ?key (rs_attempts st1) = kept_rows ?key (rs_attempts st)"
    using kept_rows_upsert [of "stamp_attempt now a" now st] u by simp
  have 2: "kept_rows ?key (rs_attempts (snd (upsert_attempt now ?final (rewrite_attempt merged ?final st1))))
      = kept_rows ?key (rs_attempts st1)"
    using kept_rows_upsert [of ?final now] kept_rows_rewrite [OF m f] f by metis
  show ?thesis using 1 2 by (simp add: recorded_rows_def u Let_def)
qed

section \<open>The recorded row stays where it is\<close>

lemma trim_snoc_set:
  "set (trim_attempt_history (xs @ [a])) \<subseteq> insert a {b. attempt_identity_tuple b \<in> attempt_identity_tuple ` set xs}"
proof (cases "length (xs @ [a]) - MAX_ATTEMPT_HISTORY = 0")
  case True
  then show ?thesis by (auto simp: trim_attempt_history_def)
next
  case False
  let ?n = "length (xs @ [a]) - MAX_ATTEMPT_HISTORY"
  let ?I = "attempt_identity_tuple ` set xs"
  have ev: "\<exists>zs. (evict_attempts n (xs @ [a]) = zs \<or> evict_attempts n (xs @ [a]) = zs @ [a]) \<and> set zs \<subseteq> set xs" for n
  proof (induction n xs rule: evict_attempts.induct)
    case (2 n)
    show ?case by (cases "attempt_history_evictable a"; cases n) auto
  next
    case (3 n item items)
    show ?case
    proof (cases "attempt_history_evictable item")
      case True
      with 3 show ?thesis by auto
    next
      case False
      with 3 obtain zs where "evict_attempts (Suc n) (items @ [a]) = zs
          \<or> evict_attempts (Suc n) (items @ [a]) = zs @ [a]" "set zs \<subseteq> set items" by blast
      with False show ?thesis by (intro exI [of _ "item # zs"]) auto
    qed
  qed auto
  have comp: "set (compact_old_attempts zs) \<subseteq> {b. attempt_identity_tuple b \<in> ?I}" if "set zs \<subseteq> set xs" for zs
    using that by (auto simp: compact_old_attempts_def Let_def row_simps dest!: in_set_takeD in_set_dropD)
  have comp': "set (compact_old_attempts (zs @ [a])) \<subseteq> insert a {b. attempt_identity_tuple b \<in> ?I}"
    if "set zs \<subseteq> set xs" for zs
  proof -
    have "Suc (length zs) - MAX_ATTEMPT_HISTORY \<le> length zs" by (simp add: MAX_ATTEMPT_HISTORY_def)
    then show ?thesis using that
      by (auto simp: compact_old_attempts_def Let_def row_simps dest!: in_set_takeD in_set_dropD)
  qed
  obtain zs where zs: "set zs \<subseteq> set xs"
    and "evict_attempts ?n (xs @ [a]) = zs \<or> evict_attempts ?n (xs @ [a]) = zs @ [a]"
    using ev [of ?n] by blast
  then have "trim_attempt_history (xs @ [a]) = compact_old_attempts zs
      \<or> trim_attempt_history (xs @ [a]) = compact_old_attempts (zs @ [a])"
    using False by (auto simp: trim_attempt_history_def Let_def)
  then show ?thesis using comp [OF zs] comp' [OF zs] by auto
qed

lemma upsert_row_at:
  assumes u: "upsert_attempt now a st = (merged, st1)"
    and at_i: "attempt_position (rs_attempts st1) (attempt_identity_tuple a) = Some i"
  shows "rs_attempts st1 ! i = merged"
proof (cases "attempt_position (rs_attempts st) (attempt_identity_tuple a)")
  case None
  with u have m: "merged = a" and st1: "rs_attempts st1 = trim_attempt_history (rs_attempts st @ [a])"
    by (auto simp: upsert_attempt_def)
  from attempt_position_Some [OF at_i] have "rs_attempts st1 ! i \<in> set (rs_attempts st1)"
    "attempt_identity_tuple (rs_attempts st1 ! i) = attempt_identity_tuple a" by auto
  with trim_snoc_set [of "rs_attempts st" a] None m show ?thesis
    unfolding st1 attempt_position_None by (metis (mono_tags, lifting) insertE mem_Collect_eq subsetD)
next
  case (Some j)
  note j = attempt_position_Some [OF Some]
  from Some u have m: "merged = merge_attempt now (rs_attempts st ! j) a"
    and st1: "rs_attempts st1 = (rs_attempts st)[j := merged]" by (auto simp: upsert_attempt_def Let_def)
  have key: "attempt_identity_tuple merged = attempt_identity_tuple a" using j m merge_identity by simp
  note i = attempt_position_Some [OF at_i]
  have "\<not> i < j" using i j st1 by auto
  moreover have "\<not> j < i" using i j st1 key by auto
  ultimately show ?thesis using i st1 by (metis length_list_update linorder_neqE_nat nth_list_update_eq)
qed

lemma upsert_count:
  assumes "\<And>a. P (strip_attempt_heavy_payload False a) = P a" "\<And>a. P a \<Longrightarrow> \<not> attempt_history_evictable a"
    and merge: "\<And>i. attempt_position (rs_attempts st) (attempt_identity_tuple a) = Some i \<Longrightarrow>
      P (rs_attempts st ! i) \<Longrightarrow> P (merge_attempt now (rs_attempts st ! i) a)"
  shows "length (filter P (rs_attempts st)) + (if attempt_position (rs_attempts st) (attempt_identity_tuple a) = None \<and> P a
      then 1 else 0) \<le> length (filter P (rs_attempts (snd (upsert_attempt now a st))))"
proof (cases "attempt_position (rs_attempts st) (attempt_identity_tuple a)")
  case None
  have "map (\<lambda>_. ()) (filter P (trim_attempt_history (rs_attempts st @ [a])))
      = map (\<lambda>_. ()) (filter P (rs_attempts st @ [a]))"
    by (rule trim_keeps) (use assms in auto)
  then have "length (filter P (trim_attempt_history (rs_attempts st @ [a]))) = length (filter P (rs_attempts st @ [a]))"
    by (metis length_map)
  with None show ?thesis by (simp add: upsert_attempt_def)
next
  case (Some i)
  then show ?thesis using merge [OF Some] attempt_position_Some [OF Some]
    by (simp add: upsert_attempt_def Let_def filter_update_mono)
qed

lemma recorded_count:
  fixes st a now
  defines "i0 \<equiv> attempt_position (rs_attempts st) (attempt_identity_tuple (stamp_attempt now a))"
  assumes P: "\<And>a. P (strip_attempt_heavy_payload False a) = P a" "\<And>a. P a \<Longrightarrow> \<not> attempt_history_evictable a"
    and merge: "\<And>i. i0 = Some i \<Longrightarrow> P (rs_attempts st ! i) \<Longrightarrow> P (merge_attempt now (rs_attempts st ! i) (stamp_attempt now a))"
    and note_ids: "\<And>b ids. P b \<Longrightarrow> P (b\<lparr>at_blocked := True, at_obligation_ids := ids\<rparr>)"
    and self: "\<And>b. P b \<Longrightarrow> P (merge_attempt now b b)"
  shows "length (filter P (rs_attempts st)) + (if i0 = None \<and> P (stamp_attempt now a) then 1 else 0)
    \<le> length (filter P (rs_attempts (recorded_rows now a ids st)))"
proof -
  obtain merged st1 where u: "upsert_attempt now (stamp_attempt now a) st = (merged, st1)" by fastforce
  let ?final = "merged\<lparr>at_blocked := True, at_obligation_ids := ids\<rparr>"
  let ?st2 = "rewrite_attempt merged ?final st1"
  have key: "attempt_identity_tuple merged = attempt_identity_tuple (stamp_attempt now a)"
    using upsert_identity [of now "stamp_attempt now a" st] u by simp
  have 1: "length (filter P (rs_attempts st)) + (if i0 = None \<and> P (stamp_attempt now a) then 1 else 0)
      \<le> length (filter P (rs_attempts st1))"
    using upsert_count [of P st "stamp_attempt now a" now, OF P] merge u by (simp add: i0_def)
  have row: "rs_attempts st1 ! i = merged"
    if "attempt_position (rs_attempts st1) (attempt_identity_tuple merged) = Some i" for i
    using upsert_row_at [OF u] that key by simp
  have 2: "length (filter P (rs_attempts st1)) \<le> length (filter P (rs_attempts ?st2))"
  proof (cases "attempt_position (rs_attempts st1) (attempt_identity_tuple merged)")
    case (Some j)
    have "length (filter P (rs_attempts st1)) \<le> length (filter P ((rs_attempts st1)[j := ?final]))"
      by (rule filter_update_mono) (use row [OF Some] note_ids attempt_position_Some [OF Some] in simp_all)
    with Some show ?thesis by (simp add: rewrite_attempt_def)
  qed (simp add: rewrite_attempt_def)
  have same: "rs_attempts ?st2 ! i = ?final"
    if i: "attempt_position (rs_attempts ?st2) (attempt_identity_tuple ?final) = Some i" for i
  proof (cases "attempt_position (rs_attempts st1) (attempt_identity_tuple merged)")
    case None
    with i show ?thesis by (simp add: rewrite_attempt_def)
  next
    case (Some j)
    have st2: "rs_attempts ?st2 = (rs_attempts st1)[j := ?final]" using Some by (simp add: rewrite_attempt_def)
    note iS = attempt_position_Some [OF i] and jS = attempt_position_Some [OF Some]
    have "\<not> i < j" using iS jS st2 by auto
    moreover have "\<not> j < i" using iS jS st2 by auto
    ultimately show ?thesis using iS st2 by (metis length_list_update linorder_neqE_nat nth_list_update_eq)
  qed
  have 3: "length (filter P (rs_attempts ?st2)) \<le> length (filter P (rs_attempts (snd (upsert_attempt now ?final ?st2))))"
    using upsert_count [of P ?st2 ?final now, OF P] same self by fastforce
  note 4 = le_trans [OF 1 le_trans [OF 2 3]]
  show ?thesis
  proof (cases "at_status merged = ''blocked'' \<or> at_blocked merged")
    case True
    with 4 show ?thesis unfolding recorded_rows_def u Let_def prod.case by (simp only: if_True)
  next
    case False
    with 1 show ?thesis unfolding recorded_rows_def u Let_def prod.case by (simp only: if_False)
  qed
qed

end
