(* ===== verification/Gate_Props.thy ===== *)
theory Gate_Props
  imports Review_History
begin

text \<open>
  Properties of the attempt history and of the commit gate that reads it: what recording keeps, the
  bound of the history, the money count and its ceiling, the identical-diff refusal.
\<close>

section \<open>History\<close>


text \<open>Trimming bounds the history: after it there are at most fifty rows, or no
  row left that may be evicted.\<close>

theorem trimming_bounds_the_history:
  "length (trim_attempt_history xs) \<le> MAX_ATTEMPT_HISTORY
   \<or> list_all (\<lambda>a. \<not> attempt_history_evictable a) (trim_attempt_history xs)"
  by (rule trim_length)

text \<open>The recorded attempt is the one of a row of the history.\<close>

definition same_attempt :: "string \<Rightarrow> commit_attempt \<Rightarrow> commit_attempt \<Rightarrow> bool" where
  "same_attempt now a b = (attempt_identity_tuple b = attempt_identity_tuple (stamp_attempt now a))"

text \<open>The rows that the count of a gate counts, and the ledgers whose count has no row without a
  repository in it.\<close>

definition counted :: "(string \<Rightarrow> string) \<Rightarrow> string \<Rightarrow> string \<Rightarrow> string \<Rightarrow> commit_attempt \<Rightarrow> bool" where
  "counted owner_of tool key rid a =
     (is_paid_for rid a \<and> at_tool_name a = tool
      \<and> (if tool \<in> set custody_review_tools
          then tool \<in> {''review_result'', ''review_skill''}
               \<or> str_or (at_review_budget_repo_key a) (owner_of (at_repo_key a)) = owner_of key
          else at_repo_key a = key))"

definition scope_is_own :: "string \<Rightarrow> string \<Rightarrow> review_state \<Rightarrow> bool" where
  "scope_is_own tool key st =
     (tool \<in> set custody_review_tools \<or> key \<in> at_repo_key ` set (rs_attempts st)
      \<or> (\<forall>b \<in> set (rs_attempts st). at_repo_key b \<notin> {'''', LEGACY_CURRENT_REPO_KEY}))"

lemma paid_rows_of_key:
  assumes "scope_is_own tool key st" "rid \<noteq> ''''"
  shows "count_paid_review_cycles owner_of st tool key rid = length (filter (counted owner_of tool key rid) (rs_attempts st))"
proof (cases "tool \<in> set custody_review_tools")
  case True
  with assms(2) show ?thesis
    by (auto simp: count_paid_review_cycles_def counted_def filter_attempts_def filter_lifecycle_records_def
        filter_repo_scope_def intro!: arg_cong [where f = length] filter_cong)
next
  case False
  have "filter (is_paid_for rid) (filter_attempts st (Some key) (Some tool) None None)
      = filter (counted owner_of tool key rid) (rs_attempts st)"
    using assms(1) False by (auto simp: scope_is_own_def counted_def filter_attempts_def filter_lifecycle_records_def
        filter_repo_scope_def in_repo_scope_def intro!: filter_cong)
  with False assms(2) show ?thesis by (simp add: count_paid_review_cycles_def)
qed

lemma paid_rows_lower_bound:
  assumes "rid \<noteq> ''''"
  shows "length (filter (counted owner_of tool key rid) (rs_attempts st)) \<le> count_paid_review_cycles owner_of st tool key rid"
proof (cases "scope_is_own tool key st")
  case False
  then have "filter (counted owner_of tool key rid) (rs_attempts st) = []"
    by (auto simp: filter_empty_conv scope_is_own_def counted_def)
  then show ?thesis by (simp only: list.size)
qed (simp add: paid_rows_of_key assms)

lemma paid_rows_recorded:
  fixes owner_of tool key rid a now
  defines "P \<equiv> counted owner_of tool key rid"
  assumes named: "rid \<noteq> ''''" "tool \<noteq> ''''" "key \<noteq> ''''"
    and root: "\<forall>b \<in> set (rs_attempts st). same_attempt now a b \<and> at_root_task_id b = rid \<longrightarrow> at_root_task_id a \<in> {'''', rid}"
    and budget: "\<forall>b \<in> set (rs_attempts st). same_attempt now a b \<and> tool = ''review_change'' \<longrightarrow> at_review_budget_repo_key b \<noteq> ''''"
  shows "length (filter P (rs_attempts st))
      + (if attempt_position (rs_attempts st) (attempt_identity_tuple (stamp_attempt now a)) = None
            \<and> P (stamp_attempt now a) then 1 else 0)
    \<le> length (filter P (rs_attempts (snd (record_attempt now redirects a st))))"
proof -
  obtain ids where ids: "rs_attempts (snd (record_attempt now redirects a st)) = rs_attempts (recorded_rows now a ids st)"
    using record_attempt_rows by blast
  have stamped: "at_root_task_id (stamp_attempt now a) = at_root_task_id a"
    "at_tool_name (stamp_attempt now a) \<noteq> ''''" "at_repo_key (stamp_attempt now a) \<noteq> ''''"
    by (simp_all add: stamp_attempt_def Let_def)
  show ?thesis unfolding ids
  proof (rule recorded_count)
    fix i assume i: "attempt_position (rs_attempts st) (attempt_identity_tuple (stamp_attempt now a)) = Some i"
      and p: "P (rs_attempts st ! i)"
    let ?b = "rs_attempts st ! i"
    have same: "attempt_identity_tuple ?b = attempt_identity_tuple (stamp_attempt now a)" and "?b \<in> set (rs_attempts st)"
      using attempt_position_Some [OF i] by simp_all
    then have b: "at_root_task_id ?b = rid \<longrightarrow> at_root_task_id a \<in> {'''', rid}"
        "tool = ''review_change'' \<longrightarrow> at_review_budget_repo_key ?b \<noteq> ''''"
      using root budget by (auto simp: same_attempt_def)
    have "str_or (at_tool_name ?b) DEFAULT_TOOL_NAME = at_tool_name (stamp_attempt now a)"
      "str_or (at_repo_key ?b) LEGACY_CURRENT_REPO_KEY = at_repo_key (stamp_attempt now a)"
      using same stamped(2,3) by (simp_all add: attempt_identity_tuple_def str_or_def)
    with p b stamped named show "P (merge_attempt now ?b (stamp_attempt now a))"
      by (auto simp: P_def counted_def is_paid_for_def row_simps str_or_def custody_review_tools_def split: if_splits)
  qed (auto simp: P_def counted_def is_paid_for_def row_simps attempt_history_evictable_def)
qed

text \<open>C15: The money count never goes down when an attempt is recorded: on every gate tool, the paid cycles
  of a root stay at least what they were, for a repository whose rows are told apart from those without a
  repository (the ledger has a row of its key, or none without one) and a recorded attempt that does not
  move a row of the root to another root; a row of a change review that is recorded again names
  its budget.\<close>

theorem paid_cycles_never_forgotten:
  assumes "tool \<noteq> ''''" "key \<noteq> ''''" and "scope_is_own tool key st"
    and "\<forall>b \<in> set (rs_attempts st). same_attempt now a b \<and> at_root_task_id b = rid \<longrightarrow> at_root_task_id a \<in> {'''', rid}"
    and "\<forall>b \<in> set (rs_attempts st). same_attempt now a b \<and> tool = ''review_change'' \<longrightarrow> at_review_budget_repo_key b \<noteq> ''''"
  shows "count_paid_review_cycles owner_of st tool key rid
    \<le> count_paid_review_cycles owner_of (snd (record_attempt now redirects a st)) tool key rid"
proof (cases "rid = ''''")
  case True
  then show ?thesis by (simp add: count_paid_review_cycles_def)
next
  case False
  show ?thesis
    using paid_rows_recorded [OF False assms(1,2,4,5), of owner_of redirects]
      paid_rows_lower_bound [OF False, of owner_of tool key "snd (record_attempt now redirects a st)"]
    unfolding paid_rows_of_key [OF assms(3) False, of owner_of] by linarith
qed

text \<open>A paid dispatch counts: once a new paid attempt of a root is recorded as the last one the cap
  allows, the ceiling refuses that root's next wave.\<close>

theorem paid_dispatch_exhausts_the_ceiling:
  assumes "at_paid a" "at_root_task_id a = rid" "rid \<noteq> ''''" "at_tool_name a = tool" "at_repo_key a = key"
    and "tool \<notin> set custody_review_tools" "tool \<noteq> ''''" "key \<noteq> ''''"
    and "key \<in> at_repo_key ` set (rs_attempts st)"
    and "attempt_position (rs_attempts st) (attempt_identity_tuple (stamp_attempt now a)) = None"
    and "c \<le> Suc (count_paid_review_cycles owner_of st tool key rid)"
  shows "check_review_cycles_ceiling (Some c) blocks owner_of (Some (snd (record_attempt now redirects a st)))
           tool key rid \<noteq> None"
proof -
  have "counted owner_of tool key rid (stamp_attempt now a)"
    using assms by (simp add: stamp_attempt_def Let_def is_paid_for_def counted_def)
  moreover have "tool \<noteq> ''review_change''" using assms(6) by (auto simp: custody_review_tools_def)
  moreover have "scope_is_own tool key st" using assms(9) by (simp add: scope_is_own_def)
  note equal = paid_rows_of_key [OF this assms(3)]
  ultimately have "Suc (count_paid_review_cycles owner_of st tool key rid)
      \<le> count_paid_review_cycles owner_of (snd (record_attempt now redirects a st)) tool key rid"
    using paid_rows_recorded [of rid tool key st now a owner_of redirects]
      paid_rows_lower_bound [OF assms(3), of owner_of tool key "snd (record_attempt now redirects a st)"] assms
    unfolding equal by auto
  with assms(3,11) show ?thesis by (simp add: check_review_cycles_ceiling_def Let_def)
qed

section \<open>The identical-diff refusal\<close>

text \<open>The rows that count, and the trailing run of verdict blocks of one fingerprint under one known
  review contract, newest first; the rebuttals that run has paid for.\<close>

definition counting_rows :: "commit_attempt list \<Rightarrow> commit_attempt list" where
  "counting_rows xs = filter (\<lambda>a. \<not> streak_skips a) xs"

definition streak_row :: "string \<Rightarrow> string \<Rightarrow> commit_attempt \<Rightarrow> bool" where
  "streak_row fp contract a = (verdict_row_for fp a \<and> contract \<noteq> '''' \<and> at_review_contract_fingerprint a = contract)"

definition streak :: "string \<Rightarrow> string \<Rightarrow> commit_attempt list \<Rightarrow> commit_attempt list" where
  "streak fp contract xs = takeWhile (streak_row fp contract) (rev (counting_rows xs))"

definition spent_rebuttals :: "commit_attempt list \<Rightarrow> string set" where
  "spent_rebuttals xs = at_rebuttal_sha256 ` {a \<in> set xs. at_rebuttal_sha256 a \<noteq> '''' \<and> at_paid a}"

lemma walk_streak_result:
  "fst (walk_streak items fp contract lv seen)
     = (case lv of Some v \<Rightarrow> Some v
        | None \<Rightarrow> (case takeWhile (streak_row fp contract) (counting_rows items) of [] \<Rightarrow> None | v # vs \<Rightarrow> Some v))
   \<and> set (snd (walk_streak items fp contract lv seen))
     = set seen \<union> spent_rebuttals (takeWhile (streak_row fp contract) (counting_rows items))"
  by (induction items arbitrary: lv seen)
     (auto simp: counting_rows_def streak_row_def spent_rebuttals_def split: option.split)

lemma walk_is_trailing_streak:
  "fst (walk_identical_verdict_streak xs fp contract)
     = (case streak fp contract xs of [] \<Rightarrow> None | v # vs \<Rightarrow> Some v)
   \<and> set (snd (walk_identical_verdict_streak xs fp contract)) = spent_rebuttals (streak fp contract xs)"
  by (simp add: walk_identical_verdict_streak_def walk_streak_result streak_def counting_rows_def rev_filter)

lemma refusal_iff:
  assumes "strip fp \<noteq> ''''"
  shows "check_identical_verdict_refusal (Some st) key tool fp rebuttal contract = ''''
    \<longleftrightarrow> (let s = streak (strip fp) contract (filter_attempts st (Some key) (Some tool) None None)
         in s = [] \<or> rebuttal \<noteq> '''' \<and> rebuttal \<notin> spent_rebuttals s)"
proof -
  let ?xs = "filter_attempts st (Some key) (Some tool) None None"
  obtain v seen where w: "walk_identical_verdict_streak ?xs (strip fp) contract = (v, seen)" by fastforce
  from walk_is_trailing_streak [of ?xs "strip fp" contract]
  have v: "v = (case streak (strip fp) contract ?xs of [] \<Rightarrow> None | v # vs \<Rightarrow> Some v)"
    and seen: "set seen = spent_rebuttals (streak (strip fp) contract ?xs)"
    by (simp_all add: w)
  show ?thesis using assms
    by (cases "streak (strip fp) contract ?xs")
       (simp_all add: check_identical_verdict_refusal_def w v seen Let_def identical_diff_message_def
          warning_sign_def)
qed
text \<open>C14: The gate refuses a fingerprint exactly when the newest rows that count are verdict blocks of it
  under the current known review contract and no new rebuttal is supplied: a rebuttal buys one paid
  review unless a paid row of that trailing run already spent it.\<close>

theorem identical_diff_refused_iff:
  assumes "strip fp \<noteq> ''''"
  shows "check_identical_verdict_refusal (Some st) key tool fp rebuttal contract = ''''
    \<longleftrightarrow> (let s = streak (strip fp) contract (filter_attempts st (Some key) (Some tool) None None)
         in s = [] \<or> rebuttal \<noteq> '''' \<and> rebuttal \<notin> spent_rebuttals s)"
  using assms by (rule refusal_iff)

lemma attempt_position_snoc:
  "attempt_identity_tuple a \<notin> attempt_identity_tuple ` set ys
   \<Longrightarrow> attempt_position (ys @ [a]) (attempt_identity_tuple a) = Some (length ys)"
  unfolding attempt_position_def find_Some_iff
  by (auto simp: nth_append intro!: exI [of _ "length ys"]) (metis image_eqI nth_mem)

lemma upsert_last:
  assumes pos: "attempt_position (rs_attempts st) (attempt_identity_tuple a) = None \<and> \<not> attempt_history_evictable a
    \<or> rs_attempts st \<noteq> [] \<and> attempt_position (rs_attempts st) (attempt_identity_tuple a) = Some (length (rs_attempts st) - 1)"
  shows "\<exists>ys. rs_attempts (snd (upsert_attempt now a st)) = ys @ [fst (upsert_attempt now a st)]
           \<and> attempt_identity_tuple a \<notin> attempt_identity_tuple ` set ys"
  using pos
proof
  assume new: "attempt_position (rs_attempts st) (attempt_identity_tuple a) = None \<and> \<not> attempt_history_evictable a"
  then obtain ys where ys: "trim_attempt_history (rs_attempts st @ [a]) = ys @ [a]"
    "attempt_identity_tuple ` set ys \<subseteq> attempt_identity_tuple ` set (rs_attempts st)"
    using trim_snoc by meson
  then have "attempt_identity_tuple a \<notin> attempt_identity_tuple ` set ys"
    using new attempt_position_None by (metis subsetD)
  with new ys show ?thesis by (intro exI [of _ ys]) (simp add: upsert_attempt_def)
next
  assume old: "rs_attempts st \<noteq> []
    \<and> attempt_position (rs_attempts st) (attempt_identity_tuple a) = Some (length (rs_attempts st) - 1)"
  then obtain ys b where st: "rs_attempts st = ys @ [b]" by (metis rev_exhaust)
  have "attempt_identity_tuple a \<notin> attempt_identity_tuple ` set ys"
    using attempt_position_Some [OF conjunct2 [OF old]] unfolding st
    by (auto simp: in_set_conv_nth nth_append)
  with old st show ?thesis by (intro exI [of _ ys]) (simp add: upsert_attempt_def Let_def)
qed

lemma recorded_last:
  fixes a now st
  defines "merged \<equiv> fst (upsert_attempt now (stamp_attempt now a) st)"
  assumes pos: "attempt_position (rs_attempts st) (attempt_identity_tuple (stamp_attempt now a)) = None
        \<and> \<not> attempt_history_evictable (stamp_attempt now a)
    \<or> rs_attempts st \<noteq> [] \<and> attempt_position (rs_attempts st) (attempt_identity_tuple (stamp_attempt now a))
          = Some (length (rs_attempts st) - 1)"
    and blocked: "at_status merged = ''blocked''"
  shows "\<exists>ys ids. rs_attempts (snd (record_attempt now redirects a st))
     = ys @ [merge_attempt now (merged\<lparr>at_blocked := True, at_obligation_ids := ids\<rparr>)
                              (merged\<lparr>at_blocked := True, at_obligation_ids := ids\<rparr>)]"
proof -
  obtain ids where ids: "rs_attempts (snd (record_attempt now redirects a st)) = rs_attempts (recorded_rows now a ids st)"
    using record_attempt_rows by blast
  let ?final = "merged\<lparr>at_blocked := True, at_obligation_ids := ids\<rparr>"
  obtain st1 where u: "upsert_attempt now (stamp_attempt now a) st = (merged, st1)"
    unfolding merged_def by (metis prod.collapse)
  have key: "attempt_identity_tuple merged = attempt_identity_tuple (stamp_attempt now a)"
    using upsert_identity merged_def by simp
  obtain ys where ys: "rs_attempts st1 = ys @ [merged]" "attempt_identity_tuple merged \<notin> attempt_identity_tuple ` set ys"
    using upsert_last [OF pos, of now] u key by auto
  let ?st2 = "rewrite_attempt merged ?final st1"
  have st2: "rs_attempts ?st2 = ys @ [?final]"
    using attempt_position_snoc [OF ys(2)] ys(1) by (simp add: rewrite_attempt_def)
  have "attempt_position (rs_attempts ?st2) (attempt_identity_tuple ?final) = Some (length ys)"
    unfolding st2 by (rule attempt_position_snoc) (simp add: ys(2))
  then have "rs_attempts (snd (upsert_attempt now ?final ?st2)) = ys @ [merge_attempt now ?final ?final]"
    by (simp add: upsert_attempt_def Let_def st2)
  then have "rs_attempts (recorded_rows now a ids st) = ys @ [merge_attempt now ?final ?final]"
    unfolding recorded_rows_def u Let_def prod.case using blocked by (simp only: if_True simp_thms snd_conv)
  with ids show ?thesis by metis
qed

lemma merge_class: "at_block_class i \<noteq> '''' \<Longrightarrow> at_block_class (merge_attempt now e i) = at_block_class i"
  by (simp add: merge_attempt_def Let_def strip_attempt_heavy_payload_def)

lemma class_recorded: "at_block_class a \<noteq> '''' \<Longrightarrow> attempt_block_class a = at_block_class a"
  by (simp add: attempt_block_class_def)

text \<open>C13: A recorded verdict makes the identical resubmission free: once a verdict block of a staged
  diff is recorded under a known review contract, as a new row or over the newest one, the same
  fingerprint under the same contract with no rebuttal is refused.\<close>

theorem recorded_verdict_refuses_identical_diff:
  assumes "at_status a = ''blocked''" "at_block_class a = BLOCK_CLASS_VERDICT"
    and "at_block_reason a \<notin> set refusal_block_reasons" "at_block_reason a \<noteq> ''''"
    and "at_pre_review_fingerprint a = strip fp" "strip fp \<noteq> ''''"
    and "at_review_contract_fingerprint a = contract" "contract \<noteq> ''''"
    and "at_repo_key a = key" "key \<noteq> ''''" "at_tool_name a = tool" "tool \<noteq> ''''"
    and "attempt_position (rs_attempts st) (attempt_identity_tuple (stamp_attempt now a)) = None
      \<or> rs_attempts st \<noteq> [] \<and> attempt_position (rs_attempts st) (attempt_identity_tuple (stamp_attempt now a))
            = Some (length (rs_attempts st) - 1)"
  shows "check_identical_verdict_refusal (Some (snd (record_attempt now redirects a st))) key tool fp '''' contract \<noteq> ''''"
proof -
  let ?a = "stamp_attempt now a"
  let ?merged = "fst (upsert_attempt now ?a st)"
  let ?Q = "\<lambda>b. at_status b = ''blocked'' \<and> at_block_class b = BLOCK_CLASS_VERDICT \<and> at_block_reason b = at_block_reason a
      \<and> at_pre_review_fingerprint b = strip fp \<and> at_review_contract_fingerprint b = contract
      \<and> at_repo_key b = key \<and> at_tool_name b = tool"
  have Qa: "?Q ?a" using assms by (simp add: stamp_attempt_def Let_def)
  have Qm: "?Q (merge_attempt now e b)" if "?Q b" for e b
    using that assms by (simp add: row_simps merge_class)
  have ev: "\<not> attempt_history_evictable ?a"
    using Qa by (simp add: attempt_history_evictable_def class_recorded)
  have Qmerged: "?Q ?merged"
    using Qa Qm by (auto simp: upsert_attempt_def Let_def split: option.split)
  obtain ys ids where rows: "rs_attempts (snd (record_attempt now redirects a st))
      = ys @ [merge_attempt now (?merged\<lparr>at_blocked := True, at_obligation_ids := ids\<rparr>)
                               (?merged\<lparr>at_blocked := True, at_obligation_ids := ids\<rparr>)]" (is "_ = ys @ [?last]")
    using recorded_last [of st now a redirects] assms(13) ev Qmerged by blast
  have Qlast: "?Q ?last" by (rule Qm) (use Qmerged in simp)
  then have "\<not> streak_skips ?last" "streak_row (strip fp) contract ?last"
    using assms by (simp_all add: streak_skips_def class_recorded infra_failure_phases_def streak_row_def verdict_row_for_def)
  moreover have "\<exists>zs. filter_attempts (snd (record_attempt now redirects a st)) (Some key) (Some tool) None None = zs @ [?last]"
    using Qlast by (simp add: filter_attempts_def filter_lifecycle_records_def filter_repo_scope_def in_repo_scope_def rows)
  ultimately have "streak (strip fp) contract
      (filter_attempts (snd (record_attempt now redirects a st)) (Some key) (Some tool) None None) \<noteq> []"
    by (auto simp: streak_def counting_rows_def)
  with refusal_iff [OF assms(6)] show ?thesis by (simp add: Let_def)
qed

end
