(* ===== verification/Review_Obligations.thy ===== *)
theory Review_Obligations
  imports Review_History
begin

text \<open>
  Facts about the obligations of the review ledger: coalescing leaves one open row per repository and
  fingerprint and loses none, folding a finding keeps that and leaves an open obligation that answers
  it, and the ids of obligations and of debts are drawn from an interface that never reissues one.
\<close>

section \<open>Coalescing\<close>

lemma hydrate_fields [simp]:
  "ob_id (hydrate_obligation now ob) = ob_id ob" "ob_status (hydrate_obligation now ob) = ob_status ob"
  "ob_item (hydrate_obligation now ob) = ob_item ob" "ob_reason (hydrate_obligation now ob) = ob_reason ob"
  "ob_repo_key (hydrate_obligation now ob) = str_or (ob_repo_key ob) LEGACY_CURRENT_REPO_KEY"
  "ob_fingerprint (hydrate_obligation now ob)
     = str_or (ob_fingerprint ob) (make_obligation_fingerprint (ob_item ob) (ob_reason ob))"
  by (simp_all add: hydrate_obligation_def Let_def)

lemma coalesce_into_fields [simp]:
  "ob_repo_key (coalesce_into e ob) = ob_repo_key e" "ob_fingerprint (coalesce_into e ob) = ob_fingerprint e"
  "ob_status (coalesce_into e ob) = ob_status e"
  by (simp_all add: coalesce_into_def Let_def)

lemma coalesce_into_id: "ob_id (coalesce_into e ob) \<in> {ob_id e, ob_id ob}"
  by (simp add: coalesce_into_def Let_def)

lemma make_fingerprint_nonempty [simp]: "make_obligation_fingerprint i r \<noteq> ''''"
  by (simp add: make_obligation_fingerprint_def Let_def)

abbreviation is_open_ob :: "obligation_item \<Rightarrow> bool" where
  "is_open_ob ob \<equiv> ob_status ob = ''still_open''"

definition obligation_key :: "obligation_item \<Rightarrow> string \<times> string" where
  "obligation_key ob = (str_or (ob_repo_key ob) LEGACY_CURRENT_REPO_KEY,
     str_or (ob_fingerprint ob) (make_obligation_fingerprint (ob_item ob) (ob_reason ob)))"

lemma key_of_hydrated: "obligation_merge_key (hydrate_obligation now ob) = obligation_key ob"
  by (simp add: obligation_merge_key_def obligation_key_def str_or_def)

lemma hydrated_key: "obligation_key (hydrate_obligation now ob) = obligation_key ob"
  by (simp add: obligation_key_def str_or_def)

definition open_keys :: "obligation_item list \<Rightarrow> (string \<times> string) list" where
  "open_keys obs = map obligation_key (filter is_open_ob obs)"

lemma open_keys_mem: "i < length xs \<Longrightarrow> is_open_ob (xs ! i) \<Longrightarrow> obligation_key (xs ! i) \<in> set (open_keys xs)"
  by (simp add: open_keys_def)

text \<open>The index the loop carries: the open rows kept so far, by key, at their positions.\<close>

definition merged_index :: "obligation_item list \<Rightarrow> ((string \<times> string) \<times> nat) list \<Rightarrow> bool" where
  "merged_index ordered m \<longleftrightarrow>
     (\<forall>k i. map_of m k = Some i \<longleftrightarrow> i < length ordered \<and> is_open_ob (ordered ! i) \<and> obligation_key (ordered ! i) = k)"

lemma merged_index_empty [simp]: "merged_index [] []"
  by (simp add: merged_index_def)

lemma merged_index_closed:
  "merged_index ordered m \<Longrightarrow> \<not> is_open_ob ob \<Longrightarrow> merged_index (ordered @ [ob]) m"
  by (auto simp: merged_index_def nth_append less_Suc_eq)

lemma merged_indexD:
  "merged_index ordered m \<Longrightarrow> map_of m k = Some i
   \<Longrightarrow> i < length ordered \<and> is_open_ob (ordered ! i) \<and> obligation_key (ordered ! i) = k"
  unfolding merged_index_def by blast

lemma merged_index_new:
  assumes m: "merged_index ordered m" and ob: "is_open_ob ob" "map_of m (obligation_key ob) = None"
  shows "merged_index (ordered @ [ob]) ((obligation_key ob, length ordered) # m)"
proof -
  have "obligation_key (ordered ! i) \<noteq> obligation_key ob" if "i < length ordered" "is_open_ob (ordered ! i)" for i
    using m ob that unfolding merged_index_def by (metis option.distinct(1))
  then show ?thesis using m ob unfolding merged_index_def
    by (auto simp: nth_append less_Suc_eq simp del: split_paired_All split_paired_Ex)
qed

lemma merged_index_update:
  assumes m: "merged_index ordered m" and i: "map_of m k = Some i" and ob: "is_open_ob ob" "obligation_key ob = k"
  shows "merged_index (ordered[i := ob]) m"
  unfolding merged_index_def
proof (intro allI)
  fix k' j
  show "map_of m k' = Some j \<longleftrightarrow> j < length (ordered[i := ob]) \<and> is_open_ob (ordered[i := ob] ! j)
      \<and> obligation_key (ordered[i := ob] ! j) = k'"
  proof -
    have "map_of m k' = Some j
        \<longleftrightarrow> j < length ordered \<and> is_open_ob (ordered ! j) \<and> obligation_key (ordered ! j) = k'"
      using m unfolding merged_index_def by blast
    then show ?thesis using ob merged_indexD [OF m i] by (cases "j = i") auto
  qed
qed

lemma merged_index_distinct:
  assumes m: "merged_index ordered m" shows "distinct (open_keys ordered)"
proof -
  have "i = j" if "i < length ordered" "j < length ordered" "is_open_ob (ordered ! i)" "is_open_ob (ordered ! j)"
    "obligation_key (ordered ! i) = obligation_key (ordered ! j)" for i j
    using m that unfolding merged_index_def by (metis option.inject)
  then show ?thesis
  proof (induction ordered)
    case (Cons x xs)
    have "distinct (open_keys xs)"
      by (rule Cons.IH) (use Cons.prems [of "Suc _" "Suc _"] in auto)
    moreover have "obligation_key x \<notin> set (open_keys xs)" if "is_open_ob x"
    proof
      assume "obligation_key x \<in> set (open_keys xs)"
      then obtain j where "j < length xs" "is_open_ob (xs ! j)" "obligation_key (xs ! j) = obligation_key x"
        by (auto simp: open_keys_def in_set_conv_nth)
      with Cons.prems [of 0 "Suc j"] that show False by auto
    qed
    ultimately show ?case by (simp add: open_keys_def)
  qed (simp add: open_keys_def)
qed

text \<open>Rows the loop has stored are hydrated.\<close>

definition full_fingerprint :: "obligation_item \<Rightarrow> bool" where
  "full_fingerprint ob \<longleftrightarrow> ob_fingerprint ob \<noteq> '''' \<and> ob_repo_key ob \<noteq> ''''"

lemma full_fingerprint_hydrated [simp]: "full_fingerprint (hydrate_obligation now ob)"
  by (simp add: full_fingerprint_def)

lemma full_fingerprint_into [simp]: "full_fingerprint (coalesce_into e ob) = full_fingerprint e"
  by (simp add: full_fingerprint_def)

lemma coalesce_into_key: "full_fingerprint e \<Longrightarrow> obligation_key (coalesce_into e ob) = obligation_key e"
  by (simp add: obligation_key_def full_fingerprint_def)

lemma filter_update_in:
  "i < length xs \<Longrightarrow> P (xs ! i) \<Longrightarrow> P y \<Longrightarrow> g y = g (xs ! i) \<Longrightarrow> map g (filter P (xs[i := y])) = map g (filter P xs)"
  by (induction xs arbitrary: i) (auto split: nat.split simp: nth_Cons')

lemma coalesce_loop_spec:
  assumes "merged_index ordered m" "list_all full_fingerprint ordered"
  shows "distinct (open_keys (coalesce_loop now obs m ordered))
    \<and> set (open_keys (coalesce_loop now obs m ordered)) = set (open_keys ordered) \<union> set (open_keys obs)
    \<and> filter (\<lambda>ob. \<not> is_open_ob ob) (coalesce_loop now obs m ordered)
        = filter (\<lambda>ob. \<not> is_open_ob ob) (ordered @ map (hydrate_obligation now) obs)
    \<and> list_all full_fingerprint (coalesce_loop now obs m ordered)"
  using assms
proof (induction obs arbitrary: m ordered)
  case Nil
  then show ?case using merged_index_distinct by (simp add: open_keys_def)
next
  case (Cons ob0 obs)
  let ?ob = "hydrate_obligation now ob0"
  show ?case
  proof (cases "is_open_ob ob0")
    case False
    from Cons.IH [OF merged_index_closed [OF Cons.prems(1), of ?ob]] False Cons.prems(2)
    show ?thesis by (simp add: Let_def open_keys_def)
  next
    case open0: True
    show ?thesis
    proof (cases "map_of m (obligation_key ob0)")
      case None
      from Cons.IH [OF merged_index_new [OF Cons.prems(1), of ?ob]] None open0 Cons.prems(2)
      show ?thesis by (simp add: Let_def open_keys_def key_of_hydrated hydrated_key)
    next
      case (Some i)
      note i = merged_indexD [OF Cons.prems(1) Some]
      let ?c = "coalesce_into (ordered ! i) ?ob"
      have full: "full_fingerprint (ordered ! i)" using Cons.prems(2) i by (simp add: list_all_length)
      have key: "obligation_key ?c = obligation_key (ordered ! i)" by (rule coalesce_into_key [OF full])
      have idx: "merged_index (ordered[i := ?c]) m"
        by (rule merged_index_update [OF Cons.prems(1) Some]) (use i key in simp_all)
      have fulls: "list_all full_fingerprint (ordered[i := ?c])"
        using Cons.prems(2) full i by (auto simp: list_all_length nth_list_update)
      have keys: "open_keys (ordered[i := ?c]) = open_keys ordered"
        unfolding open_keys_def by (rule filter_update_in) (use i key in simp_all)
      have closed: "filter (\<lambda>ob. \<not> is_open_ob ob) (ordered[i := ?c]) = filter (\<lambda>ob. \<not> is_open_ob ob) ordered"
        by (rule filter_update_out) (use i in simp_all)
      have mem: "obligation_key ob0 \<in> set (open_keys ordered)"
        using i open_keys_mem by metis
      from Cons.IH [OF idx fulls] Some open0 mem keys closed show ?thesis
        by (auto simp: Let_def key_of_hydrated) (auto simp: open_keys_def)
    qed
  qed
qed


lemma coalesce_loop_no_merge:
  "merged_index ordered m \<Longrightarrow> distinct (open_keys (ordered @ obs))
   \<Longrightarrow> coalesce_loop now obs m ordered = ordered @ map (hydrate_obligation now) obs"
proof (induction obs arbitrary: m ordered)
  case (Cons ob0 obs)
  let ?ob = "hydrate_obligation now ob0"
  have d: "distinct (open_keys ((ordered @ [?ob]) @ obs))"
  proof -
    have "open_keys ((ordered @ [?ob]) @ obs) = open_keys (ordered @ ob0 # obs)"
      by (simp add: open_keys_def hydrated_key)
    with Cons.prems(2) show ?thesis by (simp only:)
  qed
  show ?case
  proof (cases "is_open_ob ob0")
    case False
    from Cons.IH [OF merged_index_closed [OF Cons.prems(1), of ?ob] d] False show ?thesis by (simp add: Let_def)
  next
    case True
    have "map_of m (obligation_key ob0) = None"
    proof (rule ccontr)
      assume "map_of m (obligation_key ob0) \<noteq> None"
      then obtain i where "map_of m (obligation_key ob0) = Some i" by blast
      from merged_indexD [OF Cons.prems(1) this] True Cons.prems(2) show False
        by (auto simp: open_keys_def image_iff in_set_conv_nth)
    qed
    with Cons.IH [OF merged_index_new [OF Cons.prems(1), of ?ob] d] True show ?thesis
      by (simp add: Let_def key_of_hydrated hydrated_key)
  qed
qed simp

section \<open>Folding findings\<close>

text \<open>What folding never changes of a stored obligation: its id, status, fingerprint and repository.\<close>

type_synonym ob_sig = "string \<times> string \<times> string \<times> string"

definition ob_sig :: "obligation_item \<Rightarrow> ob_sig" where
  "ob_sig ob = (ob_id ob, ob_status ob, ob_fingerprint ob, ob_repo_key ob)"

fun sig_id :: "ob_sig \<Rightarrow> string" where "sig_id (i, s, f, r) = i"
fun sig_open :: "ob_sig \<Rightarrow> bool" where "sig_open (i, s, f, r) = (s = ''still_open'')"
fun sig_fp :: "ob_sig \<Rightarrow> string" where "sig_fp (i, s, f, r) = f"
fun sig_repo :: "ob_sig \<Rightarrow> string" where "sig_repo (i, s, f, r) = r"

lemma sig_of [simp]: "sig_id (ob_sig ob) = ob_id ob" "sig_open (ob_sig ob) = is_open_ob ob"
  "sig_fp (ob_sig ob) = ob_fingerprint ob" "sig_repo (ob_sig ob) = ob_repo_key ob"
  by (simp_all add: ob_sig_def)

definition sigs_of :: "review_state \<Rightarrow> ob_sig list" where
  "sigs_of st = map ob_sig (rs_obligations st)"

definition sig_key :: "ob_sig \<Rightarrow> string \<times> string" where
  "sig_key s = (sig_repo s, sig_fp s)"

definition full_sig :: "ob_sig \<Rightarrow> bool" where
  "full_sig s \<longleftrightarrow> sig_fp s \<noteq> '''' \<and> sig_repo s \<noteq> ''''"

lemma full_sig_of [simp]: "full_sig (ob_sig ob) = full_fingerprint ob"
  by (simp add: full_sig_def full_fingerprint_def)

lemma open_keys_sigs:
  "list_all full_fingerprint obs \<Longrightarrow> open_keys obs = map sig_key (filter sig_open (map ob_sig obs))"
  by (induction obs) (auto simp: open_keys_def sig_key_def obligation_key_def full_fingerprint_def)

lemma touch_sig: "full_fingerprint ob \<Longrightarrow> ob_sig (touch_obligation now a item reason severity ob) = ob_sig ob"
  by (simp add: touch_obligation_def Let_def ob_sig_def full_fingerprint_def)

text \<open>The invariant of the fold: keys of open rows distinct, rows hydrated, the two indexes sound, the
  fingerprint index complete for the attempt's own repository, the touched ids open.\<close>

definition fold_inv :: "string \<Rightarrow> ob_sig list \<Rightarrow> obligation_index \<Rightarrow> bool" where
  "fold_inv repo sigs ix \<longleftrightarrow>
     distinct (map sig_key (filter sig_open sigs)) \<and> list_all full_sig sigs
     \<and> (\<forall>k i. map_of (ix_by_id ix) k = Some i \<longrightarrow> i < length sigs \<and> sig_open (sigs ! i) \<and> sig_id (sigs ! i) = k)
     \<and> (\<forall>k i. map_of (ix_by_fingerprint ix) k = Some i \<longrightarrow>
          i < length sigs \<and> sig_open (sigs ! i) \<and> sig_fp (sigs ! i) = k)
     \<and> (\<forall>i<length sigs. sig_open (sigs ! i) \<and> sig_repo (sigs ! i) = repo \<longrightarrow>
          map_of (ix_by_fingerprint ix) (sig_fp (sigs ! i)) \<noteq> None)
     \<and> set (ix_touched ix) \<subseteq> sig_id ` {s \<in> set sigs. sig_open s}"

definition note_position :: "ob_sig \<Rightarrow> nat \<Rightarrow> obligation_index \<Rightarrow> obligation_index" where
  "note_position s pos ix = ix\<lparr>ix_by_id := AList.update (sig_id s) pos (ix_by_id ix),
     ix_by_fingerprint := AList.update (sig_fp s) pos (ix_by_fingerprint ix),
     ix_touched := ix_touched ix @ [sig_id s]\<rparr>"

lemma fold_inv_note:
  assumes inv: "fold_inv repo sigs ix" and pos: "pos < length sigs" "sig_open (sigs ! pos)"
  shows "fold_inv repo sigs (note_position (sigs ! pos) pos ix)"
  using assms nth_mem [OF pos(1)] unfolding fold_inv_def note_position_def
  by (auto simp: update_conv')

lemma fold_inv_new:
  assumes inv: "fold_inv repo sigs ix" and s: "full_sig s" "sig_open s" "sig_repo s = repo"
    and fresh: "map_of (ix_by_fingerprint ix) (sig_fp s) = None"
  shows "fold_inv repo (sigs @ [s]) (note_position s (length sigs) ix)"
proof -
  have "sig_key s \<notin> set (map sig_key (filter sig_open sigs))"
  proof
    assume "sig_key s \<in> set (map sig_key (filter sig_open sigs))"
    then obtain i where "i < length sigs" "sig_open (sigs ! i)" "sig_key (sigs ! i) = sig_key s"
      by (auto simp: in_set_conv_nth)
    with inv s fresh show False unfolding fold_inv_def by (auto simp: sig_key_def)
  qed
  with assms show ?thesis unfolding fold_inv_def note_position_def
    by (auto simp: update_conv' nth_append less_Suc_eq split: if_splits)
qed

lemma allocate_obligations [simp]: "rs_obligations (snd (allocate_obligation_id st)) = rs_obligations st"
  by (simp add: allocate_obligation_id_def split: prod.split)

lemma fold_finding_skip:
  "(case finding of PDict f \<Rightarrow> \<not> is_critical_failure f | _ \<Rightarrow> True) \<Longrightarrow> fold_finding now red a finding acc = acc"
  by (auto simp: fold_finding_def split: pyval.splits)

definition finding_fp :: "pydict \<Rightarrow> string" where
  "finding_fp f = make_obligation_fingerprint (finding_text f ''item'' ''unknown'') (finding_text f ''reason'' '''')"

lemma finding_fp_nonempty [simp]: "finding_fp f \<noteq> ''''"
  by (simp add: finding_fp_def)

definition finding_match :: "(string \<times> string) list \<Rightarrow> obligation_index \<Rightarrow> pydict \<Rightarrow> nat option" where
  "finding_match red ix f = matching_obligation red ix (strip (sor (dget f ''obligation_id''))) (finding_fp f)"

lemma fold_finding_hit:
  assumes f: "is_critical_failure f" and m: "finding_match red ix f = Some pos"
    and pos: "pos < length (rs_obligations st)" "full_fingerprint (rs_obligations st ! pos)"
    and r: "fold_finding now red a (PDict f) (st, ix) = (st', ix')"
  shows "sigs_of st' = sigs_of st" "ix' = note_position (sigs_of st ! pos) pos ix"
    "rs_next_obligation_seq st' = rs_next_obligation_seq st"
proof -
  let ?ob = "touch_obligation now a (finding_text f ''item'' ''unknown'') (finding_text f ''reason'' '''')
     (finding_text f ''severity'' ''critical'') (rs_obligations st ! pos)"
  have "st' = st\<lparr>rs_obligations := (rs_obligations st)[pos := ?ob]\<rparr>"
    and ix': "ix' = note_position (ob_sig ?ob) pos ix"
    using r f m by (auto simp: fold_finding_def finding_match_def finding_fp_def Let_def note_position_def)
  then show "sigs_of st' = sigs_of st" "ix' = note_position (sigs_of st ! pos) pos ix"
    "rs_next_obligation_seq st' = rs_next_obligation_seq st"
    using touch_sig [OF pos(2)] pos(1)
    by (simp_all add: sigs_of_def map_update) (metis list_update_id map_update nth_map)
qed

lemma fold_finding_miss:
  assumes f: "is_critical_failure f" and m: "finding_match red ix f = None" and repo: "at_repo_key a \<noteq> ''''"
    and r: "fold_finding now red a (PDict f) (st, ix) = (st', ix')"
  defines "s \<equiv> (fst (allocate_obligation_id st), ''still_open'', finding_fp f, at_repo_key a)"
  shows "sigs_of st' = sigs_of st @ [s]" "ix' = note_position s (length (sigs_of st)) ix"
    "rs_next_obligation_seq st' = rs_next_obligation_seq (snd (allocate_obligation_id st))"
proof -
  obtain oid st0 where al: "allocate_obligation_id st = (oid, st0)" by fastforce
  have o: "rs_obligations st0 = rs_obligations st" using allocate_obligations [of st] al by simp
  let ?new = "new_obligation a oid (finding_text f ''item'' ''unknown'') (finding_text f ''severity'' ''critical'')
      (finding_text f ''reason'' '''') (finding_fp f)"
  let ?ob = "touch_obligation now a (finding_text f ''item'' ''unknown'') (finding_text f ''reason'' '''')
     (finding_text f ''severity'' ''critical'') ?new"
  have full: "full_fingerprint ?new" using repo by (simp add: full_fingerprint_def new_obligation_def)
  have st': "rs_obligations st' = rs_obligations st @ [?ob]" "rs_next_obligation_seq st' = rs_next_obligation_seq st0"
    and ix': "ix' = note_position (ob_sig ?ob) (length (rs_obligations st)) ix"
    using r f m by (auto simp: fold_finding_def finding_match_def finding_fp_def Let_def note_position_def al o)
  have sig: "ob_sig ?ob = s" using touch_sig [OF full] by (simp add: s_def al ob_sig_def new_obligation_def)
  show "sigs_of st' = sigs_of st @ [s]" "ix' = note_position s (length (sigs_of st)) ix"
    "rs_next_obligation_seq st' = rs_next_obligation_seq (snd (allocate_obligation_id st))"
    by (simp_all add: sigs_of_def st' sig ix' al)
qed


text \<open>The obligation a finding is answered by: one with its fingerprint, the open one it names, or the
  one a semantic redirect of its fingerprint names.\<close>

definition answers :: "(string \<times> string) list \<Rightarrow> pydict \<Rightarrow> ob_sig \<Rightarrow> bool" where
  "answers red f s \<longleftrightarrow> sig_open s \<and>
     (sig_fp s = finding_fp f
      \<or> looks_like_public_obligation_id (strip (sor (dget f ''obligation_id'')))
          \<and> sig_id s = strip (sor (dget f ''obligation_id''))
      \<or> red \<noteq> [] \<and> sig_id s = (case map_of red (finding_fp f) of None \<Rightarrow> '''' | Some t \<Rightarrow> t))"

lemma finding_match_answers:
  assumes inv: "fold_inv repo sigs ix" and m: "finding_match red ix f = Some pos"
  shows "pos < length sigs \<and> answers red f (sigs ! pos)"
  using inv m unfolding fold_inv_def finding_match_def matching_obligation_def Let_def answers_def
  by (auto split: if_splits)

lemma finding_match_None:
  "finding_match red ix f = None \<Longrightarrow> map_of (ix_by_fingerprint ix) (finding_fp f) = None"
  by (auto simp: finding_match_def matching_obligation_def Let_def split: if_splits)

definition is_critical :: "pyval \<Rightarrow> bool" where
  "is_critical v \<longleftrightarrow> (case v of PDict f \<Rightarrow> is_critical_failure f | _ \<Rightarrow> False)"

lemma fold_finding_step:
  assumes inv: "fold_inv repo (sigs_of st) ix" and repo: "at_repo_key a = repo" "repo \<noteq> ''''"
    and r: "fold_finding now red a finding (st, ix) = (st', ix')"
  shows "fold_inv repo (sigs_of st') ix' \<and> (\<exists>new. sigs_of st' = sigs_of st @ new)
    \<and> (is_critical finding \<longrightarrow> (\<exists>s\<in>set (sigs_of st'). answers red (the_dict finding) s))"
proof (cases "is_critical finding")
  case False
  then have "fold_finding now red a finding (st, ix) = (st, ix)"
    by (intro fold_finding_skip) (auto simp: is_critical_def split: pyval.splits)
  with False inv r show ?thesis by simp
next
  case True
  then obtain f where f: "finding = PDict f" "is_critical_failure f"
    by (auto simp: is_critical_def split: pyval.splits)
  show ?thesis
  proof (cases "finding_match red ix f")
    case (Some pos)
    note pos = finding_match_answers [OF inv Some]
    then have pos': "pos < length (rs_obligations st)" by (simp add: sigs_of_def)
    moreover have "full_fingerprint (rs_obligations st ! pos)"
      using inv pos' by (simp add: fold_inv_def sigs_of_def list_all_length)
    ultimately have "sigs_of st' = sigs_of st" "ix' = note_position (sigs_of st ! pos) pos ix"
      using fold_finding_hit [OF f(2) Some] r f(1) by blast+
    with pos fold_inv_note [OF inv, of pos] f(1) show ?thesis
      by (auto simp: answers_def)
  next
    case None
    let ?s = "(fst (allocate_obligation_id st), ''still_open'', finding_fp f, repo)"
    have "sigs_of st' = sigs_of st @ [?s]" "ix' = note_position ?s (length (sigs_of st)) ix"
      using fold_finding_miss [OF f(2) None] r f(1) repo by blast+
    moreover have "fold_inv repo (sigs_of st @ [?s]) (note_position ?s (length (sigs_of st)) ix)"
      by (rule fold_inv_new [OF inv]) (use finding_match_None [OF None] repo in \<open>simp_all add: full_sig_def\<close>)
    ultimately show ?thesis using f(1) by (auto simp: answers_def)
  qed
qed

lemma fold_findings:
  assumes "fold_inv repo (sigs_of st) ix" "at_repo_key a = repo" "repo \<noteq> ''''"
    and "fold (fold_finding now red a) fs (st, ix) = (st', ix')"
  shows "fold_inv repo (sigs_of st') ix' \<and> (\<exists>new. sigs_of st' = sigs_of st @ new)
    \<and> (\<forall>v\<in>set fs. is_critical v \<longrightarrow> (\<exists>s\<in>set (sigs_of st'). answers red (the_dict v) s))"
  using assms
proof (induction fs arbitrary: st ix)
  case (Cons v fs)
  obtain st1 ix1 where s: "fold_finding now red a v (st, ix) = (st1, ix1)" by fastforce
  note step = fold_finding_step [OF Cons.prems(1-3) s]
  from Cons.IH [OF conjunct1 [OF step] Cons.prems(2,3)] Cons.prems(4) s step
  show ?case by (auto 4 4)
qed simp

lemma map_of_fold_update:
  "map_of (fold (\<lambda>i. AList.update (f i) i) ps m) k = Some i
     \<Longrightarrow> i \<in> set ps \<and> f i = k \<or> map_of m k = Some i"
proof (induction ps arbitrary: m)
  case (Cons p ps)
  show ?case using Cons.prems Cons.IH [of "AList.update (f p) p m"] by (auto simp: update_conv' split: if_splits)
qed simp

lemma map_of_fold_update_mem:
  "k \<in> f ` set ps \<or> map_of m k \<noteq> None \<Longrightarrow> map_of (fold (\<lambda>i. AList.update (f i) i) ps m) k \<noteq> None"
proof (induction ps arbitrary: m)
  case (Cons p ps)
  show ?case using Cons.prems Cons.IH [of "AList.update (f p) p m"]
    by (cases "k = f p") (auto simp: update_conv')
qed simp

lemma fold_inv_initial:
  assumes "distinct (open_keys (rs_obligations st))" "list_all full_fingerprint (rs_obligations st)"
  shows "fold_inv repo (sigs_of st) (obligation_index_of st repo)"
proof -
  let ?obs = "rs_obligations st"
  have pos: "i \<in> set (open_obligation_positions st repo) \<Longrightarrow> i < length ?obs \<and> is_open_ob (?obs ! i)" for i
    by (auto simp: open_obligation_positions_def)
  have own: "i \<in> set (open_obligation_positions st repo)"
    if "i < length ?obs" "is_open_ob (?obs ! i)" "ob_repo_key (?obs ! i) = repo" for i
    using that by (auto simp: open_obligation_positions_def in_repo_scope_def)
  have full: "ob_fingerprint (?obs ! i) \<noteq> ''''" if "i < length ?obs" for i
    using assms(2) that by (simp add: list_all_length full_fingerprint_def)
  show ?thesis unfolding fold_inv_def
  proof (intro conjI allI impI)
    fix k i assume "map_of (ix_by_id (obligation_index_of st repo)) k = Some i"
    then have "i \<in> set (open_obligation_positions st repo) \<and> ob_id (?obs ! i) = k"
      by (auto simp: obligation_index_of_def Let_def dest!: map_of_fold_update)
    with pos show "i < length (sigs_of st)" "sig_open (sigs_of st ! i)" "sig_id (sigs_of st ! i) = k"
      by (auto simp: sigs_of_def)
  next
    fix k i assume "map_of (ix_by_fingerprint (obligation_index_of st repo)) k = Some i"
    then have "i \<in> set (open_obligation_positions st repo) \<and> ob_fingerprint (?obs ! i) = k"
      by (auto simp: obligation_index_of_def Let_def dest!: map_of_fold_update)
    with pos show "i < length (sigs_of st)" "sig_open (sigs_of st ! i)" "sig_fp (sigs_of st ! i) = k"
      by (auto simp: sigs_of_def)
  next
    fix i assume "i < length (sigs_of st)" "sig_open (sigs_of st ! i) \<and> sig_repo (sigs_of st ! i) = repo"
    then have "i \<in> set (open_obligation_positions st repo)" "ob_fingerprint (?obs ! i) \<noteq> ''''"
      using own full by (auto simp: sigs_of_def)
    then have "map_of (fold (\<lambda>i. AList.update (ob_fingerprint (?obs ! i)) i)
        (filter (\<lambda>i. ob_fingerprint (?obs ! i) \<noteq> '''') (open_obligation_positions st repo)) [])
        (ob_fingerprint (?obs ! i)) \<noteq> None"
      by (intro map_of_fold_update_mem) auto
    with \<open>i < length (sigs_of st)\<close>
    show "map_of (ix_by_fingerprint (obligation_index_of st repo)) (sig_fp (sigs_of st ! i)) \<noteq> None"
      by (simp add: obligation_index_of_def Let_def sigs_of_def)
  qed (use assms open_keys_sigs in \<open>auto simp: sigs_of_def obligation_index_of_def Let_def list_all_iff\<close>)
qed

section \<open>The obligations after an attempt\<close>

definition coalesced :: "obligation_item list \<Rightarrow> bool" where
  "coalesced obs \<longleftrightarrow> distinct (open_keys obs) \<and> list_all full_fingerprint obs"

lemma coalesce_coalesced: "coalesced (rs_obligations (coalesce_open_obligations now st))"
  using coalesce_loop_spec [of "[]" "[]" now "rs_obligations st"]
  by (simp add: coalesced_def coalesce_open_obligations_def)

lemma hydrate_sig: "full_fingerprint ob \<Longrightarrow> ob_sig (hydrate_obligation now ob) = ob_sig ob"
  by (simp add: ob_sig_def full_fingerprint_def)

lemma coalesce_idle:
  assumes "coalesced (rs_obligations st)"
  shows "sigs_of (coalesce_open_obligations now st) = sigs_of st"
    and "rs_obligations (coalesce_open_obligations now st) = map (hydrate_obligation now) (rs_obligations st)"
proof -
  show obs: "rs_obligations (coalesce_open_obligations now st) = map (hydrate_obligation now) (rs_obligations st)"
    using coalesce_loop_no_merge [of "[]" "[]" "rs_obligations st" now] assms
    by (simp add: coalesced_def coalesce_open_obligations_def)
  show "sigs_of (coalesce_open_obligations now st) = sigs_of st"
    using assms by (auto simp: sigs_of_def obs coalesced_def list_all_iff hydrate_sig)
qed

lemma update_obligations_spec:
  assumes ne: "at_critical_findings a \<noteq> []" and repo: "at_repo_key a \<noteq> ''''"
    and u: "update_obligations_from_attempt now red a st = (ids, st')"
  shows "coalesced (rs_obligations st')"
    and "\<exists>new. sigs_of st' = sigs_of (coalesce_open_obligations now st) @ new"
    and "\<exists>ids0. ids = dedupe_strings ids0 \<and> set ids0 \<subseteq> sig_id ` {s \<in> set (sigs_of st'). sig_open s}"
    and "\<forall>v\<in>set (at_critical_findings a). is_critical v \<longrightarrow> (\<exists>s\<in>set (sigs_of st'). answers red (the_dict v) s)"
proof -
  let ?st0 = "coalesce_open_obligations now st"
  obtain st1 ix where f: "fold (fold_finding now red a) (at_critical_findings a)
      (?st0, obligation_index_of ?st0 (at_repo_key a)) = (st1, ix)" by fastforce
  have inv0: "fold_inv (at_repo_key a) (sigs_of ?st0) (obligation_index_of ?st0 (at_repo_key a))"
    using coalesce_coalesced [of now st] by (intro fold_inv_initial) (simp_all add: coalesced_def)
  note folded = fold_findings [OF inv0 refl repo f]
  have st': "st' = coalesce_open_obligations now st1" and ids: "ids = dedupe_strings (ix_touched ix)"
    using u ne f by (simp_all add: update_obligations_from_attempt_def Let_def)
  have full: "list_all full_fingerprint (rs_obligations st1)"
    using folded by (auto simp: fold_inv_def sigs_of_def list_all_iff)
  with folded have c: "coalesced (rs_obligations st1)"
    by (simp add: coalesced_def open_keys_sigs fold_inv_def sigs_of_def)
  have sigs: "sigs_of st' = sigs_of st1" using coalesce_idle(1) [OF c] st' by simp
  show "coalesced (rs_obligations st')" using coalesce_coalesced st' by simp
  show "\<exists>new. sigs_of st' = sigs_of ?st0 @ new" using folded sigs by simp
  show "\<exists>ids0. ids = dedupe_strings ids0 \<and> set ids0 \<subseteq> sig_id ` {s \<in> set (sigs_of st'). sig_open s}"
    using folded sigs ids by (auto simp: fold_inv_def)
  show "\<forall>v\<in>set (at_critical_findings a). is_critical v \<longrightarrow> (\<exists>s\<in>set (sigs_of st'). answers red (the_dict v) s)"
    using folded sigs by simp
qed

end
