(* ===== verification/Obligation_Ids.thy ===== *)
theory Obligation_Ids
  imports Review_Obligations
begin

text \<open>
  The allocation of public ids: the contract of an id source as a locale, interpreted on the two
  allocators of the ledger, and what it gives for the ids of obligations across recorded attempts.
\<close>

section \<open>Allocation of ids\<close>

lemma allocate_loop_spec:
  "allocate_loop prefix used seq = (c, n) \<Longrightarrow>
     \<exists>k. c = render_id prefix k \<and> seq \<le> k \<and> n = Suc k \<and> c \<notin> set used"
proof (induction prefix used seq rule: allocate_loop.induct)
  case (1 prefix used seq)
  show ?case
  proof (cases "render_id prefix seq \<in> set used")
    case True
    with "1.prems" have "allocate_loop prefix used (seq + 1) = (c, n)" by (simp add: allocate_loop.simps [of prefix used seq])
    from "1.IH" [OF _ this] True show ?thesis by fastforce
  next
    case False
    with "1.prems" show ?thesis by (auto simp: allocate_loop.simps [of prefix used seq])
  qed
qed

lemma strip_render_id:
  assumes "p \<noteq> ''''" "\<not> is_ws (hd p)" shows "strip (render_id p n) = render_id p n"
proof (rule strip_plain)
  have "last (render_id p n) \<in> set (nat_str n)"
    by (simp add: render_id_def zpad_def last_append)
  then show "\<not> is_ws (last (render_id p n))"
    using nat_str_digits [of n] not_ws_digit by (auto simp: list_all_iff)
qed (use assms in \<open>simp_all add: render_id_def\<close>)

lemma allocate_prefixed_id_spec:
  assumes "allocate_prefixed_id ids next_seq prefix = (c, n)" "prefix \<noteq> ''''" "\<not> is_ws (hd prefix)"
  shows "\<exists>k. c = render_id prefix k \<and> max 1 next_seq \<le> int k \<and> n = int k + 1 \<and> strip c \<notin> strip ` set ids"
proof -
  let ?used = "filter (\<lambda>s. s \<noteq> '''') (map strip ids)"
  obtain m where m: "allocate_loop prefix ?used (nat (max 1 (if next_seq = 0 then 1 else next_seq))) = (c, m)" "n = int m"
    using assms(1) by (auto simp: allocate_prefixed_id_def Let_def split: prod.splits)
  from allocate_loop_spec [OF m(1)] obtain k where k: "c = render_id prefix k"
    "nat (max 1 (if next_seq = 0 then 1 else next_seq)) \<le> k" "m = Suc k" "c \<notin> set ?used" by blast
  have "strip c = c" "c \<noteq> ''''" using k(1) strip_render_id assms by (simp_all add: render_id_def)
  with k m(2) show ?thesis by (intro exI [of _ k]) (auto split: if_splits)
qed

text \<open>The contract of a source of public ids: an id it hands out is new among the ids in use, and its
  number lies in the range the counter moved over, so no later id repeats it.\<close>

locale id_source =
  fixes prefix :: string
    and ids :: "'st \<Rightarrow> string list"
    and next_seq :: "'st \<Rightarrow> int"
    and alloc :: "'st \<Rightarrow> string \<times> 'st"
  assumes alloc_keeps: "ids (snd (alloc st)) = ids st"
    and alloc_fresh: "strip (fst (alloc st)) \<notin> strip ` set (ids st)"
    and alloc_number: "\<exists>k. fst (alloc st) = render_id prefix k \<and> next_seq st \<le> int k \<and> int k < next_seq (snd (alloc st))"
begin

lemma alloc_distinct: "distinct (map strip (ids st)) \<Longrightarrow> distinct (map strip (ids st @ [fst (alloc st)]))"
  using alloc_fresh [of st] by auto

lemma alloc_advances: "next_seq st < next_seq (snd (alloc st))"
  using alloc_number [of st] by auto

lemma never_reissued:
  assumes "next_seq (snd (alloc st)) \<le> next_seq st'"
  shows "fst (alloc st') \<noteq> fst (alloc st)"
  using alloc_number [of st] alloc_number [of st'] assms render_id_inj by (smt (verit, best))

end

lemma allocate_obligation_id_spec:
  "allocate_obligation_id st = (c, st') \<Longrightarrow> st' = st\<lparr>rs_next_obligation_seq := rs_next_obligation_seq st'\<rparr>
    \<and> strip c \<notin> strip ` set (map ob_id (rs_obligations st))
    \<and> (\<exists>k. c = render_id ''obl-'' k \<and> rs_next_obligation_seq st \<le> int k \<and> rs_next_obligation_seq st' = int k + 1)"
  using allocate_prefixed_id_spec [of "map ob_id (rs_obligations st)" "rs_next_obligation_seq st" "''obl-''"]
  by (auto simp: allocate_obligation_id_def is_ws_def code_def split: prod.splits)

interpretation obligation_ids: id_source "''obl-''" "\<lambda>st. map ob_id (rs_obligations st)"
    rs_next_obligation_seq allocate_obligation_id
proof
  fix st :: review_state
  obtain c st' where a: "allocate_obligation_id st = (c, st')" by fastforce
  note spec = allocate_obligation_id_spec [OF a]
  show "map ob_id (rs_obligations (snd (allocate_obligation_id st))) = map ob_id (rs_obligations st)" by simp
  show "strip (fst (allocate_obligation_id st)) \<notin> strip ` set (map ob_id (rs_obligations st))"
    using spec a by simp
  show "\<exists>k. fst (allocate_obligation_id st) = render_id ''obl-'' k \<and> rs_next_obligation_seq st \<le> int k
      \<and> int k < rs_next_obligation_seq (snd (allocate_obligation_id st))"
    using spec a by auto
qed

interpretation debt_ids: id_source "''crd-''" "\<lambda>ds. map de_id (fst ds)" snd allocate_debt_id
proof
  fix ds :: "debt_item list \<times> int"
  obtain c n where a: "allocate_prefixed_id (map de_id (fst ds)) (snd ds) ''crd-'' = (c, n)" by fastforce
  have "\<exists>k. c = render_id ''crd-'' k \<and> max 1 (snd ds) \<le> int k \<and> n = int k + 1 \<and> strip c \<notin> strip ` set (map de_id (fst ds))"
    by (rule allocate_prefixed_id_spec [OF a]) (simp_all add: is_ws_def code_def)
  then show "map de_id (fst (snd (allocate_debt_id ds))) = map de_id (fst ds)"
    "strip (fst (allocate_debt_id ds)) \<notin> strip ` set (map de_id (fst ds))"
    "\<exists>k. fst (allocate_debt_id ds) = render_id ''crd-'' k \<and> snd ds \<le> int k \<and> int k < snd (snd (allocate_debt_id ds))"
    by (auto simp: allocate_debt_id_def a)
qed


section \<open>Ids of obligations\<close>

definition ids_of :: "obligation_item list \<Rightarrow> string list" where
  "ids_of obs = map (\<lambda>ob. strip (ob_id ob)) obs"

lemma ids_of_sigs: "ids_of (rs_obligations st) = map (strip \<circ> sig_id) (sigs_of st)"
  by (simp add: ids_of_def sigs_of_def)

lemma ids_of_append [simp]: "ids_of (xs @ ys) = ids_of xs @ ids_of ys" "ids_of [] = []"
  "ids_of (x # xs) = strip (ob_id x) # ids_of xs" "length (ids_of xs) = length xs"
  by (simp_all add: ids_of_def)

lemma distinct_update_swap:
  "i < length xs \<Longrightarrow> distinct (xs @ y # ys) \<Longrightarrow> z \<in> {xs ! i, y}
   \<Longrightarrow> distinct (xs[i := z] @ ys) \<and> set (xs[i := z] @ ys) \<subseteq> set (xs @ y # ys)"
proof (elim insertE emptyE)
  assume i: "i < length xs" and d: "distinct (xs @ y # ys)"
  {
    assume z: "z = xs ! i"
    with i d show ?thesis by auto
  next
    assume z: "z = y"
    have "distinct (xs[i := y])" using d by (intro distinct_list_update) auto
    moreover have "set (xs[i := y]) \<subseteq> insert y (set xs)" by (rule set_update_subset_insert)
    ultimately show ?thesis using d z by auto
  }
qed

lemma coalesce_loop_ids:
  "merged_index ordered m \<Longrightarrow> list_all full_fingerprint ordered \<Longrightarrow> distinct (ids_of (ordered @ obs))
   \<Longrightarrow> distinct (ids_of (coalesce_loop now obs m ordered))
     \<and> set (ids_of (coalesce_loop now obs m ordered)) \<subseteq> set (ids_of (ordered @ obs))"
proof (induction obs arbitrary: m ordered)
  case (Cons ob0 obs)
  let ?ob = "hydrate_obligation now ob0"
  have step: "distinct (ids_of ((ordered @ [?ob]) @ obs))" "set (ids_of ((ordered @ [?ob]) @ obs)) = set (ids_of (ordered @ ob0 # obs))"
    using Cons.prems(3) by auto
  have full: "list_all full_fingerprint (ordered @ [?ob])" using Cons.prems(2) by simp
  show ?case
  proof (cases "is_open_ob ob0")
    case False
    from Cons.IH [OF merged_index_closed [OF Cons.prems(1), of ?ob] full step(1)] False step(2)
    show ?thesis by (simp add: Let_def)
  next
    case open0: True
    show ?thesis
    proof (cases "map_of m (obligation_key ob0)")
      case None
      from Cons.IH [OF merged_index_new [OF Cons.prems(1), of ?ob] full step(1)] None open0 step(2)
      show ?thesis by (simp add: Let_def key_of_hydrated hydrated_key)
    next
      case (Some i)
      note i = merged_indexD [OF Cons.prems(1) Some]
      let ?c = "coalesce_into (ordered ! i) ?ob"
      have idx: "merged_index (ordered[i := ?c]) m"
      proof (rule merged_index_update [OF Cons.prems(1) Some])
        show "obligation_key ?c = obligation_key ob0"
          using i Cons.prems(2) by (simp add: coalesce_into_key list_all_length)
      qed (use i in simp)
      have upd: "ids_of (ordered[i := ?c]) = (ids_of ordered)[i := strip (ob_id ?c)]" by (simp add: ids_of_def map_update)
      have "strip (ob_id ?c) \<in> {ids_of ordered ! i, strip (ob_id ob0)}"
        using coalesce_into_id [of "ordered ! i" ?ob] i by (auto simp: ids_of_def)
      with distinct_update_swap [of i "ids_of ordered" "strip (ob_id ob0)" "ids_of obs"] Cons.prems(3) i
      have "distinct (ids_of (ordered[i := ?c] @ obs)) \<and> set (ids_of (ordered[i := ?c] @ obs)) \<subseteq> set (ids_of (ordered @ ob0 # obs))"
        by (simp add: upd)
      moreover have "list_all full_fingerprint (ordered[i := ?c])"
        using Cons.prems(2) i by (auto simp: list_all_length nth_list_update)
      ultimately show ?thesis using Cons.IH [OF idx] Some open0 by (auto simp: Let_def key_of_hydrated)
    qed
  qed
qed simp


lemma coalesce_ids:
  assumes "distinct (ids_of (rs_obligations st))"
  shows "distinct (ids_of (rs_obligations (coalesce_open_obligations now st)))"
    and "set (ids_of (rs_obligations (coalesce_open_obligations now st))) \<subseteq> set (ids_of (rs_obligations st))"
  using coalesce_loop_ids [of "[]" "[]" "rs_obligations st" now] assms
  by (simp_all add: coalesce_open_obligations_def)

lemma coalesce_seq [simp]: "rs_next_obligation_seq (coalesce_open_obligations now st) = rs_next_obligation_seq st"
  by (simp add: coalesce_open_obligations_def)

text \<open>Rows added with ids of a range of numbers.\<close>

definition numbered :: "int \<Rightarrow> int \<Rightarrow> string \<Rightarrow> bool" where
  "numbered lo hi oid \<longleftrightarrow> (\<exists>k. oid = render_id ''obl-'' k \<and> lo \<le> int k \<and> int k < hi)"

lemma numbered_mono: "numbered lo hi oid \<Longrightarrow> lo' \<le> lo \<Longrightarrow> hi \<le> hi' \<Longrightarrow> numbered lo' hi' oid"
  by (auto simp: numbered_def)

lemma fold_finding_ids:
  assumes inv: "fold_inv repo (sigs_of st) ix" and repo: "at_repo_key a = repo" "repo \<noteq> ''''"
    and r: "fold_finding now red a finding (st, ix) = (st', ix')"
  shows "(distinct (ids_of (rs_obligations st)) \<longrightarrow> distinct (ids_of (rs_obligations st')))
    \<and> rs_next_obligation_seq st \<le> rs_next_obligation_seq st'
    \<and> (\<exists>new. sigs_of st' = sigs_of st @ new
         \<and> list_all (\<lambda>s. numbered (rs_next_obligation_seq st) (rs_next_obligation_seq st') (sig_id s)) new)"
proof (cases "is_critical finding")
  case False
  then have "fold_finding now red a finding (st, ix) = (st, ix)"
    by (intro fold_finding_skip) (auto simp: is_critical_def split: pyval.splits)
  with r show ?thesis by simp
next
  case True
  then obtain f where f: "finding = PDict f" "is_critical_failure f"
    by (auto simp: is_critical_def split: pyval.splits)
  show ?thesis
  proof (cases "finding_match red ix f")
    case (Some pos)
    note pos = finding_match_answers [OF inv Some]
    then have pos': "pos < length (rs_obligations st)" by (simp add: sigs_of_def)
    moreover have "full_fingerprint (rs_obligations st ! pos)"
      using inv pos' by (simp add: fold_inv_def sigs_of_def list_all_length)
    ultimately have "sigs_of st' = sigs_of st" "rs_next_obligation_seq st' = rs_next_obligation_seq st"
      using fold_finding_hit [OF f(2) Some] r f(1) by blast+
    then show ?thesis by (simp add: ids_of_sigs)
  next
    case None
    let ?s = "(fst (allocate_obligation_id st), ''still_open'', finding_fp f, repo)"
    have s: "sigs_of st' = sigs_of st @ [?s]"
      and n: "rs_next_obligation_seq st' = rs_next_obligation_seq (snd (allocate_obligation_id st))"
      using fold_finding_miss [OF f(2) None] r f(1) repo by blast+
    have ids': "ids_of (rs_obligations st') = ids_of (rs_obligations st) @ [strip (fst (allocate_obligation_id st))]"
      by (simp add: ids_of_sigs s)
    have old: "map strip (map ob_id (rs_obligations st)) = ids_of (rs_obligations st)"
      "map strip (map ob_id (rs_obligations st) @ [c]) = ids_of (rs_obligations st) @ [strip c]" for c
      by (simp_all add: ids_of_def)
    have "distinct (ids_of (rs_obligations st)) \<longrightarrow> distinct (ids_of (rs_obligations st'))"
      using obligation_ids.alloc_distinct [of st] unfolding old ids' by blast
    moreover have "numbered (rs_next_obligation_seq st) (rs_next_obligation_seq st') (sig_id ?s)"
      using obligation_ids.alloc_number [of st] n by (auto simp: numbered_def)
    moreover have "rs_next_obligation_seq st \<le> rs_next_obligation_seq st'"
      using obligation_ids.alloc_advances [of st] n by simp
    ultimately show ?thesis using s by simp
  qed
qed

lemma fold_findings_ids:
  assumes "fold_inv repo (sigs_of st) ix" "at_repo_key a = repo" "repo \<noteq> ''''"
    and "fold (fold_finding now red a) fs (st, ix) = (st', ix')"
  shows "(distinct (ids_of (rs_obligations st)) \<longrightarrow> distinct (ids_of (rs_obligations st')))
    \<and> rs_next_obligation_seq st \<le> rs_next_obligation_seq st'
    \<and> (\<exists>new. sigs_of st' = sigs_of st @ new
         \<and> list_all (\<lambda>s. numbered (rs_next_obligation_seq st) (rs_next_obligation_seq st') (sig_id s)) new)"
  using assms
proof (induction fs arbitrary: st ix)
  case (Cons v fs)
  obtain st1 ix1 where s: "fold_finding now red a v (st, ix) = (st1, ix1)" by fastforce
  note inv1 = conjunct1 [OF fold_finding_step [OF Cons.prems(1-3) s]]
  have "fold (fold_finding now red a) fs (st1, ix1) = (st', ix')" using Cons.prems(4) s by simp
  note IH = Cons.IH [OF inv1 Cons.prems(2,3) this]
  note step = fold_finding_ids [OF Cons.prems(1-3) s]
  from step obtain new1 where n1: "sigs_of st1 = sigs_of st @ new1"
    "list_all (\<lambda>s. numbered (rs_next_obligation_seq st) (rs_next_obligation_seq st1) (sig_id s)) new1" by blast
  from IH obtain new2 where n2: "sigs_of st' = sigs_of st1 @ new2"
    "list_all (\<lambda>s. numbered (rs_next_obligation_seq st1) (rs_next_obligation_seq st') (sig_id s)) new2" by blast
  have "list_all (\<lambda>s. numbered (rs_next_obligation_seq st) (rs_next_obligation_seq st') (sig_id s)) (new1 @ new2)"
    using n1(2) n2(2) IH step by (auto simp: list_all_iff intro: numbered_mono)
  then show ?case using IH step n1(1) n2(1) by auto
qed simp

lemma update_obligations_ids:
  assumes repo: "at_repo_key a \<noteq> ''''" and u: "update_obligations_from_attempt now red a st = (ids, st')"
    and d: "distinct (ids_of (rs_obligations st))"
  shows "distinct (ids_of (rs_obligations st'))
    \<and> rs_next_obligation_seq st \<le> rs_next_obligation_seq st'
    \<and> (\<forall>oid \<in> ob_id ` set (rs_obligations st'). strip oid \<in> set (ids_of (rs_obligations st))
         \<or> numbered (rs_next_obligation_seq st) (rs_next_obligation_seq st') oid)"
proof (cases "at_critical_findings a = []")
  case True
  with u d show ?thesis by (auto simp: update_obligations_from_attempt_def ids_of_def)
next
  case False
  let ?st0 = "coalesce_open_obligations now st"
  obtain st1 ix where f: "fold (fold_finding now red a) (at_critical_findings a)
      (?st0, obligation_index_of ?st0 (at_repo_key a)) = (st1, ix)" by fastforce
  have inv0: "fold_inv (at_repo_key a) (sigs_of ?st0) (obligation_index_of ?st0 (at_repo_key a))"
    using coalesce_coalesced [of now st] by (intro fold_inv_initial) (simp_all add: coalesced_def)
  note inv1 = conjunct1 [OF fold_findings [OF inv0 refl repo f]]
  note ids = fold_findings_ids [OF inv0 refl repo f]
  have st': "st' = coalesce_open_obligations now st1"
    using u False f by (simp_all add: update_obligations_from_attempt_def Let_def)
  have "list_all full_fingerprint (rs_obligations st1)"
    using inv1 by (auto simp: fold_inv_def sigs_of_def list_all_iff)
  then have c: "coalesced (rs_obligations st1)"
    using inv1 by (simp add: coalesced_def open_keys_sigs fold_inv_def sigs_of_def)
  have sigs: "sigs_of st' = sigs_of st1" using coalesce_idle(1) [OF c] st' by simp
  from ids obtain new where new: "sigs_of st' = sigs_of ?st0 @ new"
    "list_all (\<lambda>s. numbered (rs_next_obligation_seq st) (rs_next_obligation_seq st') (sig_id s)) new"
    using sigs st' by auto
  have mem: "ob_id ` set (rs_obligations s) = sig_id ` set (sigs_of s)" for s
    by (simp add: sigs_of_def image_image)
  have "strip (sig_id s) \<in> set (ids_of (rs_obligations st))" if "s \<in> set (sigs_of ?st0)" for s
    using that coalesce_ids(2) [OF d, of now] by (auto simp: ids_of_sigs)
  then have "\<forall>oid \<in> ob_id ` set (rs_obligations st'). strip oid \<in> set (ids_of (rs_obligations st))
         \<or> numbered (rs_next_obligation_seq st) (rs_next_obligation_seq st') oid"
    unfolding mem using new by (auto simp: list_all_iff)
  moreover have "distinct (ids_of (rs_obligations st'))"
    using ids coalesce_ids(1) [OF d, of now] sigs by (simp add: ids_of_sigs)
  ultimately show ?thesis using ids st' by simp
qed

end
