(* ===== verification/Review_Props.thy ===== *)
theory Review_Props
  imports Obligation_Ids
begin

text \<open>
  Properties of the obligations of the review ledger across recorded attempts.
\<close>

section \<open>Obligations\<close>

lemma upsert_frame [simp]:
  "rs_obligations (snd (upsert_attempt now a st)) = rs_obligations st"
  "rs_next_obligation_seq (snd (upsert_attempt now a st)) = rs_next_obligation_seq st"
  by (simp_all add: upsert_attempt_def Let_def split: option.split)

lemma rewrite_frame [simp]:
  "rs_obligations (rewrite_attempt a b st) = rs_obligations st"
  "rs_next_obligation_seq (rewrite_attempt a b st) = rs_next_obligation_seq st"
  by (simp_all add: rewrite_attempt_def split: option.split)

lemma on_commit_frame [simp]:
  "rs_next_obligation_seq (on_successful_commit now k st) = rs_next_obligation_seq st"
  by (simp add: on_successful_commit_def clear_stale_marker_def Let_def split: option.split)

lemma on_commit_obligations:
  "rs_obligations (on_successful_commit now (Some k) st)
     = filter (\<lambda>ob. \<not> in_repo_scope (map ob_repo_key (rs_obligations st)) k (ob_repo_key ob)) (rs_obligations st)"
  by (auto simp: on_successful_commit_def clear_stale_marker_def Let_def filter_repo_scope_def intro!: filter_cong)

text \<open>The ledger's obligations after an attempt is recorded, by its status.\<close>

lemma record_attempt_obligations:
  fixes now a st red
  defines "merged \<equiv> fst (upsert_attempt now (stamp_attempt now a) st)"
    and "st1 \<equiv> snd (upsert_attempt now (stamp_attempt now a) st)"
    and "r \<equiv> record_attempt now red a st"
  shows "at_status merged = ''blocked'' \<or> at_blocked merged \<Longrightarrow>
      rs_obligations (snd r) = rs_obligations (snd (update_obligations_from_attempt now red (merged\<lparr>at_blocked := True\<rparr>) st1))
      \<and> rs_next_obligation_seq (snd r)
          = rs_next_obligation_seq (snd (update_obligations_from_attempt now red (merged\<lparr>at_blocked := True\<rparr>) st1))
      \<and> at_obligation_ids (fst r) = fst (update_obligations_from_attempt now red (merged\<lparr>at_blocked := True\<rparr>) st1)"
    and "\<not> (at_status merged = ''blocked'' \<or> at_blocked merged) \<Longrightarrow>
      rs_obligations (snd r) = (if at_status merged = ''succeeded''
        then filter (\<lambda>ob. \<not> in_repo_scope (map ob_repo_key (rs_obligations st)) (at_repo_key merged) (ob_repo_key ob)) (rs_obligations st)
        else rs_obligations st)
      \<and> rs_next_obligation_seq (snd r) = rs_next_obligation_seq st"
  by (simp_all add: r_def merged_def st1_def record_attempt_def Let_def split_beta on_commit_obligations)

lemma stamped_repo: "at_repo_key (stamp_attempt now a) \<noteq> ''''"
  by (simp add: stamp_attempt_def Let_def)

lemma upserted_fields:
  fixes now a st
  defines "m \<equiv> fst (upsert_attempt now (stamp_attempt now a) st)"
  shows "at_repo_key m \<noteq> ''''" "at_critical_findings m = at_critical_findings a"
    "at_status a = ''blocked'' \<Longrightarrow> at_status m = ''blocked''"
  using stamped_repo [of now a]
  by (auto simp: m_def upsert_attempt_def Let_def row_simps stamp_attempt_def split: option.split)

lemma dedupe_aux_subset: "set (dedupe_aux seen xs) \<subseteq> strip ` set xs"
  by (induction seen xs rule: dedupe_aux.induct) (auto simp: Let_def)

text \<open>A blocked attempt comes back with the ids of its obligations, and every one of them names an
  obligation that is open in the ledger it leaves.\<close>

theorem returned_obligation_ids_are_open:
  assumes "at_status a = ''blocked''"
  shows "set (at_obligation_ids (fst (record_attempt now redirects a st)))
    \<subseteq> strip ` ob_id ` {ob \<in> set (rs_obligations (snd (record_attempt now redirects a st))). is_open_ob ob}"
proof -
  let ?m = "fst (upsert_attempt now (stamp_attempt now a) st)" and ?st1 = "snd (upsert_attempt now (stamp_attempt now a) st)"
  note up = upserted_fields [where now = now and a = a and st = st]
  obtain ids st2 where u: "update_obligations_from_attempt now redirects (?m\<lparr>at_blocked := True\<rparr>) ?st1 = (ids, st2)"
    by fastforce
  have r: "rs_obligations (snd (record_attempt now redirects a st)) = rs_obligations st2"
    "at_obligation_ids (fst (record_attempt now redirects a st)) = ids"
    using record_attempt_obligations(1) [where now = now and a = a and st = st and red = redirects] up(3) [OF assms] u by simp_all
  have "set ids \<subseteq> strip ` ob_id ` {ob \<in> set (rs_obligations st2). is_open_ob ob}"
  proof (cases "at_critical_findings a = []")
    case True
    with u up(2) show ?thesis by (auto simp: update_obligations_from_attempt_def)
  next
    case False
    then obtain ids0 where "ids = dedupe_strings ids0" "set ids0 \<subseteq> sig_id ` {s \<in> set (sigs_of st2). sig_open s}"
      using update_obligations_spec(3) [OF _ _ u] up by auto
    with dedupe_aux_subset [of "[]" ids0] show ?thesis
      by (fastforce simp: dedupe_strings_def sigs_of_def)
  qed
  with r show ?thesis by simp
qed

text \<open>No critical finding of a blocked attempt is dropped: the ledger it leaves has an open
  obligation that answers it, by its fingerprint, by the open obligation it names, or by the one its
  semantic redirect names.\<close>

theorem critical_findings_are_tracked:
  assumes "at_status a = ''blocked''" "PDict f \<in> set (at_critical_findings a)" "is_critical_failure f"
  shows "list_ex (\<lambda>ob. answers redirects f (ob_sig ob)) (rs_obligations (snd (record_attempt now redirects a st)))"
proof -
  let ?m = "fst (upsert_attempt now (stamp_attempt now a) st)" and ?st1 = "snd (upsert_attempt now (stamp_attempt now a) st)"
  note up = upserted_fields [where now = now and a = a and st = st]
  obtain ids st2 where u: "update_obligations_from_attempt now redirects (?m\<lparr>at_blocked := True\<rparr>) ?st1 = (ids, st2)"
    by fastforce
  have r: "rs_obligations (snd (record_attempt now redirects a st)) = rs_obligations st2"
    using record_attempt_obligations(1) [where now = now and a = a and st = st and red = redirects] up(3) [OF assms(1)] u by simp
  have "\<forall>v\<in>set (at_critical_findings a). is_critical v \<longrightarrow> (\<exists>s\<in>set (sigs_of st2). answers redirects (the_dict v) s)"
  proof -
    have "at_critical_findings a \<noteq> []" using assms(2) by auto
    then show ?thesis using update_obligations_spec(4) [OF _ _ u] up by simp
  qed
  with assms(2,3) have "\<exists>s\<in>set (sigs_of st2). answers redirects f s"
    by (force simp: is_critical_def)
  with r show ?thesis by (auto simp: sigs_of_def list_ex_iff)
qed

text \<open>C16: A blocked attempt keeps the ledger free of duplicates and loses nothing: with findings it
  leaves at most one open obligation per repository and fingerprint, and every open obligation of
  before is still open under its key.\<close>

theorem blocked_attempt_keeps_obligations:
  assumes "at_status a = ''blocked''" "at_critical_findings a \<noteq> []"
  shows "distinct (open_keys (rs_obligations (snd (record_attempt now redirects a st))))
    \<and> set (open_keys (rs_obligations st)) \<subseteq> set (open_keys (rs_obligations (snd (record_attempt now redirects a st))))"
proof -
  let ?m = "fst (upsert_attempt now (stamp_attempt now a) st)" and ?st1 = "snd (upsert_attempt now (stamp_attempt now a) st)"
  note up = upserted_fields [where now = now and a = a and st = st]
  obtain ids st2 where u: "update_obligations_from_attempt now redirects (?m\<lparr>at_blocked := True\<rparr>) ?st1 = (ids, st2)"
    by fastforce
  have r: "rs_obligations (snd (record_attempt now redirects a st)) = rs_obligations st2"
    using record_attempt_obligations(1) [where now = now and a = a and st = st and red = redirects] up(3) [OF assms(1)] u by simp
  have c: "coalesced (rs_obligations st2)" using update_obligations_spec(1) [OF _ _ u] up assms(2) by simp
  obtain new where new: "sigs_of st2 = sigs_of (coalesce_open_obligations now ?st1) @ new"
    using update_obligations_spec(2) [OF _ _ u] up assms(2) by auto
  have "set (open_keys (rs_obligations (coalesce_open_obligations now ?st1))) = set (open_keys (rs_obligations st))"
    using coalesce_loop_spec [of "[]" "[]" now "rs_obligations ?st1"]
    by (simp add: coalesce_open_obligations_def open_keys_def)
  moreover have "set (open_keys (rs_obligations (coalesce_open_obligations now ?st1))) \<subseteq> set (open_keys (rs_obligations st2))"
    using coalesce_coalesced [of now ?st1] c new by (auto simp: coalesced_def open_keys_sigs sigs_of_def)
  ultimately show ?thesis using c r by (simp add: coalesced_def)
qed

text \<open>C17: Public ids are never shared or reissued: if the obligations of the ledger carry distinct ids,
  they do after any attempt is recorded, the counter never moves back, and every id that is not an
  old one is numbered from the range the counter moved over.\<close>

theorem obligation_ids_never_reissued:
  fixes now redirects a st
  assumes "distinct (ids_of (rs_obligations st))"
  defines "st' \<equiv> snd (record_attempt now redirects a st)"
  shows "distinct (ids_of (rs_obligations st')) \<and> rs_next_obligation_seq st \<le> rs_next_obligation_seq st'
    \<and> ob_id ` set (rs_obligations st') \<subseteq> {oid. strip oid \<in> set (ids_of (rs_obligations st))
         \<or> numbered (rs_next_obligation_seq st) (rs_next_obligation_seq st') oid}"
proof -
  let ?m = "fst (upsert_attempt now (stamp_attempt now a) st)" and ?st1 = "snd (upsert_attempt now (stamp_attempt now a) st)"
  obtain ids st2 where u: "update_obligations_from_attempt now redirects (?m\<lparr>at_blocked := True\<rparr>) ?st1 = (ids, st2)"
    by fastforce
  show ?thesis
  proof (cases "at_status ?m = ''blocked'' \<or> at_blocked ?m")
    case True
    have "at_repo_key (?m\<lparr>at_blocked := True\<rparr>) \<noteq> ''''" using upserted_fields(1) by simp
    from update_obligations_ids [OF this u] record_attempt_obligations(1) [OF True, of redirects] assms(1) u
    show ?thesis by (auto simp: st'_def)
  next
    case False
    from record_attempt_obligations(2) [OF False, of redirects] assms(1) show ?thesis
      by (auto simp: st'_def ids_of_def distinct_map_filter)
  qed
qed

text \<open>C18: A recorded success settles its repository: no obligation of that key is left in the ledger,
  the obligations of every other repository that has a name are left as they were, in order.\<close>

theorem success_settles_its_repository:
  fixes now redirects a st
  assumes "at_status a = ''succeeded''" "\<not> at_blocked a" "at_repo_key a = key" "key \<noteq> ''''"
  defines "st' \<equiv> snd (record_attempt now redirects a st)"
  shows "key \<notin> ob_repo_key ` set (rs_obligations st')
    \<and> filter (\<lambda>ob. ob_repo_key ob \<notin> {'''', LEGACY_CURRENT_REPO_KEY, key}) (rs_obligations st')
        = filter (\<lambda>ob. ob_repo_key ob \<notin> {'''', LEGACY_CURRENT_REPO_KEY, key}) (rs_obligations st)"
proof -
  let ?m = "fst (upsert_attempt now (stamp_attempt now a) st)"
  have "at_status ?m = ''succeeded''" "\<not> at_blocked ?m" "at_repo_key ?m = key"
    using assms by (auto simp: upsert_attempt_def Let_def row_simps stamp_attempt_def split: option.split)
  with record_attempt_obligations(2) [where now = now and a = a and st = st and red = redirects]
  have "rs_obligations st' = filter (\<lambda>ob. \<not> in_repo_scope (map ob_repo_key (rs_obligations st)) key (ob_repo_key ob)) (rs_obligations st)"
    by (simp add: st'_def)
  then show ?thesis by (auto simp: in_repo_scope_def intro!: filter_cong)
qed

end
