(* ===== verification/Debt_Props.thy ===== *)
theory Debt_Props
  imports Obligation_Ids
begin

text \<open>
  The readiness debts of the review ledger: the loop over the observations, and what a synchronisation
  leaves.
\<close>

section \<open>Readiness debts\<close>

lemma sort_desc_set [simp]: "set (sort_desc k xs) = set xs" "length (sort_desc k xs) = length xs"
  by (simp_all add: sort_desc_def)

lemma trim_debts_open: "debt_is_open d \<Longrightarrow> d \<in> set (trim_debts ds) \<longleftrightarrow> d \<in> set ds"
  by (auto simp: trim_debts_def Let_def dest: in_set_takeD)

lemma trim_debts_subset: "set (trim_debts ds) \<subseteq> set ds"
  by (auto simp: trim_debts_def Let_def dest: in_set_takeD)

lemma trim_debts_length:
  "length (trim_debts ds) \<le> max MAX_COMMIT_READINESS_DEBTS (length (filter debt_is_open ds))"
  by (simp add: trim_debts_def Let_def)

definition debt_statuses :: "string set" where
  "debt_statuses = {'''', ''detected'', ''queued'', ''reopened'', ''verified''}"

definition debt_ok :: "debt_item \<Rightarrow> bool" where
  "debt_ok d \<longleftrightarrow> de_repo_key d \<noteq> '''' \<and> de_fingerprint d \<noteq> '''' \<and> de_status d \<in> debt_statuses"

lemma hydrate_debt_ok: "de_status d \<in> debt_statuses \<Longrightarrow> debt_ok (hydrate_debt now d)"
  by (simp add: debt_ok_def hydrate_debt_def Let_def str_or_def)

lemma refresh_debt_ok:
  assumes "debt_ok d" "debt_key d = observation_key ob"
  shows "debt_ok (refresh_debt now ob d) \<and> debt_key (refresh_debt now ob d) = observation_key ob
    \<and> debt_is_open (refresh_debt now ob d)"
  using assms by (auto simp: debt_ok_def debt_key_def observation_key_def refresh_debt_def Let_def
      debt_is_open_def open_debt_statuses_def debt_statuses_def str_or_def)

lemma new_debt_ok:
  assumes "do_fingerprint ob \<noteq> ''''"
  shows "debt_ok (new_debt now did ob) \<and> debt_key (new_debt now did ob) = observation_key ob
    \<and> debt_is_open (new_debt now did ob)"
  using assms by (simp add: debt_ok_def debt_key_def observation_key_def new_debt_def
      debt_is_open_def open_debt_statuses_def debt_statuses_def)

text \<open>The invariant of the loop over the observations.\<close>

definition debt_loop_inv :: "debt_loop \<Rightarrow> bool" where
  "debt_loop_inv acc \<longleftrightarrow> (case acc of (debts, seq, existing) \<Rightarrow>
     list_all debt_ok debts
     \<and> (\<forall>k i. map_of existing k = Some i \<longrightarrow> i < length debts \<and> debt_key (debts ! i) = k))"

definition tracked :: "debt_item list \<Rightarrow> string \<times> string \<Rightarrow> bool" where
  "tracked debts k \<longleftrightarrow> (\<exists>d\<in>set debts. debt_is_open d \<and> debt_key d = k)"

lemma observe_debt_step:
  assumes inv: "debt_loop_inv (debts, seq, existing)" and ob: "do_fingerprint ob \<noteq> ''''"
    and r: "observe_debt now (observation_key ob, ob) (debts, seq, existing) = (debts', seq', existing')"
  shows "debt_loop_inv (debts', seq', existing') \<and> tracked debts' (observation_key ob)
    \<and> (\<forall>k. tracked debts k \<longrightarrow> tracked debts' k)"
proof (cases "map_of existing (observation_key ob)")
  case None
  obtain did ds where al: "allocate_debt_id (debts, seq) = (did, ds)" by (cases "allocate_debt_id (debts, seq)")
  have "fst ds = debts" using al by (auto simp: allocate_debt_id_def split: prod.splits)
  with None r al have d: "debts' = debts @ [new_debt now did ob]"
    and e: "existing' = AList.update (observation_key ob) (length debts) existing"
    by (simp_all add: observe_debt_def)
  note nd = new_debt_ok [OF ob, of now did]
  show ?thesis using inv nd unfolding d e debt_loop_inv_def tracked_def
    by (auto simp: update_conv' nth_append less_SucI split: if_splits)
next
  case (Some i)
  with r have d: "debts' = debts[i := refresh_debt now ob (debts ! i)]" and e: "existing' = existing"
    by (simp_all add: observe_debt_def)
  have i: "i < length debts" "debt_key (debts ! i) = observation_key ob" "debt_ok (debts ! i)"
  proof -
    show "i < length debts" "debt_key (debts ! i) = observation_key ob"
      using inv Some unfolding debt_loop_inv_def prod.case by blast+
    then show "debt_ok (debts ! i)" using inv by (simp add: debt_loop_inv_def list_all_length)
  qed
  note rd = refresh_debt_ok [OF i(3,2), of now]
  have ok: "list_all debt_ok debts'" using inv rd i(1) unfolding debt_loop_inv_def d
    by (auto simp: list_all_length nth_list_update)
  moreover have "debt_key (debts' ! j) = debt_key (debts ! j)" if "j < length debts" for j
    using rd i that unfolding d by (cases "j = i") (auto simp: nth_list_update)
  moreover have "tracked debts' (observation_key ob)"
    using rd i(1) unfolding tracked_def d by (metis length_list_update nth_list_update_eq nth_mem)
  moreover have "tracked debts' k" if "tracked debts k" for k
  proof -
    from that obtain j where j: "j < length debts" "debt_is_open (debts ! j)" "debt_key (debts ! j) = k"
      by (auto simp: tracked_def in_set_conv_nth)
    show ?thesis
    proof (cases "j = i")
      case True
      with j i \<open>tracked debts' (observation_key ob)\<close> show ?thesis by simp
    next
      case False
      with j have "debts' ! j = debts ! j" "j < length debts'" unfolding d by simp_all
      with j show ?thesis unfolding tracked_def by (metis nth_mem)
    qed
  qed
  ultimately show ?thesis using inv unfolding debt_loop_inv_def e d by auto
qed

lemma observe_debts:
  assumes "debt_loop_inv acc" "\<And>k ob. (k, ob) \<in> set observed \<Longrightarrow> k = observation_key ob \<and> do_fingerprint ob \<noteq> ''''"
    and "fold (observe_debt now) observed acc = (debts', seq', existing')"
  shows "list_all debt_ok debts' \<and> (\<forall>k\<in>fst ` set observed. tracked debts' k)
    \<and> (\<forall>k. tracked (fst acc) k \<longrightarrow> tracked debts' k)"
  using assms
proof (induction observed arbitrary: acc)
  case Nil
  then show ?case by (auto simp: debt_loop_inv_def)
next
  case (Cons e observed)
  obtain k ob where e: "e = (k, ob)" by fastforce
  obtain debts seq existing where acc: "acc = (debts, seq, existing)" by (cases acc)
  obtain d1 s1 e1 where s: "observe_debt now e acc = (d1, s1, e1)" by (cases "observe_debt now e acc")
  have k: "k = observation_key ob" "do_fingerprint ob \<noteq> ''''" using Cons.prems(2) [of k ob] e by simp_all
  note step = observe_debt_step [OF Cons.prems(1) [unfolded acc] k(2), of now d1 s1 e1]
  have "debt_loop_inv (d1, s1, e1)" "tracked d1 k" "\<forall>k. tracked debts k \<longrightarrow> tracked d1 k"
    using step s k(1) e acc by simp_all
  moreover have "fold (observe_debt now) observed (d1, s1, e1) = (debts', seq', existing')"
    using Cons.prems(3) s by simp
  moreover have "\<And>k ob. (k, ob) \<in> set observed \<Longrightarrow> k = observation_key ob \<and> do_fingerprint ob \<noteq> ''''"
    by (rule Cons.prems(2)) simp
  ultimately have "list_all debt_ok debts' \<and> (\<forall>k\<in>fst ` set observed. tracked debts' k)
      \<and> (\<forall>k. tracked d1 k \<longrightarrow> tracked debts' k)"
    using Cons.IH [of "(d1, s1, e1)"] by simp
  with \<open>tracked d1 k\<close> \<open>\<forall>k. tracked debts k \<longrightarrow> tracked d1 k\<close> show ?case
    unfolding e acc by (simp del: split_paired_All)
qed


lemma remember_nonempty:
  "list_all (\<lambda>(k, ob). do_fingerprint ob \<noteq> '''') observations
   \<Longrightarrow> list_all (\<lambda>(k, ob). do_fingerprint ob \<noteq> '''') (remember_observation observations ob)"
proof -
  have upd: "list_all (\<lambda>(k, ob). do_fingerprint ob \<noteq> '''') (AList.update k v xs)"
    if "list_all (\<lambda>(k, ob). do_fingerprint ob \<noteq> '''') xs" "do_fingerprint v \<noteq> ''''" for k v xs
    using that by (induction xs) auto
  have mem: "do_fingerprint v \<noteq> ''''"
    if "list_all (\<lambda>(k, ob). do_fingerprint ob \<noteq> '''') xs" "map_of xs k = Some v" for k v xs
    using that map_of_SomeD [OF that(2)] by (auto simp: list_all_iff)
  assume a: "list_all (\<lambda>(k, ob). do_fingerprint ob \<noteq> '''') observations"
  show ?thesis
  proof (cases "strip (do_fingerprint ob) = ''''")
    case False
    then have "do_fingerprint ob \<noteq> ''''" by (auto simp: strip_def)
    with a False show ?thesis
      by (auto simp: remember_observation_def Let_def split: option.split intro!: upd dest: mem)
  qed (simp add: remember_observation_def a)
qed

lemma observations_nonempty:
  assumes "ob \<in> set (build_debt_observations st k)" shows "do_fingerprint ob \<noteq> ''''"
proof -
  have "list_all (\<lambda>(k, ob). do_fingerprint ob \<noteq> '''') (foldl remember_observation acc xs)"
    if "list_all (\<lambda>(k, ob). do_fingerprint ob \<noteq> '''') acc" for acc xs
    using that by (induction xs arbitrary: acc) (simp_all add: remember_nonempty)
  then have all: "list_all (\<lambda>(k, ob). do_fingerprint ob \<noteq> '''') (foldl remember_observation [] xs)" for xs
    by simp
  from assms obtain e xs where "e \<in> set (foldl remember_observation [] xs)" "ob = snd e"
    unfolding build_debt_observations_def set_map by blast
  with all [of xs] show ?thesis by (auto simp: list_all_iff)
qed

definition observed_debts :: "review_state \<Rightarrow> string option \<Rightarrow> ((string \<times> string) \<times> debt_observation) list" where
  "observed_debts st k = fold (\<lambda>ob. AList.update (observation_key ob) ob) (build_debt_observations st k) []"

lemma fold_update_keys:
  "fst ` set (fold (\<lambda>ob. AList.update (f ob) ob) obs m) = fst ` set m \<union> f ` set obs"
proof (induction obs arbitrary: m)
  case (Cons ob obs)
  have "fst ` set (AList.update (f ob) ob m) = insert (f ob) (fst ` set m)" by (simp add: dom_update)
  with Cons.IH [of "AList.update (f ob) ob m"] show ?case by auto
qed simp

lemma fold_update_entries:
  "(k, ob) \<in> set (fold (\<lambda>ob. AList.update (f ob) ob) obs m) \<Longrightarrow> (k = f ob \<and> ob \<in> set obs) \<or> (k, ob) \<in> set m"
proof (induction obs arbitrary: m)
  case (Cons o1 obs)
  have "(k, ob) \<in> set (AList.update (f o1) o1 m) \<Longrightarrow> k = f o1 \<and> ob = o1 \<or> (k, ob) \<in> set m"
    by (induction m) (auto split: if_splits)
  with Cons show ?case by fastforce
qed simp

lemma observed_keys: "fst ` set (observed_debts st k) = observation_key ` set (build_debt_observations st k)"
  by (simp add: observed_debts_def fold_update_keys)

lemma observed_entries:
  "(key, ob) \<in> set (observed_debts st k) \<Longrightarrow> key = observation_key ob \<and> do_fingerprint ob \<noteq> ''''"
  unfolding observed_debts_def by (auto dest: fold_update_entries observations_nonempty)

definition synced_debts :: "string \<Rightarrow> string option \<Rightarrow> review_state \<Rightarrow> debt_item list" where
  "synced_debts now k st =
     (let debts0 = map (hydrate_debt now) (rs_debts st)
      in fst (fold (observe_debt now) (observed_debts st k)
           (debts0, rs_next_debt_seq st, fold (\<lambda>i. AList.update (debt_key (debts0 ! i)) i) [0..<length debts0] [])))"

lemma sync_debts:
  "rs_debts (sync_commit_readiness_debts now k st)
     = trim_debts (close_unobserved_debts now k (observed_debts st k) (synced_debts now k st))"
  by (simp add: sync_commit_readiness_debts_def synced_debts_def observed_debts_def Let_def split_beta)

lemma synced_debts_spec:
  assumes "list_all (\<lambda>d. de_status d \<in> debt_statuses) (rs_debts st)"
  shows "list_all debt_ok (synced_debts now k st)
    \<and> (\<forall>key\<in>observation_key ` set (build_debt_observations st k). tracked (synced_debts now k st) key)"
proof -
  let ?d0 = "map (hydrate_debt now) (rs_debts st)"
  let ?ex = "fold (\<lambda>i. AList.update (debt_key (?d0 ! i)) i) [0..<length ?d0] []"
  have "debt_loop_inv (?d0, rs_next_debt_seq st, ?ex)"
    using assms by (auto simp: debt_loop_inv_def list_all_iff hydrate_debt_ok dest!: map_of_fold_update)
  note obs = observe_debts [where observed = "observed_debts st k" and now = now, OF this]
  obtain ds n ex where f: "fold (observe_debt now) (observed_debts st k) (?d0, rs_next_debt_seq st, ?ex) = (ds, n, ex)"
    by (cases "fold (observe_debt now) (observed_debts st k) (?d0, rs_next_debt_seq st, ?ex)")
  have "synced_debts now k st = ds"
    using f by (simp add: synced_debts_def Let_def)
  moreover have "list_all debt_ok ds \<and> (\<forall>k\<in>fst ` set (observed_debts st k). tracked ds k)"
    using obs [OF _ f] observed_entries by blast
  ultimately show ?thesis unfolding observed_keys by blast
qed

lemma verify_debt_key [simp]: "debt_key (verify_debt now d) = debt_key d" "de_repo_key (verify_debt now d) = de_repo_key d"
  by (simp_all add: verify_debt_def debt_key_def)

lemma verify_debt_closed [simp]: "\<not> debt_is_open (verify_debt now d)"
  by (simp add: verify_debt_def debt_is_open_def open_debt_statuses_def)

text \<open>C19: The open debts of a repository are exactly what can be observed about it: after a
  synchronisation for a key, the keys of the open debts of that key are the keys of the current
  observations of that key.\<close>

theorem open_debts_match_observations:
  assumes "list_all (\<lambda>d. de_status d \<in> debt_statuses) (rs_debts st)"
  shows "debt_key ` {d \<in> set (rs_debts (sync_commit_readiness_debts now (Some key) st)). debt_is_open d \<and> de_repo_key d = key}
     = {k \<in> observation_key ` set (build_debt_observations st (Some key)). fst k = key}"
proof -
  let ?obs = "observed_debts st (Some key)" and ?ds = "synced_debts now (Some key) st"
  let ?closed = "close_unobserved_debts now (Some key) ?obs ?ds"
  note spec = synced_debts_spec [OF assms, of now "Some key"]
  have keys: "map_of ?obs k = None \<longleftrightarrow> k \<notin> observation_key ` set (build_debt_observations st (Some key))" for k
    by (simp add: map_of_eq_None_iff observed_keys)
  show ?thesis
  proof (intro equalityI subsetI)
    fix k assume "k \<in> debt_key ` {d \<in> set (rs_debts (sync_commit_readiness_debts now (Some key) st)).
        debt_is_open d \<and> de_repo_key d = key}"
    then obtain d where d: "d \<in> set ?closed" "debt_is_open d" "de_repo_key d = key" "debt_key d = k"
      unfolding sync_debts by (auto simp: trim_debts_open)
    then obtain d0 where d0: "d0 \<in> set ?ds"
      and cases: "d = (if in_repo_scope (map de_repo_key ?ds) key (de_repo_key d0) \<and> map_of ?obs (debt_key d0) = None
                       then verify_debt now d0 else d0)"
      unfolding close_unobserved_debts_def by (auto split: if_splits)
    have "de_repo_key d0 = key" "debt_key d0 = k" using d cases by (auto split: if_splits)
    with d(2) cases have "map_of ?obs k \<noteq> None" by (auto simp: in_repo_scope_def split: if_splits)
    with d(3,4) show "k \<in> {k \<in> observation_key ` set (build_debt_observations st (Some key)). fst k = key}"
      unfolding keys by (metis (mono_tags, lifting) debt_key_def fst_conv mem_Collect_eq)
  next
    fix k assume k: "k \<in> {k \<in> observation_key ` set (build_debt_observations st (Some key)). fst k = key}"
    with spec have "tracked ?ds k" by blast
    then obtain d where d: "d \<in> set ?ds" "debt_is_open d" "debt_key d = k" by (auto simp: tracked_def)
    have "map_of ?obs (debt_key d) \<noteq> None" using k d(3) keys by simp
    with d(1) have "d \<in> set ?closed" by (force simp: close_unobserved_debts_def)
    with d(2) have "d \<in> set (rs_debts (sync_commit_readiness_debts now (Some key) st))"
      by (simp add: sync_debts trim_debts_open)
    moreover have "fst (debt_key d) = de_repo_key d" by (simp add: debt_key_def)
    then have "de_repo_key d = key" using d(3) k by simp
    ultimately show "k \<in> debt_key ` {d \<in> set (rs_debts (sync_commit_readiness_debts now (Some key) st)).
        debt_is_open d \<and> de_repo_key d = key}"
      using d(2,3) by blast
  qed
qed

text \<open>The debt list is bounded and the bound never costs an open debt: a synchronisation leaves at
  most fifty debts or only open ones beyond it, and trimming drops no open
  debt.\<close>

theorem debt_list_bounded:
  "length (rs_debts (sync_commit_readiness_debts now k st))
     \<le> max MAX_COMMIT_READINESS_DEBTS (length (filter debt_is_open (rs_debts (sync_commit_readiness_debts now k st))))
   \<and> {d \<in> set (trim_debts ds). debt_is_open d} = {d \<in> set ds. debt_is_open d}"
proof -
  have "length (filter debt_is_open (trim_debts xs)) = length (filter debt_is_open xs)" for xs
  proof -
    have "filter debt_is_open (sort_desc f (filter debt_is_open xs)) = sort_desc f (filter debt_is_open xs)" for f
      by (rule filter_True) simp
    moreover have "filter debt_is_open (take n (sort_desc f (filter (\<lambda>d. \<not> debt_is_open d) xs))) = []" for f n
      by (rule filter_False) (auto dest: in_set_takeD)
    ultimately show ?thesis by (simp add: trim_debts_def Let_def)
  qed
  then have "length (trim_debts xs) \<le> max MAX_COMMIT_READINESS_DEBTS (length (filter debt_is_open (trim_debts xs)))" for xs
    using trim_debts_length [of xs] by simp
  then show ?thesis unfolding sync_debts using trim_debts_open by blast
qed

end
