(* ===== verification/Custody_Props.thy ===== *)
theory Custody_Props
  imports Obligation_Ids
begin

text \<open>
  Expiry of stale attempts and reconciliation of a dead owner's rows: what each keeps and what it
  leaves.
\<close>

section \<open>Expiry\<close>

lemma expires_unprotected: "expires loc now limit a = Some age \<Longrightarrow>
   at_status a = ''reviewing'' \<and> \<not> at_paid a \<and> \<not> at_late_result_pending a"
  by (auto simp: expires_def split: if_splits)

lemma expired_fields [simp]:
  "at_status (expired_attempt ts limit age a) = ''failed''" "at_paid (expired_attempt ts limit age a) = at_paid a"
  "at_late_result_pending (expired_attempt ts limit age a) = False"
  "attempt_identity_tuple (expired_attempt ts limit age a) = attempt_identity_tuple a"
  by (simp_all add: expired_attempt_def attempt_identity_tuple_def)

definition protected_attempt :: "commit_attempt \<Rightarrow> bool" where
  "protected_attempt a \<longleftrightarrow> at_paid a \<or> at_late_result_pending a \<or> at_status a \<noteq> ''reviewing''"

text \<open>C22: Expiry never buys over paid work: a sweep keeps every row in place with its identity, leaves
  every paid, late-pending or settled row exactly as it was, and turns only unpaid rows still under
  review into failed ones.\<close>

theorem expiry_spares_protected_attempts:
  "list_all2 (\<lambda>a b. attempt_identity_tuple b = attempt_identity_tuple a
       \<and> (b = a \<or> \<not> protected_attempt a \<and> at_status b = ''failed'' \<and> at_phase b = ''expired''))
     (rs_attempts st) (rs_attempts (snd (expire_stale_attempts loc now_ts ttl grace st)))"
proof (cases "parse_iso_ts loc now_ts")
  case None
  then show ?thesis by (simp add: expire_stale_attempts_def list.rel_refl)
next
  case (Some now)
  have "attempt_identity_tuple (case expires loc now l a of None \<Rightarrow> a | Some age \<Rightarrow> expired_attempt now_ts l age a) = attempt_identity_tuple a
      \<and> ((case expires loc now l a of None \<Rightarrow> a | Some age \<Rightarrow> expired_attempt now_ts l age a) = a
         \<or> \<not> protected_attempt a
            \<and> at_status (case expires loc now l a of None \<Rightarrow> a | Some age \<Rightarrow> expired_attempt now_ts l age a) = ''failed''
            \<and> at_phase (case expires loc now l a of None \<Rightarrow> a | Some age \<Rightarrow> expired_attempt now_ts l age a) = ''expired'')" for l a
    by (cases "expires loc now l a")
       (auto simp: protected_attempt_def expired_attempt_def attempt_identity_tuple_def dest: expires_unprotected)
  with Some show ?thesis by (simp add: expire_stale_attempts_def Let_def list_all2_conv_all_nth)
qed


section \<open>Reconciliation of a dead owner's rows\<close>

definition row_token :: "pydict \<Rightarrow> string" where
  "row_token row = strip (sor (dget row ''pending_invocation_id''))"

definition attempt_tokens :: "commit_attempt \<Rightarrow> string list" where
  "attempt_tokens a = filter (\<lambda>t. t \<noteq> '''') (map row_token (attempt_review_roster_rows a))"

definition row_after :: "(string \<times> string) list \<Rightarrow> pydict \<Rightarrow> pydict" where
  "row_after rec row = fst (reconcile_row rec row False)"

lemma reconcile_row_fst: "fst (reconcile_row rec row c) = row_after rec row"
  by (simp add: row_after_def reconcile_row_def Let_def)

lemma row_after_raw_results [simp]: "dhas (row_after rec row) ''raw_results'' = dhas row ''raw_results''"
  "dget (row_after rec row) ''raw_results'' = dget row ''raw_results''"
  by (simp_all add: row_after_def reconcile_row_def Let_def dmerge_def)


lemma row_token_keeps: "row_token row \<noteq> '''' \<Longrightarrow> row_after rec row = row"
  by (simp add: row_after_def reconcile_row_def row_token_def Let_def)

definition recovered :: "(string \<times> string) list \<Rightarrow> pydict \<Rightarrow> string" where
  "recovered rec row = (case map_of rec (strip (sor (dget row ''operation_id''))) of None \<Rightarrow> '''' | Some t \<Rightarrow> t)"

definition row_changes :: "pydict \<Rightarrow> bool" where
  "row_changes row \<longleftrightarrow> review_roster_row_is_pending row \<and> row_token row = ''''"

lemma reconcile_row_eq: "reconcile_row rec row c = (row_after rec row, c \<or> row_changes row)"
  by (simp add: row_after_def reconcile_row_def row_token_def row_changes_def Let_def)

lemma row_after_same: "\<not> row_changes row \<Longrightarrow> row_after rec row = row"
  by (auto simp: row_after_def reconcile_row_def row_changes_def row_token_def Let_def)

lemma row_after_pending:
  "review_roster_row_is_pending (row_after rec row)
     \<longleftrightarrow> review_roster_row_is_pending row \<and> (row_token row \<noteq> '''' \<or> recovered rec row \<noteq> '''')"
proof (cases "row_changes row")
  case False
  then show ?thesis by (auto simp: row_after_same row_changes_def)
next
  case True
  then have t: "row_token row = ''''" "review_roster_row_is_pending row" by (simp_all add: row_changes_def)
  then show ?thesis
    by (auto simp: row_after_def reconcile_row_def recovered_def Let_def row_token_def
        review_roster_row_is_pending_def active_review_operation_states_def)
qed

lemma row_after_token: "row_token (row_after rec row) = (if row_changes row \<and> recovered rec row \<noteq> '''' then strip (recovered rec row) else row_token row)"
  by (auto simp: row_after_def reconcile_row_def recovered_def Let_def row_token_def row_changes_def)

definition value_after :: "(string \<times> string) list \<Rightarrow> pyval \<Rightarrow> pyval" where
  "value_after rec v = (case v of PDict row \<Rightarrow> PDict (row_after rec row) | _ \<Rightarrow> v)"

lemma map_rows_reconcile:
  "map_rows (reconcile_row rec) rows c
     = (map (value_after rec) rows, c \<or> list_ex row_changes (map the_dict (filter is_dict rows)))"
  by (induction "reconcile_row rec" rows c rule: map_rows.induct)
     (auto simp: reconcile_row_eq value_after_def split: prod.splits)

lemma rows_value_after:
  "map the_dict (filter is_dict (map (value_after rec) rows)) = map (row_after rec) (map the_dict (filter is_dict rows))"
  by (induction rows) (auto simp: value_after_def split: pyval.splits)

lemma dset_nonempty [simp]: "dset k v d \<noteq> []"
  by (cases d) (auto simp: dset_def)

lemma row_after_nonempty: "row \<noteq> [] \<Longrightarrow> row_after rec row \<noteq> []"
  by (simp add: row_after_def reconcile_row_def Let_def)

definition attempt_after :: "(string \<times> string) list \<Rightarrow> commit_attempt \<Rightarrow> commit_attempt" where
  "attempt_after rec a = fst (map_roster (reconcile_row rec) a False)"

lemma attempt_after_roster:
  "attempt_review_roster_rows (attempt_after rec a) = map (row_after rec) (attempt_review_roster_rows a)"
  by (auto simp: attempt_after_def map_roster_def attempt_review_roster_rows_def map_rows_reconcile Let_def
      rows_value_after reconcile_row_eq row_after_nonempty split: pyval.splits)

lemma attempt_after_flag:
  "snd (map_roster (reconcile_row rec) a False) = list_ex row_changes (attempt_review_roster_rows a)"
  by (auto simp: map_roster_def attempt_review_roster_rows_def map_rows_reconcile Let_def
      reconcile_row_eq split: pyval.splits)

lemma attempt_after_fields [simp]:
  "at_status (attempt_after rec a) = at_status a" "at_paid (attempt_after rec a) = at_paid a"
  "at_late_result_pending (attempt_after rec a) = at_late_result_pending a"
  "at_review_owner_pid (attempt_after rec a) = at_review_owner_pid a"
  "attempt_identity_tuple (attempt_after rec a) = attempt_identity_tuple a"
  by (auto simp: attempt_after_def map_roster_def Let_def attempt_identity_tuple_def map_rows_reconcile
      reconcile_row_eq split: pyval.splits)

lemma dset_same: "map_of d k = Some v \<Longrightarrow> dset k v d = d"
  unfolding dset_def by (induction d) auto

lemma value_after_same: "\<not> list_ex row_changes (map the_dict (filter is_dict rows)) \<Longrightarrow> map (value_after rec) rows = rows"
  by (induction rows) (auto simp: value_after_def row_after_same split: pyval.splits)

lemma attempt_after_same:
  assumes "\<not> list_ex row_changes (attempt_review_roster_rows a)" shows "attempt_after rec a = a"
proof -
  have triad: "map (value_after rec) (at_triad_raw_results a) = at_triad_raw_results a"
    using assms by (intro value_after_same) (auto simp: attempt_review_roster_rows_def Let_def split: pyval.splits if_splits)
  show ?thesis
  proof (cases "dget (at_scope_raw_result a) ''raw_results''")
    case (PList raw)
    then have "at_scope_raw_result a \<noteq> []" by auto
    with assms PList have "map (value_after rec) raw = raw"
      by (intro value_after_same) (auto simp: attempt_review_roster_rows_def Let_def)
    moreover have "map_of (at_scope_raw_result a) ''raw_results'' = Some (PList raw)"
      using PList by (auto simp: dget_def split: option.splits)
    ultimately show ?thesis using triad PList
      by (simp add: attempt_after_def map_roster_def Let_def map_rows_reconcile dset_same)
  qed (use assms triad in \<open>auto simp: attempt_after_def map_roster_def Let_def map_rows_reconcile
        attempt_review_roster_rows_def reconcile_row_eq row_after_same\<close>)
qed


definition left_pending :: "(string \<times> string) list \<Rightarrow> commit_attempt \<Rightarrow> bool" where
  "left_pending rec a \<longleftrightarrow> list_ex review_roster_row_is_pending (attempt_review_roster_rows (attempt_after rec a))"

definition reconciles :: "(string \<times> string) list \<Rightarrow> int list \<Rightarrow> commit_attempt \<Rightarrow> bool" where
  "reconciles rec pids a \<longleftrightarrow> attempt_has_active_review_custody a \<and> at_review_owner_pid a \<in> set pids
     \<and> (list_ex row_changes (attempt_review_roster_rows a)
        \<or> \<not> left_pending rec a \<and> (at_status a = ''reviewing'' \<or> at_late_result_pending a))"

definition reconciled_attempt :: "string \<Rightarrow> (string \<times> string) list \<Rightarrow> commit_attempt \<Rightarrow> commit_attempt" where
  "reconciled_attempt stamp rec a = (let item1 = attempt_after rec a; still_pending = left_pending rec a
     in item1\<lparr>
        at_status := (if still_pending then ''reviewing'' else ''failed''),
        at_phase := (if still_pending then ''late_wait'' else ''infra''),
        at_block_reason := (if still_pending then ''review_late_result_pending'' else ''infra_failure''),
        at_block_details := (if still_pending
          then ''The process-local review owner was confirmed dead; delegated rows remain available for exact reconciliation.''
          else ''Confirmed owner death proved every tokenless review worker was lost; the paid attempt failed without a review verdict.''),
        at_late_result_pending := still_pending,
        at_finished_ts := (if still_pending then at_finished_ts item1 else stamp),
        at_updated_ts := stamp\<rparr>)"

lemma reconcile_attempt_eq:
  "reconcile_attempt stamp rec pids a
     = (if reconciles rec pids a then (reconciled_attempt stamp rec a, True) else (a, False))"
proof -
  obtain b c where m: "map_roster (reconcile_row rec) a False = (b, c)" by fastforce
  then have b: "b = attempt_after rec a" and c: "c = list_ex row_changes (attempt_review_roster_rows a)"
    using attempt_after_flag [of rec a] by (simp_all add: attempt_after_def)
  show ?thesis
    using attempt_after_same [of a rec]
    by (auto simp: reconcile_attempt_def reconciles_def reconciled_attempt_def m b c Let_def left_pending_def)
qed

lemma reconciled_roster:
  "attempt_review_roster_rows (reconciled_attempt stamp rec a) = map (row_after rec) (attempt_review_roster_rows a)"
proof -
  have "attempt_review_roster_rows (reconciled_attempt stamp rec a) = attempt_review_roster_rows (attempt_after rec a)"
    by (simp add: reconciled_attempt_def Let_def attempt_review_roster_rows_def)
  then show ?thesis by (simp add: attempt_after_roster)
qed

lemma reconciled_fields [simp]:
  "at_paid (reconciled_attempt stamp rec a) = at_paid a"
  "attempt_identity_tuple (reconciled_attempt stamp rec a) = attempt_identity_tuple a"
  "at_late_result_pending (reconciled_attempt stamp rec a) = left_pending rec a"
  "at_status (reconciled_attempt stamp rec a) = (if left_pending rec a then ''reviewing'' else ''failed'')"
  "at_review_owner_pid (reconciled_attempt stamp rec a) = at_review_owner_pid a"
proof -
  have "attempt_identity_tuple (reconciled_attempt stamp rec a) = attempt_identity_tuple (attempt_after rec a)"
    by (simp add: reconciled_attempt_def Let_def attempt_identity_tuple_def)
  then show "attempt_identity_tuple (reconciled_attempt stamp rec a) = attempt_identity_tuple a" by simp
qed (simp_all add: reconciled_attempt_def Let_def)

lemma left_pending_iff:
  "left_pending rec a \<longleftrightarrow> (\<exists>row\<in>set (attempt_review_roster_rows a).
     review_roster_row_is_pending row \<and> (row_token row \<noteq> '''' \<or> recovered rec row \<noteq> ''''))"
  by (simp add: left_pending_def attempt_after_roster list_ex_iff row_after_pending)

lemma tokens_kept: "set (attempt_tokens a) \<subseteq> set (attempt_tokens (reconciled_attempt stamp rec a))"
proof
  fix t assume "t \<in> set (attempt_tokens a)"
  then obtain row where "row \<in> set (attempt_review_roster_rows a)" "t = row_token row" "t \<noteq> ''''"
    by (auto simp: attempt_tokens_def)
  moreover from this have "row_token (row_after rec row) = t" by (simp add: row_token_keeps)
  ultimately show "t \<in> set (attempt_tokens (reconciled_attempt stamp rec a))"
    unfolding attempt_tokens_def reconciled_roster by force
qed

text \<open>C20: Reconciliation after a confirmed owner death keeps what may still be live: every row stays in
  place with its identity and its payment, no delegated invocation token is dropped, only rows in
  custody of a confirmed dead owner change, and a changed row is failed exactly when no roster row of
  it is left pending.\<close>

theorem reconciliation_keeps_delegated_work:
  "list_all2 (\<lambda>a b. attempt_identity_tuple b = attempt_identity_tuple a \<and> at_paid b = at_paid a
       \<and> set (attempt_tokens a) \<subseteq> set (attempt_tokens b)
       \<and> (b = a \<or> attempt_has_active_review_custody a \<and> at_review_owner_pid a \<in> set pids \<and> 0 < at_review_owner_pid a
            \<and> at_status b = (if list_ex review_roster_row_is_pending (attempt_review_roster_rows b)
                             then ''reviewing'' else ''failed'')))
     (rs_attempts st) (rs_attempts (snd (reconcile_after_owner_loss stamp rec pids st)))"
proof (cases "filter (\<lambda>p. 0 < p) pids = []")
  case True
  then show ?thesis by (simp add: reconcile_after_owner_loss_def list.rel_refl)
next
  case False
  have "set (attempt_tokens a) \<subseteq> set (attempt_tokens (fst (reconcile_attempt stamp rec (filter (\<lambda>p. 0 < p) pids) a)))" for a
    using tokens_kept by (simp add: reconcile_attempt_eq)
  moreover have "list_ex review_roster_row_is_pending (attempt_review_roster_rows (reconciled_attempt stamp rec a)) = left_pending rec a" for a
    by (simp add: reconciled_roster left_pending_def attempt_after_roster)
  ultimately show ?thesis using False
    by (auto simp: reconcile_after_owner_loss_def Let_def list_all2_conv_all_nth reconcile_attempt_eq reconciles_def)
qed

lemma row_settles:
  assumes "list_all (\<lambda>(k, t). strip t \<noteq> '''') rec"
  shows "\<not> row_changes (row_after rec row)"
proof -
  have "strip (recovered rec row) \<noteq> ''''" if "recovered rec row \<noteq> ''''"
    using that assms by (auto simp: recovered_def list_all_iff dest!: map_of_SomeD split: option.splits)
  then show ?thesis unfolding row_changes_def row_after_pending row_after_token by (auto simp: row_changes_def)
qed

lemma settled_not_active:
  assumes "list_all (\<lambda>(k, t). strip t \<noteq> '''') rec" "\<not> left_pending rec a"
  shows "\<not> attempt_has_active_review_custody (reconciled_attempt stamp rec a)"
proof -
  have "\<not> review_roster_row_is_pending row"
    if "row \<in> set (attempt_review_roster_rows (reconciled_attempt stamp rec a))" for row
    using that assms(2) unfolding reconciled_roster by (auto simp: left_pending_iff row_after_pending)
  with assms(2) show ?thesis
    by (auto simp: attempt_has_active_review_custody_def list_ex_iff review_roster_row_is_pending_def
        active_review_operation_states_def)
qed

text \<open>C21: Reconciliation settles at once: if no recovered token is blank, running it a second time on
  what it left, with the same deaths and the same recovered tokens, changes nothing.\<close>

theorem reconciliation_is_idempotent:
  assumes "list_all (\<lambda>(k, t). strip t \<noteq> '''') rec"
  shows "reconcile_after_owner_loss stamp2 rec pids (snd (reconcile_after_owner_loss stamp rec pids st))
     = ([], snd (reconcile_after_owner_loss stamp rec pids st))"
proof (cases "filter (\<lambda>p. 0 < p) pids = []")
  case True
  then show ?thesis by (simp add: reconcile_after_owner_loss_def)
next
  case False
  let ?p = "filter (\<lambda>p. 0 < p) pids"
  have again: "\<not> reconciles rec ?p (fst (reconcile_attempt stamp rec ?p a))" for a
  proof (cases "reconciles rec ?p a")
    case True
    let ?b = "reconciled_attempt stamp rec a"
    have quiet: "\<not> list_ex row_changes (attempt_review_roster_rows ?b)"
      unfolding reconciled_roster using row_settles [OF assms] by (auto simp: list_ex_iff)
    have "attempt_after rec ?b = ?b" by (rule attempt_after_same [OF quiet])
    then have pend: "left_pending rec ?b = left_pending rec a"
      by (simp add: left_pending_def reconciled_roster attempt_after_roster)
    show ?thesis
    proof (cases "left_pending rec a")
      case True
      with quiet pend \<open>reconciles rec ?p a\<close> show ?thesis by (simp add: reconciles_def reconcile_attempt_eq)
    next
      case False
      with settled_not_active [OF assms False, of stamp] \<open>reconciles rec ?p a\<close>
      show ?thesis unfolding reconcile_attempt_eq by (simp add: reconciles_def [of rec ?p ?b])
    qed
  qed (simp add: reconcile_attempt_eq)
  then have "map (reconcile_attempt stamp2 rec ?p) (map (fst \<circ> reconcile_attempt stamp rec ?p) (rs_attempts st))
      = map (\<lambda>b. (b, False)) (map (fst \<circ> reconcile_attempt stamp rec ?p) (rs_attempts st))"
    by (auto simp: reconcile_attempt_eq [of stamp2])
  with False show ?thesis by (simp add: reconcile_after_owner_loss_def Let_def comp_def filter_map)
qed

end
