(* ===== verification/Review_Witnesses.thy ===== *)
theory Review_Witnesses
  imports Gate_Props Review_Props Debt_Props Custody_Props
begin

text \<open>Concrete ledgers that satisfy the hypotheses of the review and commit-gate properties.\<close>

definition sample_attempt :: commit_attempt where
  "sample_attempt = \<lparr>at_ts = ''2026-08-11T10:00:00+00:00'', at_commit_message = ''fix'', at_status = ''reviewing'',
     at_snapshot_hash = ''h1'', at_block_reason = '''', at_block_details = '''', at_duration_us = 0, at_task_id = ''t1'',
     at_critical_findings = [], at_repo_key = ''/repo'', at_tool_name = ''commit_reviewed'', at_attempt = 1,
     at_phase = ''review'', at_blocked = False, at_advisory_findings = [], at_obligation_ids = [],
     at_readiness_warnings = [], at_late_result_pending = False, at_pre_review_fingerprint = ''fp1'',
     at_post_review_fingerprint = '''', at_fingerprint_status = '''', at_degraded_reasons = [],
     at_started_ts = ''2026-08-11T10:00:00+00:00'', at_updated_ts = '''', at_finished_ts = '''', at_triad_models = [],
     at_scope_model = '''', at_triad_raw_results = [], at_scope_raw_result = [], at_block_class = '''',
     at_rebuttal_sha256 = '''', at_paid = False, at_review_contract_fingerprint = ''c1'', at_review_retry_key = '''',
     at_root_task_id = ''t1'', at_review_budget_repo_key = '''', at_review_owner_session_id = '''',
     at_review_owner_pid = 0, at_raw_stripped = False, at_author_disposition = [], at_review_record_id = '''',
     at_review_input = []\<rparr>"

definition sample_finding :: pydict where
  "sample_finding = [(''item'', PStr ''tests''), (''verdict'', PStr ''fail''), (''severity'', PStr ''critical''),
     (''reason'', PStr ''no test covers the change'')]"

definition verdict_attempt :: commit_attempt where
  "verdict_attempt = sample_attempt\<lparr>at_status := ''blocked'', at_block_class := BLOCK_CLASS_VERDICT,
     at_block_reason := ''critical_findings'', at_phase := ''blocking_review'', at_paid := True,
     at_critical_findings := [PDict sample_finding]\<rparr>"

definition second_attempt :: commit_attempt where
  "second_attempt = verdict_attempt\<lparr>at_attempt := 2\<rparr>"

definition sample_obligation :: obligation_item where
  "sample_obligation = \<lparr>ob_id = ''obl-0001'', ob_item = ''docs'', ob_severity = ''critical'', ob_reason = ''stale'',
     ob_source_attempt_ts = '''', ob_source_attempt_msg = '''', ob_status = ''still_open'', ob_resolved_by = '''',
     ob_repo_key = ''/repo'', ob_fingerprint = ''finding:docs'', ob_created_ts = '''', ob_updated_ts = ''''\<rparr>"

definition sample_ledger :: review_state where
  "sample_ledger = empty_review_state\<lparr>rs_attempts := [verdict_attempt], rs_obligations := [sample_obligation],
     rs_next_obligation_seq := 2\<rparr>"

definition clock :: string where
  "clock = ''2026-08-11T10:05:00+00:00''"

theorem paid_cycles_never_forgotten_witness:
  "count_paid_review_cycles id sample_ledger ''commit_reviewed'' ''/repo'' ''t1''
     \<le> count_paid_review_cycles id (snd (record_attempt clock [] second_attempt sample_ledger)) ''commit_reviewed'' ''/repo'' ''t1''
   \<and> count_paid_review_cycles id sample_ledger ''commit_reviewed'' ''/repo'' ''t1'' = 1"
proof
  show "count_paid_review_cycles id sample_ledger ''commit_reviewed'' ''/repo'' ''t1'' = 1" by code_simp
qed (rule paid_cycles_never_forgotten; simp add: scope_is_own_def sample_ledger_def verdict_attempt_def
    second_attempt_def sample_attempt_def)

theorem paid_dispatch_exhausts_the_ceiling_witness:
  "check_review_cycles_ceiling (Some 2) True id (Some (snd (record_attempt clock [] second_attempt sample_ledger)))
     ''commit_reviewed'' ''/repo'' ''t1'' \<noteq> None"
proof (rule paid_dispatch_exhausts_the_ceiling)
  show "attempt_position (rs_attempts sample_ledger) (attempt_identity_tuple (stamp_attempt clock second_attempt)) = None"
    by code_simp
  show "2 \<le> Suc (count_paid_review_cycles id sample_ledger ''commit_reviewed'' ''/repo'' ''t1'')" by code_simp
qed (simp_all add: custody_review_tools_def sample_ledger_def verdict_attempt_def second_attempt_def sample_attempt_def)

theorem identical_diff_refused_iff_witness:
  "check_identical_verdict_refusal (Some sample_ledger) ''/repo'' ''commit_reviewed'' ''fp1'' '''' ''c1'' \<noteq> ''''
   \<and> check_identical_verdict_refusal (Some sample_ledger) ''/repo'' ''commit_reviewed'' ''fp1'' ''r1'' ''c1'' = ''''"
proof -
  have "strip ''fp1'' \<noteq> ''''" by code_simp
  note iff = identical_diff_refused_iff [OF this, of sample_ledger "''/repo''" "''commit_reviewed''" _ "''c1''"]
  have s: "strip ''fp1'' = ''fp1''" by code_simp
  have streak: "streak ''fp1'' ''c1'' (filter_attempts sample_ledger (Some ''/repo'') (Some ''commit_reviewed'') None None)
      = [verdict_attempt]" by code_simp
  have "spent_rebuttals [verdict_attempt] = {}"
    by (auto simp: spent_rebuttals_def verdict_attempt_def sample_attempt_def)
  then show ?thesis unfolding iff s streak by simp
qed

theorem recorded_verdict_refuses_identical_diff_witness:
  "check_identical_verdict_refusal (Some (snd (record_attempt clock [] second_attempt sample_ledger)))
     ''/repo'' ''commit_reviewed'' ''fp1'' '''' ''c1'' \<noteq> ''''"
proof (rule recorded_verdict_refuses_identical_diff)
  have "attempt_position (rs_attempts sample_ledger) (attempt_identity_tuple (stamp_attempt clock second_attempt)) = None"
    by code_simp
  then show "attempt_position (rs_attempts sample_ledger) (attempt_identity_tuple (stamp_attempt clock second_attempt)) = None
    \<or> rs_attempts sample_ledger \<noteq> [] \<and> attempt_position (rs_attempts sample_ledger)
         (attempt_identity_tuple (stamp_attempt clock second_attempt)) = Some (length (rs_attempts sample_ledger) - 1)" ..
  show "at_pre_review_fingerprint second_attempt = strip ''fp1''" by code_simp
  show "strip ''fp1'' \<noteq> ''''" by code_simp
qed (simp_all add: second_attempt_def verdict_attempt_def sample_attempt_def refusal_block_reasons_def)

theorem returned_obligation_ids_are_open_witness:
  "set (at_obligation_ids (fst (record_attempt clock [] verdict_attempt sample_ledger)))
    \<subseteq> strip ` ob_id ` {ob \<in> set (rs_obligations (snd (record_attempt clock [] verdict_attempt sample_ledger))). is_open_ob ob}"
  by (rule returned_obligation_ids_are_open) (simp add: verdict_attempt_def)

theorem critical_findings_are_tracked_witness:
  "list_ex (\<lambda>ob. answers [] sample_finding (ob_sig ob))
     (rs_obligations (snd (record_attempt clock [] verdict_attempt sample_ledger)))"
proof (rule critical_findings_are_tracked)
  show "is_critical_failure sample_finding" by code_simp
qed (simp_all add: verdict_attempt_def)

theorem blocked_attempt_keeps_obligations_witness:
  "distinct (open_keys (rs_obligations (snd (record_attempt clock [] verdict_attempt sample_ledger))))
   \<and> set (open_keys (rs_obligations sample_ledger))
       \<subseteq> set (open_keys (rs_obligations (snd (record_attempt clock [] verdict_attempt sample_ledger))))
   \<and> open_keys (rs_obligations sample_ledger) = [(''/repo'', ''finding:docs'')]"
proof -
  have "at_status verdict_attempt = ''blocked''" "at_critical_findings verdict_attempt \<noteq> []"
    by (simp_all add: verdict_attempt_def)
  moreover have "open_keys (rs_obligations sample_ledger) = [(''/repo'', ''finding:docs'')]"
    by (simp add: open_keys_def obligation_key_def sample_ledger_def sample_obligation_def)
  ultimately show ?thesis using blocked_attempt_keeps_obligations by blast
qed

theorem obligation_ids_never_reissued_witness:
  "distinct (ids_of (rs_obligations (snd (record_attempt clock [] verdict_attempt sample_ledger))))
   \<and> ids_of (rs_obligations sample_ledger) = [''obl-0001'']"
proof
  show ids: "ids_of (rs_obligations sample_ledger) = [''obl-0001'']" by code_simp
  have "distinct (ids_of (rs_obligations sample_ledger))" by (simp add: ids)
  from obligation_ids_never_reissued [OF this]
  show "distinct (ids_of (rs_obligations (snd (record_attempt clock [] verdict_attempt sample_ledger))))" by blast
qed

theorem success_settles_its_repository_witness:
  "''/repo'' \<notin> ob_repo_key ` set (rs_obligations (snd (record_attempt clock []
      (sample_attempt\<lparr>at_status := ''succeeded''\<rparr>) sample_ledger)))"
proof -
  have "at_status (sample_attempt\<lparr>at_status := ''succeeded''\<rparr>) = ''succeeded''"
    "\<not> at_blocked (sample_attempt\<lparr>at_status := ''succeeded''\<rparr>)"
    "at_repo_key (sample_attempt\<lparr>at_status := ''succeeded''\<rparr>) = ''/repo''" "''/repo'' \<noteq> ''''"
    by (simp_all add: sample_attempt_def)
  from success_settles_its_repository [OF this] show ?thesis by blast
qed

definition stale_ledger :: review_state where
  "stale_ledger = empty_review_state\<lparr>rs_stale_ts := clock, rs_stale_repo_key := ''/repo''\<rparr>"

theorem open_debts_match_observations_witness:
  "debt_key ` {d \<in> set (rs_debts (sync_commit_readiness_debts clock (Some ''/repo'') stale_ledger)).
      debt_is_open d \<and> de_repo_key d = ''/repo''} = {(''/repo'', ''advisory_stale'')}"
proof -
  have "list_all (\<lambda>d. de_status d \<in> debt_statuses) (rs_debts stale_ledger)"
    by (simp add: stale_ledger_def empty_review_state_def)
  note eq = open_debts_match_observations [OF this, of clock "''/repo''"]
  have obs: "map observation_key (build_debt_observations stale_ledger (Some ''/repo'')) = [(''/repo'', ''advisory_stale'')]"
    by code_simp
  have "observation_key ` set (build_debt_observations stale_ledger (Some ''/repo'')) = {(''/repo'', ''advisory_stale'')}"
    using arg_cong [OF obs, of set] by simp
  then show ?thesis unfolding eq by auto
qed

definition in_flight_ledger :: review_state where
  "in_flight_ledger = empty_review_state\<lparr>rs_attempts := [sample_attempt]\<rparr>"


theorem reconciliation_is_idempotent_witness:
  "reconcile_after_owner_loss clock [(''op1'', ''inv1'')] [7]
     (snd (reconcile_after_owner_loss clock [(''op1'', ''inv1'')] [7] in_flight_ledger))
   = ([], snd (reconcile_after_owner_loss clock [(''op1'', ''inv1'')] [7] in_flight_ledger))"
  by (rule reconciliation_is_idempotent) code_simp

end
