(* ===== verification/Py_Decimal.thy ===== *)
theory Py_Decimal
  imports Py_Base
begin

text \<open>
  Python's exact numerals: \<open>Decimal(text)\<close> and \<open>str(Decimal)\<close>, the value that \<open>float(text)\<close> reads, and
  the binary64 \<open>repr(float(text))\<close>.  A decimal is a rational number with its two infinities and NaN;
  the precision of a context is the number of significant digits of the rational.
\<close>

section \<open>Decimal values of a text\<close>

datatype decimal = Finite rat | PosInf | NegInf | NotANumber

definition ten_power :: "int \<Rightarrow> rat" where
  "ten_power e = (if 0 \<le> e then of_int (10 ^ nat e) else 1 / of_int (10 ^ nat (- e)))"

definition decimal_value :: "bool \<times> nat \<times> int \<Rightarrow> rat" where
  "decimal_value t = (case t of (neg, c, e) \<Rightarrow> (if neg then - (of_int (int c) * ten_power e) else of_int (int c) * ten_power e))"

definition unsigned :: "string \<Rightarrow> string" where
  "unsigned s = (case s of c # cs \<Rightarrow> (if c = CHR ''-'' \<or> c = CHR ''+'' then cs else s) | [] \<Rightarrow> [])"

definition infinity_text :: "string \<Rightarrow> bool" where
  "infinity_text s = (lower (unsigned s) \<in> {''inf'', ''infinity''})"

definition decimal_nan_text :: "string \<Rightarrow> bool" where
  "decimal_nan_text s = (let t = lower (unsigned s); u = (if take 1 t = ''s'' then drop 1 t else t)
     in take 3 u = ''nan'' \<and> list_all is_digit (drop 3 u))"

text \<open>\<open>Decimal(text)\<close>: outer whitespace and underscores are dropped; \<open>None\<close> is an invalid literal.\<close>

definition decimal_digits :: "string \<Rightarrow> string" where
  "decimal_digits s = filter (\<lambda>c. c \<noteq> CHR ''_'') (strip s)"

definition decimal_text :: "string \<Rightarrow> decimal option" where
  "decimal_text s0 = (let s = decimal_digits s0 in
     case dec_literal s of
       Some t \<Rightarrow> Some (Finite (decimal_value t))
     | None \<Rightarrow> if infinity_text s then Some (if take 1 s = ''-'' then NegInf else PosInf)
               else if decimal_nan_text s then Some NotANumber else None)"

text \<open>\<open>str(Decimal)\<close> of a sign, a coefficient and an exponent.\<close>

definition decimal_str :: "bool \<times> nat \<times> int \<Rightarrow> string" where
  "decimal_str t = (case t of (neg, c, e) \<Rightarrow>
     (let ds = nat_str c; left = e + int (length ds);
          place = (if e \<le> 0 \<and> - 6 < left then left else 1);
          body = (if place \<le> 0 then ''0.'' @ replicate (nat (- place)) CHR ''0'' @ ds
                  else if int (length ds) \<le> place then ds @ replicate (nat place - length ds) CHR ''0''
                  else take (nat place) ds @ ''.'' @ drop (nat place) ds);
          ex = (if left = place then ''''
                else ''E'' @ (if 0 \<le> left - place then ''+'' else '''') @ int_str (left - place))
      in (if neg then ''-'' else '''') @ body @ ex))"

section \<open>Significant digits\<close>

text \<open>The least number of fractional decimal places of a fraction with this denominator, when it has
  a finite expansion.\<close>

function places :: "int \<Rightarrow> nat" where
  "places d = (if d \<le> 1 then 0
               else if d mod 10 = 0 then Suc (places (d div 10))
               else if d mod 2 = 0 then Suc (places (d div 2))
               else if d mod 5 = 0 then Suc (places (d div 5)) else 0)"
  by pat_completeness auto

termination places
  by (relation "measure nat") auto

declare places.simps [simp del]

function strip_zeros :: "int \<Rightarrow> int" where
  "strip_zeros n = (if 0 < n \<and> n mod 10 = 0 then strip_zeros (n div 10) else n)"
  by pat_completeness auto

termination strip_zeros
  by (relation "measure nat") auto

declare strip_zeros.simps [simp del]

definition coefficient :: "rat \<Rightarrow> int" where
  "coefficient x = (case quotient_of x of (n, d) \<Rightarrow> strip_zeros (\<bar>n\<bar> * 10 ^ places d div d))"

definition fits :: "nat \<Rightarrow> rat \<Rightarrow> bool" where
  "fits prec x = (coefficient x < 10 ^ prec)"

text \<open>Rounding to the nearest integer, ties to the even one.\<close>

definition round_half_even :: "rat \<Rightarrow> int" where
  "round_half_even x = (let f = \<lfloor>x\<rfloor>; d = x - of_int f in
     if d < 1 / 2 then f else if 1 / 2 < d then f + 1 else if even f then f else f + 1)"

lemma round_half_even_bound: "\<bar>of_int (round_half_even x) - x\<bar> \<le> 1 / 2"
proof -
  have f: "of_int \<lfloor>x\<rfloor> \<le> x" "x < of_int \<lfloor>x\<rfloor> + 1" by linarith+
  consider "round_half_even x = \<lfloor>x\<rfloor>" "x - of_int \<lfloor>x\<rfloor> \<le> 1 / 2"
    | "round_half_even x = \<lfloor>x\<rfloor> + 1" "1 / 2 \<le> x - of_int \<lfloor>x\<rfloor>"
    unfolding round_half_even_def Let_def by (metis linorder_not_less order_less_imp_le)
  then show ?thesis by cases (use f in \<open>simp_all add: abs_if\<close>, linarith+)
qed

lemma round_half_even_of_int [simp]: "round_half_even (of_int n) = n"
  by (simp add: round_half_even_def)

lemma round_half_even_mono: "x \<le> y \<Longrightarrow> round_half_even x \<le> round_half_even y"
proof -
  assume le: "x \<le> y"
  show ?thesis
  proof (cases "\<lfloor>x\<rfloor> = \<lfloor>y\<rfloor>")
    case True
    then show ?thesis using le by (auto simp: round_half_even_def Let_def)
  next
    case False
    then have "\<lfloor>x\<rfloor> + 1 \<le> \<lfloor>y\<rfloor>" using floor_mono [OF le] by simp
    then show ?thesis by (auto simp: round_half_even_def Let_def)
  qed
qed

section \<open>Binary64 values\<close>

definition two_power :: "int \<Rightarrow> rat" where
  "two_power e = (if 0 \<le> e then of_int (2 ^ nat e) else 1 / of_int (2 ^ nat (- e)))"

function bit_size :: "int \<Rightarrow> nat" where
  "bit_size n = (if n \<le> 0 then 0 else Suc (bit_size (n div 2)))"
  by pat_completeness auto

termination bit_size
  by (relation "measure nat") auto

declare bit_size.simps [simp del]

function int_digits :: "int \<Rightarrow> string" where
  "int_digits n = (if n < 10 then [digit_char (nat n)] else int_digits (n div 10) @ [digit_char (nat (n mod 10))])"
  by pat_completeness auto

termination int_digits
  by (relation "measure nat") auto

declare int_digits.simps [simp del]

text \<open>The largest exponent of a power of two that is at most a positive rational.\<close>

definition log2_floor :: "rat \<Rightarrow> int" where
  "log2_floor x = (case quotient_of x of (n, d) \<Rightarrow>
     (let k = int (bit_size n) - int (bit_size d) in if two_power k \<le> x then k else k - 1))"

text \<open>The binary64 number nearest to a rational that is not negative; \<open>None\<close> is the overflow to infinity.\<close>

definition double_of :: "rat \<Rightarrow> rat option" where
  "double_of x = (if x = 0 then Some 0 else
     (let e = max (log2_floor x - 52) (- 1074); v = of_int (round_half_even (x / two_power e)) * two_power e
      in if two_power 1024 \<le> v then None else Some v))"

definition log10_floor :: "rat \<Rightarrow> int" where
  "log10_floor x = (case quotient_of x of (n, d) \<Rightarrow>
     (let k = int (length (int_digits n)) - int (length (int_digits d)) in if ten_power k \<le> x then k else k - 1))"

text \<open>The shortest digits, with the exponent of the last one, that read back as the binary64 \<open>v\<close>.\<close>

fun shortest_digits :: "rat \<Rightarrow> nat \<Rightarrow> nat \<Rightarrow> int \<times> int" where
  "shortest_digits v 0 n = (0, 0)"
| "shortest_digits v (Suc k) n =
     (let e = log10_floor v - int n; m = round_half_even (v / ten_power e)
      in if k = 0 \<or> double_of (of_int m * ten_power e) = Some v then (m, e) else shortest_digits v k (Suc n))"

text \<open>\<open>repr\<close> of a positive binary64 number: positional between 1e-4 and 1e16.\<close>

definition float_repr_positive :: "rat \<Rightarrow> string" where
  "float_repr_positive v = (case shortest_digits v 17 0 of (m, e) \<Rightarrow>
     (let ds = int_digits (strip_zeros m); point = int (length (int_digits m)) + e
      in if - 4 < point \<and> point \<le> 16 then
           (if point \<le> 0 then ''0.'' @ replicate (nat (- point)) CHR ''0'' @ ds
            else if int (length ds) \<le> point then ds @ replicate (nat point - length ds) CHR ''0'' @ ''.0''
            else take (nat point) ds @ ''.'' @ drop (nat point) ds)
         else take 1 ds @ (if drop 1 ds = [] then '''' else ''.'' @ drop 1 ds) @ ''e''
              @ (if point - 1 < 0 then ''-'' else ''+'') @ zpad 2 (nat_str (nat \<bar>point - 1\<bar>))))"

definition float_repr :: "string \<Rightarrow> string" where
  "float_repr s = (case dec_literal s of None \<Rightarrow> s
     | Some t \<Rightarrow> (let sign = (if take 1 s = ''-'' then ''-'' else '''') in
         case double_of \<bar>decimal_value t\<bar> of None \<Rightarrow> sign @ ''inf''
         | Some v \<Rightarrow> sign @ (if v = 0 then ''0.0'' else float_repr_positive v)))"

section \<open>\<open>float(value)\<close> that is neither negative nor NaN\<close>

text \<open>The grammar of \<open>float(text)\<close>: an underscore only between two digits.\<close>

fun float_underscores :: "bool \<Rightarrow> string \<Rightarrow> bool" where
  "float_underscores prev [] = True"
| "float_underscores prev (c # cs) =
     (if c = CHR ''_'' then prev \<and> (case cs of [] \<Rightarrow> False | d # _ \<Rightarrow> is_digit d) \<and> float_underscores False cs
      else float_underscores (is_digit c) cs)"

definition float_text :: "string \<Rightarrow> decimal option" where
  "float_text s0 = (let s = strip s0; t = filter (\<lambda>c. c \<noteq> CHR ''_'') s in
     if \<not> float_underscores False s then None else
     case dec_literal t of
       Some v \<Rightarrow> Some (Finite (decimal_value v))
     | None \<Rightarrow> if infinity_text s then Some (if take 1 s = ''-'' then NegInf else PosInf)
               else if lower (unsigned s) = ''nan'' then Some NotANumber else None)"

text \<open>A negative literal of magnitude at most half the least subnormal reads as minus zero.\<close>

definition float_nonneg :: "decimal \<Rightarrow> bool" where
  "float_nonneg x = (case x of Finite r \<Rightarrow> - two_power (- 1075) \<le> r | PosInf \<Rightarrow> True | _ \<Rightarrow> False)"

definition number_known :: "pyval \<Rightarrow> bool" where
  "number_known v = (case v of
      PBool _ \<Rightarrow> True
    | PInt i \<Rightarrow> 0 \<le> i
    | PFloat s \<Rightarrow> (case float_text s of Some x \<Rightarrow> float_nonneg x | None \<Rightarrow> False)
    | PStr s \<Rightarrow> (case float_text s of Some x \<Rightarrow> float_nonneg x | None \<Rightarrow> False)
    | _ \<Rightarrow> False)"

text \<open>An integer whose binary64 value overflows raises in \<open>float()\<close>.\<close>

definition float_overflows :: "pyval \<Rightarrow> bool" where
  "float_overflows v = (case v of PInt i \<Rightarrow> double_of (of_int \<bar>i\<bar>) = None | _ \<Rightarrow> False)"

section \<open>Equality of values\<close>

text \<open>The number a value compares as: a float is the binary64 number its text reads as.\<close>

definition numeric_value :: "pyval \<Rightarrow> decimal option" where
  "numeric_value v = (case v of
      PBool b \<Rightarrow> Some (Finite (if b then 1 else 0))
    | PInt i \<Rightarrow> Some (Finite (of_int i))
    | PFloat s \<Rightarrow>
        (case dec_literal s of
           None \<Rightarrow> Some (if s = ''inf'' then PosInf else if s = ''-inf'' then NegInf else NotANumber)
         | Some t \<Rightarrow>
            (let x = decimal_value t in
             case double_of \<bar>x\<bar> of
               None \<Rightarrow> Some (if 0 \<le> x then PosInf else NegInf)
             | Some y \<Rightarrow> Some (Finite (if 0 \<le> x then y else - y))))
    | _ \<Rightarrow> None)"

text \<open>\<open>==\<close> of two values: numbers by value (a NaN equals nothing), dicts whatever the order of their keys.\<close>

fun py_eq :: "pyval \<Rightarrow> pyval \<Rightarrow> bool"
  and py_eq_list :: "pyval list \<Rightarrow> pyval list \<Rightarrow> bool"
  and py_eq_items :: "(string \<times> pyval) list \<Rightarrow> pydict \<Rightarrow> bool" where
  "py_eq (PStr s) v = (v = PStr s)"
| "py_eq PNone v = (v = PNone)"
| "py_eq (PList xs) v = (case v of PList ys \<Rightarrow> py_eq_list xs ys | _ \<Rightarrow> False)"
| "py_eq (PDict d) v = (case v of PDict e \<Rightarrow> length d = length e \<and> py_eq_items d e | _ \<Rightarrow> False)"
| "py_eq u v = (numeric_value u = numeric_value v \<and> numeric_value u \<noteq> Some NotANumber)"
| "py_eq_list [] ys = (ys = [])"
| "py_eq_list (x # xs) ys = (case ys of [] \<Rightarrow> False | y # ys' \<Rightarrow> py_eq x y \<and> py_eq_list xs ys')"
| "py_eq_items [] e = True"
| "py_eq_items ((k, x) # d) e = ((case map_of e k of None \<Rightarrow> False | Some y \<Rightarrow> py_eq x y) \<and> py_eq_items d e)"

lemma number_known_PNone [simp]: "\<not> number_known PNone"
  by (simp add: number_known_def)

end
