(* ===== verification/Usage_Money.thy ===== *)
theory Usage_Money
  imports Py_Decimal
begin

text \<open>
  The exact cash arithmetic of the money authority (\<open>ouroboros/_usage_money.py\<close>).  A row is a
  dictionary; an amount is a rational number; the five cash members of a bucket form a commutative
  group.  The context \<open>exact_money\<close> (precision 60, \<open>Inexact\<close> trapped) is the check \<open>exact\<close> on each
  result.  The exponent range of a context is not modelled.
\<close>

section \<open>Errors\<close>

datatype usage_error =
    UsageLedgerCorrupt string
  | UsageAccountingError string
  | UsageNonFiniteMoney
  | DecimalInvalidOperation
  | DecimalInexact
  | AttributeError
  | PyExc exc

definition lift_exc :: "exc + 'a \<Rightarrow> usage_error + 'a" where
  "lift_exc r = map_sum PyExc id r"

lemma lift_exc_Inr [simp]: "lift_exc r = Inr x \<longleftrightarrow> r = Inr x"
  by (cases r) (auto simp: lift_exc_def)

section \<open>Amounts\<close>

definition exact :: "rat \<Rightarrow> usage_error + rat" where
  "exact x = (if fits 60 x then Inr x else Inl DecimalInexact)"

text \<open>\<open>decimal_of\<close>: \<open>None\<close> is the invalid literal that \<open>Decimal\<close> refuses.\<close>

definition decimal_of :: "pyval \<Rightarrow> decimal option" where
  "decimal_of v = (case v of
      PBool b \<Rightarrow> Some (Finite (if b then 1 else 0))
    | PInt i \<Rightarrow> Some (Finite (of_int i))
    | PFloat s \<Rightarrow> decimal_text s
    | PStr s \<Rightarrow> decimal_text s
    | _ \<Rightarrow> None)"

definition amount :: "pyval \<Rightarrow> usage_error + rat option" where
  "amount v = (case decimal_of v of
      None \<Rightarrow> Inr None
    | Some (Finite x) \<Rightarrow> Inr (if 0 \<le> x then Some x else None)
    | Some _ \<Rightarrow> Inl UsageNonFiniteMoney)"

lemma amount_nonneg: "amount v = Inr (Some x) \<Longrightarrow> 0 \<le> x"
  by (auto simp: amount_def split: option.splits decimal.splits if_splits)

lemma amount_PNone [simp]: "amount PNone = Inr None"
  by (simp add: amount_def decimal_of_def)

definition monetary_key :: "string \<Rightarrow> bool" where
  "monetary_key k = (drop (length k - 4) k = ''_usd'' \<or> k = ''cashUsd'' \<or> k = ''valuationUsd'')"

text \<open>\<open>durable_literals\<close>: a monetary literal that binary64 would change stays as its text.\<close>

fun durable_literals :: "string \<Rightarrow> pyval \<Rightarrow> pyval"
  and durable_items :: "(string \<times> pyval) list \<Rightarrow> (string \<times> pyval) list"
  and durable_list :: "string \<Rightarrow> pyval list \<Rightarrow> pyval list" where
  "durable_literals k (PFloat s) =
     (if monetary_key k \<and> decimal_text s \<noteq> decimal_text (float_repr s) then PStr s else PFloat (float_repr s))"
| "durable_literals k (PDict d) = PDict (durable_items d)"
| "durable_literals k (PList xs) = PList (durable_list k xs)"
| "durable_literals k (PStr s) = PStr s"
| "durable_literals k (PInt i) = PInt i"
| "durable_literals k (PBool b) = PBool b"
| "durable_literals k PNone = PNone"
| "durable_items [] = []"
| "durable_items ((k, v) # d) = (k, durable_literals k v) # durable_items d"
| "durable_list k [] = []"
| "durable_list k (x # xs) = durable_literals k x # durable_list k xs"

lemma map_of_durable_items: "map_of (durable_items d) k = map_option (durable_literals k) (map_of d k)"
  by (induction d rule: list.induct) (auto split: prod.splits)

lemma dget_durable_items [simp]: "dget (durable_items d) k = durable_literals k (dget d k)"
  by (simp add: dget_def map_of_durable_items split: option.splits)

lemma dhas_durable_items [simp]: "dhas (durable_items d) k = dhas d k"
  by (simp add: dhas_def map_of_durable_items)

lemma fst_durable_items [simp]: "map fst (durable_items d) = map fst d"
  by (induction d) auto

text \<open>A monetary value keeps its decimal value through \<open>durable_literals\<close>.\<close>

lemma decimal_of_durable [simp]: "monetary_key k \<Longrightarrow> decimal_of (durable_literals k v) = decimal_of v"
  by (cases v) (auto simp: decimal_of_def)

lemma amount_durable: "monetary_key k \<Longrightarrow> amount (durable_literals k v) = amount v"
  by (simp add: amount_def)

section \<open>Cash\<close>

datatype cash = Cash (settled_usd: rat) (confirmed_usd: rat) (estimated_usd: rat) (reserved_usd: rat)
  (unresolved_upper_bound_usd: rat)

instantiation cash :: ab_group_add
begin

definition zero_cash :: cash where
  "zero_cash = Cash 0 0 0 0 0"

definition plus_cash :: "cash \<Rightarrow> cash \<Rightarrow> cash" where
  "plus_cash a b = Cash (settled_usd a + settled_usd b) (confirmed_usd a + confirmed_usd b)
     (estimated_usd a + estimated_usd b) (reserved_usd a + reserved_usd b)
     (unresolved_upper_bound_usd a + unresolved_upper_bound_usd b)"

definition uminus_cash :: "cash \<Rightarrow> cash" where
  "uminus_cash a = Cash (- settled_usd a) (- confirmed_usd a) (- estimated_usd a) (- reserved_usd a)
     (- unresolved_upper_bound_usd a)"

definition minus_cash :: "cash \<Rightarrow> cash \<Rightarrow> cash" where
  "minus_cash a b = a + - (b :: cash)"

instance
  by standard (auto simp: zero_cash_def plus_cash_def uminus_cash_def minus_cash_def cash.expand)

end

lemma cash_selectors [simp]:
  "settled_usd 0 = 0" "confirmed_usd 0 = 0" "estimated_usd 0 = 0" "reserved_usd 0 = 0"
  "unresolved_upper_bound_usd 0 = 0"
  "settled_usd (a + b) = settled_usd a + settled_usd b"
  "confirmed_usd (a + b) = confirmed_usd a + confirmed_usd b"
  "estimated_usd (a + b) = estimated_usd a + estimated_usd b"
  "reserved_usd (a + b) = reserved_usd a + reserved_usd b"
  "unresolved_upper_bound_usd (a + b) = unresolved_upper_bound_usd a + unresolved_upper_bound_usd b"
  by (simp_all add: zero_cash_def plus_cash_def)

definition cash_list :: "cash \<Rightarrow> rat list" where
  "cash_list c = [settled_usd c, confirmed_usd c, estimated_usd c, reserved_usd c, unresolved_upper_bound_usd c]"

text \<open>Every member of a tuple fits the exact context; an inexact one raises.\<close>

definition exact_cash :: "cash \<Rightarrow> usage_error + cash" where
  "exact_cash c = (if list_all (fits 60) (cash_list c) then Inr c else Inl DecimalInexact)"

lemma exact_cash_Inr: "exact_cash c = Inr d \<Longrightarrow> d = c"
  by (auto simp: exact_cash_def split: if_splits)

section \<open>Scopes\<close>

definition monetary_scope_key :: "pydict \<Rightarrow> string" where
  "monetary_scope_key row = sor (dget row ''root_task_id'')"

definition billing_group_key :: "pydict \<Rightarrow> string" where
  "billing_group_key row = (if truthy (dget row ''billing_group_id'') then py_str (dget row ''billing_group_id'')
                            else monetary_scope_key row)"

section \<open>The contribution of one row\<close>

text \<open>Membership of a value in a set of strings: an unhashable value raises.\<close>

definition in_names :: "pyval \<Rightarrow> string list \<Rightarrow> usage_error + bool" where
  "in_names v names = (case v of
      PStr s \<Rightarrow> Inr (s \<in> set names)
    | PList _ \<Rightarrow> Inl (PyExc (TypeError ''unhashable type: list''))
    | PDict _ \<Rightarrow> Inl (PyExc (TypeError ''unhashable type: dict''))
    | _ \<Rightarrow> Inr False)"

definition cost_exact :: "pydict \<Rightarrow> bool" where
  "cost_exact row = (truthy (dget row ''cost_final'')
     \<or> (dget row ''cost_partial'' = PBool True \<and> dget row ''cost_estimated'' = PBool False))"

definition cash_contribution :: "pydict \<Rightarrow> usage_error + cash" where
  "cash_contribution row =
     sbind (in_names (dget row ''kind'') [''usage_baseline'', ''legacy_metadata'']) (\<lambda>excluded.
     if excluded then Inr 0 else
     sbind (amount (dget row ''cost_usd'')) (\<lambda>cost.
     sbind (amount (dget row ''reservation_upper_bound_usd'')) (\<lambda>ceiling.
     let bound = (case ceiling of None \<Rightarrow> 0 | Some b \<Rightarrow> b); state = dget row ''state'' in
     case (if state = PStr ''settled'' then cost else None) of
       Some c \<Rightarrow> Inr (if cost_exact row then Cash c c 0 0 0 else Cash c 0 c 0 0)
     | None \<Rightarrow>
        (if state = PStr ''reserved'' then Inr (Cash 0 0 0 bound 0) else
         sbind (in_names state [''dispatched'', ''unresolved'', ''settled'']) (\<lambda>held.
         Inr (if held then Cash 0 0 0 0 bound else 0))))))"

definition cash_nonneg :: "cash \<Rightarrow> bool" where
  "cash_nonneg c = list_all (\<lambda>x. 0 \<le> x) (cash_list c)"

text \<open>A contribution is nothing, an exact or an estimated price, or the bound of an open row.\<close>

lemma cash_contribution_cases:
  assumes "cash_contribution row = Inr c"
  obtains (none) "c = 0"
  | (exact) x where "c = Cash x x 0 0 0" and "0 \<le> x"
  | (estimated) x where "c = Cash x 0 x 0 0" and "0 \<le> x"
  | (held) b where "c = Cash 0 0 0 b 0" and "0 \<le> b"
  | (exposed) b where "c = Cash 0 0 0 0 b" and "0 \<le> b"
proof -
  obtain excluded where e: "in_names (dget row ''kind'') [''usage_baseline'', ''legacy_metadata''] = Inr excluded"
    using assms by (auto simp: cash_contribution_def sbind_Inr_iff)
  show thesis
  proof (cases excluded)
    case True
    then show thesis using assms e none by (simp add: cash_contribution_def)
  next
    case False
    then obtain cost ceiling where a: "amount (dget row ''cost_usd'') = Inr cost"
        "amount (dget row ''reservation_upper_bound_usd'') = Inr ceiling"
      using assms e by (auto simp: cash_contribution_def sbind_Inr_iff)
    define bound where "bound = (case ceiling of None \<Rightarrow> 0 | Some b \<Rightarrow> b)"
    have bound: "0 \<le> bound" using a(2) amount_nonneg by (auto simp: bound_def split: option.splits)
    note rest = assms [unfolded cash_contribution_def e a, simplified False sbind.simps if_False Let_def,
        folded bound_def]
    show thesis
    proof (cases "if dget row ''state'' = PStr ''settled'' then cost else None")
      case (Some x)
      then have "cost = Some x" by (simp split: if_splits)
      then have "0 \<le> x" using a(1) amount_nonneg by simp
      then show thesis using rest Some exact estimated by (auto split: if_splits)
    next
      case None
      then show thesis using rest bound none held exposed by (auto simp: sbind_Inr_iff split: if_splits)
    qed
  qed
qed

lemma cash_contribution_nonneg: "cash_contribution row = Inr c \<Longrightarrow> cash_nonneg c"
  by (erule cash_contribution_cases) (simp_all add: cash_nonneg_def cash_list_def)

text \<open>What a row adds to the settled member is split between confirmed and estimated.\<close>

lemma cash_contribution_split:
  "cash_contribution row = Inr c \<Longrightarrow> settled_usd c = confirmed_usd c + estimated_usd c"
  by (erule cash_contribution_cases) simp_all

definition change_cash :: "cash \<Rightarrow> cash \<Rightarrow> cash \<Rightarrow> usage_error + cash" where
  "change_cash held_cash old new = sbind (exact_cash (held_cash - old)) (\<lambda>d. exact_cash (d + new))"

section \<open>Rounding and the limit rule\<close>

definition quantize :: "rat \<Rightarrow> usage_error + rat" where
  "quantize x = (let n = round_half_even (x * 1000000) in
     if \<bar>n\<bar> < 10 ^ 60 then Inr (of_int n / 1000000) else Inl DecimalInvalidOperation)"

definition rounded_cash :: "cash \<Rightarrow> usage_error + cash \<times> rat" where
  "rounded_cash held_cash =
     sbind (quantize (settled_usd held_cash)) (\<lambda>s.
     sbind (quantize (confirmed_usd held_cash)) (\<lambda>c.
     sbind (quantize (estimated_usd held_cash)) (\<lambda>e.
     sbind (quantize (reserved_usd held_cash)) (\<lambda>r.
     sbind (quantize (unresolved_upper_bound_usd held_cash)) (\<lambda>u.
     sbind (exact (s + r)) (\<lambda>held.
     sbind (exact (held + u)) (\<lambda>accounted.
     Inr (Cash s c e r u, accounted))))))))"

definition exceeds_limit :: "cash \<Rightarrow> pyval \<Rightarrow> usage_error + bool" where
  "exceeds_limit held_cash limit = (case decimal_of limit of
      None \<Rightarrow> Inl DecimalInvalidOperation
    | Some cap \<Rightarrow>
        sbind (rounded_cash held_cash) (\<lambda>r. let known = settled_usd (fst r) in
        case cap of
          NotANumber \<Rightarrow> Inl DecimalInvalidOperation
        | NegInf \<Rightarrow> Inr True
        | PosInf \<Rightarrow> Inr False
        | Finite c \<Rightarrow> if c \<le> 0 then Inr True
                      else sbind (exact (c - 1 / 1000000000)) (\<lambda>line. Inr (line \<le> known))))"

lemma quantize_bound: "quantize x = Inr y \<Longrightarrow> \<bar>y - x\<bar> \<le> 1 / 2000000"
proof -
  assume "quantize x = Inr y"
  then have y: "y = of_int (round_half_even (x * 1000000)) / 1000000"
    by (auto simp: quantize_def Let_def split: if_splits)
  have "\<bar>of_int (round_half_even (x * 1000000)) - x * 1000000\<bar> \<le> 1 / 2"
    by (rule round_half_even_bound)
  then show ?thesis unfolding y by (simp add: abs_if field_simps split: if_splits)
qed

lemma quantize_Inr: "quantize x = Inr y \<Longrightarrow> y = of_int (round_half_even (x * 1000000)) / 1000000"
  by (auto simp: quantize_def Let_def split: if_splits)

lemma quantize_mono:
  assumes "quantize x = Inr a" and "quantize y = Inr b" and "x \<le> y"
  shows "a \<le> b"
  unfolding quantize_Inr [OF assms(1)] quantize_Inr [OF assms(2)]
  using assms(3) by (intro divide_right_mono of_int_le_iff [THEN iffD2] round_half_even_mono) auto

lemma rounded_cash_settled: "rounded_cash t = Inr r \<Longrightarrow> quantize (settled_usd t) = Inr (settled_usd (fst r))"
  by (auto simp: rounded_cash_def sbind_Inr_iff)

lemma rounded_cash_accounted:
  "rounded_cash t = Inr (c, a) \<Longrightarrow> a = settled_usd c + reserved_usd c + unresolved_upper_bound_usd c"
  by (auto simp: rounded_cash_def sbind_Inr_iff exact_def split: if_splits)

end
