(* ===== verification/Usage_Rows.thy ===== *)
theory Usage_Rows
  imports Usage_Money
begin

text \<open>
  The one money reducer (\<open>ouroboros/_usage_rows.py\<close>): \<open>summary_delta\<close> is what one row adds to each
  member of a summary, and a \<open>bucket\<close> is the running sum that a transition corrects by subtracting
  the old row and adding the new one.  A dict of counts is a partial map; the processing member is its
  three groups of keys, with the labels of \<open>observed_modes\<close> and \<open>billing_kinds\<close> under pairs of keys.
\<close>

section \<open>The bucket\<close>

type_synonym 'a pairs = "string \<Rightarrow> ('a \<times> int) option"

record bucket =
  bk_rows :: int
  bk_cash :: cash
  bk_counts :: "string \<Rightarrow> int option"
  bk_unknown :: int
  bk_priced :: int
  bk_tracked_nonfinal :: int
  bk_accounting_open :: int
  bk_non_final :: int
  bk_sessions :: int
  bk_windows :: "string \<Rightarrow> string option"
  bk_amounts :: "rat pairs"
  bk_counters :: "int pairs"
  bk_labels :: "string \<times> string \<Rightarrow> (int \<times> int) option"
  bk_tokens :: "int pairs"
  bk_physical :: int
  bk_ttls :: "int pairs"
  bk_caps :: "string \<Rightarrow> int option"

definition empty_bucket :: bucket where
  "empty_bucket = \<lparr>bk_rows = 0, bk_cash = 0, bk_counts = Map.empty, bk_unknown = 0, bk_priced = 0,
     bk_tracked_nonfinal = 0, bk_accounting_open = 0, bk_non_final = 0, bk_sessions = 0,
     bk_windows = Map.empty, bk_amounts = Map.empty, bk_counters = Map.empty, bk_labels = Map.empty,
     bk_tokens = Map.empty, bk_physical = 0, bk_ttls = Map.empty, bk_caps = Map.empty\<rparr>"

definition count_at :: "('k \<Rightarrow> int option) \<Rightarrow> 'k \<Rightarrow> int" where
  "count_at m k = (case m k of None \<Rightarrow> 0 | Some n \<Rightarrow> n)"

definition pair_at :: "('k \<Rightarrow> ('a :: zero \<times> int) option) \<Rightarrow> 'k \<Rightarrow> 'a \<times> int" where
  "pair_at m k = (case m k of None \<Rightarrow> (0, 0) | Some p \<Rightarrow> p)"

text \<open>\<open>_add_counts\<close>: a count that reaches zero leaves.\<close>

definition add_counts :: "('k \<Rightarrow> int option) \<Rightarrow> ('k \<Rightarrow> int option) \<Rightarrow> int \<Rightarrow> 'k \<Rightarrow> int option" where
  "add_counts target addition sign = (\<lambda>k. case addition k of
      None \<Rightarrow> target k
    | Some v \<Rightarrow> (let updated = count_at target k + sign * v in if updated \<noteq> 0 then Some updated else None))"

text \<open>\<open>_add_pairs\<close>: a pair that no row reports any more leaves.\<close>

definition add_pairs ::
  "('k \<Rightarrow> ('a :: ring_1 \<times> int) option) \<Rightarrow> ('k \<Rightarrow> ('a \<times> int) option) \<Rightarrow> int \<Rightarrow> 'k \<Rightarrow> ('a \<times> int) option" where
  "add_pairs target addition sign = (\<lambda>k. case addition k of
      None \<Rightarrow> target k
    | Some (v, p) \<Rightarrow>
        (let present = snd (pair_at target k) + sign * p
         in if present \<noteq> 0 then Some (fst (pair_at target k) + of_int sign * v, present) else None))"

definition add_windows :: "(string \<Rightarrow> string option) \<Rightarrow> (string \<Rightarrow> string option) \<Rightarrow> string \<Rightarrow> string option" where
  "add_windows target addition = (\<lambda>route. case addition route of
      None \<Rightarrow> target route
    | Some reset_at \<Rightarrow> Some (max (case target route of None \<Rightarrow> '''' | Some r \<Rightarrow> r) reset_at))"

definition processing_amounts :: "string list" where
  "processing_amounts = [''valuation_usd'', ''unclassified_usd'']"

definition processing_counters :: "string list" where
  "processing_counters = [''unknown_cash_rows'', ''unknown_valuation_rows'']"

definition processing_labels :: "string list" where
  "processing_labels = [''observed_modes'', ''billing_kinds'']"

text \<open>The monetary sums of one addition fit the exact context.\<close>

definition exact_pair :: "rat pairs \<Rightarrow> rat pairs \<Rightarrow> int \<Rightarrow> string \<Rightarrow> bool" where
  "exact_pair target addition sign k = (case addition k of None \<Rightarrow> True
     | Some (v, _) \<Rightarrow> fits 60 v \<and> fits 60 (fst (pair_at target k) + of_int sign * v))"

definition signed :: "int \<Rightarrow> cash \<Rightarrow> cash" where
  "signed sign c = (if 0 < sign then c else - c)"

definition bucket_add :: "bucket \<Rightarrow> bucket \<Rightarrow> int \<Rightarrow> string option \<Rightarrow> usage_error + bucket" where
  "bucket_add b other sign cap =
     sbind (exact_cash (bk_cash other)) (\<lambda>_.
     sbind (exact_cash (bk_cash b + signed sign (bk_cash other))) (\<lambda>cash.
     sbind (guard_that (list_all (exact_pair (bk_amounts b) (bk_amounts other) sign) processing_amounts)
              DecimalInexact) (\<lambda>_.
     Inr \<lparr>bk_rows = bk_rows b + sign * bk_rows other, bk_cash = cash,
       bk_counts = add_counts (bk_counts b) (bk_counts other) sign,
       bk_unknown = bk_unknown b + sign * bk_unknown other,
       bk_priced = bk_priced b + sign * bk_priced other,
       bk_tracked_nonfinal = bk_tracked_nonfinal b + sign * bk_tracked_nonfinal other,
       bk_accounting_open = bk_accounting_open b + sign * bk_accounting_open other,
       bk_non_final = bk_non_final b + sign * bk_non_final other,
       bk_sessions = bk_sessions b + sign * bk_sessions other,
       bk_windows = (if 0 < sign then add_windows (bk_windows b) (bk_windows other) else bk_windows b),
       bk_amounts = add_pairs (bk_amounts b) (bk_amounts other) sign,
       bk_counters = add_pairs (bk_counters b) (bk_counters other) sign,
       bk_labels = add_pairs (bk_labels b) (bk_labels other) sign,
       bk_tokens = add_pairs (bk_tokens b) (bk_tokens other) sign,
       bk_physical = bk_physical b + sign * bk_physical other,
       bk_ttls = add_pairs (bk_ttls b) (bk_ttls other) sign,
       bk_caps = (case cap of None \<Rightarrow> bk_caps b | Some c \<Rightarrow> add_counts (bk_caps b) [c \<mapsto> 1] sign)\<rparr>)))"

section \<open>The processing disclosure of one row\<close>

record processing =
  pr_amounts :: "string \<Rightarrow> rat option"
  pr_counters :: "string \<Rightarrow> int option"
  pr_labels :: "string \<times> string \<Rightarrow> int option"

definition empty_processing :: processing where
  "empty_processing = \<lparr>pr_amounts = Map.empty, pr_counters = Map.empty, pr_labels = Map.empty\<rparr>"

text \<open>\<open>value.get(key)\<close> on \<open>value or {}\<close>: a truthy value that is not a dict has no \<open>get\<close>.\<close>

definition dict_or_empty :: "pyval \<Rightarrow> usage_error + pydict" where
  "dict_or_empty v = (if \<not> truthy v then Inr [] else case v of PDict d \<Rightarrow> Inr d | _ \<Rightarrow> Inl AttributeError)"

definition dget_default :: "pydict \<Rightarrow> string \<Rightarrow> pyval \<Rightarrow> pyval" where
  "dget_default d k v = (if dhas d k then dget d k else v)"

definition merge_amount :: "pydict \<Rightarrow> string \<Rightarrow> processing \<Rightarrow> usage_error + processing" where
  "merge_amount addition key acc = (let value = dget addition key in
     if value = PNone \<or> value = PBool True \<or> value = PBool False then Inr acc else
     case decimal_of value of
       Some (Finite x) \<Rightarrow>
         (if 0 \<le> x then
            sbind (exact ((case pr_amounts acc key of None \<Rightarrow> 0 | Some y \<Rightarrow> y) + x)) (\<lambda>s.
            Inr (acc\<lparr>pr_amounts := (pr_amounts acc)(key \<mapsto> s)\<rparr>))
          else Inr acc)
     | _ \<Rightarrow> Inr acc)"

definition merge_counter :: "pydict \<Rightarrow> string \<Rightarrow> processing \<Rightarrow> usage_error + processing" where
  "merge_counter addition key acc =
     (if \<not> dhas addition key then Inr acc else
      sbind (lift_exc (py_int (dget addition key))) (\<lambda>n.
      Inr (acc\<lparr>pr_counters := (pr_counters acc)(key \<mapsto> count_at (pr_counters acc) key + n)\<rparr>)))"

definition merge_label :: "string \<Rightarrow> string \<times> pyval \<Rightarrow> processing \<Rightarrow> usage_error + processing" where
  "merge_label key item acc =
     sbind (lift_exc (py_int (snd item))) (\<lambda>n.
     Inr (acc\<lparr>pr_labels := (pr_labels acc)((key, fst item) \<mapsto> count_at (pr_labels acc) (key, fst item) + n)\<rparr>))"

definition merge_labels :: "pydict \<Rightarrow> string \<Rightarrow> processing \<Rightarrow> usage_error + processing" where
  "merge_labels addition key acc =
     sbind (dict_or_empty (dget addition key)) (\<lambda>labels. sfold (merge_label key) labels acc)"

definition merge_processing_summary :: "pydict \<Rightarrow> processing \<Rightarrow> usage_error + processing" where
  "merge_processing_summary addition acc =
     sbind (sfold (merge_amount addition) processing_amounts acc) (\<lambda>acc1.
     sbind (sfold (merge_counter addition) processing_counters acc1) (\<lambda>acc2.
     sfold (merge_labels addition) processing_labels acc2))"

text \<open>A label as the key it becomes in the stored JSON object.\<close>

definition label_key :: "pyval \<Rightarrow> usage_error + string" where
  "label_key v = (case v of
      PStr s \<Rightarrow> Inr s
    | PBool b \<Rightarrow> Inr (if b then ''true'' else ''false'')
    | PInt i \<Rightarrow> Inr (int_str i)
    | PFloat s \<Rightarrow> Inr (float_repr s)
    | PNone \<Rightarrow> Inr ''null''
    | _ \<Rightarrow> Inl (PyExc (TypeError ''unhashable type'')))"

definition label_fact :: "string \<Rightarrow> pyval \<Rightarrow> usage_error + pydict" where
  "label_fact key v = (if truthy v then sbind (label_key v) (\<lambda>l. Inr [(key, PDict [(l, PInt 1)])]) else Inr [])"

definition known_names :: "string list" where
  "known_names = [''exact'', ''estimated'']"

definition of_truth :: "bool \<Rightarrow> pyval" where
  "of_truth b = PInt (if b then 1 else 0)"

definition cost_facts :: "pydict \<Rightarrow> usage_error + pydict" where
  "cost_facts cost =
     sbind (in_names (dget cost ''cashKnowledge'') known_names) (\<lambda>known_cash.
     sbind (in_names (dget cost ''valuationKnowledge'') known_names) (\<lambda>known_valuation.
     Inr [(''unknown_cash_rows'', of_truth (\<not> known_cash \<or> dget cost ''cashUsd'' = PNone)),
          (''unknown_valuation_rows'', of_truth (\<not> known_valuation \<or> dget cost ''valuationUsd'' = PNone)),
          (''valuation_usd'', if known_valuation then dget cost ''valuationUsd'' else PNone),
          (''unclassified_usd'', dget cost ''unknownUsd'')]))"

definition entry_facts :: "pydict \<Rightarrow> usage_error + pydict" where
  "entry_facts entry =
     sbind (dict_or_empty (dget entry ''processing'')) (\<lambda>receipt.
     sbind (label_fact ''observed_modes'' (dget receipt ''observed'')) (\<lambda>observed.
     sbind (dict_or_empty (dget entry ''processingCostBasis'')) (\<lambda>basis.
     sbind (label_fact ''billing_kinds'' (dget basis ''kind'')) (\<lambda>kinds.
     sbind (dict_or_empty (dget entry ''usageCost'')) (\<lambda>cost.
     sbind (if cost = [] then Inr [] else cost_facts cost) (\<lambda>facts.
     Inr (observed @ kinds @ facts)))))))"

text \<open>The entry of a row that carries no \<open>attempt_execution\<close> list.\<close>

definition row_entry :: "pydict \<Rightarrow> pydict \<Rightarrow> pydict" where
  "row_entry row evidence =
     [(''processing'', dget row ''processing''),
      (''processingCostBasis'', if truthy (dget evidence ''processing'') then dget evidence ''processing''
                                else dget row ''processing_basis''),
      (''usageCost'', PDict (if evidence = [] then [] else
         [(''valuationUsd'', dget evidence ''valuationUsd''),
          (''valuationKnowledge'', dget_default evidence ''valuationKnowledge'' (PStr ''unknown'')),
          (''cashUsd'', if dget evidence ''cashUsd'' \<noteq> PNone then dget evidence ''cashUsd''
                        else dget evidence ''estimatedUsd''),
          (''cashKnowledge'', dget_default evidence ''knowledge'' (PStr ''unknown''))]))]"

definition merge_entry :: "pyval \<Rightarrow> processing \<Rightarrow> usage_error + processing" where
  "merge_entry entry acc = (case entry of
      PDict d \<Rightarrow> sbind (entry_facts d) (\<lambda>facts. merge_processing_summary facts acc)
    | _ \<Rightarrow> Inr acc)"

definition processing_summary :: "pydict \<Rightarrow> usage_error + processing" where
  "processing_summary row = (case dget row ''processing_summary'' of
      PDict d \<Rightarrow> merge_processing_summary d empty_processing
    | _ \<Rightarrow>
       (case dget row ''attempt_execution'' of
          PList entries \<Rightarrow> sfold merge_entry entries empty_processing
        | _ \<Rightarrow> sbind (dict_or_empty (dget row ''cost_evidence'')) (\<lambda>evidence.
                 merge_entry (PDict (row_entry row evidence)) empty_processing)))"

section \<open>The contribution of one row\<close>

definition count_or_one :: "pyval \<Rightarrow> usage_error + int" where
  "count_or_one v = (if truthy v then sbind (lift_exc (py_int v)) (\<lambda>n. Inr (max 1 n)) else Inr 1)"

definition row_kind :: "pydict \<Rightarrow> string" where
  "row_kind row = (if truthy (dget row ''kind'') then py_str (dget row ''kind'') else ''attempt'')"

definition physical_call_count :: "pydict \<Rightarrow> usage_error + int" where
  "physical_call_count row =
     (let kind = row_kind row; state = sor (dget row ''state'') in
      if kind \<in> {''legacy_metadata'', ''legacy_delta'', ''subscription_session'', ''usage_baseline''} then Inr 0
      else if kind = ''usage_baseline_group'' then
        (if state \<in> {''settled'', ''unresolved''} then count_or_one (dget row ''folded_attempt_count'') else Inr 0)
      else Inr (if state \<in> {''dispatched'', ''settled'', ''unresolved''} then 1 else 0))"

definition token_fields :: "string list" where
  "token_fields = [''prompt_tokens'', ''completion_tokens'', ''cached_tokens'', ''cache_write_tokens'']"

definition token_delta :: "pydict \<Rightarrow> string \<Rightarrow> int pairs \<Rightarrow> usage_error + int pairs" where
  "token_delta row name acc =
     (if dget row name = PNone then Inr acc
      else sbind (lift_exc (py_int (dget row name))) (\<lambda>n. Inr (acc(name \<mapsto> (max 0 n, 1)))))"

text \<open>The finality counts of a settled or open row.\<close>

definition finality_delta :: "pydict \<Rightarrow> string \<Rightarrow> int \<Rightarrow> bucket \<Rightarrow> bucket" where
  "finality_delta row state weight d =
     (let bounded = number_known (dget row ''reservation_upper_bound_usd'');
          pricing_unknown = (dget row ''pricing_known'' = PBool False) in
      if state = ''settled'' then
        (if \<not> number_known (dget row ''cost_usd'') then
           (let d1 = d\<lparr>bk_unknown := weight, bk_non_final := weight\<rparr>
            in if bounded then d1\<lparr>bk_priced := weight, bk_tracked_nonfinal := weight, bk_accounting_open := weight\<rparr>
               else d1)
         else
           (let d1 = d\<lparr>bk_priced := weight\<rparr>;
                d2 = (if \<not> truthy (dget row ''cost_final'')
                      then d1\<lparr>bk_non_final := weight, bk_tracked_nonfinal := weight, bk_accounting_open := weight\<rparr>
                      else d1)
            in if dget row ''cost_partial'' = PBool True
               then d2\<lparr>bk_unknown := weight, bk_non_final := weight, bk_accounting_open := weight,
                       bk_tracked_nonfinal := (if truthy (dget row ''cost_estimated'') then weight else 0)\<rparr>
               else d2))
      else if state \<in> {''reserved'', ''dispatched'', ''unresolved''} then
        (let d1 = d\<lparr>bk_non_final := weight, bk_accounting_open := weight\<rparr>;
             d2 = (if \<not> bounded \<or> pricing_unknown then d1\<lparr>bk_unknown := weight\<rparr> else d1)
         in if bounded then d2\<lparr>bk_priced := weight, bk_tracked_nonfinal := weight\<rparr> else d2)
      else d)"

definition session_delta :: "pydict \<Rightarrow> bucket \<Rightarrow> bucket" where
  "session_delta row d =
     (if sor (dget row ''kind'') = ''subscription_session'' then
        (let route = sor (dget row ''subscription_route''); reset_at = sor (dget row ''subscription_reset_at'');
             d1 = d\<lparr>bk_sessions := 1\<rparr>
         in if route \<noteq> '''' \<and> reset_at \<noteq> '''' then d1\<lparr>bk_windows := [route \<mapsto> reset_at]\<rparr> else d1)
      else d)"

definition summary_delta :: "pydict \<Rightarrow> usage_error + bucket" where
  "summary_delta row =
     sbind (cash_contribution row) (\<lambda>cash.
     sbind (processing_summary row) (\<lambda>pr.
     sbind (physical_call_count row) (\<lambda>physical.
     sbind (sfold (token_delta row) token_fields Map.empty) (\<lambda>tokens.
     let kind = sor (dget row ''kind''); state = sor (dget row ''state'');
         ttl = strip (sor (dget row ''prompt_cache_ttl''));
         d = empty_bucket\<lparr>bk_rows := 1, bk_cash := cash,
               bk_amounts := (\<lambda>k. map_option (\<lambda>x. (x, 1)) (pr_amounts pr k)),
               bk_counters := (\<lambda>k. map_option (\<lambda>n. (n, 1)) (pr_counters pr k)),
               bk_labels := (\<lambda>k. map_option (\<lambda>n. (n, 1)) (pr_labels pr k)),
               bk_physical := physical, bk_tokens := tokens,
               bk_ttls := (if ttl \<noteq> '''' then [ttl \<mapsto> (physical, 1)] else Map.empty)\<rparr>
     in if kind = ''usage_baseline'' then Inr d else
     sbind (if kind = ''usage_baseline_group'' then count_or_one (dget row ''folded_attempt_count'') else Inr 1) (\<lambda>weight.
     if kind = ''legacy_metadata'' then
       sbind (count_or_one (dget row ''ambiguous_call_count'')) (\<lambda>n. Inr (d\<lparr>bk_counts := [''metadata_only'' \<mapsto> n]\<rparr>))
     else Inr (finality_delta row state weight
                 (session_delta row (d\<lparr>bk_counts := [state \<mapsto> weight]\<rparr>))))))))"

text \<open>\<open>_fold\<close>: the summary of a list of final rows.\<close>

definition fold_row :: "pydict \<Rightarrow> bucket \<Rightarrow> usage_error + bucket" where
  "fold_row row b = sbind (summary_delta row) (\<lambda>d. bucket_add b d 1 None)"

definition fold_rows :: "pydict list \<Rightarrow> usage_error + bucket" where
  "fold_rows rows = sfold fold_row rows empty_bucket"

end
