(* ===== verification/Usage_Ledger.thy ===== *)
theory Usage_Ledger
  imports Usage_Rows
begin

text \<open>
  The structural and transition rules of one usage row (\<open>ouroboros/usage_ledger.py\<close>), applied on
  every write of the money store.  A refused row is \<open>UsageLedgerCorrupt\<close> with the source's message.
\<close>

section \<open>Facts of a row\<close>

definition terminal_states :: "string list" where
  "terminal_states = [''settled'', ''unresolved'', ''released'']"

definition is_abandoned_settlement :: "pydict \<Rightarrow> bool" where
  "is_abandoned_settlement row = (row_kind row = ''attempt'' \<and> dget row ''state'' = PStr ''settled''
     \<and> dget row ''settle_reason'' = PStr ''abandoned'' \<and> dget row ''cost_usd'' = PNone
     \<and> dget row ''cost_final'' = PBool False)"

definition is_one_shot_kind :: "string \<Rightarrow> bool" where
  "is_one_shot_kind kind = (take 7 kind = ''legacy_'' \<or> kind \<in> {''external_unmetered'', ''subscription_session''})"

text \<open>An absent or empty row answers no.\<close>

definition late_receipt_eligible :: "pydict \<Rightarrow> bool" where
  "late_receipt_eligible row = (row \<noteq> [] \<and> row_kind row = ''attempt''
     \<and> (dget row ''state'' = PStr ''unresolved'' \<or> is_abandoned_settlement row))"

definition provider_price_refinable :: "pydict \<Rightarrow> bool" where
  "provider_price_refinable row = (row \<noteq> [] \<and> dget_default row ''kind'' (PStr ''attempt'') = PStr ''attempt''
     \<and> dget row ''cost_final'' \<noteq> PBool True
     \<and> dget row ''state'' \<in> {PStr ''dispatched'', PStr ''unresolved'', PStr ''settled''})"

section \<open>Structure\<close>

definition seq_message :: "string \<Rightarrow> int \<Rightarrow> string" where
  "seq_message what n = what @ '' in usage row seq='' @ int_str n"

definition sha256_text_ok :: "string \<Rightarrow> bool" where
  "sha256_text_ok s = (length s = 64 \<and> list_all (\<lambda>c. is_digit c \<or> (97 \<le> code c \<and> code c \<le> 102)) s)"

definition candidate_identity_fields :: "string list" where
  "candidate_identity_fields = [''candidate_raw_sha256'', ''candidate_raw_size_bytes'',
     ''candidate_context_sha256'', ''candidate_context_size_bytes'']"

definition natural_value :: "pyval \<Rightarrow> bool" where
  "natural_value v = (case v of PInt i \<Rightarrow> 0 \<le> i | _ \<Rightarrow> False)"

definition is_bool :: "pyval \<Rightarrow> bool" where
  "is_bool v = (case v of PBool _ \<Rightarrow> True | _ \<Rightarrow> False)"

definition sha256_value :: "pyval \<Rightarrow> bool" where
  "sha256_value v = (case v of PStr s \<Rightarrow> sha256_text_ok s | _ \<Rightarrow> False)"

text \<open>A finite positive number; a literal that binary64 rounds to zero or to infinity is refused.\<close>

definition positive_density :: "pyval \<Rightarrow> bool" where
  "positive_density v = (case v of
      PInt i \<Rightarrow> 0 < i
    | PFloat s \<Rightarrow> (case dec_literal s of None \<Rightarrow> False
        | Some t \<Rightarrow> 0 < decimal_value t \<and> double_of (decimal_value t) \<notin> {None, Some 0})
    | _ \<Rightarrow> False)"

text \<open>Membership in a fixed set of strings, with the refusal when it fails.\<close>

definition require_name :: "pyval \<Rightarrow> string list \<Rightarrow> usage_error \<Rightarrow> usage_error + unit" where
  "require_name v names e = sbind (in_names v names) (\<lambda>ok. guard_that ok e)"

definition corrupt :: "string \<Rightarrow> int \<Rightarrow> usage_error" where
  "corrupt what n = UsageLedgerCorrupt (seq_message what n)"

definition require_each :: "(string \<Rightarrow> bool) \<Rightarrow> (string \<Rightarrow> usage_error) \<Rightarrow> string list \<Rightarrow> usage_error + unit" where
  "require_each ok e names = sfold (\<lambda>k _. guard_that (ok k) (e k)) names ()"

definition validate_context :: "pydict \<Rightarrow> int \<Rightarrow> usage_error + unit" where
  "validate_context context n =
     sbind (require_name (dget context ''profile'')
              [''owner_max'', ''owner_low'', ''owner_nano'', ''task_local_low'', ''task_local_nano'']
              (corrupt ''invalid physical_context profile'' n)) (\<lambda>_.
     sbind (require_name (dget context ''rendered_mode'') [''max'', ''low'', ''nano'']
              (corrupt ''invalid physical_context mode/basis'' n)) (\<lambda>_.
     sbind (require_name (dget context ''measurement_basis'')
              [''fresh_route_usage'', ''fresh_model_usage'', ''cold_estimate'']
              (corrupt ''invalid physical_context mode/basis'' n)) (\<lambda>_.
     sbind (require_each (\<lambda>k. dget context k = PNone \<or> natural_value (dget context k))
              (\<lambda>k. corrupt (''invalid physical_context '' @ k) n)
              [''target_total_tokens'', ''capacity_total_tokens'']) (\<lambda>_.
     sbind (require_each (\<lambda>k. is_bool (dget context k)) (\<lambda>_. corrupt ''invalid physical_context flags'' n)
              [''context_target_miss'', ''automatic_pass_used'']) (\<lambda>_.
     sbind (require_each (\<lambda>k. is_str (dget context k)) (\<lambda>_. corrupt ''invalid physical_context identity'' n)
              [''route_fp'', ''round_id'']) (\<lambda>_.
     guard_that (dget context ''measurement_density'' = PNone \<or> positive_density (dget context ''measurement_density''))
       (corrupt ''invalid physical_context measurement_density'' n)))))))"

definition validate_candidate_identity :: "pydict \<Rightarrow> int \<Rightarrow> usage_error + unit" where
  "validate_candidate_identity row n =
     sbind (require_name (dget row ''candidate_measurement_kind'') [''canonical_json_v1'', ''opaque'']
              (corrupt ''invalid candidate_measurement_kind'' n)) (\<lambda>_.
     if dget row ''candidate_measurement_kind'' = PStr ''opaque'' then
       require_each (\<lambda>k. dget row k = PNone) (\<lambda>_. corrupt ''opaque candidate claims identity'' n)
         candidate_identity_fields
     else
       sbind (require_each (\<lambda>k. sha256_value (dget row k)) (\<lambda>k. corrupt (''invalid '' @ k) n)
                [''candidate_raw_sha256'', ''candidate_context_sha256'']) (\<lambda>_.
       require_each (\<lambda>k. natural_value (dget row k)) (\<lambda>k. corrupt (''invalid '' @ k) n)
         [''candidate_raw_size_bytes'', ''candidate_context_size_bytes'']))"

definition manifest_ref_ok :: "pydict \<Rightarrow> bool" where
  "manifest_ref_ok row = (case dget row ''candidate_manifest_ref'' of
      PNone \<Rightarrow> True
    | PDict ref \<Rightarrow> py_eq (dget ref ''call_id'') (dget row ''attempt_id'') \<and> sha256_text_ok (sor (dget ref ''sha256''))
    | _ \<Rightarrow> False)"

definition validate_candidate_facts :: "pydict \<Rightarrow> int \<Rightarrow> usage_error + unit" where
  "validate_candidate_facts row n =
     sbind (guard_that (\<not> dhas row ''candidate_payload'') (corrupt ''mutable candidate payload'' n)) (\<lambda>_.
     if \<not> (dhas row ''candidate_measurement_kind'' \<or> list_ex (dhas row) candidate_identity_fields) then Inr () else
     sbind (validate_candidate_identity row n) (\<lambda>_.
     sbind (case dget row ''physical_context'' of
              PNone \<Rightarrow> Inr ()
            | PDict context \<Rightarrow> validate_context context n
            | _ \<Rightarrow> Inl (corrupt ''invalid physical_context'' n)) (\<lambda>_.
     guard_that (manifest_ref_ok row) (corrupt ''invalid candidate_manifest_ref'' n))))"

definition money_fields :: "string list" where
  "money_fields = [''cost_usd'', ''reservation_upper_bound_usd'', ''reservation_usd'', ''max_budget_usd'',
     ''global_limit_usd'', ''root_limit_usd'', ''billing_group_limit_usd'']"

definition validate_money :: "pydict \<Rightarrow> int \<Rightarrow> string \<Rightarrow> unit \<Rightarrow> usage_error + unit" where
  "validate_money row n name _ =
     sbind (amount (dget row name)) (\<lambda>_.
     if dget row name = PNone then Inr ()
     else if float_overflows (dget row name) then Inl (PyExc (OverflowError ''int too large to convert to float''))
     else guard_that (number_known (dget row name)) (corrupt (''invalid '' @ name) n))"

definition count_fields :: "string list" where
  "count_fields = [''prompt_tokens'', ''completion_tokens'', ''cached_tokens'', ''cache_write_tokens'',
     ''ambiguous_call_count'']"

definition validate_count :: "pydict \<Rightarrow> int \<Rightarrow> string \<Rightarrow> unit \<Rightarrow> usage_error + unit" where
  "validate_count row n name _ =
     (if dget row name = PNone then Inr ()
      else case py_int (dget row name) of
        Inl _ \<Rightarrow> Inl (corrupt (''invalid '' @ name) n)
      | Inr i \<Rightarrow> guard_that (0 \<le> i \<and> \<not> is_bool (dget row name))
                  (corrupt (''invalid '' @ name) n))"

definition row_states :: "string list" where
  "row_states = [''reserved'', ''dispatched''] @ terminal_states"

definition validate_row_fields :: "pydict \<Rightarrow> int \<Rightarrow> usage_error + unit" where
  "validate_row_fields row n =
     sbind (guard_that (sor (dget row ''attempt_id'') \<noteq> '''' \<and> sor (dget row ''state'') \<in> set row_states)
              (UsageLedgerCorrupt (''invalid usage ledger row seq='' @ py_str (dget row ''seq'')))) (\<lambda>_.
     sbind (guard_that (dget row ''settle_reason'' = PStr ''abandoned'' \<longrightarrow> is_abandoned_settlement row)
              (corrupt ''invalid abandoned settlement'' n)) (\<lambda>_.
     sbind (validate_candidate_facts row n) (\<lambda>_.
     sbind (sfold (validate_money row n) money_fields ()) (\<lambda>_.
     sfold (validate_count row n) count_fields ()))))"

section \<open>Transitions\<close>

text \<open>The receipt names the attempt, its provider and its binding, and repeats the price of the row.\<close>

definition price_receipt_matches :: "pydict \<Rightarrow> pydict \<Rightarrow> usage_error + bool" where
  "price_receipt_matches row previous =
     (case (dget row ''provider_price_receipt'', dget previous ''provider_receipt_binding'') of
        (PDict receipt, PDict binding) \<Rightarrow>
          (if binding = [] \<or> \<not> py_eq (dget receipt ''attempt_id'') (dget previous ''attempt_id'')
              \<or> \<not> py_eq (dget receipt ''provider'') (dget previous ''provider'')
              \<or> \<not> truthy (dget receipt ''evidence_ref'') then Inr False
           else sbind (amount (dget receipt ''cost_usd'')) (\<lambda>a.
                sbind (amount (dget row ''cost_usd'')) (\<lambda>b.
                Inr (a = b \<and> py_eq (dget receipt ''binding'') (PDict binding)))))
      | _ \<Rightarrow> Inr False)"

definition refined_fields :: "string list" where
  "refined_fields = [''seq'', ''ts'', ''revision'', ''pre_compaction_seq'', ''cost_usd'', ''cost_final'',
     ''settle_reason'', ''provider_price_receipt'']"

definition provider_price_transition :: "pydict \<Rightarrow> pydict \<Rightarrow> usage_error + bool" where
  "provider_price_transition row previous =
     (if \<not> provider_price_refinable previous \<or> dget row ''cost_final'' \<noteq> PBool True \<or> dget row ''cost_usd'' = PNone
      then Inr False
      else sbind (price_receipt_matches row previous) (\<lambda>matches.
           Inr (matches \<and> list_all (\<lambda>(k, v). k \<in> set refined_fields \<or> py_eq (dget row k) v) previous)))"

definition pre_dispatch_reason :: "pydict \<Rightarrow> bool" where
  "pre_dispatch_reason row = (take 23 (sor (dget row ''reason'')) = ''before_dispatch_failed:'')"

definition changed_after_terminal :: "pydict \<Rightarrow> usage_error" where
  "changed_after_terminal row =
     UsageLedgerCorrupt (''attempt '' @ sor (dget row ''attempt_id'') @ '' changed after terminal state'')"

text \<open>One late receipt replaces an unknown outcome: a real settlement, an administrative one, or a
  release before the dispatch.\<close>

definition late_receipt :: "pydict \<Rightarrow> string \<Rightarrow> bool" where
  "late_receipt row from =
     ((sor (dget row ''state'') = ''settled''
         \<and> (dget row ''settle_reason'' = PStr ''late_receipt''
             \<or> (from = ''unresolved'' \<and> is_abandoned_settlement row)))
      \<or> (sor (dget row ''state'') = ''released'' \<and> pre_dispatch_reason row))"

text \<open>\<open>previous\<close> is the current row of the attempt; \<open>None\<close> for a new one.\<close>

definition validate_transition :: "pydict \<Rightarrow> pydict option \<Rightarrow> usage_error + unit" where
  "validate_transition row previous =
     (let state = sor (dget row ''state''); kind = row_kind row;
          illegal = (\<lambda>p. UsageLedgerCorrupt (''invalid transition '' @ p @ ''->'' @ state))
      in if is_one_shot_kind kind then
           guard_that (previous = None \<and> state \<in> {''settled'', ''unresolved''})
             (UsageLedgerCorrupt (''invalid legacy usage row seq='' @ py_str (dget row ''seq'')))
         else case previous of
           None \<Rightarrow> guard_that (state = ''reserved'')
             (UsageLedgerCorrupt (''attempt '' @ sor (dget row ''attempt_id'') @ '' did not begin reserved''))
         | Some p \<Rightarrow>
            (let from = sor (dget p ''state'') in
             if from = ''reserved'' then guard_that (state \<in> {''dispatched'', ''released''}) (illegal from)
             else if from = ''dispatched'' then
               sbind (guard_that (state \<in> set terminal_states) (illegal from)) (\<lambda>_.
               guard_that (state = ''released'' \<longrightarrow> pre_dispatch_reason row)
                 (UsageLedgerCorrupt (''dispatched->released requires a typed pre-dispatch reason at seq=''
                    @ py_str (dget row ''seq''))))
             else
               sbind (if from = ''settled'' \<and> state = ''settled'' \<and> dget row ''settle_reason'' = PStr ''late_receipt''
                      then provider_price_transition row p else Inr False) (\<lambda>refined.
               guard_that (refined \<or> (kind = ''attempt'' \<and> late_receipt_eligible p \<and> late_receipt row from))
                 (changed_after_terminal row))))"

end
