(* ===== verification/Usage_Store.thy ===== *)
theory Usage_Store
  imports Usage_Ledger Py_Time
begin

text \<open>
  The money store and its write transaction (\<open>ouroboros/usage_store.py\<close>, \<open>ouroboros/usage_origin.py\<close>).
  An attempt is its typed columns and its \<open>extra\<close> dictionary; \<open>decode_row\<close> reads the row back.  The
  summaries, the earliest bindings, the dirty owners and the one-shot identities are maps.  An operation
  that raises leaves no state: the caller's transaction rolls back.
\<close>

section \<open>The row codec\<close>

definition text_fields :: "string list" where
  "text_fields = [''attempt_id'', ''kind'', ''state'', ''task_id'', ''root_task_id'', ''parent_task_id'',
     ''billing_group_id'', ''model'', ''provider'', ''category'', ''source'', ''settle_reason'',
     ''billing_group_limit_source'', ''billing_group_limit_revision'', ''review_skill'', ''review_wave_id'',
     ''review_slot_id'', ''subscription_route'', ''subscription_reset_at'', ''local_answer_consumer_id'',
     ''prompt_cache_ttl'', ''ts'', ''local_answer_owner_birth'']"

definition int_fields :: "string list" where
  "int_fields = [''seq'', ''prompt_tokens'', ''completion_tokens'', ''cached_tokens'', ''cache_write_tokens'',
     ''local_answer_owner_pid'', ''local_answer_task_attempt'']"

definition bool_fields :: "string list" where
  "bool_fields = [''cost_final'', ''pricing_known'']"

definition money_row_fields :: "string list" where
  "money_row_fields = [''cost_usd'', ''reservation_upper_bound_usd'', ''root_limit_usd'', ''billing_group_limit_usd'']"

definition column_fields :: "string list" where
  "column_fields = text_fields @ int_fields @ bool_fields @ money_row_fields"

text \<open>\<open>str(decimal_of(value))\<close> of a number.\<close>

definition money_text :: "pyval \<Rightarrow> string" where
  "money_text v = (case v of
      PInt i \<Rightarrow> int_str i
    | PFloat s \<Rightarrow> (case dec_literal s of Some t \<Rightarrow> decimal_str t
        | None \<Rightarrow> if s = ''inf'' then ''Infinity'' else if s = ''-inf'' then ''-Infinity'' else ''NaN'')
    | _ \<Rightarrow> '''')"

text \<open>The column value of a field, when its type is the column's.\<close>

definition column_value :: "string \<Rightarrow> pyval \<Rightarrow> pyval option" where
  "column_value key v = (case v of
      PStr s \<Rightarrow> if key \<in> set text_fields then Some (PStr s) else None
    | PInt i \<Rightarrow> if key \<in> set int_fields then Some (PInt i)
                else if key \<in> set money_row_fields then Some (PStr (money_text v)) else None
    | PBool b \<Rightarrow> if key \<in> set bool_fields then Some (PInt (if b then 1 else 0)) else None
    | PFloat s \<Rightarrow> if key \<in> set money_row_fields then Some (PStr (money_text v)) else None
    | _ \<Rightarrow> None)"

definition field_value :: "string \<Rightarrow> pyval \<Rightarrow> pyval" where
  "field_value key column = (case column of
      PInt i \<Rightarrow> if key \<in> set bool_fields then PBool (i \<noteq> 0) else PInt i
    | PStr s \<Rightarrow> if key \<in> set money_row_fields then PFloat s else PStr s
    | v \<Rightarrow> v)"

text \<open>Columns are kept by field name; an unusual type and every other field stay in \<open>extra\<close>, and the
  names of the column fields that are present as \<open>None\<close> go under one reserved key.\<close>

definition is_field :: "string \<Rightarrow> bool" where
  "is_field key = (key \<in> set column_fields)"

definition encode_columns :: "pydict \<Rightarrow> pydict" where
  "encode_columns row = concat (map (\<lambda>(k, v). if is_field k then
      (case column_value k v of Some c \<Rightarrow> [(k, c)] | None \<Rightarrow> []) else []) row)"

definition stays_extra :: "string \<times> pyval \<Rightarrow> bool" where
  "stays_extra item = (fst item \<noteq> ''revision''
     \<and> (\<not> is_field (fst item) \<or> (snd item \<noteq> PNone \<and> column_value (fst item) (snd item) = None)))"

definition none_fields :: "pydict \<Rightarrow> string list" where
  "none_fields row = map fst (filter (\<lambda>(k, v). is_field k \<and> v = PNone) row)"

definition encode_extra :: "pydict \<Rightarrow> pydict" where
  "encode_extra row =
     (let extra = filter stays_extra row; nones = none_fields row
      in durable_items (if nones = [] then extra else dset ''__none__'' (PList (map PStr nones)) extra))"

definition none_names :: "pydict \<Rightarrow> string list" where
  "none_names extra = concat (map (\<lambda>v. case v of PStr s \<Rightarrow> [s] | _ \<Rightarrow> []) (the_list (dget extra ''__none__'')))"

definition decode_row :: "pydict \<Rightarrow> pydict \<Rightarrow> int \<Rightarrow> pydict" where
  "decode_row columns extra revision =
     dset ''revision'' (PInt revision)
       (fold (\<lambda>k. case map_of columns k of None \<Rightarrow> id | Some c \<Rightarrow> dset k (field_value k c)) column_fields
         (fold (\<lambda>k. dset k PNone) (none_names extra) (dpop ''__none__'' extra)))"

section \<open>The scopes a row contributes to\<close>

definition legacy_unattributed :: "string list" where
  "legacy_unattributed = [''legacy_metadata'', ''legacy_delta'']"

text \<open>The canonical text of a cap; \<open>None\<close> when it is not a known number.\<close>

definition cap_text :: "pyval \<Rightarrow> string option" where
  "cap_text v = (if \<not> number_known v then None else Some (case v of
      PBool b \<Rightarrow> (if b then ''1'' else ''0'')
    | PStr s \<Rightarrow> (case dec_literal (decimal_digits s) of Some t \<Rightarrow> decimal_str t | None \<Rightarrow> ''Infinity'')
    | _ \<Rightarrow> money_text v))"

type_synonym address = "string \<times> string"

definition joined :: "string \<Rightarrow> string \<Rightarrow> string" where
  "joined owner value = owner @ ''|'' @ value"

definition axis_keys :: "pydict \<Rightarrow> string \<Rightarrow> string \<Rightarrow> bool \<Rightarrow> string \<Rightarrow> (address \<times> string option) list" where
  "axis_keys row owner task legacy axis =
     (let value = (if legacy then '''' else sor (dget row axis)) in
      [if value \<noteq> '''' then ((axis, value), None) else ((''unattributed'', axis), None)]
      @ (if owner \<noteq> '''' then [((''root_'' @ axis, joined owner value), None)] else [])
      @ (if task \<noteq> '''' then [((''task_'' @ axis, joined task value), None)] else []))"

definition summary_keys :: "pydict \<Rightarrow> (address \<times> string option) list" where
  "summary_keys row =
     (let owner = monetary_scope_key row; grp = billing_group_key row; task = sor (dget row ''task_id'');
          kind = sor (dget row ''kind''); legacy = kind \<in> set legacy_unattributed;
          group_cap = dget_default row ''billing_group_limit_usd'' (dget row ''root_limit_usd'')
      in [((''global'', ''''), None), ((''root'', owner), cap_text (dget row ''root_limit_usd'')),
          ((''group'', grp), cap_text group_cap), ((''kind'', kind), None)]
         @ (if task \<noteq> '''' then [((''task'', task), None)] else [])
         @ concat (map (axis_keys row owner task legacy) [''model'', ''provider'', ''category''])
         @ (if legacy \<or> task = '''' then [((''unattributed'', ''task''), None)] else [])
         @ (if legacy \<or> owner = '''' then [((''unattributed'', ''root''), None)] else [])
         @ (if owner \<noteq> '''' then [((''root_task'', joined owner (if legacy then '''' else task)), None)] else [])
         @ (if task \<noteq> '''' then [((''task_root'', joined task (if legacy then '''' else owner)), None)] else [])
         @ (if kind = ''subscription_session'' then
              (if owner \<noteq> '''' then [((''root_delegated'', owner), None)] else [])
              @ (if task \<noteq> '''' then [((''task_delegated'', task), None)] else []) else []))"

section \<open>One-shot identities\<close>

definition review_attribution_keys :: "string list" where
  "review_attribution_keys = [''review_skill'', ''review_wave_id'', ''review_slot_id'']"

definition one_shot_identity_keys :: "string \<Rightarrow> string list" where
  "one_shot_identity_keys kind =
     (if kind = ''external_unmetered'' then
        [''kind'', ''model'', ''provider'', ''task_id'', ''root_task_id'', ''parent_task_id'', ''category'', ''source'',
         ''prompt_tokens'', ''completion_tokens'', ''external_dispatch_id_sha256'']
      else if kind = ''subscription_session'' then
        [''kind'', ''provider'', ''task_id'', ''root_task_id'', ''parent_task_id'', ''category'', ''source'']
        @ review_attribution_keys @ [''subscription_route'', ''session_id_sha256'']
      else [''kind'', ''provider'', ''task_id'', ''root_task_id'', ''category'', ''source''])"

definition one_shot_identity :: "pydict \<Rightarrow> pydict" where
  "one_shot_identity row = map (\<lambda>k. (k, if k \<in> set review_attribution_keys then PStr (sor (dget row k))
                                        else durable_literals k (dget row k)))
                             (one_shot_identity_keys (sor (dget row ''kind'')))"

section \<open>The store\<close>

record stored_attempt =
  sa_columns :: pydict
  sa_extra :: pydict
  sa_revision :: int
  sa_seq_first :: int
  sa_ts_reserved :: "string option"
  sa_ts_dispatched :: "string option"
  sa_ts_final :: "string option"
  sa_ts_last_us :: "int option"
  sa_late_receipt :: bool
  sa_weight :: int
  sa_has_root_limit :: bool
  sa_has_group_limit :: bool

record usage_store =
  us_attempts :: "stored_attempt list"
  us_summaries :: "address \<Rightarrow> bucket option"
  us_bindings :: "address \<Rightarrow> pydict option"
  us_dirty_owners :: "string \<Rightarrow> int option"
  us_one_shots :: "string \<Rightarrow> pydict option"
  us_marker :: "int \<times> int"
  us_writable :: bool
  us_committed :: bool

definition attempt_row :: "stored_attempt \<Rightarrow> pydict" where
  "attempt_row a = decode_row (sa_columns a) (sa_extra a) (sa_revision a)"

definition has_id :: "string \<Rightarrow> stored_attempt \<Rightarrow> bool" where
  "has_id attempt_id a = (map_of (sa_columns a) ''attempt_id'' = Some (PStr attempt_id))"

definition find_attempt :: "usage_store \<Rightarrow> string \<Rightarrow> stored_attempt option" where
  "find_attempt st attempt_id = find (has_id attempt_id) (us_attempts st)"

definition attempt :: "usage_store \<Rightarrow> string \<Rightarrow> pydict option" where
  "attempt st attempt_id = map_option attempt_row (find_attempt st attempt_id)"

definition bucket_at :: "usage_store \<Rightarrow> address \<Rightarrow> bucket" where
  "bucket_at st address = (case us_summaries st address of None \<Rightarrow> empty_bucket | Some b \<Rightarrow> b)"

definition not_writable :: usage_error where
  "not_writable = UsageAccountingError ''usage store transaction is not writable''"

definition writable :: "usage_store \<Rightarrow> bool" where
  "writable st = (us_writable st \<and> \<not> us_committed st)"

section \<open>Reads the admission rules use\<close>

definition totals :: "usage_store \<Rightarrow> string option \<Rightarrow> string option \<Rightarrow> usage_error + cash" where
  "totals st root_task_id billing_group_id =
     (case (billing_group_id, root_task_id) of
        (Some _, Some _) \<Rightarrow> Inl (PyExc (ValueError ''select one monetary axis''))
      | (Some g, None) \<Rightarrow> Inr (bk_cash (bucket_at st (''group'', g)))
      | (None, Some r) \<Rightarrow> Inr (bk_cash (bucket_at st (''root'', r)))
      | (None, None) \<Rightarrow> Inr (bk_cash (bucket_at st (''global'', ''''))))"

definition scope_exceeds_limit :: "usage_store \<Rightarrow> pyval \<Rightarrow> string option \<Rightarrow> string option \<Rightarrow> usage_error + bool" where
  "scope_exceeds_limit st limit root_task_id billing_group_id =
     sbind (totals st root_task_id billing_group_id) (\<lambda>c. exceeds_limit c limit)"

section \<open>Attribution\<close>

text \<open>\<open>json_extract\<close> of one field as the text or emptiness that \<open>or\<close> sees.\<close>

definition extracted :: "pyval \<Rightarrow> string" where
  "extracted v = (case v of
      PStr s \<Rightarrow> s
    | PNone \<Rightarrow> ''''
    | PBool b \<Rightarrow> (if b then ''1'' else '''')
    | PList _ \<Rightarrow> ''[''
    | PDict _ \<Rightarrow> ''{''
    | v \<Rightarrow> (if truthy v then py_str v else ''''))"

definition category_cause :: "pyval \<Rightarrow> string" where
  "category_cause v = (if v = PStr ''consciousness'' then ''own''
                       else if v = PStr ''consciousness_task'' then ''started'' else '''')"

definition column :: "stored_attempt \<Rightarrow> string \<Rightarrow> pyval" where
  "column a key = dget (sa_columns a) key"

definition root_cause :: "usage_store \<Rightarrow> string \<Rightarrow> string" where
  "root_cause st root_id =
     (case us_bindings st (''consciousness'', root_id) of
        Some (b # bs) \<Rightarrow> sor (dget (b # bs) ''cause'')
      | _ \<Rightarrow>
         (let of_root = (\<lambda>a. column a ''root_task_id'' = PStr root_id);
              first = (case find (\<lambda>a. column a ''task_id'' = PStr root_id \<and> of_root a) (us_attempts st) of
                         Some a \<Rightarrow> Some a | None \<Rightarrow> find of_root (us_attempts st))
          in case first of
               None \<Rightarrow> ''''
             | Some a \<Rightarrow>
                (let cause = extracted (dget (sa_extra a) ''consciousness_cause'')
                 in if cause \<noteq> '''' then cause else category_cause (column a ''category''))))"

definition valid_cause :: "string \<Rightarrow> bool" where
  "valid_cause cause = (cause \<in> {''own'', ''started''} \<or> (take 6 cause = ''place:'' \<and> drop 6 cause \<noteq> ''''))"

definition stamp_root_cause :: "usage_store \<Rightarrow> pydict \<Rightarrow> pydict" where
  "stamp_root_cause st row =
     (let root_id = sor (dget row ''root_task_id'') in
      if root_id = '''' then row else
      let bound = root_cause st root_id;
          own = (if truthy (dget row ''consciousness_cause'') then py_str (dget row ''consciousness_cause'')
                 else category_cause (dget row ''category''));
          cause = (if bound \<noteq> '''' then bound else own)
      in if valid_cause cause then dset ''consciousness_cause'' (PStr cause) row else row)"

text \<open>\<open>INSERT OR IGNORE\<close>: the first binding of an address stays.\<close>

definition insert_binding :: "address \<Rightarrow> pydict \<Rightarrow> (address \<Rightarrow> pydict option) \<Rightarrow> address \<Rightarrow> pydict option" where
  "insert_binding address binding m = (case m address of None \<Rightarrow> m(address \<mapsto> binding) | Some _ \<Rightarrow> m)"

definition binding_keys :: "string list" where
  "binding_keys = [''root_task_id'', ''billing_group_id'', ''billing_group_limit_usd'', ''billing_group_limit_source'',
     ''billing_group_limit_revision'', ''root_limit_usd'', ''root_limit_source'', ''root_limit_revision'']"

definition binding_of :: "pydict \<Rightarrow> pydict" where
  "binding_of row = durable_items (map (\<lambda>k. (k, dget row k)) (filter (dhas row) binding_keys))"

definition bind_root_attribution ::
  "pydict \<Rightarrow> (address \<Rightarrow> pydict option) \<Rightarrow> address \<Rightarrow> pydict option" where
  "bind_root_attribution row m =
     (let m1 = (if truthy (dget row ''root_task_id'') \<and> truthy (dget row ''consciousness_cause'')
                then insert_binding (''consciousness'', py_str (dget row ''root_task_id''))
                       [(''cause'', dget row ''consciousness_cause'')] m
                else m)
      in if \<not> (dhas row ''billing_group_limit_usd'' \<or> dhas row ''root_limit_usd'') then m1
         else fold (\<lambda>(scope, key) acc. if key \<noteq> '''' then insert_binding (scope, key) (binding_of row) acc else acc)
                [(''root'', monetary_scope_key row), (''group'', billing_group_key row)] m1)"

section \<open>Evidence that changes no money\<close>

text \<open>The first attempt of this id and revision, changed.\<close>

definition update_attempt :: "(stored_attempt \<Rightarrow> stored_attempt) \<Rightarrow> string \<Rightarrow> int \<Rightarrow> stored_attempt list \<Rightarrow> stored_attempt list" where
  "update_attempt f attempt_id revision =
     map (\<lambda>a. if has_id attempt_id a \<and> sa_revision a = revision then f a else a)"

definition record_evidence :: "string \<Rightarrow> pydict \<Rightarrow> int \<Rightarrow> usage_store \<Rightarrow> usage_error + bool \<times> usage_store" where
  "record_evidence attempt_id facts expected_revision st =
     (if \<not> writable st then Inl not_writable
      else if facts = [] \<or> \<not> list_all (\<lambda>(k, _). k \<in> {''physical_failure'', ''provider_receipt_binding''}) facts
      then Inl (PyExc (ValueError ''unsupported physical evidence fields''))
      else case find_attempt st attempt_id of
        None \<Rightarrow> Inr (False, st)
      | Some a \<Rightarrow>
         (if sa_revision a \<noteq> expected_revision then Inr (False, st) else
          let fresh = (if dhas (sa_extra a) ''physical_failure'' then dpop ''physical_failure'' facts else facts)
          in if fresh = [] \<or> list_all (\<lambda>(k, v). py_eq (dget (sa_extra a) k) v) fresh then Inr (True, st)
             else Inr (True, st\<lparr>us_attempts := update_attempt
                 (\<lambda>x. x\<lparr>sa_extra := dmerge (sa_extra x) fresh, sa_revision := sa_revision x + 1\<rparr>)
                 attempt_id expected_revision (us_attempts st)\<rparr>)))"

text \<open>The open set: no final outcome, or an administrative settlement.\<close>

definition open_attempt :: "stored_attempt \<Rightarrow> bool" where
  "open_attempt a = (column a ''state'' \<in> {PStr ''reserved'', PStr ''dispatched'', PStr ''unresolved''}
     \<or> (column a ''state'' = PStr ''settled'' \<and> column a ''settle_reason'' = PStr ''abandoned''))"

definition record_recovery :: "string \<Rightarrow> pydict \<Rightarrow> int \<Rightarrow> usage_store \<Rightarrow> usage_error + bool \<times> usage_store" where
  "record_recovery attempt_id recovery expected_revision st =
     (if \<not> writable st then Inl not_writable
      else case find_attempt st attempt_id of
        None \<Rightarrow> Inr (False, st)
      | Some a \<Rightarrow>
         (if sa_revision a \<noteq> expected_revision \<or> \<not> open_attempt a then Inr (False, st)
          else Inr (True, st\<lparr>us_attempts := update_attempt
              (\<lambda>x. x\<lparr>sa_extra := dset ''recovery'' (PDict recovery) (sa_extra x), sa_revision := sa_revision x + 1\<rparr>)
              attempt_id expected_revision (us_attempts st)\<rparr>)))"

text \<open>A receipt that wrote after the projection was read keeps its debt.\<close>

definition ack_dirty_owner :: "string \<Rightarrow> int \<Rightarrow> usage_store \<Rightarrow> usage_error + bool \<times> usage_store" where
  "ack_dirty_owner owner_id revision st =
     (if \<not> writable st then Inl not_writable
      else if us_dirty_owners st owner_id = Some revision
      then Inr (True, st\<lparr>us_dirty_owners := (us_dirty_owners st)(owner_id := None)\<rparr>)
      else Inr (False, st))"

section \<open>The write\<close>

definition row_ts_epoch_us :: "pydict \<Rightarrow> int option" where
  "row_ts_epoch_us row = (let text = strip (sor (dget row ''ts'')) in
     if text = '''' then None else iso_timestamp_us (replace_char CHR ''Z'' ''+00:00'' text))"

definition derived_attempt :: "pydict \<Rightarrow> stored_attempt option \<Rightarrow> int \<Rightarrow> int \<Rightarrow> usage_error + stored_attempt" where
  "derived_attempt row previous revision seq_first =
     sbind (if sor (dget row ''kind'') = ''usage_baseline_group'' then count_or_one (dget row ''folded_attempt_count'')
            else Inr 1) (\<lambda>weight.
     let state = sor (dget row ''state''); ts = sor (dget row ''ts'') in
     Inr \<lparr>sa_columns = encode_columns row, sa_extra = encode_extra row, sa_revision = revision,
       sa_seq_first = seq_first,
       sa_ts_reserved = (if state = ''reserved'' then Some ts else Option.bind previous sa_ts_reserved),
       sa_ts_dispatched = (if state = ''dispatched'' then Some ts else Option.bind previous sa_ts_dispatched),
       sa_ts_final = (if state \<in> set terminal_states then Some ts else None),
       sa_ts_last_us = row_ts_epoch_us row,
       sa_late_receipt = (dget row ''settle_reason'' = PStr ''late_receipt''), sa_weight = weight,
       sa_has_root_limit = dhas row ''root_limit_usd'', sa_has_group_limit = dhas row ''billing_group_limit_usd''\<rparr>)"

text \<open>A stored integer column is a signed 64-bit integer.\<close>

definition integers_fit :: "pydict \<Rightarrow> bool" where
  "integers_fit columns = list_all (\<lambda>(_, v). case v of PInt i \<Rightarrow> - (2 ^ 63) \<le> i \<and> i < 2 ^ 63 | _ \<Rightarrow> True) columns"

definition cap_scope :: "address \<Rightarrow> bool" where
  "cap_scope address = (fst address \<in> {''root'', ''group''})"

text \<open>One summary corrected by one row, then every summary of the row.\<close>

definition add_to_summary ::
  "bucket \<Rightarrow> int \<Rightarrow> address \<times> string option \<Rightarrow> (address \<Rightarrow> bucket option) \<Rightarrow> usage_error + (address \<Rightarrow> bucket option)" where
  "add_to_summary delta sign entry m =
     (case entry of (address, cap) \<Rightarrow>
        sbind (bucket_add (case m address of None \<Rightarrow> empty_bucket | Some b \<Rightarrow> b) delta sign
                 (if cap_scope address then cap else None)) (\<lambda>b.
        Inr (m(address \<mapsto> b))))"

definition apply_row ::
  "pydict option \<Rightarrow> int \<Rightarrow> (address \<Rightarrow> bucket option) \<Rightarrow> usage_error + (address \<Rightarrow> bucket option)" where
  "apply_row row sign m = (case row of
      None \<Rightarrow> Inr m
    | Some r \<Rightarrow> sbind (summary_delta r) (\<lambda>delta. sfold (add_to_summary delta sign) (summary_keys r) m))"

text \<open>A bucket that holds no row leaves.\<close>

definition persist :: "(address \<Rightarrow> bucket option) \<Rightarrow> address \<Rightarrow> bucket option" where
  "persist m = (\<lambda>address. case m address of None \<Rightarrow> None | Some b \<Rightarrow> if bk_rows b = 0 then None else Some b)"

definition mark_dirty :: "pydict \<Rightarrow> int \<Rightarrow> (string \<Rightarrow> int option) \<Rightarrow> string \<Rightarrow> int option" where
  "mark_dirty row seq m = fold (\<lambda>owner acc. if owner \<noteq> '''' then acc(owner \<mapsto> seq) else acc)
     [sor (dget row ''task_id''), sor (dget row ''root_task_id'')] m"

definition materialize :: "string \<Rightarrow> int \<Rightarrow> pydict \<Rightarrow> pydict" where
  "materialize now seq row =
     durable_items (dset ''ts'' (PStr (if truthy (dget row ''ts'') then py_str (dget row ''ts'') else now))
       (dset ''seq'' (PInt seq) (dpop ''revision'' row)))"

definition put_attempt ::
  "string \<Rightarrow> bool \<Rightarrow> int \<Rightarrow> stored_attempt \<Rightarrow> stored_attempt list \<Rightarrow> usage_error + stored_attempt list" where
  "put_attempt attempt_id is_new previous_revision a attempts =
     (if is_new then
        (if list_ex (\<lambda>x. column x ''attempt_id'' = column a ''attempt_id'' \<and> column a ''attempt_id'' \<noteq> PNone) attempts
         then Inl (UsageAccountingError (''usage attempt already recorded: '' @ attempt_id))
         else Inr (attempts @ [a]))
      else
        (if list_ex (\<lambda>x. has_id attempt_id x \<and> sa_revision x = previous_revision) attempts
         then Inr (update_attempt
                (\<lambda>x. a\<lparr>sa_columns := dset ''attempt_id'' (PStr attempt_id) (sa_columns a)\<rparr>)
                attempt_id previous_revision attempts)
         else Inl (UsageAccountingError (''usage attempt changed under its writer: '' @ attempt_id))))"

definition next_revision :: "pydict option \<Rightarrow> usage_error + int" where
  "next_revision previous = (case previous of None \<Rightarrow> Inr 1
     | Some p \<Rightarrow> sbind (lift_exc (py_int (dget p ''revision''))) (\<lambda>r. Inr (r + 1)))"

text \<open>Insert a new attempt or replace \<open>previous\<close> by its next row, with every summary, binding, dirty
  owner, one-shot identity and the marker.\<close>

definition write_row ::
  "string \<Rightarrow> pydict \<Rightarrow> pydict option \<Rightarrow> usage_store \<Rightarrow> usage_error + pydict \<times> usage_store" where
  "write_row now row previous st =
     sbind (guard_that (writable st) not_writable) (\<lambda>_.
     let seq = snd (us_marker st) + 1 in
     sbind (next_revision previous) (\<lambda>revision.
     let materialized = stamp_root_cause st (materialize now seq row);
         attempt_id = sor (dget materialized ''attempt_id'');
         old = Option.bind previous (\<lambda>p. find_attempt st (py_str (dget p ''attempt_id''))) in
     sbind (validate_row_fields materialized seq) (\<lambda>_.
     sbind (validate_transition materialized previous) (\<lambda>_.
     sbind (derived_attempt materialized old revision (case old of None \<Rightarrow> seq | Some a \<Rightarrow> sa_seq_first a)) (\<lambda>a.
     sbind (guard_that (integers_fit (sa_columns a))
              (PyExc (OverflowError ''Python int too large to convert to SQLite INTEGER''))) (\<lambda>_.
     sbind (put_attempt attempt_id (previous = None) (revision - 1) a (us_attempts st)) (\<lambda>attempts.
     let st1 = st\<lparr>us_attempts := attempts\<rparr> in
     case attempt st1 attempt_id of
       None \<Rightarrow> Inl AttributeError
     | Some stored \<Rightarrow>
        sbind (apply_row previous (- 1) (us_summaries st)) (\<lambda>m1.
        sbind (apply_row (Some stored) 1 m1) (\<lambda>m2.
        Inr (stored, st1\<lparr>us_summaries := persist m2,
          us_bindings := bind_root_attribution stored (us_bindings st),
          us_dirty_owners := mark_dirty stored seq (us_dirty_owners st),
          us_one_shots := (if previous = None \<and> is_one_shot_kind (sor (dget stored ''kind''))
                           then (us_one_shots st)(attempt_id \<mapsto> one_shot_identity stored) else us_one_shots st),
          us_marker := (fst (us_marker st), seq)\<rparr>))))))))))"

text \<open>The stored one-shot of the row's id when its identity is identical.\<close>

definition recorded_one_shot :: "pydict \<Rightarrow> usage_store \<Rightarrow> usage_error + pydict option" where
  "recorded_one_shot row st =
     (let attempt_id = py_str (dget row ''attempt_id'');
          conflict = UsageAccountingError (''conflicting settled-row identity: '' @ attempt_id) in
      case us_one_shots st attempt_id of
        None \<Rightarrow> (if attempt st attempt_id \<noteq> None then Inl conflict else Inr None)
      | Some identity \<Rightarrow>
         (if identity \<noteq> one_shot_identity row then Inl conflict else Inr (attempt st attempt_id)))"

definition commit :: "usage_store \<Rightarrow> usage_store" where
  "commit st = st\<lparr>us_committed := True\<rparr>"

section \<open>One-shot records and price receipts\<close>

definition record_one_shot :: "string \<Rightarrow> pydict \<Rightarrow> usage_store \<Rightarrow> usage_error + string \<times> usage_store" where
  "record_one_shot now row st =
     sbind (recorded_one_shot row st) (\<lambda>recorded.
     sbind (case recorded of Some _ \<Rightarrow> Inr st | None \<Rightarrow> sbind (write_row now row None st) (\<lambda>r. Inr (snd r))) (\<lambda>st'.
     Inr (py_str (dget row ''attempt_id''), st')))"

end
