(* ===== verification/Usage_Response.thy ===== *)
theory Usage_Response
  imports Usage_Store Py_Hash
begin

text \<open>
  What a provider's answer contributes to a settlement (\<open>ouroboros/_usage_response.py\<close>,
  \<open>usage_accounting._settlement_fields\<close>): the trusted price, the reported counters, the processing
  receipt and its pricing mode.  The tariff lookup is an argument.
\<close>

section \<open>\<open>float(value)\<close>\<close>

definition float_of :: "pyval \<Rightarrow> exc + pyval" where
  "float_of v = (case v of
      PBool b \<Rightarrow> Inr (PFloat (if b then ''1.0'' else ''0.0''))
    | PInt i \<Rightarrow> if float_overflows v then Inl (OverflowError ''int too large to convert to float'')
                else Inr (PFloat (float_repr (int_str i)))
    | PFloat s \<Rightarrow> Inr (PFloat (float_repr s))
    | PStr s \<Rightarrow> (case float_text s of
          None \<Rightarrow> Inl (ValueError (''could not convert string to float: '' @ repr_str s))
        | Some (Finite _) \<Rightarrow> Inr (PFloat (float_repr (filter (\<lambda>c. c \<noteq> CHR ''_'') (strip s))))
        | Some PosInf \<Rightarrow> Inr (PFloat ''inf'')
        | Some NegInf \<Rightarrow> Inr (PFloat ''-inf'')
        | Some NotANumber \<Rightarrow> Inr (PFloat ''nan''))
    | _ \<Rightarrow> Inl (TypeError ''float() argument must be a string or a real number''))"

text \<open>The value of a float that \<open>float_of\<close> returns.\<close>

definition float_value :: "pyval \<Rightarrow> decimal" where
  "float_value v = (case v of
      PFloat s \<Rightarrow> (case dec_literal s of Some t \<Rightarrow> Finite (decimal_value t)
        | None \<Rightarrow> if s = ''inf'' then PosInf else if s = ''-inf'' then NegInf else NotANumber)
    | _ \<Rightarrow> NotANumber)"

section \<open>Reported facts\<close>

definition provider_cost_value :: "pyval \<Rightarrow> pyval option" where
  "provider_cost_value v = (if is_bool v then None else case float_of v of
      Inl _ \<Rightarrow> None
    | Inr f \<Rightarrow> (case float_value f of Finite x \<Rightarrow> if 0 \<le> x then Some f else None | _ \<Rightarrow> None))"

text \<open>The first reported count; a malformed one ends the search as unknown.\<close>

fun reported_token_count :: "pydict \<Rightarrow> string list \<Rightarrow> int option" where
  "reported_token_count usage [] = None"
| "reported_token_count usage (key # ks) =
     (if dget usage key = PNone then reported_token_count usage ks
      else if is_bool (dget usage key) then None
      else case py_int (dget usage key) of Inr i \<Rightarrow> Some (max 0 i) | Inl _ \<Rightarrow> None)"

definition processing_modes :: "pyval \<Rightarrow> (string \<times> string) list" where
  "processing_modes provider =
     (if provider \<in> {PStr ''openai'', PStr ''openrouter''} then
        [(''default'', ''standard''), (''priority'', ''fast''), (''fast'', ''fast''), (''flex'', ''economy'')]
      else if provider = PStr ''anthropic'' then [(''standard'', ''standard''), (''fast'', ''fast'')] else [])"

definition native_mode :: "pyval \<Rightarrow> pydict \<Rightarrow> pyval" where
  "native_mode provider usage =
     (let v = (if provider \<in> {PStr ''openai'', PStr ''openrouter''} then dget usage ''service_tier''
               else if provider = PStr ''anthropic'' then dget usage ''speed'' else PNone)
      in if is_str v \<and> truthy v then v else PNone)"

definition text_of :: "string option \<Rightarrow> pyval" where
  "text_of s = (case s of None \<Rightarrow> PNone | Some t \<Rightarrow> PStr t)"

definition or_none :: "string \<Rightarrow> pyval" where
  "or_none s = (if s = '''' then PNone else PStr s)"

definition mode_reason :: "string \<Rightarrow> string \<Rightarrow> string option \<Rightarrow> string \<Rightarrow> string option" where
  "mode_reason requested submitted_native submitted observed =
     (if requested \<noteq> '''' \<and> submitted_native = '''' then Some ''processing_not_submitted''
      else if requested \<noteq> '''' \<and> submitted \<notin> {None, Some '''', Some requested} then Some ''submitted_mode_differs''
      else if observed \<noteq> ''unknown'' \<and> submitted \<notin> {None, Some '''', Some observed} then Some ''provider_mode_changed''
      else None)"

definition processing_receipt :: "pyval \<Rightarrow> pydict \<Rightarrow> string \<Rightarrow> string \<Rightarrow> pyval" where
  "processing_receipt provider usage requested submitted_native =
     (if is_dict (dget usage ''processing'') then dget usage ''processing'' else
      let native = native_mode provider usage; modes = processing_modes provider in
      if requested = '''' \<and> submitted_native = '''' \<and> native = PNone then PNone else
      let submitted = map_of modes submitted_native;
          observed = (case native of PStr n \<Rightarrow> (case map_of modes n of None \<Rightarrow> ''unknown'' | Some m \<Rightarrow> m) | _ \<Rightarrow> ''unknown'')
      in PDict [(''requested'', or_none requested), (''submitted'', text_of submitted),
           (''submittedNative'', or_none submitted_native), (''observed'', PStr observed),
           (''observedNative'', PList (if native = PNone then [] else [native])),
           (''reason'', text_of (mode_reason requested submitted_native submitted observed)),
           (''source'', PStr (if native = PNone then ''host_request'' else ''provider_response''))])"

definition observed_processing_mode :: "pyval \<Rightarrow> pydict \<Rightarrow> usage_error + string" where
  "observed_processing_mode provider usage = (case dget usage ''processing'' of
      PDict receipt \<Rightarrow>
        sbind (in_names (dget receipt ''observed'') [''unknown'', ''mixed'']) (\<lambda>vague.
        Inr (case dget receipt ''observedNative'' of
            PList [mode] \<Rightarrow> if vague then ''unknown'' else py_str mode
          | _ \<Rightarrow> ''unknown''))
    | _ \<Rightarrow> (case (if provider = PStr ''anthropic'' then dget usage ''speed'' else dget usage ''service_tier'') of
          PStr s \<Rightarrow> Inr s | _ \<Rightarrow> Inr ''''))"

section \<open>The fields of a settlement\<close>

definition token_value :: "int option \<Rightarrow> pyval" where
  "token_value n = (case n of None \<Rightarrow> PNone | Some i \<Rightarrow> PInt i)"

definition copied_facts :: "string list" where
  "copied_facts = [''effort'', ''effort_resolution'', ''processing'', ''speed'', ''service_tier'', ''cost_basis'',
     ''cost_evidence'', ''cost_invalid'']"

text \<open>The price: the trusted one, zero for a local model, else an estimate of the reported tokens, which
  is never final.  \<open>estimate\<close> is the tariff lookup for the usage and pricing mode.\<close>

definition settlement_price ::
  "(pydict \<Rightarrow> string \<Rightarrow> pyval) \<Rightarrow> pyval \<Rightarrow> pydict \<Rightarrow> string \<Rightarrow> pyval \<Rightarrow> bool \<Rightarrow> bool \<Rightarrow> pyval \<times> bool" where
  "settlement_price estimate provider usage mode cost_usd cost_final has_usage =
     (case provider_cost_value cost_usd of
        Some c \<Rightarrow> (c, cost_final)
      | None \<Rightarrow>
         (if lower (sor provider) = ''local'' then (PFloat ''0.0'', True)
          else if cost_usd = PNone \<and> \<not> truthy (dget usage ''cost_invalid'') \<and> has_usage
          then (estimate usage mode, False) else (PNone, cost_final)))"

definition settlement_fields ::
  "(pydict \<Rightarrow> string \<Rightarrow> pyval) \<Rightarrow> pyval \<Rightarrow> string \<Rightarrow> string \<Rightarrow> pydict \<Rightarrow> pyval \<Rightarrow> bool \<Rightarrow> usage_error + pydict" where
  "settlement_fields estimate provider requested submitted usage cost_usd cost_final =
     (let receipt = processing_receipt provider usage requested submitted;
          u1 = (if receipt = PNone then usage else dset ''processing'' receipt usage);
          prompt = reported_token_count u1 [''prompt_tokens'', ''input_tokens''];
          completion = reported_token_count u1 [''completion_tokens'', ''output_tokens''];
          u2 = (if cost_usd \<noteq> PNone \<and> provider_cost_value cost_usd = None then dset ''cost_invalid'' (PBool True) u1 else u1);
          has_usage = (prompt \<notin> {None, Some 0} \<or> completion \<notin> {None, Some 0})
      in sbind (observed_processing_mode provider u2) (\<lambda>mode.
         case settlement_price estimate provider u2 mode cost_usd cost_final has_usage of (cost, final) \<Rightarrow>
         Inr ([(''cost_usd'', cost), (''cost_final'', PBool (final \<and> cost \<noteq> PNone)),
            (''prompt_tokens'', token_value prompt), (''completion_tokens'', token_value completion),
            (''cached_tokens'', token_value (reported_token_count u1 [''cached_tokens''])),
            (''cache_write_tokens'', token_value (reported_token_count u1 [''cache_write_tokens''])),
            (''prompt_cache_ttl'', PStr (sor (dget u2 ''prompt_cache_ttl'')))]
          @ map (\<lambda>k. (k, dget u2 k)) (filter (dhas u2) copied_facts))))"

section \<open>Sessions\<close>

definition split_keys :: "string list" where
  "split_keys = [''total_tokens'', ''cache_read_tokens'', ''cache_write_tokens'']"

text \<open>The complete native input split, or nothing.\<close>

definition normalized_input_token_usage :: "pyval \<Rightarrow> pydict option" where
  "normalized_input_token_usage raw = (case raw of
      PDict d \<Rightarrow> if set (map fst d) = set split_keys
                   \<and> list_all (\<lambda>k. dget d k = PNone \<or> natural_value (dget d k)) split_keys
                then Some (map (\<lambda>k. (k, dget d k)) split_keys) else None
    | _ \<Rightarrow> None)"

definition session_attempt_id :: "string \<Rightarrow> string" where
  "session_attempt_id session_id = ''session-'' @ take 24 (sha256_text (strip session_id))"

end
