(* ===== verification/Usage_Admission.thy ===== *)
theory Usage_Admission
  imports Usage_Response
begin

text \<open>
  The scope of a physical attempt and the money rules of its admission (\<open>ouroboros/usage_accounting.py\<close>,
  \<open>ouroboros/usage_admission.py\<close>, class \<open>UsageScope\<close> of \<open>ouroboros/usage_origin.py\<close>).  What other
  authorities decide (fences, durable billing lineage, tariffs, the configured budget) are arguments.
  The request fields that only the tariff reads (token estimates, cache lifetime) belong to that argument;
  the drive root and the processing basis a reservation carries for its caller are left out.
  The texts of budget refusals, which quote formatted amounts, are left out.
\<close>

section \<open>Refusals\<close>

datatype attempt_error =
    StoreError usage_error
  | BudgetExceeded string string
  | BillingAuthorityUnavailable string string string
  | ControlAuthorityUnavailable string
  | PhysicalAttemptLimitExceeded
  | PhysicalSendNotStarted string
  | LaunchBusy string
  | PaidStampVetoed string

definition in_store :: "usage_error + 'a \<Rightarrow> attempt_error + 'a" where
  "in_store r = map_sum StoreError id r"

lemma in_store_Inr [simp]: "in_store r = Inr x \<longleftrightarrow> r = Inr x"
  by (cases r) (auto simp: in_store_def)

definition number_of :: "pyval \<Rightarrow> attempt_error + pyval" where
  "number_of v = in_store (lift_exc (float_of v))"

text \<open>\<open>_number(value)\<close>: the float, or \<open>None\<close> when there is none or it is negative or NaN.\<close>

definition known_number :: "pyval \<Rightarrow> attempt_error + pyval" where
  "known_number v = (case float_of v of
      Inl (OverflowError s) \<Rightarrow> Inl (StoreError (PyExc (OverflowError s)))
    | Inl _ \<Rightarrow> Inr PNone
    | Inr f \<Rightarrow> Inr (case float_value f of Finite x \<Rightarrow> if 0 \<le> x then f else PNone
                                    | PosInf \<Rightarrow> f | _ \<Rightarrow> PNone))"

text \<open>\<open>max(0.0, float(value))\<close>.\<close>

definition floor_zero :: "pyval \<Rightarrow> pyval" where
  "floor_zero f = (case float_value f of
      Finite x \<Rightarrow> if 0 < x then f else PFloat ''0.0''
    | PosInf \<Rightarrow> f
    | _ \<Rightarrow> PFloat ''0.0'')"

definition limit_value :: "pyval \<Rightarrow> attempt_error + pyval" where
  "limit_value v = sbind (number_of v) (\<lambda>f. Inr (floor_zero f))"

section \<open>Scopes and requests\<close>

record usage_scope =
  sc_drive_root :: pyval
  sc_task_id :: pyval
  sc_root_task_id :: pyval
  sc_parent_task_id :: pyval
  sc_category :: pyval
  sc_source :: pyval
  sc_non_task_operation :: bool
  sc_review_skill :: pyval
  sc_review_wave_id :: pyval
  sc_review_slot_id :: pyval
  sc_global_limit_usd :: pyval
  sc_root_limit_usd :: pyval
  sc_root_cost_ceiling_usd :: pyval
  sc_global_limit_source :: pyval
  sc_global_limit_revision :: pyval
  sc_billing_group_id :: pyval
  sc_billing_group_limit_usd :: pyval
  sc_billing_group_limit_source :: pyval
  sc_billing_group_limit_revision :: pyval
  sc_root_limit_source :: pyval
  sc_root_limit_revision :: pyval
  sc_consciousness_cause :: pyval

record attempt_request =
  rq_model :: pyval
  rq_provider :: pyval
  rq_reservation_usd :: pyval
  rq_max_budget_usd :: pyval
  rq_global_limit_usd :: pyval
  rq_drive_root :: pyval
  rq_task_id :: pyval
  rq_root_task_id :: pyval
  rq_parent_task_id :: pyval
  rq_category :: pyval
  rq_source :: pyval
  rq_root_limit_usd :: pyval
  rq_force_unknown_reservation :: bool
  rq_candidate_raw_sha256 :: pyval
  rq_candidate_raw_size_bytes :: pyval
  rq_candidate_context_sha256 :: pyval
  rq_candidate_context_size_bytes :: pyval
  rq_candidate_measurement_kind :: pyval
  rq_physical_context :: pyval
  rq_global_limit_source :: pyval
  rq_global_limit_revision :: pyval
  rq_processing_preference :: pyval
  rq_submitted_processing_mode :: pyval
  rq_processing_basis :: pyval
  rq_effort :: pyval
  rq_provider_receipt_binding :: pyval

definition or_text :: "pyval \<Rightarrow> pyval \<Rightarrow> pyval" where
  "or_text a b = (if truthy a then a else b)"

definition str_of :: "pyval \<Rightarrow> pyval" where
  "str_of v = PStr (sor v)"

text \<open>\<open>a < b\<close> on two numbers.\<close>

definition less_number :: "pyval \<Rightarrow> pyval \<Rightarrow> bool" where
  "less_number a b = (case (numeric_value a, numeric_value b) of
      (Some (Finite x), Some (Finite y)) \<Rightarrow> x < y
    | (Some NegInf, Some (Finite _)) \<Rightarrow> True
    | (Some NegInf, Some PosInf) \<Rightarrow> True
    | (Some (Finite _), Some PosInf) \<Rightarrow> True
    | _ \<Rightarrow> False)"

text \<open>\<open>replace(scope, **fields)\<close> on the billing fields.\<close>

definition with_billing :: "pydict \<Rightarrow> usage_scope \<Rightarrow> usage_scope" where
  "with_billing facts s = s\<lparr>
     sc_root_limit_usd := dget_default facts ''root_limit_usd'' (sc_root_limit_usd s),
     sc_billing_group_id := dget_default facts ''billing_group_id'' (sc_billing_group_id s),
     sc_billing_group_limit_usd := dget_default facts ''billing_group_limit_usd'' (sc_billing_group_limit_usd s),
     sc_billing_group_limit_source := dget_default facts ''billing_group_limit_source'' (sc_billing_group_limit_source s),
     sc_billing_group_limit_revision := dget_default facts ''billing_group_limit_revision'' (sc_billing_group_limit_revision s)\<rparr>"

text \<open>The bound scope's fields that carry over to the same root only.\<close>

definition merged_scope :: "usage_scope \<Rightarrow> attempt_request \<Rightarrow> usage_scope" where
  "merged_scope b r =
     (let task = str_of (or_text (rq_task_id r) (sc_task_id b));
          owner = str_of (or_text (rq_root_task_id r) (or_text (sc_root_task_id b) task));
          same = (owner = str_of (or_text (sc_root_task_id b) (sc_task_id b)));
          keep = (\<lambda>v dflt. if same then v else dflt);
          from_request = (rq_global_limit_usd r \<noteq> PNone);
          global_limit = (if from_request then rq_global_limit_usd r else sc_global_limit_usd b);
          source = or_text (if from_request then rq_global_limit_source r else sc_global_limit_source b)
                     (PStr (if from_request then ''attempt_request'' else ''usage_scope''))
      in \<lparr>sc_drive_root = or_text (rq_drive_root r) (sc_drive_root b), sc_task_id = task,
          sc_root_task_id = (if sor owner = '''' \<and> sor task \<noteq> '''' then task else owner),
          sc_parent_task_id = str_of (or_text (rq_parent_task_id r) (keep (sc_parent_task_id b) (PStr ''''))),
          sc_category = str_of (or_text (rq_category r) (or_text (sc_category b) (PStr ''task''))),
          sc_source = str_of (or_text (rq_source r) (or_text (sc_source b) (PStr ''llm''))),
          sc_non_task_operation = (sc_non_task_operation b \<and> same),
          sc_review_skill = str_of (sc_review_skill b), sc_review_wave_id = str_of (sc_review_wave_id b),
          sc_review_slot_id = str_of (sc_review_slot_id b),
          sc_global_limit_usd = global_limit,
          sc_root_limit_usd = (if rq_root_limit_usd r \<noteq> PNone then rq_root_limit_usd r else keep (sc_root_limit_usd b) PNone),
          sc_root_cost_ceiling_usd = keep (sc_root_cost_ceiling_usd b) PNone,
          sc_global_limit_source = (if global_limit \<noteq> PNone then source else PStr ''''),
          sc_global_limit_revision = (if global_limit \<noteq> PNone
             then (if from_request then rq_global_limit_revision r else sc_global_limit_revision b) else PNone),
          sc_billing_group_id = keep (sc_billing_group_id b) (PStr ''''),
          sc_billing_group_limit_usd = keep (sc_billing_group_limit_usd b) PNone,
          sc_billing_group_limit_source = keep (sc_billing_group_limit_source b) (PStr ''''),
          sc_billing_group_limit_revision = keep (sc_billing_group_limit_revision b) PNone,
          sc_root_limit_source = keep (sc_root_limit_source b) (PStr ''''),
          sc_root_limit_revision = keep (sc_root_limit_revision b) PNone,
          sc_consciousness_cause = keep (sc_consciousness_cause b) (PStr '''')\<rparr>)"

text \<open>\<open>billing\<close> is the durable lineage of a task-bound scope.\<close>

definition merge_scope ::
  "(usage_scope \<Rightarrow> attempt_error + pydict) \<Rightarrow> usage_scope \<Rightarrow> attempt_request
   \<Rightarrow> attempt_error + attempt_request \<times> usage_scope" where
  "merge_scope billing b r =
     (let s0 = merged_scope b r in
      sbind (if \<not> sc_non_task_operation s0 \<and> \<not> truthy (sc_billing_group_id s0) \<and> truthy (sc_task_id b)
                \<and> truthy (sc_root_task_id s0) \<and> truthy (sc_drive_root s0)
             then sbind (billing s0) (\<lambda>facts. Inr (with_billing facts s0)) else Inr s0) (\<lambda>s1.
      let s2 = (if rq_root_limit_usd r \<noteq> PNone
                   \<and> (sc_root_limit_usd s1 = PNone \<or> less_number (rq_root_limit_usd r) (sc_root_limit_usd s1))
                then s1\<lparr>sc_root_limit_usd := rq_root_limit_usd r, sc_root_limit_source := PStr ''attempt_request'',
                        sc_root_limit_revision := PNone\<rparr> else s1);
          r1 = (if rq_global_limit_usd r = PNone \<and> sc_global_limit_usd s2 \<noteq> PNone
                then r\<lparr>rq_global_limit_usd := sc_global_limit_usd s2, rq_global_limit_source := sc_global_limit_source s2,
                       rq_global_limit_revision := sc_global_limit_revision s2\<rparr> else r);
          r2 = (if \<not> truthy (rq_task_id r1) \<and> truthy (sc_task_id s2)
                then r1\<lparr>rq_task_id := sc_task_id s2, rq_root_task_id := sc_root_task_id s2\<rparr> else r1)
      in Inr (r2, s2)))"

section \<open>Bounds and limits\<close>

text \<open>The upper bound of a reservation; \<open>None\<close> is an unknown price.  \<open>tariff\<close> is the priced estimate of
  the candidate's tokens.\<close>

definition reservation_cost :: "(attempt_request \<Rightarrow> pyval) \<Rightarrow> attempt_request \<Rightarrow> attempt_error + pyval" where
  "reservation_cost tariff r =
     (let explicit = (if rq_max_budget_usd r \<noteq> PNone then rq_max_budget_usd r else rq_reservation_usd r) in
      if explicit \<noteq> PNone then known_number explicit
      else if rq_force_unknown_reservation r then Inr PNone
      else if lower (sor (rq_provider r)) = ''local'' then Inr (PFloat ''0.0'')
      else Inr (tariff r))"

text \<open>\<open>configured\<close> is the resolved total budget; \<open>None\<close> is unbounded.\<close>

definition global_limit_of :: "pyval \<Rightarrow> pyval \<Rightarrow> attempt_error + pyval" where
  "global_limit_of configured requested =
     (if requested \<noteq> PNone then limit_value requested
      else if configured = PNone then Inr (PFloat ''inf'') else Inr (floor_zero configured))"

definition scope_group :: "usage_scope \<Rightarrow> attempt_error + string \<times> pyval" where
  "scope_group s =
     (let grp = sor (or_text (sc_billing_group_id s) (sc_root_task_id s));
          own = (sc_billing_group_limit_usd s = PNone \<and> \<not> truthy (sc_billing_group_limit_source s)
                 \<and> grp = sor (sc_root_task_id s));
          limit = (if own then sc_root_limit_usd s else sc_billing_group_limit_usd s)
      in if limit = PNone then Inr (grp, PNone) else sbind (limit_value limit) (\<lambda>l. Inr (grp, l)))"

definition stand_in_group :: "string \<Rightarrow> bool" where
  "stand_in_group grp = (take 12 grp = ''unavailable:'')"

definition raise_group_refusal :: "usage_store \<Rightarrow> usage_scope \<Rightarrow> attempt_error + unit" where
  "raise_group_refusal st s =
     sbind (scope_group s) (\<lambda>(grp, limit).
     let owner = (if truthy (sc_root_task_id s) then py_str (sc_root_task_id s) else grp) in
     if stand_in_group grp then Inl (BillingAuthorityUnavailable ''refused'' owner ''stand_in_binding'')
     else if grp = '''' \<or> limit = PNone then Inr ()
     else sbind (in_store (scope_exceeds_limit st limit None (Some grp))) (\<lambda>over.
          guard_that (\<not> over) (BudgetExceeded ''root'' owner)))"

text \<open>The displayed summary of an address; its rounding may refuse.\<close>

definition shown :: "usage_store \<Rightarrow> string option \<Rightarrow> string option \<Rightarrow> attempt_error + unit" where
  "shown st root_task_id billing_group_id =
     in_store (sbind (totals st root_task_id billing_group_id) (\<lambda>c. sbind (rounded_cash c) (\<lambda>_. Inr ())))"

definition axis_key :: "pyval \<Rightarrow> string option" where
  "axis_key v = (if v = PNone then None else Some (py_str v))"

end
