(* ===== verification/Usage_Attempts.thy ===== *)
theory Usage_Attempts
  imports Usage_Admission
begin

text \<open>
  The writers of the money store (\<open>ouroboros/usage_accounting.py\<close>): the reservation of a physical
  attempt, its transitions (dispatch, release, unresolved, settlement, administrative closure), the
  terminal state of a failed send and the provider's price receipt.  Each is one transaction over the store of \<open>Usage_Store\<close>; the process-local
  telemetry that follows a transaction is left out.
\<close>

section \<open>Surroundings of a transaction\<close>

datatype launch_refusal = OwnerPauseRefused string | LaunchContention string

record attempt_env =
  en_now :: string
  en_attempt_id :: string
  en_drive_root :: pyval
  en_bound_scope :: usage_scope
  en_configured_budget :: pyval
  en_billing :: "usage_scope \<Rightarrow> attempt_error + pydict"
  en_tariff :: "attempt_request \<Rightarrow> pyval"
  en_fence :: "usage_scope \<Rightarrow> attempt_error option"
  en_member_fence :: "usage_scope \<Rightarrow> string option"
  en_launch :: "usage_scope \<Rightarrow> launch_refusal option"
  en_paid_veto :: "string option"

record attempt_reservation =
  rs_attempt_id :: string
  rs_model :: pyval
  rs_provider :: pyval
  rs_upper_bound_usd :: pyval
  rs_processing_preference :: pyval
  rs_submitted_processing_mode :: pyval
  rs_scope :: usage_scope

definition open_txn :: "usage_store \<Rightarrow> usage_store" where
  "open_txn st = st\<lparr>us_writable := True, us_committed := False\<rparr>"

text \<open>The fence decision (\<open>_check_dispatch_fences\<close>) is an argument: one answer per scope, for the check before
  the transaction and the one inside it.\<close>

definition check_fences :: "attempt_env \<Rightarrow> usage_scope \<Rightarrow> attempt_error + unit" where
  "check_fences env s = (case en_fence env s of None \<Rightarrow> Inr () | Some e \<Rightarrow> Inl e)"

section \<open>Reservation\<close>

definition reservation_basis :: "attempt_request \<Rightarrow> pyval \<Rightarrow> string" where
  "reservation_basis r bound =
     (if rq_force_unknown_reservation r \<and> bound = PNone then ''opaque_unknown''
      else if bound = PNone then ''unknown_pricing''
      else if rq_max_budget_usd r \<noteq> PNone then ''explicit_upper_bound'' else ''linear_pricing'')"

definition reserved_row ::
  "string \<Rightarrow> attempt_request \<Rightarrow> usage_scope \<Rightarrow> pyval \<Rightarrow> pyval \<Rightarrow> string \<Rightarrow> pyval \<Rightarrow> pydict" where
  "reserved_row attempt_id r s bound global_limit grp group_limit =
     [(''kind'', PStr ''attempt''), (''attempt_id'', PStr attempt_id), (''state'', PStr ''reserved''),
      (''model'', str_of (rq_model r)), (''provider'', str_of (or_text (rq_provider r) (PStr ''unknown''))),
      (''reservation_upper_bound_usd'', bound), (''pricing_known'', PBool (bound \<noteq> PNone)),
      (''reservation_basis'', PStr (reservation_basis r bound)),
      (''task_id'', sc_task_id s), (''root_task_id'', sc_root_task_id s), (''parent_task_id'', sc_parent_task_id s),
      (''billing_group_id'', PStr grp), (''billing_group_limit_usd'', group_limit),
      (''billing_group_limit_source'', sc_billing_group_limit_source s),
      (''billing_group_limit_revision'', sc_billing_group_limit_revision s), (''category'', sc_category s)]
     @ (if truthy (sc_consciousness_cause s) then [(''consciousness_cause'', sc_consciousness_cause s)] else [])
     @ (if sc_non_task_operation s then [(''non_task_operation'', PBool True)] else [])
     @ [(''source'', sc_source s), (''review_skill'', str_of (sc_review_skill s)),
        (''review_wave_id'', str_of (sc_review_wave_id s)), (''review_slot_id'', str_of (sc_review_slot_id s)),
        (''global_limit_usd'', if global_limit = PFloat ''inf'' then PNone else global_limit),
        (''global_limit_unbounded'', PBool (global_limit = PFloat ''inf'')),
        (''global_limit_source'', or_text (sc_global_limit_source s) (PStr ''settings_budget_resolver'')),
        (''global_limit_revision'', sc_global_limit_revision s),
        (''root_limit_usd'', sc_root_limit_usd s), (''root_limit_source'', sc_root_limit_source s),
        (''root_limit_revision'', sc_root_limit_revision s),
        (''candidate_raw_sha256'', rq_candidate_raw_sha256 r),
        (''candidate_raw_size_bytes'', rq_candidate_raw_size_bytes r),
        (''candidate_context_sha256'', rq_candidate_context_sha256 r),
        (''candidate_context_size_bytes'', rq_candidate_context_size_bytes r),
        (''candidate_measurement_kind'', rq_candidate_measurement_kind r),
        (''physical_context'', rq_physical_context r)]
     @ (if truthy (rq_provider_receipt_binding r) then [(''provider_receipt_binding'', rq_provider_receipt_binding r)] else [])
     @ (if rq_effort r \<noteq> PNone then [(''effort'', rq_effort r)] else [])
     @ (if truthy (rq_processing_preference r) \<or> truthy (rq_submitted_processing_mode r) \<or> truthy (rq_processing_basis r)
        then [(''processing_preference'', rq_processing_preference r),
              (''submitted_processing_mode'', rq_submitted_processing_mode r),
              (''processing_basis'', rq_processing_basis r)] else [])"

definition root_admission :: "usage_store \<Rightarrow> usage_scope \<Rightarrow> attempt_error + unit" where
  "root_admission st s =
     (if \<not> truthy (sc_root_task_id s) then Inr () else
      sbind (shown st (axis_key (sc_root_task_id s)) None) (\<lambda>_.
      if sc_root_limit_usd s = PNone then Inr () else
      sbind (limit_value (sc_root_limit_usd s)) (\<lambda>limit.
      sbind (in_store (scope_exceeds_limit st limit (axis_key (sc_root_task_id s)) None)) (\<lambda>over.
      guard_that (\<not> over) (BudgetExceeded ''root'' (sor (sc_root_task_id s)))))))"

text \<open>The limits of one admission, in the order the transaction checks them.\<close>

definition admission_checks :: "usage_store \<Rightarrow> usage_scope \<Rightarrow> pyval \<Rightarrow> attempt_error + unit" where
  "admission_checks st s global_limit =
     sbind (in_store (scope_exceeds_limit st global_limit None None)) (\<lambda>over.
     sbind (guard_that (\<not> over) (BudgetExceeded ''global'' (sor (sc_root_task_id s)))) (\<lambda>_.
     sbind (root_admission st s) (\<lambda>_.
     raise_group_refusal st s)))"

text \<open>The transaction of a reservation.\<close>

definition admit_row ::
  "attempt_env \<Rightarrow> attempt_request \<Rightarrow> usage_scope \<Rightarrow> pyval \<Rightarrow> usage_store \<Rightarrow> attempt_error + usage_store" where
  "admit_row env r s bound st =
     sbind (check_fences env s) (\<lambda>_.
     sbind (global_limit_of (en_configured_budget env) (rq_global_limit_usd r)) (\<lambda>global_limit.
     sbind (admission_checks st s global_limit) (\<lambda>_.
     sbind (scope_group s) (\<lambda>(grp, group_limit).
     sbind (in_store (write_row (en_now env)
              (reserved_row (en_attempt_id env) r s bound global_limit grp group_limit) None st)) (\<lambda>(_, st').
     sbind (if grp = '''' then Inr () else shown st' None (Some grp)) (\<lambda>_.
     sbind (if truthy (sc_root_task_id s) then shown st' (axis_key (sc_root_task_id s)) None else Inr ()) (\<lambda>_.
     Inr (open_txn st'))))))))"

definition reserve_attempt ::
  "attempt_env \<Rightarrow> attempt_request \<Rightarrow> usage_store \<Rightarrow> attempt_error + attempt_reservation \<times> usage_store" where
  "reserve_attempt env request st =
     sbind (merge_scope (en_billing env) (en_bound_scope env) request) (\<lambda>(r, s0).
     sbind (check_fences env s0) (\<lambda>_.
     sbind (reservation_cost (en_tariff env) r) (\<lambda>bound.
     sbind (merge_scope (en_billing env) (en_bound_scope env) r) (\<lambda>(_, s).
     sbind (admit_row env r s bound (open_txn st)) (\<lambda>st'.
     Inr (\<lparr>rs_attempt_id = en_attempt_id env, rs_model = rq_model r, rs_provider = rq_provider r, rs_upper_bound_usd = bound,
            rs_processing_preference = rq_processing_preference r,
            rs_submitted_processing_mode = rq_submitted_processing_mode r, rs_scope = s\<rparr>, st'))))))"

section \<open>Transitions\<close>

record transition_call =
  tc_state :: string
  tc_fields :: pydict
  tc_expected_seq :: "int option"
  tc_expected_revision :: "int option"
  tc_abandon_reason :: string
  tc_allow_release :: bool

text \<open>Either the current row stands, or it moves to a state with new fields.\<close>

datatype decision = Stands | Moves string pydict

definition superseded :: "transition_call \<Rightarrow> pydict \<Rightarrow> bool" where
  "superseded c current =
     ((case tc_expected_seq c of None \<Rightarrow> False | Some n \<Rightarrow> dget current ''seq'' \<noteq> PInt n)
      \<or> (case tc_expected_revision c of None \<Rightarrow> False | Some n \<Rightarrow> dget current ''revision'' \<noteq> PInt n))"

text \<open>An abandonment releases a reservation, and closes an attempt that has no real receipt.\<close>

definition abandon_step :: "transition_call \<Rightarrow> pydict \<Rightarrow> decision" where
  "abandon_step c current =
     (let state = dget current ''state''; abandoned = is_abandoned_settlement current;
          reason = PStr (tc_abandon_reason c) in
      if tc_abandon_reason c = '''' then Moves (tc_state c) (tc_fields c)
      else if state = PStr ''released'' \<or> (state = PStr ''settled'' \<and> \<not> abandoned) then Stands
      else if state = PStr ''reserved'' then Moves ''released'' [(''reason'', reason)]
      else if abandoned \<and> dget (tc_fields c) ''settle_reason'' = PStr ''abandoned'' then Stands
      else Moves (tc_state c)
             (let f = dset ''reason'' reason (tc_fields c) in
              if truthy (dget current ''reason'') \<and> \<not> truthy (dget current ''unresolved_reason'')
              then dset ''unresolved_reason'' (dget current ''reason'') f else f))"

definition settle_step :: "string \<Rightarrow> bool \<Rightarrow> pydict \<Rightarrow> string \<Rightarrow> pydict \<Rightarrow> attempt_error + decision" where
  "settle_step attempt_id allow_release current state facts =
     (let from = dget current ''state''; abandoned = is_abandoned_settlement current in
      if state = ''unresolved'' \<and> abandoned then Inr Stands
      else if state = ''settled'' \<and> from = PStr ''settled'' \<and> \<not> abandoned then
        (if list_all (\<lambda>(k, v). py_eq (dget current k) v) facts then Inr Stands
         else Inl (StoreError (UsageAccountingError (''conflicting usage settlement: '' @ attempt_id))))
      else if state = ''released'' \<and> from = PStr ''dispatched'' \<and> \<not> allow_release then
        Inl (StoreError (UsageAccountingError ''dispatched attempts require a typed pre-dispatch release''))
      else Inr (Moves state
        (if state = ''settled'' \<and> (abandoned \<or> from = PStr ''unresolved'')
            \<and> dget facts ''settle_reason'' \<noteq> PStr ''abandoned''
         then dset ''settle_reason'' (PStr ''late_receipt'') facts else facts)))"

definition decide_transition :: "string \<Rightarrow> transition_call \<Rightarrow> pydict \<Rightarrow> attempt_error + decision" where
  "decide_transition attempt_id c current =
     (if superseded c current then Inr Stands
      else if tc_state c = ''released'' \<and> dget current ''state'' = PStr ''released'' then Inr Stands
      else case abandon_step c current of
        Stands \<Rightarrow> Inr Stands
      | Moves state facts \<Rightarrow> settle_step attempt_id (tc_allow_release c) current state facts)"

definition effective_keys :: "string list" where
  "effective_keys = [''root_limit_usd'', ''root_limit_source'', ''root_limit_revision'', ''billing_group_id'',
     ''billing_group_limit_usd'', ''billing_group_limit_source'', ''billing_group_limit_revision'']"

text \<open>The scope the row itself records.\<close>

definition row_scope :: "pyval \<Rightarrow> pydict \<Rightarrow> usage_scope" where
  "row_scope drive_root current =
     \<lparr>sc_drive_root = drive_root, sc_task_id = dget current ''task_id'', sc_root_task_id = dget current ''root_task_id'',
      sc_parent_task_id = dget current ''parent_task_id'', sc_category = PStr ''task'', sc_source = PStr ''llm'',
      sc_non_task_operation = (dget current ''non_task_operation'' = PBool True),
      sc_review_skill = PStr '''', sc_review_wave_id = PStr '''', sc_review_slot_id = PStr '''',
      sc_global_limit_usd = PNone, sc_root_limit_usd = dget current ''root_limit_usd'', sc_root_cost_ceiling_usd = PNone,
      sc_global_limit_source = PStr '''', sc_global_limit_revision = PNone,
      sc_billing_group_id = dget current ''billing_group_id'',
      sc_billing_group_limit_usd = dget current ''billing_group_limit_usd'',
      sc_billing_group_limit_source = dget current ''billing_group_limit_source'',
      sc_billing_group_limit_revision = dget current ''billing_group_limit_revision'',
      sc_root_limit_source = dget current ''root_limit_source'', sc_root_limit_revision = dget current ''root_limit_revision'',
      sc_consciousness_cause = PStr ''''\<rparr>"

definition dispatch_limit :: "pydict \<Rightarrow> attempt_error + pyval" where
  "dispatch_limit current =
     sbind (in_store (in_names (dget current ''global_limit_source'') ['''', ''settings_budget_resolver''])) (\<lambda>resolved.
     Inr (if resolved then PNone else dget current ''global_limit_usd''))"

text \<open>One axis of the check before a send: known spend has not reached the limit.\<close>

definition check_axis :: "usage_store \<Rightarrow> string \<Rightarrow> usage_scope \<Rightarrow> pyval \<Rightarrow> string option \<Rightarrow> attempt_error + unit" where
  "check_axis st axis s limit identity =
     (if limit = PNone then Inr () else
      sbind (in_store (scope_exceeds_limit st limit identity None)) (\<lambda>over.
      guard_that (\<not> over) (BudgetExceeded axis (sor (sc_root_task_id s)))))"

definition dispatch_checks :: "attempt_env \<Rightarrow> pydict \<Rightarrow> usage_store \<Rightarrow> attempt_error + unit" where
  "dispatch_checks env current st =
     (let s = row_scope (en_drive_root env) current in
      case en_member_fence env s of
        Some reason \<Rightarrow> Inl (PhysicalSendNotStarted (if reason = '''' then ''owner_pause'' else reason))
      | None \<Rightarrow>
        sbind (check_fences env s) (\<lambda>_.
        sbind (dispatch_limit current) (\<lambda>requested.
        sbind (global_limit_of (en_configured_budget env) requested) (\<lambda>global_limit.
        sbind (check_axis st ''global'' s global_limit None) (\<lambda>_.
        sbind (check_axis st ''root'' s (sc_root_limit_usd s) (axis_key (sc_root_task_id s))) (\<lambda>_.
        raise_group_refusal st s))))))"

definition replaced_keys :: "string \<Rightarrow> string list" where
  "replaced_keys state =
     [''seq'', ''ts'', ''revision'', ''pre_compaction_seq'', ''settle_reason'', ''reason'']
     @ (if state = ''settled'' then [''effort'', ''effort_resolution'', ''processing'', ''speed'', ''service_tier'',
          ''cost_basis'', ''cost_evidence''] else [])"

definition kept_effort :: "string \<Rightarrow> pydict \<Rightarrow> pydict \<Rightarrow> pydict" where
  "kept_effort state current facts =
     (case dget current ''effort'' of
        PDict e \<Rightarrow> if state = ''settled'' \<and> \<not> dhas facts ''effort''
                   then dset ''effort'' (PDict (dset ''report_source'' PNone (dset ''reported'' PNone e))) facts else facts
      | _ \<Rightarrow> facts)"

definition next_row :: "string \<Rightarrow> pydict \<Rightarrow> pydict \<Rightarrow> pydict" where
  "next_row state current facts =
     dmerge (dset ''state'' (PStr state) (filter (\<lambda>(k, _). k \<notin> set (replaced_keys state)) current))
            (kept_effort state current facts)"

definition launch_checks :: "attempt_env \<Rightarrow> usage_scope \<Rightarrow> attempt_error + unit" where
  "launch_checks env s = (case en_launch env s of
      None \<Rightarrow> Inr ()
    | Some (LaunchContention reason) \<Rightarrow> Inl (LaunchBusy reason)
    | Some (OwnerPauseRefused reason) \<Rightarrow> Inl (PhysicalSendNotStarted (if reason = '''' then ''owner_pause'' else reason)))"

definition shown_axes :: "usage_store \<Rightarrow> pydict \<Rightarrow> attempt_error + unit" where
  "shown_axes st current =
     sbind (if billing_group_key current = '''' then Inr () else shown st None (Some (billing_group_key current))) (\<lambda>_.
     if sor (dget current ''root_task_id'') = '''' then Inr ()
     else shown st (Some (sor (dget current ''root_task_id''))) None)"

text \<open>The transaction's last step: the checks of a send, the write, and the telemetry of the row's scopes.\<close>

definition advance_row ::
  "attempt_env \<Rightarrow> pydict \<Rightarrow> string \<Rightarrow> pydict \<Rightarrow> usage_store \<Rightarrow> attempt_error + pydict \<times> usage_store" where
  "advance_row env current state facts st =
     (let sending = (state = ''dispatched'');
          all_facts = (if sending then dmerge facts (map (\<lambda>k. (k, dget current k)) effective_keys) else facts) in
      sbind (if sending then dispatch_checks env current st else Inr ()) (\<lambda>_.
      sbind (if sending then launch_checks env (row_scope (en_drive_root env) current) else Inr ()) (\<lambda>_.
      sbind (in_store (write_row (en_now env) (next_row state current all_facts) (Some current) st)) (\<lambda>(stored, st').
      let st2 = (if sending then commit st' else st') in
      sbind (shown_axes st2 current) (\<lambda>_. Inr (stored, open_txn st2))))))"

definition transition_once ::
  "attempt_env \<Rightarrow> attempt_reservation \<Rightarrow> transition_call \<Rightarrow> usage_store \<Rightarrow> attempt_error + pydict \<times> usage_store" where
  "transition_once env rs c st0 =
     (let st = open_txn st0; attempt_id = rs_attempt_id rs in
      sbind (if tc_state c = ''dispatched'' then check_fences env (rs_scope rs) else Inr ()) (\<lambda>_.
      case attempt st attempt_id of
        None \<Rightarrow> (if tc_abandon_reason c \<noteq> '''' then Inr ([(''state'', PStr ''unknown'')], st)
                else Inl (StoreError (UsageAccountingError (''unknown usage attempt '' @ attempt_id))))
      | Some current \<Rightarrow>
        sbind (decide_transition attempt_id c current) (\<lambda>d. case d of
          Stands \<Rightarrow> Inr (current, st)
        | Moves state facts \<Rightarrow> advance_row env current state facts st)))"

definition plain_call :: "string \<Rightarrow> pydict \<Rightarrow> transition_call" where
  "plain_call state facts = \<lparr>tc_state = state, tc_fields = facts, tc_expected_seq = None, tc_expected_revision = None,
     tc_abandon_reason = '''', tc_allow_release = False\<rparr>"

section \<open>The transitions by name\<close>

definition manifest_field :: "pyval \<Rightarrow> pydict" where
  "manifest_field ref = (if truthy ref then [(''candidate_manifest_ref'', ref)] else [])"

definition release_attempt ::
  "attempt_env \<Rightarrow> attempt_reservation \<Rightarrow> string \<Rightarrow> pyval \<Rightarrow> bool \<Rightarrow> usage_store \<Rightarrow> attempt_error + usage_store" where
  "release_attempt env rs reason ref proven_unsent st =
     map_sum id snd (transition_once env rs
       ((plain_call ''released'' ([(''reason'', PStr (if reason = '''' then ''not_dispatched'' else reason))] @ manifest_field ref))
          \<lparr>tc_allow_release := proven_unsent\<rparr>) st)"

text \<open>\<open>room\<close> says that the actor's physical-attempt limit leaves room for this send; \<open>consumer\<close> are the
  fields of the process that waits for the answer.  A cancelled waiter is refused before the transition,
  which then does not run; so is a send whose strict review stamp raises (\<open>en_paid_veto\<close>).  The other
  stamp follows the transition and never fails.\<close>

definition mark_dispatched ::
  "attempt_env \<Rightarrow> attempt_reservation \<Rightarrow> bool \<Rightarrow> pyval \<Rightarrow> int \<Rightarrow> pydict \<Rightarrow> usage_store \<Rightarrow> (attempt_error + unit) \<times> usage_store" where
  "mark_dispatched env rs room ref owner_pid consumer st =
     (if en_paid_veto env \<noteq> None then (Inl (PaidStampVetoed (the (en_paid_veto env))), st)
      else if \<not> room then
        (Inl PhysicalAttemptLimitExceeded,
         (case release_attempt env rs ''physical_attempt_limit'' ref False st of Inr st' \<Rightarrow> st' | Inl _ \<Rightarrow> st))
      else case transition_once env rs (plain_call ''dispatched''
             ([(''launch_state'', PStr ''claimed''), (''transport_outcome'', PStr ''unknown'')] @ manifest_field ref
              @ (if owner_pid \<noteq> 0 then [(''local_answer_owner_pid'', PInt owner_pid)] @ consumer else []))) st of
        Inl e \<Rightarrow> (Inl e, st)
      | Inr (_, st') \<Rightarrow> (Inr (), st'))"

text \<open>\<open>redact\<close> is the redaction of a diagnostic; \<open>None\<close> is its failure.\<close>

definition mark_unresolved ::
  "(string \<Rightarrow> string option) \<Rightarrow> attempt_env \<Rightarrow> attempt_reservation \<Rightarrow> string \<Rightarrow> usage_store \<Rightarrow> attempt_error + usage_store" where
  "mark_unresolved redact env rs reason st =
     (let safe = (case redact (if reason = '''' then ''provider_outcome_unknown'' else reason) of
                    Some t \<Rightarrow> t | None \<Rightarrow> ''provider_outcome_unknown:redaction_failed'')
      in map_sum id snd (transition_once env rs (plain_call ''unresolved'' [(''reason'', PStr (take 500 safe))]) st))"

definition settlement_of ::
  "(pydict \<Rightarrow> string \<Rightarrow> pyval) \<Rightarrow> attempt_reservation \<Rightarrow> pydict \<Rightarrow> pyval \<Rightarrow> bool \<Rightarrow> attempt_error + pydict" where
  "settlement_of estimate rs usage cost_usd cost_final =
     in_store (settlement_fields estimate (rs_provider rs) (sor (rs_processing_preference rs))
                 (sor (rs_submitted_processing_mode rs)) usage cost_usd cost_final)"

definition settle_attempt ::
  "(pydict \<Rightarrow> string \<Rightarrow> pyval) \<Rightarrow> attempt_env \<Rightarrow> attempt_reservation \<Rightarrow> pydict \<Rightarrow> pyval \<Rightarrow> bool \<Rightarrow> int option
   \<Rightarrow> usage_store \<Rightarrow> attempt_error + usage_store" where
  "settle_attempt estimate env rs usage cost_usd cost_final expected_revision st =
     sbind (settlement_of estimate rs usage cost_usd cost_final) (\<lambda>facts.
     map_sum id snd (transition_once env rs
       ((plain_call ''settled'' facts)\<lparr>tc_expected_revision := expected_revision\<rparr>) st))"

definition measured :: "pydict \<Rightarrow> bool" where
  "measured usage = (reported_token_count usage [''prompt_tokens'', ''input_tokens''] \<notin> {None, Some 0}
     \<or> reported_token_count usage [''completion_tokens'', ''output_tokens''] \<notin> {None, Some 0})"

definition terminalize_abandoned_attempt ::
  "(pydict \<Rightarrow> string \<Rightarrow> pyval) \<Rightarrow> attempt_env \<Rightarrow> attempt_reservation \<Rightarrow> string \<Rightarrow> pydict \<Rightarrow> int option \<Rightarrow> int option
   \<Rightarrow> usage_store \<Rightarrow> attempt_error + string \<times> usage_store" where
  "terminalize_abandoned_attempt estimate env rs reason usage expected_seq expected_revision st =
     sbind (if measured usage then settlement_of estimate rs usage PNone False
            else Inr [(''cost_usd'', PNone), (''cost_final'', PBool False), (''settle_reason'', PStr ''abandoned'')]) (\<lambda>facts.
     sbind (transition_once env rs \<lparr>tc_state = ''settled'', tc_fields = facts, tc_expected_seq = expected_seq,
              tc_expected_revision = expected_revision,
              tc_abandon_reason = (if reason = '''' then ''owner_task_terminal'' else reason), tc_allow_release = False\<rparr> st)
       (\<lambda>(row, st'). Inr (py_str (dget row ''state''), st')))"

section \<open>Failed sends\<close>

text \<open>What a raised send carries: the typed facts of its exception.  \<open>fs_never_sent\<close> is
  \<open>is_pre_dispatch_transport_failure\<close>, \<open>fs_kind\<close> the exception's class name, \<open>fs_text\<close> its text, \<open>fs_cause\<close>
  the transport cause of its custody fields, \<open>fs_stream_usage\<close> the usage frame read before the failure and
  \<open>fs_payload\<close> the provider's failure payload.\<close>

record failed_send =
  fs_receiver_abandoned :: bool
  fs_never_sent :: bool
  fs_kind :: string
  fs_text :: string
  fs_status_code :: pyval
  fs_cause :: string
  fs_stream_usage :: pyval
  fs_payload :: pyval

text \<open>The release of an attempt that was marked sent but provably never left; a failing release is logged
  and answers no.\<close>

definition release_pre_dispatch_attempt ::
  "attempt_env \<Rightarrow> attempt_reservation \<Rightarrow> failed_send \<Rightarrow> int option \<Rightarrow> usage_store \<Rightarrow> bool \<times> usage_store" where
  "release_pre_dispatch_attempt env rs failure expected_revision st =
     (if \<not> fs_never_sent failure then (False, st)
      else case transition_once env rs
             ((plain_call ''released'' [(''reason'', PStr (''before_dispatch_failed:'' @ fs_kind failure))])
                \<lparr>tc_expected_revision := expected_revision, tc_allow_release := True\<rparr>) st of
        Inl _ \<Rightarrow> (False, st)
      | Inr (_, st') \<Rightarrow> (True, st'))"

fun has_text :: "string \<Rightarrow> string \<Rightarrow> bool" where
  "has_text needle [] = (needle = [])"
| "has_text needle (c # cs) = (take (length needle) (c # cs) = needle \<or> has_text needle cs)"

definition rejection_status :: "pyval \<Rightarrow> attempt_error + int option" where
  "rejection_status v =
     (if v = PNone then Inr None else case py_int v of
        Inr i \<Rightarrow> Inr (Some i)
      | Inl (OverflowError m) \<Rightarrow> Inl (StoreError (PyExc (OverflowError m)))
      | Inl _ \<Rightarrow> Inr None)"

definition is_rejection :: "string \<Rightarrow> int \<Rightarrow> failed_send \<Rightarrow> attempt_error + bool" where
  "is_rejection phrase http failure =
     (let text = lower (fs_text failure); dq = char_of (34 :: nat); sq = char_of (39 :: nat) in
      if \<not> has_text phrase text then Inr False else
      sbind (rejection_status (fs_status_code failure)) (\<lambda>status.
      Inr (status = Some http \<or> has_text (''error code: '' @ int_str http) text
           \<or> has_text ([dq] @ ''code'' @ [dq] @ '': '' @ int_str http) text
           \<or> has_text ([sq] @ ''code'' @ [sq] @ '': '' @ int_str http) text)))"

definition is_pre_routing_rejection :: "failed_send \<Rightarrow> attempt_error + bool" where
  "is_pre_routing_rejection = is_rejection ''no endpoints found'' 404"

definition is_tos_rejection :: "failed_send \<Rightarrow> attempt_error + bool" where
  "is_tos_rejection = is_rejection ''prohibited due to a violation of provider terms of service'' 403"

text \<open>The free rejection of the router that a failure names, if it is one.\<close>

definition free_rejection :: "attempt_reservation \<Rightarrow> failed_send \<Rightarrow> attempt_error + string option" where
  "free_rejection rs failure =
     (if lower (strip (sor (rs_provider rs))) \<noteq> ''openrouter'' then Inr None else
      sbind (is_pre_routing_rejection failure) (\<lambda>unrouted.
      if unrouted then Inr (Some ''pre_routing_rejection'') else
      sbind (is_tos_rejection failure) (\<lambda>tos.
      Inr (if tos then Some ''tos_rejection'' else None))))"

definition without_error :: "pyval \<Rightarrow> pyval" where
  "without_error v = (case v of PDict d \<Rightarrow> PDict (filter (\<lambda>(k, _). k \<noteq> ''error'') d) | _ \<Rightarrow> v)"

definition usage_frame :: "failed_send \<Rightarrow> pyval" where
  "usage_frame failure = PDict [(''usage'', fs_stream_usage failure)]"

text \<open>\<open>read\<close> is \<open>usage_from_response\<close>: the usage, the price and whether the price is final.\<close>

definition final_evidence :: "(pyval \<Rightarrow> pydict \<times> pyval \<times> bool) \<Rightarrow> failed_send \<Rightarrow> (pydict \<times> pyval \<times> bool) option" where
  "final_evidence read failure =
     find (\<lambda>(_, cost, final). final \<and> cost \<noteq> PNone) (map (read \<circ> without_error) [usage_frame failure, fs_payload failure])"

definition failure_reason :: "failed_send \<Rightarrow> string" where
  "failure_reason failure =
     fs_kind failure @ (if fs_cause failure = '''' then '''' else '' [cause: '' @ fs_cause failure @ '']'') @ '': '' @ fs_text failure"

text \<open>The terminal state of a raised send: released when it never left, settled when a price or a free
  rejection is known or a usage frame was read, unresolved otherwise.  The evidence that the handler
  retains first is a step of its own (\<open>record_evidence\<close>).\<close>

definition terminalize_failed_attempt ::
  "(pydict \<Rightarrow> string \<Rightarrow> pyval) \<Rightarrow> (string \<Rightarrow> string option) \<Rightarrow> (pyval \<Rightarrow> pydict \<times> pyval \<times> bool) \<Rightarrow> attempt_env
   \<Rightarrow> attempt_reservation \<Rightarrow> failed_send \<Rightarrow> usage_store \<Rightarrow> attempt_error + string \<times> usage_store" where
  "terminalize_failed_attempt estimate redact read env rs failure st =
     (if fs_receiver_abandoned failure then Inr (''dispatched'', st) else
      case release_pre_dispatch_attempt env rs failure None st of
        (True, st') \<Rightarrow> Inr (''released'', st')
      | (False, _) \<Rightarrow>
        (case final_evidence read failure of
           Some (usage, cost, _) \<Rightarrow>
             map_sum id (Pair ''settled'') (settle_attempt estimate env rs usage cost True None st)
         | None \<Rightarrow>
           sbind (free_rejection rs failure) (\<lambda>rejection. case rejection of
             Some reason \<Rightarrow> map_sum id (\<lambda>(_, st'). (''settled'', st'))
               (transition_once env rs (plain_call ''settled''
                  [(''cost_usd'', PFloat ''0.0''), (''cost_final'', PBool True), (''settle_reason'', PStr reason)]) st)
           | None \<Rightarrow>
             if is_dict (fs_stream_usage failure) \<and> truthy (fs_stream_usage failure) then
               (case read (usage_frame failure) of (usage, cost, final) \<Rightarrow>
                  map_sum id (Pair ''settled'') (settle_attempt estimate env rs usage cost final None st))
             else map_sum id (Pair ''unresolved'') (mark_unresolved redact env rs (failure_reason failure) st))))"

section \<open>Price receipts\<close>

datatype price_status = Ineligible string | Duplicate pydict | Conflict pydict | Stale pydict | Applied pydict

definition price_fact :: "string \<Rightarrow> pyval \<Rightarrow> (pydict \<times> pyval) option" where
  "price_fact attempt_id receipt = (case receipt of
      PDict r \<Rightarrow> (case provider_cost_value (dget r ''cost_usd'') of
          None \<Rightarrow> None
        | Some cost \<Rightarrow> if dget r ''attempt_id'' = PStr attempt_id \<and> truthy (dget r ''evidence_ref'')
                          \<and> is_dict (dget r ''binding'') \<and> truthy (dget r ''binding'')
                       then Some (r, cost) else None)
    | _ \<Rightarrow> None)"

definition priced_row :: "pydict \<Rightarrow> pydict \<Rightarrow> pyval \<Rightarrow> pydict" where
  "priced_row current receipt cost =
     dmerge (filter (\<lambda>(k, _). k \<notin> {''seq'', ''ts'', ''revision'', ''pre_compaction_seq''}) current)
       [(''state'', PStr ''settled''), (''cost_usd'', cost), (''cost_final'', PBool True),
        (''settle_reason'', PStr ''late_receipt''), (''provider_price_receipt'', PDict receipt)]"

definition shown_prices :: "usage_store \<Rightarrow> pydict \<Rightarrow> attempt_error + unit" where
  "shown_prices st current =
     sbind (shown st (axis_key (dget current ''root_task_id'')) None) (\<lambda>_.
     shown st None (Some (billing_group_key current)))"

definition apply_provider_price_receipt ::
  "attempt_env \<Rightarrow> string \<Rightarrow> pyval \<Rightarrow> int option \<Rightarrow> usage_store \<Rightarrow> attempt_error + price_status \<times> usage_store" where
  "apply_provider_price_receipt env attempt_id receipt expected_revision st0 =
     (let st = open_txn st0 in
      case price_fact attempt_id receipt of
        None \<Rightarrow> Inr (Ineligible ''invalid_price_fact'', st)
      | Some (r, cost) \<Rightarrow>
        (case attempt st attempt_id of
           None \<Rightarrow> Inr (Ineligible ''binding_mismatch'', st)
         | Some current \<Rightarrow>
           if dget current ''provider_receipt_binding'' = PNone
              \<or> \<not> py_eq (dget r ''binding'') (dget current ''provider_receipt_binding'')
              \<or> \<not> py_eq (dget r ''provider'') (dget current ''provider'') then Inr (Ineligible ''binding_mismatch'', st)
           else if dget current ''cost_final'' = PBool True then
             sbind (in_store (amount (dget current ''cost_usd''))) (\<lambda>old.
             sbind (in_store (amount cost)) (\<lambda>new.
             Inr (if old = new then Duplicate current else Conflict current, st)))
           else if \<not> provider_price_refinable current then Inr (Ineligible ''attempt_state'', st)
           else if (case expected_revision of None \<Rightarrow> False | Some n \<Rightarrow> dget current ''revision'' \<noteq> PInt n)
           then Inr (Stale current, st)
           else sbind (in_store (write_row (en_now env) (priced_row current r cost) (Some current) st)) (\<lambda>(stored, st').
                sbind (shown_prices st' current) (\<lambda>_. Inr (Applied stored, open_txn st')))))"

end
