(* ===== verification/Usage_Summary.thy ===== *)
theory Usage_Summary
  imports Usage_Store
begin

text \<open>
  The exact summary of a list of contributions, and the correction of a running bucket: adding a
  contribution to the summary of a list is the summary of the longer list, and subtracting one that is
  in the list is the summary of the list without it.  This is the abstract specification that the
  store's incremental summaries are proved to implement.
\<close>

section \<open>Sums as presence maps\<close>

definition counts_of :: "('k \<Rightarrow> int) \<Rightarrow> 'k \<Rightarrow> int option" where
  "counts_of f = (\<lambda>k. if f k \<noteq> 0 then Some (f k) else None)"

definition pairs_of :: "('k \<Rightarrow> 'a :: ring_1) \<Rightarrow> ('k \<Rightarrow> int) \<Rightarrow> 'k \<Rightarrow> ('a \<times> int) option" where
  "pairs_of f p = (\<lambda>k. if p k \<noteq> 0 then Some (f k, p k) else None)"

lemma count_at_empty [simp]: "count_at Map.empty k = 0"
  by (simp add: count_at_def)

lemma count_at_upd [simp]: "count_at [c \<mapsto> n] k = (if c = k then n else 0)"
  by (simp add: count_at_def)

lemma count_at_counts_of [simp]: "count_at (counts_of f) k = f k"
  by (simp add: count_at_def counts_of_def)

lemma add_counts_of: "add_counts (counts_of f) m s = counts_of (\<lambda>k. f k + s * count_at m k)"
  by (rule ext) (simp add: add_counts_def counts_of_def count_at_def Let_def split: option.splits)

lemma add_pairs_of:
  assumes "\<And>k. p k = 0 \<Longrightarrow> f k = 0"
  shows "add_pairs (pairs_of f p) m s
       = pairs_of (\<lambda>k. f k + of_int s * fst (pair_at m k)) (\<lambda>k. p k + s * snd (pair_at m k))"
  by (rule ext) (auto simp: add_pairs_def pairs_of_def pair_at_def assms Let_def split: option.splits)

text \<open>A pair that reports something is counted; one that is not counted adds nothing.\<close>

definition wf_pairs :: "('k \<Rightarrow> ('a :: zero \<times> int) option) \<Rightarrow> bool" where
  "wf_pairs m \<longleftrightarrow> (\<forall>k. 0 \<le> snd (pair_at m k) \<and> (snd (pair_at m k) = 0 \<longrightarrow> fst (pair_at m k) = 0))"

lemma wf_pairs_ones: "(\<And>k v p. m k = Some (v, p) \<Longrightarrow> p = 1) \<Longrightarrow> wf_pairs m"
  by (fastforce simp: wf_pairs_def pair_at_def split: option.splits)

lemma sum_pairs_zero:
  assumes "\<forall>x \<in> set xs. wf_pairs (sel x)" and "(\<Sum>x\<leftarrow>xs. snd (pair_at (sel x) k)) = 0"
  shows "(\<Sum>x\<leftarrow>xs. fst (pair_at (sel x) k)) = 0"
  using assms
proof (induction xs)
  case (Cons x xs)
  have "0 \<le> (\<Sum>y\<leftarrow>xs. snd (pair_at (sel y) k))"
    using Cons.prems(1) by (intro sum_list_nonneg) (auto simp: wf_pairs_def)
  then have "snd (pair_at (sel x) k) = 0 \<and> (\<Sum>y\<leftarrow>xs. snd (pair_at (sel y) k)) = 0"
    using Cons.prems by (auto simp: wf_pairs_def add_nonneg_eq_0_iff)
  then show ?case using Cons by (auto simp: wf_pairs_def)
qed simp

section \<open>The exact summary of a list of contributions\<close>

type_synonym contribution = "bucket \<times> string option"

definition sum_pairs :: "(bucket \<Rightarrow> 'k \<Rightarrow> ('a :: ring_1 \<times> int) option) \<Rightarrow> contribution list \<Rightarrow> 'k \<Rightarrow> ('a \<times> int) option" where
  "sum_pairs sel xs = pairs_of (\<lambda>k. \<Sum>x\<leftarrow>xs. fst (pair_at (sel (fst x)) k)) (\<lambda>k. \<Sum>x\<leftarrow>xs. snd (pair_at (sel (fst x)) k))"

definition cap_count :: "string option \<Rightarrow> string \<Rightarrow> int" where
  "cap_count cap k = (if cap = Some k then 1 else 0)"

definition aggregate :: "contribution list \<Rightarrow> bucket" where
  "aggregate xs = \<lparr>bk_rows = (\<Sum>x\<leftarrow>xs. bk_rows (fst x)), bk_cash = (\<Sum>x\<leftarrow>xs. bk_cash (fst x)),
     bk_counts = counts_of (\<lambda>k. \<Sum>x\<leftarrow>xs. count_at (bk_counts (fst x)) k),
     bk_unknown = (\<Sum>x\<leftarrow>xs. bk_unknown (fst x)), bk_priced = (\<Sum>x\<leftarrow>xs. bk_priced (fst x)),
     bk_tracked_nonfinal = (\<Sum>x\<leftarrow>xs. bk_tracked_nonfinal (fst x)),
     bk_accounting_open = (\<Sum>x\<leftarrow>xs. bk_accounting_open (fst x)),
     bk_non_final = (\<Sum>x\<leftarrow>xs. bk_non_final (fst x)), bk_sessions = (\<Sum>x\<leftarrow>xs. bk_sessions (fst x)),
     bk_windows = foldl (\<lambda>w x. add_windows w (bk_windows (fst x))) Map.empty xs,
     bk_amounts = sum_pairs bk_amounts xs, bk_counters = sum_pairs bk_counters xs,
     bk_labels = sum_pairs bk_labels xs, bk_tokens = sum_pairs bk_tokens xs,
     bk_physical = (\<Sum>x\<leftarrow>xs. bk_physical (fst x)), bk_ttls = sum_pairs bk_ttls xs,
     bk_caps = counts_of (\<lambda>k. \<Sum>x\<leftarrow>xs. cap_count (snd x) k)\<rparr>"

text \<open>What \<open>summary_delta\<close> gives for a row: one row, and every reported pair counted once.\<close>

definition wf_delta :: "bucket \<Rightarrow> bool" where
  "wf_delta d \<longleftrightarrow> bk_rows d = 1 \<and> wf_pairs (bk_amounts d) \<and> wf_pairs (bk_counters d) \<and> wf_pairs (bk_labels d)
     \<and> wf_pairs (bk_tokens d) \<and> wf_pairs (bk_ttls d)"

definition wf_contributions :: "contribution list \<Rightarrow> bool" where
  "wf_contributions xs \<longleftrightarrow> (\<forall>x \<in> set xs. wf_delta (fst x))"

lemma wf_contributions_simps [simp]:
  "wf_contributions []"
  "wf_contributions (x # xs) \<longleftrightarrow> wf_delta (fst x) \<and> wf_contributions xs"
  "wf_contributions (xs @ ys) \<longleftrightarrow> wf_contributions xs \<and> wf_contributions ys"
  by (auto simp: wf_contributions_def)

lemma aggregate_Nil [simp]: "aggregate [] = empty_bucket"
  by (simp add: aggregate_def empty_bucket_def sum_pairs_def pairs_of_def counts_of_def)

lemma aggregate_rows: "wf_contributions xs \<Longrightarrow> bk_rows (aggregate xs) = int (length xs)"
  by (induction xs) (auto simp: aggregate_def wf_delta_def)

lemma add_windows_empty [simp]: "add_windows w Map.empty = w"
  by (rule ext) (simp add: add_windows_def)

lemma aggregate_caps:
  "(case cap of None \<Rightarrow> bk_caps (aggregate xs) | Some c \<Rightarrow> add_counts (bk_caps (aggregate xs)) [c \<mapsto> 1] s)
   = counts_of (\<lambda>k. (\<Sum>x\<leftarrow>xs. cap_count (snd x) k) + s * cap_count cap k)"
  by (cases cap) (auto simp: aggregate_def add_counts_of cap_count_def intro!: arg_cong [where f = counts_of])

lemma sum_pairs_add:
  assumes "\<forall>x \<in> set xs. wf_pairs (sel (fst x))"
  shows "add_pairs (sum_pairs sel xs) m s
       = pairs_of (\<lambda>k. (\<Sum>x\<leftarrow>xs. fst (pair_at (sel (fst x)) k)) + of_int s * fst (pair_at m k))
                  (\<lambda>k. (\<Sum>x\<leftarrow>xs. snd (pair_at (sel (fst x)) k)) + s * snd (pair_at m k))"
  unfolding sum_pairs_def by (rule add_pairs_of) (rule sum_pairs_zero [where sel = "\<lambda>x. sel (fst x)", OF assms])

text \<open>The running bucket after one correction, as sums.\<close>

lemma signed_one [simp]: "signed 1 c = c" "signed (- 1) c = - c"
  by (simp_all add: signed_def)

lemma windows_neutral:
  "bk_windows d = Map.empty \<or> ys = [] \<Longrightarrow>
   foldl (\<lambda>w x. add_windows w (bk_windows (fst x))) Map.empty (xs @ (d, cap) # ys)
   = (if ys = [] then add_windows (foldl (\<lambda>w x. add_windows w (bk_windows (fst x))) Map.empty xs) (bk_windows d)
      else foldl (\<lambda>w x. add_windows w (bk_windows (fst x))) Map.empty (xs @ ys))"
  by auto

text \<open>Adding a contribution; one that reports a window is added last.\<close>

lemma bucket_add_inserts:
  assumes "bucket_add (aggregate (xs @ ys)) d 1 cap = Inr b" and wf: "wf_contributions (xs @ ys)"
    and "bk_windows d = Map.empty \<or> ys = []"
  shows "b = aggregate (xs @ (d, cap) # ys)"
proof -
  have w: "\<forall>x \<in> set (xs @ ys). wf_pairs (bk_amounts (fst x)) \<and> wf_pairs (bk_counters (fst x))
      \<and> wf_pairs (bk_labels (fst x)) \<and> wf_pairs (bk_tokens (fst x)) \<and> wf_pairs (bk_ttls (fst x))"
    using wf by (auto simp: wf_contributions_def wf_delta_def)
  have b: "b = \<lparr>bk_rows = bk_rows (aggregate (xs @ ys)) + bk_rows d,
      bk_cash = bk_cash (aggregate (xs @ ys)) + bk_cash d,
      bk_counts = add_counts (bk_counts (aggregate (xs @ ys))) (bk_counts d) 1,
      bk_unknown = bk_unknown (aggregate (xs @ ys)) + bk_unknown d,
      bk_priced = bk_priced (aggregate (xs @ ys)) + bk_priced d,
      bk_tracked_nonfinal = bk_tracked_nonfinal (aggregate (xs @ ys)) + bk_tracked_nonfinal d,
      bk_accounting_open = bk_accounting_open (aggregate (xs @ ys)) + bk_accounting_open d,
      bk_non_final = bk_non_final (aggregate (xs @ ys)) + bk_non_final d,
      bk_sessions = bk_sessions (aggregate (xs @ ys)) + bk_sessions d,
      bk_windows = add_windows (bk_windows (aggregate (xs @ ys))) (bk_windows d),
      bk_amounts = add_pairs (bk_amounts (aggregate (xs @ ys))) (bk_amounts d) 1,
      bk_counters = add_pairs (bk_counters (aggregate (xs @ ys))) (bk_counters d) 1,
      bk_labels = add_pairs (bk_labels (aggregate (xs @ ys))) (bk_labels d) 1,
      bk_tokens = add_pairs (bk_tokens (aggregate (xs @ ys))) (bk_tokens d) 1,
      bk_physical = bk_physical (aggregate (xs @ ys)) + bk_physical d,
      bk_ttls = add_pairs (bk_ttls (aggregate (xs @ ys))) (bk_ttls d) 1,
      bk_caps = (case cap of None \<Rightarrow> bk_caps (aggregate (xs @ ys))
                 | Some c \<Rightarrow> add_counts (bk_caps (aggregate (xs @ ys))) [c \<mapsto> 1] 1)\<rparr>"
    using assms(1) by (auto simp: bucket_add_def sbind_Inr_iff dest: exact_cash_Inr)
  have wd: "add_windows (bk_windows (aggregate (xs @ ys))) (bk_windows d)
      = bk_windows (aggregate (xs @ (d, cap) # ys))"
    using assms(3) windows_neutral [of d ys xs cap] by (auto simp: aggregate_def)
  show ?thesis unfolding b wd aggregate_caps
    by (simp add: aggregate_def add_counts_of sum_pairs_add w)
       (simp add: sum_pairs_def algebra_simps)
qed

text \<open>Subtracting a contribution that reports no window.\<close>

lemma bucket_add_removes:
  assumes "bucket_add (aggregate (xs @ (d, cap) # ys)) d (- 1) cap = Inr b"
    and wf: "wf_contributions (xs @ (d, cap) # ys)" and "bk_windows d = Map.empty"
  shows "b = aggregate (xs @ ys)"
proof -
  let ?z = "xs @ (d, cap) # ys"
  have w: "\<forall>x \<in> set ?z. wf_pairs (bk_amounts (fst x)) \<and> wf_pairs (bk_counters (fst x))
      \<and> wf_pairs (bk_labels (fst x)) \<and> wf_pairs (bk_tokens (fst x)) \<and> wf_pairs (bk_ttls (fst x))"
    using wf by (auto simp: wf_contributions_def wf_delta_def)
  have b: "b = \<lparr>bk_rows = bk_rows (aggregate ?z) - bk_rows d,
      bk_cash = bk_cash (aggregate ?z) - bk_cash d,
      bk_counts = add_counts (bk_counts (aggregate ?z)) (bk_counts d) (- 1),
      bk_unknown = bk_unknown (aggregate ?z) - bk_unknown d,
      bk_priced = bk_priced (aggregate ?z) - bk_priced d,
      bk_tracked_nonfinal = bk_tracked_nonfinal (aggregate ?z) - bk_tracked_nonfinal d,
      bk_accounting_open = bk_accounting_open (aggregate ?z) - bk_accounting_open d,
      bk_non_final = bk_non_final (aggregate ?z) - bk_non_final d,
      bk_sessions = bk_sessions (aggregate ?z) - bk_sessions d,
      bk_windows = bk_windows (aggregate ?z),
      bk_amounts = add_pairs (bk_amounts (aggregate ?z)) (bk_amounts d) (- 1),
      bk_counters = add_pairs (bk_counters (aggregate ?z)) (bk_counters d) (- 1),
      bk_labels = add_pairs (bk_labels (aggregate ?z)) (bk_labels d) (- 1),
      bk_tokens = add_pairs (bk_tokens (aggregate ?z)) (bk_tokens d) (- 1),
      bk_physical = bk_physical (aggregate ?z) - bk_physical d,
      bk_ttls = add_pairs (bk_ttls (aggregate ?z)) (bk_ttls d) (- 1),
      bk_caps = (case cap of None \<Rightarrow> bk_caps (aggregate ?z)
                 | Some c \<Rightarrow> add_counts (bk_caps (aggregate ?z)) [c \<mapsto> 1] (- 1))\<rparr>"
    using assms(1) by (auto simp: bucket_add_def sbind_Inr_iff dest: exact_cash_Inr)
  have wd: "bk_windows (aggregate ?z) = bk_windows (aggregate (xs @ ys))"
    by (simp add: aggregate_def assms(3))
  show ?thesis unfolding b wd aggregate_caps
    by (simp add: aggregate_def add_counts_of sum_pairs_add w del: set_append set_simps)
       (simp add: sum_pairs_def algebra_simps)
qed

end
