(* ===== verification/Usage_Deltas.thy ===== *)
theory Usage_Deltas
  imports Usage_Summary
begin

text \<open>
  What \<open>summary_delta\<close> always gives: one row with well-formed pairs, a window only for a subscription
  session, the cash of \<open>cash_contribution\<close>, and the same bucket for two rows that agree on every field
  a summary reads.
\<close>

section \<open>The shape of a delta\<close>

lemma finality_delta_frame [simp]:
  "bk_rows (finality_delta row state weight d) = bk_rows d"
  "bk_cash (finality_delta row state weight d) = bk_cash d"
  "bk_counts (finality_delta row state weight d) = bk_counts d"
  "bk_windows (finality_delta row state weight d) = bk_windows d"
  "bk_amounts (finality_delta row state weight d) = bk_amounts d"
  "bk_counters (finality_delta row state weight d) = bk_counters d"
  "bk_labels (finality_delta row state weight d) = bk_labels d"
  "bk_tokens (finality_delta row state weight d) = bk_tokens d"
  "bk_physical (finality_delta row state weight d) = bk_physical d"
  "bk_ttls (finality_delta row state weight d) = bk_ttls d"
  by (simp_all add: finality_delta_def Let_def)

lemma session_delta_frame [simp]:
  "bk_rows (session_delta row d) = bk_rows d"
  "bk_cash (session_delta row d) = bk_cash d"
  "bk_counts (session_delta row d) = bk_counts d"
  "bk_amounts (session_delta row d) = bk_amounts d"
  "bk_counters (session_delta row d) = bk_counters d"
  "bk_labels (session_delta row d) = bk_labels d"
  "bk_tokens (session_delta row d) = bk_tokens d"
  "bk_physical (session_delta row d) = bk_physical d"
  "bk_ttls (session_delta row d) = bk_ttls d"
  "sor (dget row ''kind'') \<noteq> ''subscription_session'' \<Longrightarrow> bk_windows (session_delta row d) = bk_windows d"
  by (simp_all add: session_delta_def Let_def)

lemma sfold_invariant:
  assumes "sfold f xs b = Inr c" and "P b" and "\<And>x a a'. x \<in> set xs \<Longrightarrow> P a \<Longrightarrow> f x a = Inr a' \<Longrightarrow> P a'"
  shows "P c"
  using assms by (induction xs arbitrary: b) (auto simp: sbind_Inr_iff)

lemma sfold_cong: "(\<And>x. x \<in> set xs \<Longrightarrow> f x = g x) \<Longrightarrow> sfold f xs b = sfold g xs b"
proof (induction xs arbitrary: b)
  case (Cons x xs)
  then have "f x b = g x b" and "\<And>c. sfold f xs c = sfold g xs c" by auto
  then show ?case by (cases "g x b") auto
qed simp

lemma token_delta_ones:
  assumes "sfold (token_delta row) names Map.empty = Inr t" and "t k = Some (v, p)"
  shows "p = 1"
proof -
  have "\<forall>k v p. t k = Some (v, p) \<longrightarrow> p = 1"
    by (rule sfold_invariant [OF assms(1)]) (auto simp: token_delta_def sbind_Inr_iff split: if_splits)
  then show ?thesis using assms(2) by blast
qed

lemma wf_pairs_empty [simp]: "wf_pairs Map.empty"
  by (simp add: wf_pairs_def pair_at_def)

lemma wf_pairs_map_ones [simp]: "wf_pairs (\<lambda>k. map_option (\<lambda>x. (x, 1)) (m k))"
  by (rule wf_pairs_ones) auto

lemma wf_pairs_single_one [simp]: "wf_pairs [k \<mapsto> (v, 1)]"
  by (rule wf_pairs_ones) (auto split: if_splits)

text \<open>The members that every branch of \<open>summary_delta\<close> shares.\<close>

definition delta_base :: "pydict \<Rightarrow> cash \<Rightarrow> processing \<Rightarrow> int \<Rightarrow> int pairs \<Rightarrow> bucket" where
  "delta_base row cash pr physical tokens =
     (let ttl = strip (sor (dget row ''prompt_cache_ttl'')) in
      empty_bucket\<lparr>bk_rows := 1, bk_cash := cash,
               bk_amounts := (\<lambda>k. map_option (\<lambda>x. (x, 1)) (pr_amounts pr k)),
               bk_counters := (\<lambda>k. map_option (\<lambda>n. (n, 1)) (pr_counters pr k)),
               bk_labels := (\<lambda>k. map_option (\<lambda>n. (n, 1)) (pr_labels pr k)),
               bk_physical := physical, bk_tokens := tokens,
               bk_ttls := (if ttl \<noteq> '''' then [ttl \<mapsto> (physical, 1)] else Map.empty)\<rparr>)"

lemma delta_base_frame [simp]:
  "bk_rows (delta_base row cash pr physical tokens) = 1"
  "bk_cash (delta_base row cash pr physical tokens) = cash"
  "bk_windows (delta_base row cash pr physical tokens) = Map.empty"
  by (simp_all add: delta_base_def Let_def empty_bucket_def)

lemma delta_base_wf: "wf_pairs tokens \<Longrightarrow> wf_delta (delta_base row cash pr physical tokens)"
  by (simp add: delta_base_def wf_delta_def Let_def)

lemma summary_delta_elim:
  assumes "summary_delta row = Inr d"
  obtains cash pr physical tokens where "cash_contribution row = Inr cash"
    and "sfold (token_delta row) token_fields Map.empty = Inr tokens"
    and "d = delta_base row cash pr physical tokens
         \<or> (\<exists>n. d = (delta_base row cash pr physical tokens)\<lparr>bk_counts := [''metadata_only'' \<mapsto> n]\<rparr>)
         \<or> (\<exists>w. d = finality_delta row (sor (dget row ''state'')) w (session_delta row
               ((delta_base row cash pr physical tokens)\<lparr>bk_counts := [sor (dget row ''state'') \<mapsto> w]\<rparr>)))"
proof -
  obtain cash pr physical tokens where parts: "cash_contribution row = Inr cash"
      "processing_summary row = Inr pr" "physical_call_count row = Inr physical"
      "sfold (token_delta row) token_fields Map.empty = Inr tokens"
    using assms by (auto simp: summary_delta_def sbind_Inr_iff)
  note rest = assms [unfolded summary_delta_def parts sbind.simps Let_def]
  show thesis
    by (rule that [OF parts(1,4)])
       (use rest in \<open>auto simp: delta_base_def Let_def sbind_Inr_iff split: if_splits\<close>)
qed

lemma wf_delta_frame:
  "wf_delta (d\<lparr>bk_counts := c\<rparr>) \<longleftrightarrow> wf_delta d"
  "wf_delta (finality_delta row state w d) \<longleftrightarrow> wf_delta d"
  "wf_delta (session_delta row d) \<longleftrightarrow> wf_delta d"
  by (simp_all add: wf_delta_def)

lemma summary_delta_wf:
  assumes "summary_delta row = Inr d"
  shows "wf_delta d"
proof -
  from assms obtain cash pr physical tokens
    where t: "sfold (token_delta row) token_fields Map.empty = Inr tokens"
      and d: "d = delta_base row cash pr physical tokens
         \<or> (\<exists>n. d = (delta_base row cash pr physical tokens)\<lparr>bk_counts := [''metadata_only'' \<mapsto> n]\<rparr>)
         \<or> (\<exists>w. d = finality_delta row (sor (dget row ''state'')) w (session_delta row
               ((delta_base row cash pr physical tokens)\<lparr>bk_counts := [sor (dget row ''state'') \<mapsto> w]\<rparr>)))"
    by (rule summary_delta_elim) (rule that)
  have "wf_pairs tokens" by (rule wf_pairs_ones) (rule token_delta_ones [OF t])
  then have "wf_delta (delta_base row cash pr physical tokens)" by (rule delta_base_wf)
  then show ?thesis using d by (auto simp: wf_delta_frame)
qed

lemma summary_delta_cash:
  assumes "summary_delta row = Inr d"
  shows "cash_contribution row = Inr (bk_cash d)"
  using assms by (rule summary_delta_elim) auto

lemma summary_delta_windows:
  assumes "summary_delta row = Inr d" and "sor (dget row ''kind'') \<noteq> ''subscription_session''"
  shows "bk_windows d = Map.empty"
  using assms(1) by (rule summary_delta_elim) (use assms(2) in auto)

section \<open>Rows that agree on what a summary reads\<close>

definition evidence_keys :: "string list" where
  "evidence_keys = [''physical_failure'', ''provider_receipt_binding'', ''recovery'', ''revision'']"

definition same_money :: "pydict \<Rightarrow> pydict \<Rightarrow> bool" where
  "same_money r s \<longleftrightarrow> (\<forall>k. k \<notin> set evidence_keys \<longrightarrow> map_of s k = map_of r k)"

lemma same_money_dget: "same_money r s \<Longrightarrow> k \<notin> set evidence_keys \<Longrightarrow> dget s k = dget r k"
  by (simp add: same_money_def dget_def)

lemma same_money_dhas: "same_money r s \<Longrightarrow> k \<notin> set evidence_keys \<Longrightarrow> dhas s k = dhas r k"
  by (simp add: same_money_def dhas_def)

lemma same_money_token_delta: "same_money r s \<Longrightarrow> k \<notin> set evidence_keys \<Longrightarrow> token_delta s k = token_delta r k"
  by (rule ext) (simp add: token_delta_def same_money_dget)

lemma same_money_fields:
  assumes "same_money r s"
  shows
    "dget s ''kind'' = dget r ''kind''"
    "dget s ''state'' = dget r ''state''"
    "dget s ''cost_usd'' = dget r ''cost_usd''"
    "dget s ''cost_final'' = dget r ''cost_final''"
    "dget s ''cost_partial'' = dget r ''cost_partial''"
    "dget s ''cost_estimated'' = dget r ''cost_estimated''"
    "dget s ''reservation_upper_bound_usd'' = dget r ''reservation_upper_bound_usd''"
    "dget s ''pricing_known'' = dget r ''pricing_known''"
    "dget s ''processing_summary'' = dget r ''processing_summary''"
    "dget s ''attempt_execution'' = dget r ''attempt_execution''"
    "dget s ''cost_evidence'' = dget r ''cost_evidence''"
    "dget s ''processing'' = dget r ''processing''"
    "dget s ''processing_basis'' = dget r ''processing_basis''"
    "dget s ''prompt_cache_ttl'' = dget r ''prompt_cache_ttl''"
    "dget s ''folded_attempt_count'' = dget r ''folded_attempt_count''"
    "dget s ''ambiguous_call_count'' = dget r ''ambiguous_call_count''"
    "dget s ''subscription_route'' = dget r ''subscription_route''"
    "dget s ''subscription_reset_at'' = dget r ''subscription_reset_at''"
    "dget s ''root_task_id'' = dget r ''root_task_id''"
    "dget s ''billing_group_id'' = dget r ''billing_group_id''"
    "dget s ''task_id'' = dget r ''task_id''"
    "dget s ''model'' = dget r ''model''"
    "dget s ''provider'' = dget r ''provider''"
    "dget s ''category'' = dget r ''category''"
    "dget s ''root_limit_usd'' = dget r ''root_limit_usd''"
    "dget s ''billing_group_limit_usd'' = dget r ''billing_group_limit_usd''"
    "dhas s ''billing_group_limit_usd'' = dhas r ''billing_group_limit_usd''"
  by (rule same_money_dget [OF assms] same_money_dhas [OF assms], simp add: evidence_keys_def)+

lemma same_money_summary_delta:
  assumes "same_money r s"
  shows "summary_delta s = summary_delta r"
proof -
  note keys = same_money_fields [OF assms]
  have c: "cash_contribution s = cash_contribution r"
    unfolding cash_contribution_def cost_exact_def keys ..
  have p: "processing_summary s = processing_summary r"
    unfolding processing_summary_def row_entry_def keys ..
  have n: "physical_call_count s = physical_call_count r"
    unfolding physical_call_count_def row_kind_def keys ..
  have t: "sfold (token_delta s) token_fields Map.empty = sfold (token_delta r) token_fields Map.empty"
    by (rule sfold_cong) (auto simp: token_fields_def evidence_keys_def intro!: same_money_token_delta [OF assms])
  have f: "finality_delta s = finality_delta r"
    by (intro ext) (simp only: finality_delta_def keys)
  have w: "session_delta s = session_delta r"
    by (intro ext) (simp only: session_delta_def keys)
  show ?thesis unfolding summary_delta_def c p n t f w keys ..
qed

lemma same_money_summary_keys:
  assumes "same_money r s"
  shows "summary_keys s = summary_keys r"
proof -
  note keys = same_money_fields [OF assms]
  have m: "monetary_scope_key s = monetary_scope_key r"
    unfolding monetary_scope_key_def keys ..
  have g: "billing_group_key s = billing_group_key r"
    unfolding billing_group_key_def m keys ..
  have a: "map (axis_keys s owner task legacy) [''model'', ''provider'', ''category'']
      = map (axis_keys r owner task legacy) [''model'', ''provider'', ''category'']" for owner task legacy
    unfolding list.map axis_keys_def keys ..
  show ?thesis unfolding summary_keys_def dget_default_def m g a keys ..
qed

end
