(* ===== verification/Usage_Codec.thy ===== *)
theory Usage_Codec
  imports Usage_Deltas
begin

text \<open>
  The row codec field by field: what \<open>decode_row\<close> reads from the columns and the extra dictionary that
  the encoders made of a row.  A row of the store is a dictionary without repeated keys that does not
  use the codec's reserved key.
\<close>

definition row_ok :: "pydict \<Rightarrow> bool" where
  "row_ok row = (distinct (map fst row) \<and> \<not> dhas row ''__none__'')"

text \<open>The value a field has after one trip through the store.\<close>

definition stored_value :: "string \<Rightarrow> pyval \<Rightarrow> pyval" where
  "stored_value k v = (case column_value k v of Some c \<Rightarrow> field_value k c
     | None \<Rightarrow> if is_field k \<and> v = PNone then PNone else durable_literals k v)"

lemma column_value_field: "column_value k v = Some c \<Longrightarrow> is_field k \<and> v \<noteq> PNone"
  by (cases v) (simp_all add: column_value_def is_field_def column_fields_def split: if_splits)

lemma encode_columns_Cons:
  "encode_columns ((k, v) # row) = (case column_value k v of Some c \<Rightarrow> [(k, c)] | None \<Rightarrow> []) @ encode_columns row"
  using column_value_field [of k v] by (cases "column_value k v") (auto simp: encode_columns_def)

lemma map_of_encode_columns:
  "distinct (map fst row) \<Longrightarrow> map_of (encode_columns row) k = Option.bind (map_of row k) (column_value k)"
proof (induction row)
  case (Cons item row)
  obtain k' v where item: "item = (k', v)" by fastforce
  have ih: "map_of (encode_columns row) k = Option.bind (map_of row k) (column_value k)"
    using Cons by simp
  have tail: "k = k' \<Longrightarrow> map_of row k = None"
    using Cons.prems item by (auto simp: map_of_eq_None_iff)
  show ?case unfolding item encode_columns_Cons
  proof (cases "k = k'")
    case True
    then show "map_of ((case column_value k' v of Some c \<Rightarrow> [(k', c)] | None \<Rightarrow> []) @ encode_columns row) k
        = Option.bind (map_of ((k', v) # row) k) (column_value k)"
      using ih tail by (cases "column_value k' v") simp_all
  next
    case False
    then show "map_of ((case column_value k' v of Some c \<Rightarrow> [(k', c)] | None \<Rightarrow> []) @ encode_columns row) k
        = Option.bind (map_of ((k', v) # row) k) (column_value k)"
      using ih by (cases "column_value k' v") simp_all
  qed
qed (simp add: encode_columns_def)

lemma map_of_filter_distinct:
  "distinct (map fst d) \<Longrightarrow> map_of (filter P d) k = (case map_of d k of None \<Rightarrow> None | Some v \<Rightarrow> if P (k, v) then Some v else None)"
proof (induction d)
  case (Cons item d)
  obtain k' v where item: "item = (k', v)" by fastforce
  have "k = k' \<Longrightarrow> map_of d k = None"
    using Cons.prems item by (auto simp: map_of_eq_None_iff)
  then show ?case using Cons item by (auto split: option.splits)
qed simp

lemma mem_none_fields:
  assumes "distinct (map fst row)"
  shows "k \<in> set (none_fields row) \<longleftrightarrow> is_field k \<and> map_of row k = Some PNone"
  using assms by (force simp: none_fields_def)

lemma reserved_not_field [simp]: "\<not> is_field ''__none__''" "\<not> is_field ''revision''"
  by (simp_all add: is_field_def column_fields_def text_fields_def int_fields_def bool_fields_def money_row_fields_def)

lemma durable_list_names [simp]: "durable_list k (map PStr ns) = map PStr ns"
  by (induction ns) auto

lemma concat_names [simp]: "concat (map ((\<lambda>v. case v of PStr s \<Rightarrow> [s] | _ \<Rightarrow> []) \<circ> PStr) ns) = ns"
  by (induction ns) auto

lemma none_names_encode_extra:
  assumes "row_ok row"
  shows "none_names (encode_extra row) = none_fields row"
proof -
  have "map_of (filter stays_extra row) ''__none__'' = None"
    using assms by (auto simp: row_ok_def map_of_filter_distinct dhas_def)
  then have "dget (filter stays_extra row) ''__none__'' = PNone"
    by (simp add: dget_def)
  then show ?thesis
    by (simp add: none_names_def encode_extra_def Let_def)
qed

lemma map_of_encode_extra:
  assumes "row_ok row" and "k \<noteq> ''__none__''"
  shows "map_of (encode_extra row) k
       = (case map_of row k of None \<Rightarrow> None | Some v \<Rightarrow> if stays_extra (k, v) then Some (durable_literals k v) else None)"
  using assms
  by (auto simp: encode_extra_def Let_def row_ok_def map_of_durable_items map_of_filter_distinct split: option.splits)

lemma map_of_fold_none: "map_of (fold (\<lambda>k. dset k PNone) ns e) k = (if k \<in> set ns then Some PNone else map_of e k)"
  by (induction ns arbitrary: e) auto

lemma map_of_fold_columns:
  "map_of (fold (\<lambda>k. case map_of columns k of None \<Rightarrow> id | Some c \<Rightarrow> dset k (field_value k c)) ks e) k
   = (if k \<in> set ks \<and> map_of columns k \<noteq> None then map_option (field_value k) (map_of columns k) else map_of e k)"
  by (induction ks arbitrary: e) (auto split: option.splits)

lemma map_of_decode_row:
  "map_of (decode_row columns extra revision) k
   = (if k = ''revision'' then Some (PInt revision)
      else if is_field k \<and> map_of columns k \<noteq> None then map_option (field_value k) (map_of columns k)
      else if k \<in> set (none_names extra) then Some PNone
      else if k = ''__none__'' then None else map_of extra k)"
  by (auto simp: decode_row_def map_of_fold_columns map_of_fold_none is_field_def [symmetric])

text \<open>The trip through the store, field by field.\<close>

theorem decode_encode:
  assumes "row_ok row"
  shows "map_of (decode_row (encode_columns row) (encode_extra row) revision) k
       = (if k = ''revision'' then Some (PInt revision) else map_option (stored_value k) (map_of row k))"
proof (cases "k = ''revision'' \<or> k = ''__none__''")
  case True
  have "map_of row ''__none__'' = None" using assms by (simp add: row_ok_def dhas_def)
  moreover have "''__none__'' \<notin> set (none_fields row)"
    using assms by (simp add: row_ok_def mem_none_fields)
  ultimately show ?thesis using True
    by (auto simp: map_of_decode_row none_names_encode_extra [OF assms])
next
  case False
  have d: "distinct (map fst row)" using assms by (simp add: row_ok_def)
  show ?thesis
  proof (cases "map_of row k")
    case None
    then show ?thesis using False
      by (simp add: map_of_decode_row none_names_encode_extra [OF assms] mem_none_fields [OF d]
          map_of_encode_columns [OF d] map_of_encode_extra [OF assms])
  next
    case (Some v)
    show ?thesis
    proof (cases "column_value k v")
      case None
      then show ?thesis using False Some
        by (auto simp: map_of_decode_row none_names_encode_extra [OF assms] mem_none_fields [OF d]
            map_of_encode_columns [OF d] map_of_encode_extra [OF assms] stored_value_def stays_extra_def)
    next
      case c: (Some c)
      then show ?thesis using False Some column_value_field [OF c]
        by (simp add: map_of_decode_row map_of_encode_columns [OF d] stored_value_def)
    qed
  qed
qed

lemma stored_value_PStr: "k \<in> set text_fields \<Longrightarrow> stored_value k (PStr s) = PStr s"
  by (auto simp: stored_value_def column_value_def field_value_def text_fields_def money_row_fields_def)

lemma stored_value_PNone: "stored_value k PNone = PNone"
  by (simp add: stored_value_def column_value_def)

lemma stored_value_PBool: "k \<in> set bool_fields \<Longrightarrow> stored_value k (PBool b) = PBool b"
  by (auto simp: stored_value_def column_value_def field_value_def bool_fields_def)

end
