(* ===== verification/Usage_Runs.thy ===== *)
theory Usage_Runs
  imports Usage_Codec
begin

text \<open>
  Runs of the money store: each operation is its own transaction, and one that raises leaves the store
  as it was.  \<open>money_ok\<close> is the invariant of every run: attempt ids are unique, every stored row has a
  contribution, a one-shot row is final from its first row, and every stored summary is the exact sum
  of the contributions of the stored rows.
\<close>

section \<open>Operations\<close>

datatype money_op =
    RecordNew string pydict
  | RecordNext string string pydict
  | RecordEvidence string pydict int
  | RecordRecovery string pydict int
  | AckOwner string int

fun exec_money :: "money_op \<Rightarrow> usage_store \<Rightarrow> usage_error + usage_store" where
  "exec_money (RecordNew now row) st = map_sum id snd (write_row now row None st)"
| "exec_money (RecordNext now attempt_id row) st = (case attempt st attempt_id of
      None \<Rightarrow> Inl (UsageAccountingError (''unknown usage attempt '' @ attempt_id))
    | Some previous \<Rightarrow> map_sum id snd (write_row now row (Some previous) st))"
| "exec_money (RecordEvidence attempt_id facts revision) st = map_sum id snd (record_evidence attempt_id facts revision st)"
| "exec_money (RecordRecovery attempt_id recovery revision) st =
     map_sum id snd (record_recovery attempt_id recovery revision st)"
| "exec_money (AckOwner owner revision) st = map_sum id snd (ack_dirty_owner owner revision st)"

definition money_step :: "money_op \<Rightarrow> usage_store \<Rightarrow> usage_store" where
  "money_step op st = (case exec_money op st of Inl _ \<Rightarrow> st | Inr st' \<Rightarrow> st')"

definition run_money :: "money_op list \<Rightarrow> usage_store \<Rightarrow> usage_store" where
  "run_money ops st = fold money_step ops st"

definition empty_store :: usage_store where
  "empty_store = \<lparr>us_attempts = [], us_summaries = Map.empty, us_bindings = Map.empty, us_dirty_owners = Map.empty,
     us_one_shots = Map.empty, us_marker = (0, 0), us_writable = True, us_committed = False\<rparr>"

text \<open>Rows as the accounting operations build them: a dictionary whose identity fields are texts.\<close>

definition text_or_none :: "pydict \<Rightarrow> string \<Rightarrow> bool" where
  "text_or_none row k = (dget row k = PNone \<or> is_str (dget row k))"

definition row_shape :: "string \<Rightarrow> pydict \<Rightarrow> bool" where
  "row_shape attempt_id row = (row_ok row \<and> dget row ''attempt_id'' = PStr attempt_id
     \<and> text_or_none row ''kind'' \<and> text_or_none row ''state'')"

fun op_shape :: "money_op \<Rightarrow> bool" where
  "op_shape (RecordNew now row) = (\<exists>attempt_id. row_shape attempt_id row)"
| "op_shape (RecordNext now attempt_id row) = row_shape attempt_id row"
| "op_shape _ = True"

section \<open>Contributions\<close>

definition delta_of :: "pydict \<Rightarrow> bucket" where
  "delta_of row = (case summary_delta row of Inr d \<Rightarrow> d | Inl _ \<Rightarrow> empty_bucket)"

definition entry_contributions :: "address \<Rightarrow> bucket \<Rightarrow> (address \<times> string option) list \<Rightarrow> contribution list" where
  "entry_contributions address d entries =
     concat (map (\<lambda>(a, cap). if a = address then [(d, if cap_scope a then cap else None)] else []) entries)"

definition row_contributions :: "address \<Rightarrow> pydict \<Rightarrow> contribution list" where
  "row_contributions address row = entry_contributions address (delta_of row) (summary_keys row)"

definition contributions :: "address \<Rightarrow> pydict list \<Rightarrow> contribution list" where
  "contributions address rows = concat (map (row_contributions address) rows)"

definition stored_rows :: "usage_store \<Rightarrow> pydict list" where
  "stored_rows st = map attempt_row (us_attempts st)"

lemma contributions_simps [simp]:
  "contributions address [] = []"
  "contributions address (r # rs) = row_contributions address r @ contributions address rs"
  "contributions address (rs @ ss) = contributions address rs @ contributions address ss"
  by (simp_all add: contributions_def)

lemma entry_contributions_simps [simp]:
  "entry_contributions address d [] = []"
  "entry_contributions address d ((a, cap) # es)
   = (if a = address then [(d, if cap_scope a then cap else None)] else []) @ entry_contributions address d es"
  by (simp_all add: entry_contributions_def)

lemma entry_contributions_wf: "wf_delta d \<Longrightarrow> wf_contributions (entry_contributions address d es)"
  by (induction es) auto

definition represents :: "(address \<Rightarrow> bucket option) \<Rightarrow> (address \<Rightarrow> contribution list) \<Rightarrow> bool" where
  "represents m X \<longleftrightarrow> (\<forall>a. (case m a of None \<Rightarrow> empty_bucket | Some b \<Rightarrow> b) = aggregate (X a))"

lemma represents_update:
  assumes "represents m X" and "b = aggregate xs" and "\<And>c. Y c = (if c = a then xs else X c)"
  shows "represents (m(a \<mapsto> b)) Y"
  using assms by (simp add: represents_def)

lemma add_to_summary_pair:
  "add_to_summary d sign (a, cap) m = sbind (bucket_add (case m a of None \<Rightarrow> empty_bucket | Some b \<Rightarrow> b) d sign
     (if cap_scope a then cap else None)) (\<lambda>b. Inr (m(a \<mapsto> b)))"
  by (simp add: add_to_summary_def)

lemma represents_at: "represents m X \<Longrightarrow> (case m a of None \<Rightarrow> empty_bucket | Some b \<Rightarrow> b) = aggregate (X a)"
  unfolding represents_def by blast

text \<open>Adding a row's contribution to every summary it names, between two groups of contributions.\<close>

lemma entries_inserted:
  assumes "sfold (add_to_summary d 1) es m = Inr m'" and "represents m (\<lambda>a. P a @ S a)"
    and "\<And>a. wf_contributions (P a @ S a)" and "wf_delta d" and "bk_windows d = Map.empty \<or> (\<forall>a. S a = [])"
  shows "represents m' (\<lambda>a. P a @ entry_contributions a d es @ S a)"
  using assms(1-3)
proof (induction es arbitrary: m P)
  case Nil
  then show ?case by simp
next
  case (Cons e es)
  obtain a cap where e: "e = (a, cap)" by fastforce
  let ?c = "if cap_scope a then cap else None"
  obtain b where b: "bucket_add (case m a of None \<Rightarrow> empty_bucket | Some x \<Rightarrow> x) d 1 ?c = Inr b"
      and rest: "sfold (add_to_summary d 1) es (m(a \<mapsto> b)) = Inr m'"
    using Cons.prems(1) by (auto simp: e add_to_summary_pair sbind_Inr_iff)
  have at: "(case m a of None \<Rightarrow> empty_bucket | Some x \<Rightarrow> x) = aggregate (P a @ S a)"
    using Cons.prems(2) by (rule represents_at)
  have w: "bk_windows d = Map.empty \<or> S a = []" using assms(5) by blast
  have "b = aggregate (P a @ (d, ?c) # S a)"
    using b unfolding at by (rule bucket_add_inserts) (use Cons.prems(3) w in auto)
  then have "represents (m(a \<mapsto> b)) (\<lambda>x. (P x @ (if a = x then [(d, ?c)] else [])) @ S x)"
    by (rule represents_update [OF Cons.prems(2)]) auto
  then have "represents m' (\<lambda>x. (P x @ (if a = x then [(d, ?c)] else [])) @ entry_contributions x d es @ S x)"
    by (rule Cons.IH [OF rest]) (use Cons.prems(3) assms(4) in auto)
  then show ?case by (simp add: e)
qed

text \<open>Taking a row's contribution out of every summary it names.\<close>

lemma entries_removed:
  assumes "sfold (add_to_summary d (- 1)) es m = Inr m'"
    and "represents m (\<lambda>a. P a @ entry_contributions a d es @ S a)"
    and "\<And>a. wf_contributions (P a @ S a)" and "wf_delta d" and "bk_windows d = Map.empty"
  shows "represents m' (\<lambda>a. P a @ S a)"
  using assms(1-2)
proof (induction es arbitrary: m)
  case Nil
  then show ?case by simp
next
  case (Cons e es)
  obtain a cap where e: "e = (a, cap)" by fastforce
  let ?c = "if cap_scope a then cap else None"
  let ?T = "entry_contributions a d es @ S a"
  obtain b where b: "bucket_add (case m a of None \<Rightarrow> empty_bucket | Some x \<Rightarrow> x) d (- 1) ?c = Inr b"
      and rest: "sfold (add_to_summary d (- 1)) es (m(a \<mapsto> b)) = Inr m'"
    using Cons.prems(1) by (auto simp: e add_to_summary_pair sbind_Inr_iff)
  have at: "(case m a of None \<Rightarrow> empty_bucket | Some x \<Rightarrow> x) = aggregate (P a @ (d, ?c) # ?T)"
    using represents_at [OF Cons.prems(2), of a] by (simp add: e)
  have "b = aggregate (P a @ ?T)"
    using b unfolding at
    by (rule bucket_add_removes) (use assms(3) [of a] assms(4,5) entry_contributions_wf in auto)
  then have "represents (m(a \<mapsto> b)) (\<lambda>x. P x @ entry_contributions x d es @ S x)"
    by (rule represents_update [OF Cons.prems(2)]) (auto simp: e)
  then show ?case by (rule Cons.IH [OF rest])
qed

section \<open>The invariant\<close>

definition attempt_ok :: "stored_attempt \<Rightarrow> bool" where
  "attempt_ok a \<longleftrightarrow> (\<exists>i. map_of (sa_columns a) ''attempt_id'' = Some (PStr i))
     \<and> (\<exists>d. summary_delta (attempt_row a) = Inr d)
     \<and> (is_one_shot_kind (row_kind (attempt_row a)) \<longrightarrow> sor (dget (attempt_row a) ''state'') \<in> {''settled'', ''unresolved''})"

definition attempt_ids :: "usage_store \<Rightarrow> pyval option list" where
  "attempt_ids st = map (\<lambda>a. map_of (sa_columns a) ''attempt_id'') (us_attempts st)"

definition summaries_exact :: "usage_store \<Rightarrow> bool" where
  "summaries_exact st \<longleftrightarrow> (\<forall>address. us_summaries st address =
     (let xs = contributions address (stored_rows st) in if xs = [] then None else Some (aggregate xs)))"

definition money_ok :: "usage_store \<Rightarrow> bool" where
  "money_ok st \<longleftrightarrow> distinct (attempt_ids st) \<and> (\<forall>a \<in> set (us_attempts st). attempt_ok a) \<and> summaries_exact st"

lemma row_contributions_wf: "summary_delta r = Inr d \<Longrightarrow> wf_contributions (row_contributions address r)"
  by (simp add: row_contributions_def delta_of_def entry_contributions_wf summary_delta_wf)

lemma contributions_wf:
  "\<forall>a \<in> set as. attempt_ok a \<Longrightarrow> wf_contributions (contributions address (map attempt_row as))"
  by (induction as) (auto simp: attempt_ok_def row_contributions_wf)

lemma summaries_exact_represents:
  assumes "summaries_exact st"
  shows "represents (us_summaries st) (\<lambda>a. contributions a (stored_rows st))"
  using assms by (auto simp: summaries_exact_def represents_def Let_def)

lemma persist_exact:
  assumes "represents m X" and "\<And>a. wf_contributions (X a)"
  shows "persist m a = (if X a = [] then None else Some (aggregate (X a)))"
proof -
  have at: "(case m a of None \<Rightarrow> empty_bucket | Some b \<Rightarrow> b) = aggregate (X a)"
    using assms(1) by (rule represents_at)
  have rows: "bk_rows (aggregate (X a)) = 0 \<longleftrightarrow> X a = []"
    by (simp add: aggregate_rows [OF assms(2)])
  show ?thesis
  proof (cases "m a")
    case None
    then have "bk_rows (aggregate (X a)) = 0" using at by (simp add: empty_bucket_def flip: at)
    then show ?thesis using None rows by (simp add: persist_def)
  next
    case (Some b)
    then show ?thesis using at rows by (simp add: persist_def)
  qed
qed

section \<open>One write\<close>

lemma write_row_elim:
  assumes "write_row now row previous st = Inr (stored, st')"
  obtains m a attempts m1 m2 revision where "writable st"
    and "m = stamp_root_cause st (materialize now (snd (us_marker st) + 1) row)"
    and "next_revision previous = Inr revision"
    and "validate_row_fields m (snd (us_marker st) + 1) = Inr ()" and "validate_transition m previous = Inr ()"
    and "sa_columns a = encode_columns m" and "sa_extra a = encode_extra m" and "sa_revision a = revision"
    and "put_attempt (sor (dget m ''attempt_id'')) (previous = None) (revision - 1) a (us_attempts st) = Inr attempts"
    and "attempt (st\<lparr>us_attempts := attempts\<rparr>) (sor (dget m ''attempt_id'')) = Some stored"
    and "apply_row previous (- 1) (us_summaries st) = Inr m1" and "apply_row (Some stored) 1 m1 = Inr m2"
    and "us_attempts st' = attempts" and "us_summaries st' = persist m2"
    and "us_bindings st' = bind_root_attribution stored (us_bindings st)"
    and "us_dirty_owners st' = mark_dirty stored (snd (us_marker st) + 1) (us_dirty_owners st)"
    and "us_marker st' = (fst (us_marker st), snd (us_marker st) + 1)"
    and "us_writable st' = us_writable st" and "us_committed st' = us_committed st"
    and "us_one_shots st' = (if previous = None \<and> is_one_shot_kind (sor (dget stored ''kind''))
                           then (us_one_shots st)(sor (dget m ''attempt_id'') \<mapsto> one_shot_identity stored)
                           else us_one_shots st)"
proof -
  let ?seq = "snd (us_marker st) + 1"
  define m where "m = stamp_root_cause st (materialize now ?seq row)"
  define old where "old = Option.bind previous (\<lambda>p. find_attempt st (py_str (dget p ''attempt_id'')))"
  obtain revision a attempts where parts: "writable st" "next_revision previous = Inr revision"
      "validate_row_fields m ?seq = Inr ()" "validate_transition m previous = Inr ()"
      "derived_attempt m old revision (case old of None \<Rightarrow> ?seq | Some a \<Rightarrow> sa_seq_first a) = Inr a"
      "put_attempt (sor (dget m ''attempt_id'')) (previous = None) (revision - 1) a (us_attempts st) = Inr attempts"
      "integers_fit (sa_columns a)"
    using assms by (auto simp: write_row_def sbind_Inr_iff Let_def m_def old_def)
  have rest: "(case attempt (st\<lparr>us_attempts := attempts\<rparr>) (sor (dget m ''attempt_id'')) of
      None \<Rightarrow> Inl AttributeError
    | Some stored \<Rightarrow>
        sbind (apply_row previous (- 1) (us_summaries st)) (\<lambda>m1.
        sbind (apply_row (Some stored) 1 m1) (\<lambda>m2.
        Inr (stored, st\<lparr>us_attempts := attempts, us_summaries := persist m2,
          us_bindings := bind_root_attribution stored (us_bindings st),
          us_dirty_owners := mark_dirty stored ?seq (us_dirty_owners st),
          us_one_shots := (if previous = None \<and> is_one_shot_kind (sor (dget stored ''kind''))
                           then (us_one_shots st)(sor (dget m ''attempt_id'') \<mapsto> one_shot_identity stored)
                           else us_one_shots st),
          us_marker := (fst (us_marker st), ?seq)\<rparr>)))) = Inr (stored, st')"
    using assms unfolding m_def by (simp add: write_row_def Let_def parts [unfolded m_def old_def] guard_that_def)
  have a: "sa_columns a = encode_columns m" "sa_extra a = encode_extra m" "sa_revision a = revision"
    using parts(5) by (auto simp: derived_attempt_def sbind_Inr_iff Let_def)
  from rest obtain m1 m2 where f: "attempt (st\<lparr>us_attempts := attempts\<rparr>) (sor (dget m ''attempt_id'')) = Some stored"
      "apply_row previous (- 1) (us_summaries st) = Inr m1" "apply_row (Some stored) 1 m1 = Inr m2"
      "us_attempts st' = attempts" "us_summaries st' = persist m2"
      "us_bindings st' = bind_root_attribution stored (us_bindings st)"
      "us_dirty_owners st' = mark_dirty stored ?seq (us_dirty_owners st)"
      "us_marker st' = (fst (us_marker st), ?seq)"
      "us_writable st' = us_writable st" "us_committed st' = us_committed st"
      "us_one_shots st' = (if previous = None \<and> is_one_shot_kind (sor (dget stored ''kind''))
                           then (us_one_shots st)(sor (dget m ''attempt_id'') \<mapsto> one_shot_identity stored)
                           else us_one_shots st)"
    by (auto simp: sbind_Inr_iff split: option.splits)
  show thesis by (rule that [OF parts(1) m_def parts(2-4) a parts(6) f])
qed

lemma stamp_root_cause_frame: "k \<noteq> ''consciousness_cause'' \<Longrightarrow> map_of (stamp_root_cause st row) k = map_of row k"
  by (simp add: stamp_root_cause_def Let_def)

lemma stamp_root_cause_distinct: "distinct (map fst row) \<Longrightarrow> distinct (map fst (stamp_root_cause st row))"
  by (simp add: stamp_root_cause_def Let_def)

definition stamped_keys :: "string list" where
  "stamped_keys = [''revision'', ''seq'', ''ts'', ''consciousness_cause'']"

lemma materialized_frame:
  "k \<notin> set stamped_keys \<Longrightarrow>
   map_of (stamp_root_cause st (materialize now seq row)) k = map_option (durable_literals k) (map_of row k)"
  by (simp add: stamped_keys_def stamp_root_cause_frame materialize_def map_of_durable_items)

lemma materialized_dget:
  "k \<notin> set stamped_keys \<Longrightarrow>
   dget (stamp_root_cause st (materialize now seq row)) k = durable_literals k (dget row k)"
  by (simp add: dget_def materialized_frame split: option.splits)

lemma materialized_ok:
  assumes "row_ok row"
  shows "row_ok (stamp_root_cause st (materialize now seq row))"
proof -
  have "map_of (stamp_root_cause st (materialize now seq row)) ''__none__'' = None"
    using assms by (simp add: materialized_frame stamped_keys_def row_ok_def dhas_def)
  moreover have "distinct (map fst (stamp_root_cause st (materialize now seq row)))"
    using assms by (intro stamp_root_cause_distinct) (simp add: materialize_def row_ok_def)
  ultimately show ?thesis by (simp add: row_ok_def dhas_def)
qed

lemma materialized_text:
  "k \<notin> set stamped_keys \<Longrightarrow> text_or_none row k
   \<Longrightarrow> dget (stamp_root_cause st (materialize now seq row)) k = dget row k"
  by (cases "dget row k") (auto simp: materialized_dget text_or_none_def)

lemma materialized_shape:
  assumes "row_shape attempt_id row"
  shows "row_shape attempt_id (stamp_root_cause st (materialize now seq row))"
  using assms materialized_text [of _ row st now seq]
  by (simp add: row_shape_def materialized_ok materialized_dget text_or_none_def stamped_keys_def)

text \<open>What the store holds of a row it has just written.\<close>

lemma written_row:
  assumes "row_ok m" and "map_of (sa_columns x) = map_of (encode_columns m)" and "sa_extra x = encode_extra m"
  shows "map_of (attempt_row x) k
       = (if k = ''revision'' then Some (PInt (sa_revision x)) else map_option (stored_value k) (map_of m k))"
proof -
  have "map_of (attempt_row x) k = map_of (decode_row (encode_columns m) (encode_extra m) (sa_revision x)) k"
    unfolding attempt_row_def map_of_decode_row assms(2,3) ..
  then show ?thesis by (simp add: decode_encode [OF assms(1)])
qed

lemma stored_value_text_or_none:
  "text_or_none m k \<Longrightarrow> k \<in> set text_fields \<Longrightarrow> stored_value k (dget m k) = dget m k"
  by (cases "dget m k") (auto simp: text_or_none_def stored_value_PStr stored_value_PNone)

lemma written_dget:
  assumes "row_ok m" and "map_of (sa_columns x) = map_of (encode_columns m)" and "sa_extra x = encode_extra m"
    and "k \<noteq> ''revision''"
  shows "dget (attempt_row x) k = stored_value k (dget m k)"
  using written_row [OF assms(1-3), of k] assms(4)
  by (simp add: dget_def stored_value_PNone split: option.splits)

lemma written_text:
  assumes "row_ok m" and "map_of (sa_columns x) = map_of (encode_columns m)" and "sa_extra x = encode_extra m"
    and "text_or_none m k" and "k \<in> set text_fields"
  shows "dget (attempt_row x) k = dget m k"
proof -
  have "k \<noteq> ''revision''" using assms(5) by (auto simp: text_fields_def)
  then show ?thesis using written_dget [OF assms(1-3)] stored_value_text_or_none [OF assms(4,5)] by simp
qed

lemma validate_transition_one_shot:
  "validate_transition m previous = Inr () \<Longrightarrow> is_one_shot_kind (row_kind m)
   \<Longrightarrow> previous = None \<and> sor (dget m ''state'') \<in> {''settled'', ''unresolved''}"
  by (simp add: validate_transition_def Let_def)

text \<open>A row that may be replaced is no one-shot row.\<close>

lemma refinable_kind: "provider_price_refinable p \<Longrightarrow> row_kind p = ''attempt''"
  by (auto simp: provider_price_refinable_def dget_default_def row_kind_def split: if_splits)
     (auto simp: dhas_def dget_def split: option.splits)

lemma validate_transition_previous:
  assumes "validate_transition m (Some p) = Inr ()"
  shows "sor (dget p ''state'') \<in> {''reserved'', ''dispatched''} \<or> row_kind p = ''attempt''"
  using assms
  by (auto simp: validate_transition_def Let_def sbind_Inr_iff provider_price_transition_def late_receipt_eligible_def
      dest: refinable_kind split: if_splits)

lemma attempt_kind_not_one_shot: "row_kind p = ''attempt'' \<Longrightarrow> \<not> is_one_shot_kind (row_kind p)"
  by (simp add: is_one_shot_kind_def)

lemma session_is_one_shot: "sor (dget r ''kind'') = ''subscription_session'' \<Longrightarrow> is_one_shot_kind (row_kind r)"
  by (auto simp: sor_def row_kind_def is_one_shot_kind_def split: if_splits)

lemma find_attempt_split:
  assumes "find_attempt st i = Some a"
  obtains xs ys where "us_attempts st = xs @ a # ys" and "\<And>x. x \<in> set xs \<Longrightarrow> \<not> has_id i x" and "has_id i a"
proof -
  from assms obtain n where n: "n < length (us_attempts st)" "has_id i (us_attempts st ! n)" "a = us_attempts st ! n"
      "\<forall>j<n. \<not> has_id i (us_attempts st ! j)"
    unfolding find_attempt_def find_Some_iff by blast
  show thesis
  proof (rule that [of "take n (us_attempts st)" "drop (Suc n) (us_attempts st)"])
    show "us_attempts st = take n (us_attempts st) @ a # drop (Suc n) (us_attempts st)"
      using n(1,3) by (simp add: id_take_nth_drop)
    show "\<not> has_id i x" if "x \<in> set (take n (us_attempts st))" for x
      using that n(4) by (auto simp: in_set_conv_nth)
    show "has_id i a" using n by simp
  qed
qed

text \<open>Under the invariant the attempt of an id is unique, so an update replaces exactly one record.\<close>

lemma money_ok_split:
  assumes "money_ok st" and "find_attempt st i = Some a"
  obtains xs ys where "us_attempts st = xs @ a # ys"
    and "\<And>x. x \<in> set xs \<union> set ys \<Longrightarrow> \<not> has_id i x" and "has_id i a"
proof -
  obtain xs ys where s: "us_attempts st = xs @ a # ys" "\<And>x. x \<in> set xs \<Longrightarrow> \<not> has_id i x" "has_id i a"
    using find_attempt_split [OF assms(2)] by metis
  have "distinct (attempt_ids st)" using assms(1) by (simp add: money_ok_def)
  then have "\<not> has_id i x" if "x \<in> set ys" for x
    using that s(3) unfolding attempt_ids_def s(1) by (force simp: has_id_def)
  then show thesis using s that by blast
qed

lemma update_attempt_one:
  assumes "\<And>x. x \<in> set xs \<union> set ys \<Longrightarrow> \<not> has_id i x" and "has_id i a" and "sa_revision a = r"
  shows "update_attempt f i r (xs @ a # ys) = xs @ f a # ys"
proof -
  have "map (\<lambda>a. if has_id i a \<and> sa_revision a = r then f a else a) zs = zs" if "set zs \<subseteq> set xs \<union> set ys" for zs
    using that assms(1) by (intro map_idI) auto
  then show ?thesis using assms(2,3) by (simp add: update_attempt_def)
qed

end
