(* ===== verification/Usage_Invariant.thy ===== *)
theory Usage_Invariant
  imports Usage_Runs
begin

text \<open>
  Every run of the money store keeps \<open>money_ok\<close>: the proof follows one write, which appends a record or
  replaces exactly one, and one evidence update, which changes no field a summary reads.
\<close>

section \<open>What one write does to the records\<close>

definition written_from :: "pydict \<Rightarrow> stored_attempt \<Rightarrow> bool" where
  "written_from m x \<longleftrightarrow> row_ok m \<and> map_of (sa_columns x) = map_of (encode_columns m) \<and> sa_extra x = encode_extra m"

lemma written_from_dget: "written_from m x \<Longrightarrow> k \<noteq> ''revision'' \<Longrightarrow> dget (attempt_row x) k = stored_value k (dget m k)"
  unfolding written_from_def by (blast intro: written_dget)

lemma written_from_text: "written_from m x \<Longrightarrow> text_or_none m k \<Longrightarrow> k \<in> set text_fields \<Longrightarrow> dget (attempt_row x) k = dget m k"
  unfolding written_from_def by (blast intro: written_text)

lemma dget_Some: "dget d k = v \<Longrightarrow> v \<noteq> PNone \<Longrightarrow> map_of d k = Some v"
  by (auto simp: dget_def split: option.splits)

lemma encode_columns_id:
  assumes "row_shape i m"
  shows "map_of (encode_columns m) ''attempt_id'' = Some (PStr i)"
proof -
  have "map_of m ''attempt_id'' = Some (PStr i)"
    using assms by (auto simp: row_shape_def intro: dget_Some)
  then show ?thesis
    using assms by (simp add: row_shape_def row_ok_def map_of_encode_columns column_value_def text_fields_def)
qed

lemma has_id_column: "has_id i x \<longleftrightarrow> column x ''attempt_id'' = PStr i"
  by (auto simp: has_id_def column_def dget_def split: option.splits)

lemma new_write_elim:
  assumes "row_shape i row" and "write_row now row None st = Inr (stored, st')"
  obtains m a m2 where "row_shape i m" and "validate_row_fields m (snd (us_marker st) + 1) = Inr ()"
    and "m = stamp_root_cause st (materialize now (snd (us_marker st) + 1) row)"
    and "validate_transition m None = Inr ()" and "written_from m a" and "has_id i a"
    and "us_attempts st' = us_attempts st @ [a]" and "stored = attempt_row a" and "sa_revision a = 1"
    and "\<And>x. x \<in> set (us_attempts st) \<Longrightarrow> \<not> has_id i x"
    and "apply_row (Some stored) 1 (us_summaries st) = Inr m2" and "us_summaries st' = persist m2"
  using assms(2)
proof (rule write_row_elim)
  fix m a attempts m1 m2 revision
  assume m: "m = stamp_root_cause st (materialize now (snd (us_marker st) + 1) row)"
    and rev: "next_revision None = Inr revision"
    and v: "validate_row_fields m (snd (us_marker st) + 1) = Inr ()" "validate_transition m None = Inr ()"
    and a: "sa_columns a = encode_columns m" "sa_extra a = encode_extra m" "sa_revision a = revision"
    and p: "put_attempt (sor (dget m ''attempt_id'')) (None = None) (revision - 1) a (us_attempts st) = Inr attempts"
    and s: "attempt (st\<lparr>us_attempts := attempts\<rparr>) (sor (dget m ''attempt_id'')) = Some stored"
    and ap: "apply_row None (- 1) (us_summaries st) = Inr m1" "apply_row (Some stored) 1 m1 = Inr m2"
    and st': "us_attempts st' = attempts" "us_summaries st' = persist m2"
  have shape: "row_shape i m" unfolding m by (rule materialized_shape [OF assms(1)])
  have id: "sor (dget m ''attempt_id'') = i" using shape by (simp add: row_shape_def)
  have col: "column a ''attempt_id'' = PStr i"
    using encode_columns_id [OF shape] by (simp add: column_def a dget_def)
  have wf: "written_from m a" using shape by (simp add: written_from_def a row_shape_def)
  have att: "attempts = us_attempts st @ [a]" and fresh: "\<And>x. x \<in> set (us_attempts st) \<Longrightarrow> \<not> has_id i x"
    using p by (auto simp: put_attempt_def col has_id_column list_ex_iff split: if_splits)
  have none: "find (has_id i) (us_attempts st) = None"
    using fresh by (simp add: find_None_iff)
  have find_append: "\<And>P xs ys. find P (xs @ ys) = (case find P xs of None \<Rightarrow> find P ys | Some z \<Rightarrow> Some z)"
    subgoal for P xs ys by (induction xs) auto done
  have stored: "stored = attempt_row a"
    using s by (simp add: attempt_def find_attempt_def id att find_append none has_id_column col)
  have "revision = 1" using rev by (simp add: next_revision_def)
  moreover have "m1 = us_summaries st" using ap(1) by (simp add: apply_row_def)
  ultimately show thesis
    using that [OF shape v(1) m v(2) wf _ _ stored _ fresh] ap(2) st' att a(3) col by (simp add: has_id_column)
qed

lemma next_write_elim:
  assumes ok: "money_ok st" and "row_shape i row" and old: "find_attempt st i = Some old"
    and "write_row now row (Some (attempt_row old)) st = Inr (stored, st')"
  obtains m xs ys new m1 m2 where "row_shape i m" and "validate_row_fields m (snd (us_marker st) + 1) = Inr ()"
    and "m = stamp_root_cause st (materialize now (snd (us_marker st) + 1) row)"
    and "validate_transition m (Some (attempt_row old)) = Inr ()" and "written_from m new" and "has_id i new"
    and "us_attempts st = xs @ old # ys" and "us_attempts st' = xs @ new # ys" and "stored = attempt_row new"
    and "sa_revision new = sa_revision old + 1" and "\<And>x. x \<in> set xs \<union> set ys \<Longrightarrow> \<not> has_id i x"
    and "apply_row (Some (attempt_row old)) (- 1) (us_summaries st) = Inr m1"
    and "apply_row (Some stored) 1 m1 = Inr m2" and "us_summaries st' = persist m2"
  using assms(4)
proof (rule write_row_elim)
  fix m a attempts m1 m2 revision
  assume m: "m = stamp_root_cause st (materialize now (snd (us_marker st) + 1) row)"
    and rev: "next_revision (Some (attempt_row old)) = Inr revision"
    and v: "validate_row_fields m (snd (us_marker st) + 1) = Inr ()"
      "validate_transition m (Some (attempt_row old)) = Inr ()"
    and a: "sa_columns a = encode_columns m" "sa_extra a = encode_extra m" "sa_revision a = revision"
    and p: "put_attempt (sor (dget m ''attempt_id'')) (Some (attempt_row old) = None) (revision - 1) a (us_attempts st)
        = Inr attempts"
    and s: "attempt (st\<lparr>us_attempts := attempts\<rparr>) (sor (dget m ''attempt_id'')) = Some stored"
    and ap: "apply_row (Some (attempt_row old)) (- 1) (us_summaries st) = Inr m1" "apply_row (Some stored) 1 m1 = Inr m2"
    and st': "us_attempts st' = attempts" "us_summaries st' = persist m2"
  obtain xs ys where split: "us_attempts st = xs @ old # ys" "\<And>x. x \<in> set xs \<union> set ys \<Longrightarrow> \<not> has_id i x" "has_id i old"
    using money_ok_split [OF ok old] by metis
  have shape: "row_shape i m" unfolding m by (rule materialized_shape [OF assms(2)])
  have id: "sor (dget m ''attempt_id'') = i" using shape by (simp add: row_shape_def)
  have "dget (attempt_row old) ''revision'' = PInt (sa_revision old)"
    by (simp add: attempt_row_def dget_def map_of_decode_row)
  then have r: "revision = sa_revision old + 1"
    using rev by (simp add: next_revision_def py_int_def sbind_Inr_iff)
  define new where "new = a\<lparr>sa_columns := dset ''attempt_id'' (PStr i) (sa_columns a)\<rparr>"
  have cols: "map_of (sa_columns new) = map_of (encode_columns m)"
    using encode_columns_id [OF shape] by (auto simp: new_def a)
  have wf: "written_from m new" using shape cols by (simp add: written_from_def new_def a row_shape_def)
  have hid: "has_id i new" by (simp add: has_id_def new_def)
  have upd: "update_attempt f i (sa_revision old) (xs @ old # ys) = xs @ f old # ys" for f
    using split(2,3) by (intro update_attempt_one) auto
  have att: "attempts = xs @ new # ys"
    using p by (simp add: put_attempt_def id r split(1) upd new_def split: if_splits)
  have find_append: "\<And>P xs ys. find P (xs @ ys) = (case find P xs of None \<Rightarrow> find P ys | Some z \<Rightarrow> Some z)"
    subgoal for P xs ys by (induction xs) auto done
  have "find (has_id i) xs = None" using split(2) by (simp add: find_None_iff)
  then have stored: "stored = attempt_row new"
    using s hid by (simp add: attempt_def find_attempt_def id att find_append)
  show thesis
    by (rule that [OF shape v(1) m v(2) wf hid split(1) _ stored _ split(2) ap(1,2) st'(2)])
       (simp_all add: st' att new_def a r)
qed

section \<open>The invariant is kept\<close>

lemma apply_row_Some:
  assumes "apply_row (Some r) sign m = Inr m'"
  obtains d where "summary_delta r = Inr d" and "delta_of r = d"
    and "sfold (add_to_summary d sign) (summary_keys r) m = Inr m'"
  using assms by (auto simp: apply_row_def delta_of_def sbind_Inr_iff)

lemma written_attempt_ok:
  assumes "row_shape i m" and "written_from m x" and "has_id i x" and "summary_delta (attempt_row x) = Inr d"
    and "is_one_shot_kind (row_kind m) \<longrightarrow> sor (dget m ''state'') \<in> {''settled'', ''unresolved''}"
  shows "attempt_ok x"
proof -
  have k: "dget (attempt_row x) ''kind'' = dget m ''kind''" "dget (attempt_row x) ''state'' = dget m ''state''"
    using assms(1,2) by (auto simp: row_shape_def text_fields_def intro: written_from_text)
  then have "row_kind (attempt_row x) = row_kind m" by (simp add: row_kind_def)
  then show ?thesis using assms k by (auto simp: attempt_ok_def has_id_def)
qed

lemma no_window:
  assumes "summary_delta r = Inr d" and "\<not> is_one_shot_kind (row_kind r)"
  shows "bk_windows d = Map.empty"
  using assms session_is_one_shot by (blast intro: summary_delta_windows)

lemma new_write_keeps_ok:
  assumes ok: "money_ok st" and "row_shape i row" and "write_row now row None st = Inr (stored, st')"
  shows "money_ok st'"
  using assms(2,3)
proof (rule new_write_elim)
  fix m a m2
  assume shape: "row_shape i m" and v: "validate_transition m None = Inr ()" and wf: "written_from m a"
    and hid: "has_id i a" and att: "us_attempts st' = us_attempts st @ [a]" and stored: "stored = attempt_row a"
    and fresh: "\<And>x. x \<in> set (us_attempts st) \<Longrightarrow> \<not> has_id i x"
    and ap: "apply_row (Some stored) 1 (us_summaries st) = Inr m2" and su: "us_summaries st' = persist m2"
  obtain d where d: "summary_delta stored = Inr d" "delta_of stored = d"
      "sfold (add_to_summary d 1) (summary_keys stored) (us_summaries st) = Inr m2"
    using ap by (rule apply_row_Some)
  have "Some (PStr i) \<notin> set (attempt_ids st)"
    using fresh unfolding attempt_ids_def has_id_def by force
  then have ids: "distinct (attempt_ids st')"
    using ok hid by (simp add: money_ok_def attempt_ids_def att has_id_def)
  have "attempt_ok a"
    by (rule written_attempt_ok [OF shape wf hid])
       (use d(1) stored validate_transition_one_shot [OF v] in auto)
  then have oks: "\<forall>x \<in> set (us_attempts st'). attempt_ok x" using ok by (simp add: money_ok_def att)
  let ?X = "\<lambda>z. contributions z (stored_rows st)"
  have wfX: "wf_contributions (?X z)" for z
    using ok by (simp add: money_ok_def stored_rows_def contributions_wf)
  have "represents (us_summaries st) (\<lambda>z. ?X z @ [])"
    using ok by (simp add: money_ok_def summaries_exact_represents)
  then have "represents m2 (\<lambda>z. ?X z @ entry_contributions z d (summary_keys stored) @ [])"
    by (rule entries_inserted [OF d(3)]) (use wfX summary_delta_wf [OF d(1)] in auto)
  moreover have rows: "contributions z (stored_rows st') = ?X z @ entry_contributions z d (summary_keys stored) @ []" for z
    by (simp add: stored_rows_def att stored [symmetric] row_contributions_def d(2))
  ultimately have rep: "represents m2 (\<lambda>z. contributions z (stored_rows st'))" by simp
  have "wf_contributions (contributions z (stored_rows st'))" for z
    using oks by (simp add: stored_rows_def contributions_wf)
  then have "summaries_exact st'"
    unfolding summaries_exact_def su Let_def using persist_exact [OF rep] by blast
  then show ?thesis using ids oks by (simp add: money_ok_def)
qed

lemma next_write_keeps_ok:
  assumes ok: "money_ok st" and "row_shape i row" and old: "find_attempt st i = Some old"
    and "write_row now row (Some (attempt_row old)) st = Inr (stored, st')"
  shows "money_ok st'"
  using assms
proof (rule next_write_elim)
  fix m xs ys new m1 m2
  assume shape: "row_shape i m" and v: "validate_transition m (Some (attempt_row old)) = Inr ()"
    and wf: "written_from m new" and hid: "has_id i new"
    and before: "us_attempts st = xs @ old # ys" and after: "us_attempts st' = xs @ new # ys"
    and stored: "stored = attempt_row new" and others: "\<And>x. x \<in> set xs \<union> set ys \<Longrightarrow> \<not> has_id i x"
    and sub: "apply_row (Some (attempt_row old)) (- 1) (us_summaries st) = Inr m1"
    and add: "apply_row (Some stored) 1 m1 = Inr m2" and su: "us_summaries st' = persist m2"
  let ?p = "attempt_row old"
  obtain c where c: "summary_delta ?p = Inr c" "delta_of ?p = c"
      "sfold (add_to_summary c (- 1)) (summary_keys ?p) (us_summaries st) = Inr m1"
    using sub by (rule apply_row_Some)
  obtain d where d: "summary_delta stored = Inr d" "delta_of stored = d"
      "sfold (add_to_summary d 1) (summary_keys stored) m1 = Inr m2"
    using add by (rule apply_row_Some)
  have one: "\<not> is_one_shot_kind (row_kind m)" using validate_transition_one_shot [OF v] by blast
  have old_ok: "attempt_ok old" using ok by (simp add: money_ok_def before)
  have "\<not> is_one_shot_kind (row_kind ?p)"
    using validate_transition_previous [OF v] old_ok attempt_kind_not_one_shot by (auto simp: attempt_ok_def)
  then have wc: "bk_windows c = Map.empty" by (rule no_window [OF c(1)])
  have "dget stored ''kind'' = dget m ''kind''"
    using wf shape by (auto simp: stored row_shape_def text_fields_def intro: written_from_text)
  then have "row_kind stored = row_kind m" by (simp add: row_kind_def)
  then have wd: "bk_windows d = Map.empty" using no_window [OF d(1)] one by simp
  have "attempt_ok new"
    by (rule written_attempt_ok [OF shape wf hid]) (use d(1) stored one in auto)
  then have oks: "\<forall>x \<in> set (us_attempts st'). attempt_ok x" using ok by (auto simp: money_ok_def before after)
  have "Some (PStr i) \<notin> (\<lambda>a. map_of (sa_columns a) ''attempt_id'') ` (set xs \<union> set ys)"
    using others unfolding has_id_def by force
  then have ids: "distinct (attempt_ids st')"
    using ok hid by (auto simp: money_ok_def attempt_ids_def before after has_id_def)
  let ?P = "\<lambda>z. contributions z (map attempt_row xs)" and ?S = "\<lambda>z. contributions z (map attempt_row ys)"
  have wfX: "wf_contributions (?P z @ ?S z)" for z
    using ok by (simp add: money_ok_def before contributions_wf)
  have "represents (us_summaries st) (\<lambda>z. contributions z (stored_rows st))"
    using ok by (simp add: money_ok_def summaries_exact_represents)
  then have "represents (us_summaries st) (\<lambda>z. ?P z @ entry_contributions z c (summary_keys ?p) @ ?S z)"
    by (simp add: stored_rows_def before row_contributions_def c(2))
  then have "represents m1 (\<lambda>z. ?P z @ ?S z)"
    by (rule entries_removed [OF c(3)]) (use wfX wc summary_delta_wf [OF c(1)] in auto)
  then have "represents m2 (\<lambda>z. ?P z @ entry_contributions z d (summary_keys stored) @ ?S z)"
    by (rule entries_inserted [OF d(3)]) (use wfX wd summary_delta_wf [OF d(1)] in auto)
  then have rep: "represents m2 (\<lambda>z. contributions z (stored_rows st'))"
    by (simp add: stored_rows_def after stored [symmetric] row_contributions_def d(2))
  have "wf_contributions (contributions z (stored_rows st'))" for z
    using oks by (simp add: stored_rows_def contributions_wf)
  then have "summaries_exact st'"
    unfolding summaries_exact_def su Let_def using persist_exact [OF rep] by blast
  then show ?thesis using ids oks by (simp add: money_ok_def)
qed

section \<open>Evidence changes no summary\<close>

lemma same_money_contributions: "same_money r s \<Longrightarrow> row_contributions z s = row_contributions z r"
  by (simp add: row_contributions_def delta_of_def same_money_summary_delta same_money_summary_keys)

text \<open>An update that keeps every column and every field a summary reads.\<close>

definition keeps_money :: "(stored_attempt \<Rightarrow> stored_attempt) \<Rightarrow> bool" where
  "keeps_money f \<longleftrightarrow> (\<forall>a. sa_columns (f a) = sa_columns a \<and> same_money (attempt_row a) (attempt_row (f a)))"

lemma update_keeps_rows:
  assumes "keeps_money f" and "st' = st\<lparr>us_attempts := update_attempt f i r (us_attempts st)\<rparr>" and "money_ok st"
  shows "money_ok st'"
proof -
  let ?g = "\<lambda>a. if has_id i a \<and> sa_revision a = r then f a else a"
  have g: "sa_columns (?g a) = sa_columns a" "same_money (attempt_row a) (attempt_row (?g a))" for a
    using assms(1) by (auto simp: keeps_money_def same_money_def)
  have att: "us_attempts st' = map ?g (us_attempts st)" by (simp add: assms(2) update_attempt_def)
  have ids: "attempt_ids st' = attempt_ids st"
    unfolding attempt_ids_def att by (simp add: g(1) comp_def cong: if_cong)
  have okg: "attempt_ok (?g a)" if "attempt_ok a" for a
  proof -
    have "dget (attempt_row (?g a)) k = dget (attempt_row a) k" if "k \<in> {''kind'', ''state''}" for k
      using that by (intro same_money_dget [OF g(2)]) (auto simp: evidence_keys_def)
    then have "row_kind (attempt_row (?g a)) = row_kind (attempt_row a)"
        "dget (attempt_row (?g a)) ''state'' = dget (attempt_row a) ''state''"
      by (simp_all add: row_kind_def)
    moreover have "summary_delta (attempt_row (?g a)) = summary_delta (attempt_row a)"
      by (rule same_money_summary_delta [OF g(2)])
    moreover have "sa_columns (?g a) = sa_columns a" by (rule g(1))
    ultimately show ?thesis using that unfolding attempt_ok_def by metis
  qed
  have "contributions z (stored_rows st') = contributions z (stored_rows st)" for z
  proof -
    have "concat (map (\<lambda>a. row_contributions z (attempt_row (?g a))) (us_attempts st))
        = concat (map (\<lambda>a. row_contributions z (attempt_row a)) (us_attempts st))"
      by (intro arg_cong [where f = concat] map_cong refl same_money_contributions g(2))
    then show ?thesis by (simp only: contributions_def stored_rows_def att list.map_comp comp_def)
  qed
  then have "summaries_exact st' = summaries_exact st" by (simp add: summaries_exact_def assms(2))
  moreover have "\<forall>a \<in> set (us_attempts st'). attempt_ok a"
    using assms(3) okg unfolding att money_ok_def by (simp only: set_map ball_simps) blast
  ultimately show ?thesis using assms(3) ids by (simp add: money_ok_def)
qed

text \<open>Merging evidence keys into \<open>extra\<close> keeps the money of the row.\<close>

lemma map_of_dmerge_outside: "k \<notin> fst ` set e \<Longrightarrow> map_of (dmerge d e) k = map_of d k"
  by (induction e arbitrary: d) auto

lemma none_names_same: "dget e ''__none__'' = dget d ''__none__'' \<Longrightarrow> none_names e = none_names d"
  by (simp add: none_names_def)

lemma evidence_same_money:
  assumes "\<And>k. k \<notin> set evidence_keys \<Longrightarrow> map_of e k = map_of (sa_extra a) k"
  shows "same_money (attempt_row a) (attempt_row (a\<lparr>sa_extra := e, sa_revision := r\<rparr>))"
proof -
  have "dget e ''__none__'' = dget (sa_extra a) ''__none__''"
    using assms [of "''__none__''"] by (simp add: evidence_keys_def dget_def)
  then have n: "none_names e = none_names (sa_extra a)" by (rule none_names_same)
  have "map_of (attempt_row (a\<lparr>sa_extra := e, sa_revision := r\<rparr>)) k = map_of (attempt_row a) k"
    if "k \<notin> set evidence_keys" for k
  proof -
    have "k \<noteq> ''revision''" using that by (auto simp: evidence_keys_def)
    then show ?thesis using assms [OF that] by (auto simp: attempt_row_def map_of_decode_row n)
  qed
  then show ?thesis by (simp add: same_money_def)
qed

lemma record_evidence_update:
  assumes "record_evidence i facts r st = Inr (b, st')"
  shows "st' = st \<or> (\<exists>f. keeps_money f \<and> st' = st\<lparr>us_attempts := update_attempt f i r (us_attempts st)\<rparr>)"
proof (cases "st' = st")
  case False
  then obtain a fresh where fresh: "fresh = facts \<or> fresh = dpop ''physical_failure'' facts"
      and keys: "\<forall>(k, v) \<in> set facts. k \<in> {''physical_failure'', ''provider_receipt_binding''}"
      and st': "st' = st\<lparr>us_attempts := update_attempt
                 (\<lambda>x. x\<lparr>sa_extra := dmerge (sa_extra x) fresh, sa_revision := sa_revision x + 1\<rparr>) i r (us_attempts st)\<rparr>"
    using assms by (auto simp: record_evidence_def Let_def list_all_iff split: if_splits option.splits)
  have sub: "set (dpop k d) \<subseteq> set d" for k and d :: pydict
    by (induction d) (auto split: if_splits)
  have "fst ` set fresh \<subseteq> set evidence_keys"
    using fresh keys sub [of "''physical_failure''" facts] by (force simp: evidence_keys_def)
  then have "keeps_money (\<lambda>x. x\<lparr>sa_extra := dmerge (sa_extra x) fresh, sa_revision := sa_revision x + 1\<rparr>)"
    by (auto simp: keeps_money_def intro!: evidence_same_money map_of_dmerge_outside)
  then show ?thesis using st' by blast
qed simp

lemma record_recovery_update:
  assumes "record_recovery i recovery r st = Inr (b, st')"
  shows "st' = st \<or> (\<exists>f. keeps_money f \<and> st' = st\<lparr>us_attempts := update_attempt f i r (us_attempts st)\<rparr>)"
proof (cases "st' = st")
  case False
  then have st': "st' = st\<lparr>us_attempts := update_attempt
      (\<lambda>x. x\<lparr>sa_extra := dset ''recovery'' (PDict recovery) (sa_extra x), sa_revision := sa_revision x + 1\<rparr>)
      i r (us_attempts st)\<rparr>"
    using assms by (auto simp: record_recovery_def split: if_splits option.splits)
  have "keeps_money (\<lambda>x. x\<lparr>sa_extra := dset ''recovery'' (PDict recovery) (sa_extra x), sa_revision := sa_revision x + 1\<rparr>)"
    by (auto simp: keeps_money_def evidence_keys_def intro!: evidence_same_money)
  then show ?thesis using st' by blast
qed simp

lemma record_evidence_keeps_ok: "record_evidence i facts r st = Inr (b, st') \<Longrightarrow> money_ok st \<Longrightarrow> money_ok st'"
  using record_evidence_update update_keeps_rows by metis

lemma record_recovery_keeps_ok: "record_recovery i recovery r st = Inr (b, st') \<Longrightarrow> money_ok st \<Longrightarrow> money_ok st'"
  using record_recovery_update update_keeps_rows by metis

lemma ack_keeps_ok: "ack_dirty_owner owner r st = Inr (b, st') \<Longrightarrow> money_ok st \<Longrightarrow> money_ok st'"
  by (auto simp: ack_dirty_owner_def money_ok_def attempt_ids_def summaries_exact_def stored_rows_def split: if_splits)

section \<open>Runs\<close>

lemma map_sum_snd_Inr: "map_sum id snd r = Inr y \<longleftrightarrow> (\<exists>x. r = Inr (x, y))"
  by (cases r) auto

lemma exec_money_keeps_ok:
  assumes "exec_money op st = Inr st'" and "op_shape op" and "money_ok st"
  shows "money_ok st'"
proof (cases op)
  case (RecordNew now row)
  then show ?thesis using assms by (auto simp: map_sum_snd_Inr intro: new_write_keeps_ok)
next
  case (RecordNext now i row)
  then obtain old where "find_attempt st i = Some old"
    using assms by (auto simp: attempt_def split: option.splits)
  then show ?thesis using RecordNext assms
    by (auto simp: attempt_def map_sum_snd_Inr intro: next_write_keeps_ok)
next
  case (RecordEvidence i facts r)
  then show ?thesis using assms by (auto simp: map_sum_snd_Inr intro: record_evidence_keeps_ok)
next
  case (RecordRecovery i recovery r)
  then show ?thesis using assms by (auto simp: map_sum_snd_Inr intro: record_recovery_keeps_ok)
next
  case (AckOwner owner r)
  then show ?thesis using assms by (auto simp: map_sum_snd_Inr intro: ack_keeps_ok)
qed

lemma money_step_keeps_ok: "op_shape op \<Longrightarrow> money_ok st \<Longrightarrow> money_ok (money_step op st)"
  by (auto simp: money_step_def intro: exec_money_keeps_ok split: sum.splits)

lemma run_money_simps [simp]:
  "run_money [] st = st"
  "run_money (op # ops) st = run_money ops (money_step op st)"
  "run_money (ops @ ops') st = run_money ops' (run_money ops st)"
  by (simp_all add: run_money_def)

lemma run_money_keeps_ok: "list_all op_shape ops \<Longrightarrow> money_ok st \<Longrightarrow> money_ok (run_money ops st)"
  by (induction ops arbitrary: st) (auto intro: money_step_keeps_ok)

lemma empty_store_ok: "money_ok empty_store"
  by (simp add: money_ok_def empty_store_def attempt_ids_def summaries_exact_def stored_rows_def)

end
