(* ===== verification/Usage_Lifecycle.thy ===== *)
theory Usage_Lifecycle
  imports Usage_Invariant
begin

text \<open>
  The life of one attempt.  \<open>progress\<close> orders the rows an attempt can have; the transition table lets a
  row be replaced only by one that is further on, so an attempt takes at most six rows and its final
  row never changes.
\<close>

definition progress :: "pydict \<Rightarrow> nat" where
  "progress r =
     (let state = sor (dget r ''state'') in
      if is_one_shot_kind (row_kind r) then 5
      else if state = ''reserved'' then 0
      else if state = ''dispatched'' then 1
      else if state = ''unresolved'' then 2
      else if state = ''released'' then 5
      else if is_abandoned_settlement r then 3
      else if dget r ''cost_final'' = PBool True then 5 else 4)"

lemma progress_le: "progress r \<le> 5"
  by (simp add: progress_def Let_def)

lemma validate_row_fields_state: "validate_row_fields m n = Inr () \<Longrightarrow> sor (dget m ''state'') \<in> set row_states"
  by (simp add: validate_row_fields_def sbind_Inr_iff)

lemma abandoned_cost: "is_abandoned_settlement r \<Longrightarrow> dget r ''settle_reason'' = PStr ''abandoned'' \<and> dget r ''cost_final'' = PBool False"
  by (simp add: is_abandoned_settlement_def)

text \<open>The transition table moves forward.\<close>

lemma transition_progress:
  assumes v: "validate_transition m (Some p) = Inr ()" and "sor (dget m ''state'') \<in> set row_states"
    and p: "sor (dget p ''state'') \<in> set row_states" "\<not> is_one_shot_kind (row_kind p)"
  shows "progress p < progress m"
proof -
  let ?s = "sor (dget m ''state'')" and ?f = "sor (dget p ''state'')"
  have one: "\<not> is_one_shot_kind (row_kind m)"
    using validate_transition_one_shot [OF v] by blast
  have s: "?s \<in> {''reserved'', ''dispatched'', ''settled'', ''unresolved'', ''released''}"
    and f: "?f \<in> {''reserved'', ''dispatched'', ''settled'', ''unresolved'', ''released''}"
    using assms(2,3) by (auto simp: row_states_def terminal_states_def)
  consider (reserved) "?f = ''reserved''" "?s \<in> {''dispatched'', ''released''}"
    | (dispatched) "?f = ''dispatched''" "?s \<in> set terminal_states"
    | (refined) "?f = ''settled''" "?s = ''settled''" "dget m ''settle_reason'' = PStr ''late_receipt''"
        "provider_price_transition m p = Inr True"
    | (late) "?f \<noteq> ''reserved''" "?f \<noteq> ''dispatched''" "late_receipt_eligible p" "late_receipt m ?f"
    using v one by (auto simp: validate_transition_def Let_def sbind_Inr_iff split: if_splits)
  then show ?thesis
  proof cases
    case reserved
    then show ?thesis using one p(2) by (auto simp: progress_def Let_def)
  next
    case dispatched
    then show ?thesis using one p(2) by (auto simp: progress_def Let_def terminal_states_def)
  next
    case refined
    then have r: "provider_price_refinable p" "dget m ''cost_final'' = PBool True"
      by (auto simp: provider_price_transition_def split: if_splits)
    then have "dget p ''cost_final'' \<noteq> PBool True" by (simp add: provider_price_refinable_def)
    then have "progress p \<le> 4" using refined(1) p(2) by (simp add: progress_def Let_def)
    moreover have "progress m = 5"
      using refined(2,3) r(2) one by (auto simp: progress_def Let_def dest: abandoned_cost)
    ultimately show ?thesis by simp
  next
    case late
    have "?f = ''unresolved'' \<or> is_abandoned_settlement p"
      using late(3) by (auto simp: late_receipt_eligible_def)
    moreover have "is_abandoned_settlement p \<Longrightarrow> ?f = ''settled''"
      by (simp add: is_abandoned_settlement_def)
    ultimately show ?thesis
      using late(4) one p(2)
      by (auto simp: progress_def Let_def late_receipt_def dest: abandoned_cost)
  qed
qed

section \<open>The stored row of an attempt\<close>

lemma stored_value_settle_reason [simp]: "stored_value ''settle_reason'' v = PStr s \<longleftrightarrow> v = PStr s"
  by (cases v) (auto simp: stored_value_def column_value_def field_value_def is_field_def column_fields_def
      text_fields_def int_fields_def bool_fields_def money_row_fields_def monetary_key_def)

lemma stored_value_cost_final [simp]: "stored_value ''cost_final'' v = PBool b \<longleftrightarrow> v = PBool b"
  by (cases v) (auto simp: stored_value_def column_value_def field_value_def is_field_def column_fields_def
      text_fields_def int_fields_def bool_fields_def money_row_fields_def monetary_key_def)

lemma stored_value_cost_usd [simp]: "stored_value ''cost_usd'' v = PNone \<longleftrightarrow> v = PNone"
  by (cases v) (auto simp: stored_value_def column_value_def field_value_def is_field_def column_fields_def
      text_fields_def int_fields_def bool_fields_def money_row_fields_def monetary_key_def)

lemma written_progress:
  assumes "row_shape i m" and "written_from m x"
  shows "progress (attempt_row x) = progress m" and "sor (dget (attempt_row x) ''state'') = sor (dget m ''state'')"
    and "is_one_shot_kind (row_kind (attempt_row x)) = is_one_shot_kind (row_kind m)"
proof -
  have t: "dget (attempt_row x) ''kind'' = dget m ''kind''" "dget (attempt_row x) ''state'' = dget m ''state''"
    using assms by (auto simp: row_shape_def text_fields_def intro: written_from_text)
  have w: "dget (attempt_row x) k = stored_value k (dget m k)" if "k \<noteq> ''revision''" for k
    using assms(2) that by (rule written_from_dget)
  have kind: "row_kind (attempt_row x) = row_kind m" using t by (simp add: row_kind_def)
  have "is_abandoned_settlement (attempt_row x) = is_abandoned_settlement m"
    by (simp add: is_abandoned_settlement_def kind t(2) w)
  then show "progress (attempt_row x) = progress m"
    by (simp add: progress_def Let_def kind t(2) w)
  show "sor (dget (attempt_row x) ''state'') = sor (dget m ''state'')" by (simp add: t)
  show "is_one_shot_kind (row_kind (attempt_row x)) = is_one_shot_kind (row_kind m)" by (simp add: kind)
qed

lemma same_money_progress:
  assumes "same_money r s"
  shows "progress s = progress r" and "dget s ''state'' = dget r ''state''" and "row_kind s = row_kind r"
proof -
  have k: "dget s k = dget r k" if "k \<in> {''kind'', ''state'', ''settle_reason'', ''cost_usd'', ''cost_final''}" for k
    using that by (intro same_money_dget [OF assms]) (auto simp: evidence_keys_def)
  then show s: "dget s ''state'' = dget r ''state''" by simp
  show kind: "row_kind s = row_kind r" by (simp add: row_kind_def k)
  then show "progress s = progress r" by (simp add: progress_def Let_def is_abandoned_settlement_def k)
qed

section \<open>What one operation does to the row of an id\<close>

lemma attempt_append:
  assumes "us_attempts st' = us_attempts st @ [a]" and "has_id i a" and "\<And>x. x \<in> set (us_attempts st) \<Longrightarrow> \<not> has_id i x"
  shows "attempt st' j = (if j = i then Some (attempt_row a) else attempt st j)"
proof -
  have fa: "find P (xs @ ys) = (case find P xs of None \<Rightarrow> find P ys | Some z \<Rightarrow> Some z)" for P and xs ys :: "stored_attempt list"
    by (induction xs) auto
  have "find (has_id i) (us_attempts st) = None" using assms(3) by (simp add: find_None_iff)
  then show ?thesis
    using assms(2) by (auto simp: attempt_def find_attempt_def assms(1) fa has_id_def split: option.splits)
qed

lemma attempt_replace:
  assumes "us_attempts st = xs @ old # ys" and "us_attempts st' = xs @ new # ys" and "has_id i old" and "has_id i new"
    and "\<And>x. x \<in> set xs \<union> set ys \<Longrightarrow> \<not> has_id i x"
  shows "attempt st' j = (if j = i then Some (attempt_row new) else attempt st j)"
proof -
  have fa: "find P (xs @ ys) = (case find P xs of None \<Rightarrow> find P ys | Some z \<Rightarrow> Some z)" for P and xs ys :: "stored_attempt list"
    by (induction xs) auto
  have "find (has_id i) xs = None" using assms(5) by (simp add: find_None_iff)
  then show ?thesis
    using assms(3,4) by (auto simp: attempt_def find_attempt_def assms(1,2) fa has_id_def split: option.splits)
qed

lemma attempt_update:
  assumes "keeps_money f" and "us_attempts st' = update_attempt f i r (us_attempts st)"
  shows "(attempt st j = None \<and> attempt st' j = None)
       \<or> (\<exists>p p'. attempt st j = Some p \<and> attempt st' j = Some p' \<and> same_money p p')"
proof -
  have hid: "has_id j (f a) = has_id j a" for a
    using assms(1) by (simp add: keeps_money_def has_id_def)
  have "(find (has_id j) xs = None \<and> find (has_id j) (update_attempt f i r xs) = None)
      \<or> (\<exists>a a'. find (has_id j) xs = Some a \<and> find (has_id j) (update_attempt f i r xs) = Some a'
          \<and> same_money (attempt_row a) (attempt_row a'))" for xs
    by (induction xs) (use assms(1) hid in \<open>auto simp: update_attempt_def keeps_money_def same_money_def\<close>)
  from this [of "us_attempts st"] show ?thesis
    by (auto simp: attempt_def find_attempt_def assms(2))
qed

lemma same_money_refl [simp]: "same_money r r"
  by (simp add: same_money_def)

lemma same_money_trans: "same_money r s \<Longrightarrow> same_money s t \<Longrightarrow> same_money r t"
  by (simp add: same_money_def)

text \<open>The ids a row-writing operation writes.\<close>

fun op_target :: "money_op \<Rightarrow> string option" where
  "op_target (RecordNew now row) = Some (sor (dget row ''attempt_id''))"
| "op_target (RecordNext now i row) = Some i"
| "op_target _ = None"

fun writes_of :: "string \<Rightarrow> money_op list \<Rightarrow> usage_store \<Rightarrow> nat" where
  "writes_of i [] st = 0"
| "writes_of i (op # ops) st =
     (if op_target op = Some i \<and> \<not> isl (exec_money op st) then 1 else 0) + writes_of i ops (money_step op st)"

lemma written_attempt:
  assumes "write_row now row previous st = Inr (stored, st')" and "row_shape i row"
  shows "attempt st' i = Some stored"
  using assms(1)
proof (rule write_row_elim)
  fix m attempts
  assume m: "m = stamp_root_cause st (materialize now (snd (us_marker st) + 1) row)"
    and s: "attempt (st\<lparr>us_attempts := attempts\<rparr>) (sor (dget m ''attempt_id'')) = Some stored"
    and "us_attempts st' = attempts"
  moreover have "sor (dget m ''attempt_id'') = i"
    using materialized_shape [OF assms(2)] unfolding m by (simp add: row_shape_def)
  ultimately show ?thesis by (simp add: attempt_def find_attempt_def)
qed

text \<open>The rows of the store have one of the five states.\<close>

definition states_ok :: "usage_store \<Rightarrow> bool" where
  "states_ok st \<longleftrightarrow> (\<forall>j p. attempt st j = Some p \<longrightarrow> sor (dget p ''state'') \<in> set row_states)"

text \<open>One successful operation: the row of every other id keeps its money, and a written row is new or
  further on than the one it replaces.\<close>

lemma exec_effect:
  assumes "exec_money op st = Inr st'" and "op_shape op" and ok: "money_ok st" and sok: "states_ok st"
  shows "(case attempt st j of
            None \<Rightarrow> attempt st' j = None \<or> (op_target op = Some j \<and> (\<exists>p'. attempt st' j = Some p'
                       \<and> sor (dget p' ''state'') \<in> set row_states))
          | Some p \<Rightarrow> (\<exists>p'. attempt st' j = Some p' \<and>
               (if op_target op = Some j then progress p < progress p' \<and> sor (dget p' ''state'') \<in> set row_states
                else same_money p p')))"
proof (cases op)
  case (RecordNew now row)
  then obtain i stored where shape: "row_shape i row" and w: "write_row now row None st = Inr (stored, st')"
    using assms by (auto simp: map_sum_snd_Inr)
  show ?thesis
    using shape w
  proof (rule new_write_elim)
    fix m a
    assume m: "row_shape i m" "validate_row_fields m (snd (us_marker st) + 1) = Inr ()" "written_from m a" "has_id i a"
      "us_attempts st' = us_attempts st @ [a]" "\<And>x. x \<in> set (us_attempts st) \<Longrightarrow> \<not> has_id i x"
    have none: "attempt st i = None" using m(6) by (simp add: attempt_def find_attempt_def find_None_iff)
    have "sor (dget (attempt_row a) ''state'') \<in> set row_states"
      using written_progress(2) [OF m(1,3)] validate_row_fields_state [OF m(2)] by simp
    moreover have "op_target op = Some i" using shape by (simp add: RecordNew row_shape_def)
    ultimately show ?thesis
      using attempt_append [OF m(5,4,6), of j] none by (auto split: option.splits)
  qed
next
  case (RecordNext now i row)
  then obtain old stored where shape: "row_shape i row" and old: "find_attempt st i = Some old"
      and w: "write_row now row (Some (attempt_row old)) st = Inr (stored, st')"
    using assms by (auto simp: attempt_def map_sum_snd_Inr split: option.splits)
  show ?thesis
    using ok shape old w
  proof (rule next_write_elim)
    fix m xs ys new
    assume m: "row_shape i m" "validate_row_fields m (snd (us_marker st) + 1) = Inr ()"
      "validate_transition m (Some (attempt_row old)) = Inr ()" "written_from m new" "has_id i new"
      "us_attempts st = xs @ old # ys" "us_attempts st' = xs @ new # ys" "\<And>x. x \<in> set xs \<union> set ys \<Longrightarrow> \<not> has_id i x"
    have cur: "attempt st i = Some (attempt_row old)" by (simp add: attempt_def old)
    have st: "sor (dget m ''state'') \<in> set row_states" by (rule validate_row_fields_state [OF m(2)])
    have os: "sor (dget (attempt_row old) ''state'') \<in> set row_states" using sok cur by (simp add: states_ok_def)
    have "attempt_ok old" using ok by (simp add: money_ok_def m(6))
    then have one: "\<not> is_one_shot_kind (row_kind (attempt_row old))"
      using validate_transition_previous [OF m(3)] attempt_kind_not_one_shot by (auto simp: attempt_ok_def)
    have "progress (attempt_row old) < progress (attempt_row new)"
      using transition_progress [OF m(3) st os one] written_progress(1) [OF m(1,4)] by simp
    moreover have "sor (dget (attempt_row new) ''state'') \<in> set row_states"
      using written_progress(2) [OF m(1,4)] st by simp
    moreover have "has_id i old" using old by (auto simp: find_attempt_def find_Some_iff)
    ultimately show ?thesis
      using attempt_replace [OF m(6,7) _ m(5) m(8), of j] cur RecordNext by (auto split: option.splits)
  qed
next
  case (RecordEvidence i facts r)
  then obtain b where "record_evidence i facts r st = Inr (b, st')" using assms(1) by (auto simp: map_sum_snd_Inr)
  from record_evidence_update [OF this]
  have "st' = st \<or> (\<exists>f. keeps_money f \<and> us_attempts st' = update_attempt f i r (us_attempts st))" by auto
  then show ?thesis using attempt_update [of _ st' i r st j] RecordEvidence by (auto split: option.splits)
next
  case (RecordRecovery i recovery r)
  then obtain b where "record_recovery i recovery r st = Inr (b, st')" using assms(1) by (auto simp: map_sum_snd_Inr)
  from record_recovery_update [OF this]
  have "st' = st \<or> (\<exists>f. keeps_money f \<and> us_attempts st' = update_attempt f i r (us_attempts st))" by auto
  then show ?thesis using attempt_update [of _ st' i r st j] RecordRecovery by (auto split: option.splits)
next
  case (AckOwner owner r)
  then have "us_attempts st' = us_attempts st"
    using assms(1) by (auto simp: map_sum_snd_Inr ack_dirty_owner_def split: if_splits)
  then show ?thesis using AckOwner by (auto simp: attempt_def find_attempt_def split: option.splits)
qed


section \<open>Runs\<close>

lemma exec_keeps_states:
  assumes "exec_money op st = Inr st'" and "op_shape op" and "money_ok st" and "states_ok st"
  shows "states_ok st'"
proof -
  have "sor (dget p' ''state'') \<in> set row_states" if "attempt st' j = Some p'" for j p'
  proof (cases "attempt st j")
    case None
    then show ?thesis using exec_effect [OF assms, of j] that by auto
  next
    case (Some p)
    then have "(if op_target op = Some j then sor (dget p' ''state'') \<in> set row_states else same_money p p')"
      using exec_effect [OF assms, of j] that by (auto split: if_splits)
    moreover have "sor (dget p ''state'') \<in> set row_states" using assms(4) Some by (simp add: states_ok_def)
    ultimately show ?thesis by (auto simp: same_money_progress(2) split: if_splits)
  qed
  then show ?thesis by (simp add: states_ok_def)
qed

lemma run_money_invariants:
  "list_all op_shape ops \<Longrightarrow> money_ok st \<Longrightarrow> states_ok st \<Longrightarrow> money_ok (run_money ops st) \<and> states_ok (run_money ops st)"
proof (induction ops arbitrary: st)
  case (Cons op ops)
  have "money_ok (money_step op st) \<and> states_ok (money_step op st)"
    using Cons.prems exec_keeps_states money_step_keeps_ok
    by (auto simp: money_step_def split: sum.splits)
  then show ?case using Cons by simp
qed simp

lemma empty_store_states: "states_ok empty_store"
  by (simp add: states_ok_def empty_store_def attempt_def find_attempt_def)

definition level :: "usage_store \<Rightarrow> string \<Rightarrow> nat" where
  "level st i = (case attempt st i of None \<Rightarrow> 0 | Some p \<Rightarrow> Suc (progress p))"

lemma exec_target:
  assumes "exec_money op st = Inr st'" and "op_shape op" and "op_target op = Some i"
  shows "\<exists>p'. attempt st' i = Some p'"
proof (cases op)
  case (RecordNew now row)
  then obtain j stored where "row_shape j row" "write_row now row None st = Inr (stored, st')"
    using assms by (auto simp: map_sum_snd_Inr)
  moreover from this have "i = j" using assms(3) RecordNew by (simp add: row_shape_def)
  ultimately show ?thesis using written_attempt by blast
next
  case (RecordNext now j row)
  then obtain p stored where "row_shape i row" "write_row now row (Some p) st = Inr (stored, st')"
    using assms by (auto simp: map_sum_snd_Inr split: option.splits)
  then show ?thesis using written_attempt by blast
qed (use assms(3) in auto)

lemma level_step:
  assumes "op_shape op" and "money_ok st" and "states_ok st"
  shows "level st i + (if op_target op = Some i \<and> \<not> isl (exec_money op st) then 1 else 0) \<le> level (money_step op st) i"
proof (cases "exec_money op st")
  case (Inl e)
  then show ?thesis by (simp add: money_step_def)
next
  case (Inr st')
  have new: "op_target op = Some i \<Longrightarrow> \<exists>p'. attempt st' i = Some p'"
    using exec_target [OF Inr] assms(1) by blast
  show ?thesis
    using exec_effect [OF Inr assms, of i] Inr new
    by (auto simp: level_def money_step_def same_money_progress split: option.splits if_splits)
qed

lemma writes_level:
  "list_all op_shape ops \<Longrightarrow> money_ok st \<Longrightarrow> states_ok st \<Longrightarrow> level st i + writes_of i ops st \<le> level (run_money ops st) i"
proof (induction ops arbitrary: st)
  case (Cons op ops)
  have "money_ok (money_step op st)" and "states_ok (money_step op st)"
    using run_money_invariants [of "[op]" st] Cons.prems by simp_all
  then have "level (money_step op st) i + writes_of i ops (money_step op st) \<le> level (run_money ops (money_step op st)) i"
    using Cons by simp
  then show ?case using level_step [of op st i] Cons.prems by (auto split: if_splits)
qed simp

text \<open>C35: An attempt takes at most six rows in any run: whatever rows its callers try to write, at most
  six writes of one attempt id succeed (reserved, dispatched, unresolved, administratively closed, a late
  receipt, a final price).\<close>

theorem attempt_takes_at_most_six_rows:
  assumes "list_all op_shape ops"
  shows "writes_of attempt_id ops empty_store \<le> 6"
proof -
  have "level st i \<le> 6" for st i
    using progress_le by (auto simp: level_def split: option.splits)
  then show ?thesis
    using writes_level [OF assms empty_store_ok empty_store_states, of attempt_id]
    by (meson add_leD2 le_trans)
qed

lemma terminal_step:
  assumes "op_shape op" and "money_ok st" and "states_ok st" and "attempt st i = Some p" and "progress p = 5"
  shows "\<exists>p'. attempt (money_step op st) i = Some p' \<and> same_money p p'"
proof (cases "exec_money op st")
  case (Inr st')
  then show ?thesis
    using exec_effect [OF Inr assms(1-3), of i] assms(4,5) progress_le
    by (auto simp: money_step_def split: if_splits) (metis not_less)+
qed (use assms in \<open>simp add: money_step_def\<close>)

text \<open>C34: A final outcome never changes: once an attempt is settled at a final price, released, or a
  one-shot record, no later operation changes any field of its row but the evidence fields (failure,
  receipt binding, recovery) and the revision.\<close>

theorem final_row_is_immutable:
  assumes "list_all op_shape (before @ after)"
    and "attempt (run_money before empty_store) attempt_id = Some row"
    and "(dget row ''state'' = PStr ''settled'' \<and> dget row ''cost_final'' = PBool True)
         \<or> dget row ''state'' = PStr ''released'' \<or> is_one_shot_kind (row_kind row)"
  shows "\<exists>later. attempt (run_money (before @ after) empty_store) attempt_id = Some later
         \<and> (\<forall>k. k \<notin> set evidence_keys \<longrightarrow> map_of later k = map_of row k)"
proof -
  have p: "progress row = 5"
    using assms(3) by (auto simp: progress_def Let_def dest: abandoned_cost)
  have "\<exists>later. attempt (run_money ops st) attempt_id = Some later \<and> same_money r later"
    if "list_all op_shape ops" "money_ok st" "states_ok st" "attempt st attempt_id = Some r" "progress r = 5" for ops st r
    using that
  proof (induction ops arbitrary: st r)
    case (Cons op ops)
    then obtain q where q: "attempt (money_step op st) attempt_id = Some q" "same_money r q"
      using terminal_step [of op st attempt_id r] by auto
    moreover have "money_ok (money_step op st)" "states_ok (money_step op st)"
      using run_money_invariants [of "[op]" st] Cons.prems by simp_all
    moreover have "progress q = 5" using same_money_progress(1) [OF q(2)] Cons.prems(5) by simp
    ultimately obtain later where "attempt (run_money ops (money_step op st)) attempt_id = Some later" "same_money q later"
      using Cons.IH [of "money_step op st" q] Cons.prems(1) by auto
    then show ?case using q(2) same_money_trans by auto
  qed auto
  from this [of after "run_money before empty_store" row]
  show ?thesis
    using assms(1,2) p run_money_invariants [of before empty_store] empty_store_ok empty_store_states
    by (auto simp: same_money_def)
qed

end
