(* ===== verification/Usage_Debts.thy ===== *)
theory Usage_Debts
  imports Usage_Lifecycle
begin

text \<open>
  What the store owes and refuses: the limit rule of an admission, the bindings that never change, and
  the projection debts that an acknowledgement may not lose.
\<close>

section \<open>The limit rule\<close>

lemma exceeds_limit_rounded:
  assumes "exceeds_limit t limit = Inr a"
  obtains cap r where "decimal_of limit = Some cap" and "rounded_cash t = Inr r"
    and "quantize (settled_usd t) = Inr (settled_usd (fst r))"
proof -
  obtain cap where c: "decimal_of limit = Some cap"
    using assms by (auto simp: exceeds_limit_def split: option.splits)
  then obtain r where "rounded_cash t = Inr r"
    using assms by (auto simp: exceeds_limit_def sbind_Inr_iff)
  then show thesis using that c rounded_cash_settled by blast
qed

lemma exceeds_limit_finite:
  assumes "exceeds_limit t limit = Inr a" and "decimal_of limit = Some (Finite c)" and "0 < c"
    and "quantize (settled_usd t) = Inr known"
  shows "a \<longleftrightarrow> c - 1 / 1000000000 \<le> known"
proof -
  obtain r where r: "rounded_cash t = Inr r" "settled_usd (fst r) = known"
    using exceeds_limit_rounded [OF assms(1)] assms(4) by (metis sum.inject(2))
  have "sbind (exact (c - 1 / 1000000000)) (\<lambda>line. Inr (line \<le> known)) = Inr a"
    using assms(1-3) r by (simp add: exceeds_limit_def Let_def)
  then show ?thesis by (auto simp: exact_def sbind_Inr_iff split: if_splits)
qed

text \<open>C36: An admission is decided by the known (settled) spend of its scope alone, to within half a
  micro-dollar: a scope that is refused has spent its cap, one that is admitted has not, and a limit that
  refuses some totals refuses all totals with at least as much settled spend, whatever is reserved or
  unresolved in them.  (A settlement can correct the spend downwards, and then the limit admits again.)\<close>

theorem limit_counts_only_known_spend:
  assumes "decimal_of limit = Some (Finite cap)" and "0 < cap"
    and "totals st owner grp = Inr t" and "scope_exceeds_limit st limit owner grp = Inr refused"
  shows "(if refused then cap - 1 / 1000000000 - 1 / 2000000 \<le> settled_usd t
          else settled_usd t < cap - 1 / 1000000000 + 1 / 2000000)
       \<and> (\<forall>u b. refused \<longrightarrow> settled_usd t \<le> settled_usd u \<longrightarrow> exceeds_limit u limit = Inr b \<longrightarrow> b)"
proof -
  have e: "exceeds_limit t limit = Inr refused"
    using assms(3,4) by (simp add: scope_exceeds_limit_def)
  then obtain known where k: "quantize (settled_usd t) = Inr known" by (rule exceeds_limit_rounded)
  have a: "refused \<longleftrightarrow> cap - 1 / 1000000000 \<le> known"
    by (rule exceeds_limit_finite [OF e assms(1,2) k])
  have near: "known - settled_usd t \<le> 1 / 2000000" "settled_usd t - known \<le> 1 / 2000000"
    using quantize_bound [OF k] by linarith+
  have "if refused then cap - 1 / 1000000000 - 1 / 2000000 \<le> settled_usd t
      else settled_usd t < cap - 1 / 1000000000 + 1 / 2000000"
  proof (cases refused)
    case True
    then have "cap - 1 / 1000000000 - 1 / 2000000 \<le> settled_usd t" using a near by linarith
    then show ?thesis using True by simp
  next
    case False
    then have "settled_usd t < cap - 1 / 1000000000 + 1 / 2000000" using a near by linarith
    then show ?thesis using False by simp
  qed
  moreover have b if "refused" "settled_usd t \<le> settled_usd u" "exceeds_limit u limit = Inr b" for u b
  proof -
    note hyp = that
    obtain known' where k': "quantize (settled_usd u) = Inr known'" using hyp(3) by (rule exceeds_limit_rounded)
    have "known \<le> known'" using k k' hyp(2) by (rule quantize_mono)
    then show b using exceeds_limit_finite [OF hyp(3) assms(1,2) k'] a hyp(1) by linarith
  qed
  ultimately show ?thesis by blast
qed

section \<open>Bindings\<close>

lemma insert_binding_keeps: "m z = Some b \<Longrightarrow> insert_binding z' b' m z = Some b"
  by (auto simp: insert_binding_def split: option.splits)

lemma bind_root_attribution_keeps: "m z = Some b \<Longrightarrow> bind_root_attribution row m z = Some b"
  by (simp add: bind_root_attribution_def Let_def insert_binding_keeps)

lemma exec_keeps_bindings:
  assumes "exec_money op st = Inr st'" and "us_bindings st z = Some b"
  shows "us_bindings st' z = Some b"
proof (cases op)
  case (RecordNew now row)
  then obtain s where "write_row now row None st = Inr (s, st')" using assms(1) by (auto simp: map_sum_snd_Inr)
  then show ?thesis by (rule write_row_elim) (simp add: bind_root_attribution_keeps assms(2))
next
  case (RecordNext now i row)
  then obtain s p where "write_row now row (Some p) st = Inr (s, st')"
    using assms(1) by (auto simp: map_sum_snd_Inr split: option.splits)
  then show ?thesis by (rule write_row_elim) (simp add: bind_root_attribution_keeps assms(2))
qed (use assms in \<open>auto simp: map_sum_snd_Inr record_evidence_def record_recovery_def ack_dirty_owner_def Let_def
       split: if_splits option.splits\<close>)

text \<open>C37: The first binding of a root, of a billing group or of a root's cause is permanent: no later
  operation replaces or removes it, whatever rows it writes.\<close>

theorem first_binding_is_permanent:
  assumes "us_bindings (run_money before empty_store) address = Some binding"
  shows "us_bindings (run_money (before @ after) empty_store) address = Some binding"
proof -
  have "us_bindings (run_money ops st) address = Some binding" if "us_bindings st address = Some binding" for ops st
    using that
  proof (induction ops arbitrary: st)
    case (Cons op ops)
    have "us_bindings (money_step op st) address = Some binding"
      using Cons.prems exec_keeps_bindings by (auto simp: money_step_def split: sum.splits)
    then show ?case using Cons.IH by simp
  qed simp
  then show ?thesis using assms by simp
qed

section \<open>Projection debts\<close>

definition owners_of :: "pydict \<Rightarrow> string set" where
  "owners_of row = {sor (dget row ''task_id''), sor (dget row ''root_task_id'')} - {''''}"

definition row_seq :: "pydict \<Rightarrow> int" where
  "row_seq row = (case dget row ''seq'' of PInt n \<Rightarrow> n | _ \<Rightarrow> 0)"

text \<open>A recorded debt is at least as new as every row of its owner, and no row is ahead of the marker.\<close>

definition debts_ok :: "usage_store \<Rightarrow> bool" where
  "debts_ok st \<longleftrightarrow> (\<forall>i p. attempt st i = Some p \<longrightarrow> row_seq p \<le> snd (us_marker st)
     \<and> (\<forall>owner \<in> owners_of p. \<forall>r. us_dirty_owners st owner = Some r \<longrightarrow> row_seq p \<le> r))"

lemma mark_dirty_at:
  "mark_dirty row seq m owner = (if owner \<in> owners_of row then Some seq else m owner)"
  by (auto simp: mark_dirty_def owners_of_def)

lemma same_money_seq:
  assumes "same_money r s"
  shows "row_seq s = row_seq r" and "owners_of s = owners_of r"
proof -
  have "dget s k = dget r k" if "k \<in> {''seq'', ''task_id'', ''root_task_id''}" for k
    using that by (intro same_money_dget [OF assms]) (auto simp: evidence_keys_def)
  then show "row_seq s = row_seq r" and "owners_of s = owners_of r"
    by (simp_all add: row_seq_def owners_of_def)
qed

lemma stamp_root_cause_dget: "k \<noteq> ''consciousness_cause'' \<Longrightarrow> dget (stamp_root_cause st row) k = dget row k"
  by (simp add: dget_def stamp_root_cause_frame)

lemma materialized_seq: "dget (stamp_root_cause st (materialize now n row)) ''seq'' = PInt n"
  by (simp add: stamp_root_cause_dget materialize_def)

lemma written_seq:
  assumes "m = stamp_root_cause st (materialize now n row)" and "written_from m x"
  shows "row_seq (attempt_row x) = n"
proof -
  have "dget (attempt_row x) ''seq'' = stored_value ''seq'' (PInt n)"
    using written_from_dget [OF assms(2), of "''seq''"] assms(1) by (simp add: materialized_seq)
  then show ?thesis
    by (simp add: row_seq_def stored_value_def column_value_def field_value_def int_fields_def bool_fields_def)
qed

lemma write_keeps_debts:
  assumes "debts_ok st" and w: "write_row now row previous st = Inr (stored, st')"
    and seq: "row_seq stored = snd (us_marker st) + 1"
    and other: "\<And>j p. attempt st' j = Some p \<Longrightarrow> p = stored \<or> attempt st j = Some p"
  shows "debts_ok st'"
  using w
proof (rule write_row_elim)
  assume d: "us_dirty_owners st' = mark_dirty stored (snd (us_marker st) + 1) (us_dirty_owners st)"
    and mk: "us_marker st' = (fst (us_marker st), snd (us_marker st) + 1)"
  have "row_seq p \<le> snd (us_marker st) + 1 \<and> (\<forall>owner \<in> owners_of p. \<forall>r. us_dirty_owners st' owner = Some r \<longrightarrow> row_seq p \<le> r)"
    if "attempt st' j = Some p" for j p
  proof (cases "p = stored")
    case True
    then show ?thesis by (simp add: seq d mark_dirty_at)
  next
    case False
    then have "row_seq p \<le> snd (us_marker st)
        \<and> (\<forall>owner \<in> owners_of p. \<forall>r. us_dirty_owners st owner = Some r \<longrightarrow> row_seq p \<le> r)"
      using other [OF that] assms(1) by (auto simp: debts_ok_def)
    then show ?thesis by (auto simp: d mark_dirty_at)
  qed
  then show ?thesis by (auto simp: debts_ok_def mk)
qed

lemma same_rows_keep_debts:
  assumes "debts_ok st" and "us_marker st' = us_marker st"
    and "\<And>owner r. us_dirty_owners st' owner = Some r \<Longrightarrow> us_dirty_owners st owner = Some r"
    and "\<And>j p'. attempt st' j = Some p' \<Longrightarrow> \<exists>p. attempt st j = Some p \<and> same_money p p'"
  shows "debts_ok st'"
  unfolding debts_ok_def
proof (intro allI impI)
  fix i p'
  assume "attempt st' i = Some p'"
  then obtain p where p: "attempt st i = Some p" "same_money p p'" using assms(4) by blast
  then have "row_seq p \<le> snd (us_marker st)
      \<and> (\<forall>owner \<in> owners_of p. \<forall>r. us_dirty_owners st owner = Some r \<longrightarrow> row_seq p \<le> r)"
    using assms(1) by (simp add: debts_ok_def)
  then show "row_seq p' \<le> snd (us_marker st')
      \<and> (\<forall>owner \<in> owners_of p'. \<forall>r. us_dirty_owners st' owner = Some r \<longrightarrow> row_seq p' \<le> r)"
    using assms(2,3) by (auto simp: same_money_seq [OF p(2)])
qed

lemma evidence_rows:
  assumes "st' = st \<or> (\<exists>f. keeps_money f \<and> st' = st\<lparr>us_attempts := update_attempt f i r (us_attempts st)\<rparr>)"
  shows "us_marker st' = us_marker st \<and> us_dirty_owners st' = us_dirty_owners st
       \<and> (\<forall>j p'. attempt st' j = Some p' \<longrightarrow> (\<exists>p. attempt st j = Some p \<and> same_money p p'))"
proof (cases "st' = st")
  case False
  then obtain f where f: "keeps_money f" "st' = st\<lparr>us_attempts := update_attempt f i r (us_attempts st)\<rparr>"
    using assms by blast
  have "\<exists>p. attempt st j = Some p \<and> same_money p p'" if "attempt st' j = Some p'" for j p'
    using attempt_update [OF f(1), of st' i r st j] that f(2) by auto
  then show ?thesis by (simp add: f(2))
qed (use same_money_refl in auto)

lemma exec_keeps_debts:
  assumes ex: "exec_money op st = Inr st'" and shape: "op_shape op" and ok: "money_ok st" and d: "debts_ok st"
  shows "debts_ok st'"
proof (cases op)
  case (RecordNew now row)
  then obtain i stored where s: "row_shape i row" and w: "write_row now row None st = Inr (stored, st')"
    using ex shape by (auto simp: map_sum_snd_Inr)
  show ?thesis
    using s w
  proof (rule new_write_elim)
    fix m a
    assume m: "m = stamp_root_cause st (materialize now (snd (us_marker st) + 1) row)" "written_from m a"
      "has_id i a" "us_attempts st' = us_attempts st @ [a]" "stored = attempt_row a"
      "\<And>x. x \<in> set (us_attempts st) \<Longrightarrow> \<not> has_id i x"
    show ?thesis
      by (rule write_keeps_debts [OF d w])
         (use written_seq [OF m(1,2)] attempt_append [OF m(4,3,6)] m(5) in \<open>auto split: if_splits\<close>)
  qed
next
  case (RecordNext now i row)
  then obtain old stored where s: "row_shape i row" and old: "find_attempt st i = Some old"
      and w: "write_row now row (Some (attempt_row old)) st = Inr (stored, st')"
    using ex shape by (auto simp: attempt_def map_sum_snd_Inr split: option.splits)
  show ?thesis
    using ok s old w
  proof (rule next_write_elim)
    fix m xs ys new
    assume m: "m = stamp_root_cause st (materialize now (snd (us_marker st) + 1) row)" "written_from m new"
      "has_id i new" "us_attempts st = xs @ old # ys" "us_attempts st' = xs @ new # ys" "stored = attempt_row new"
      "\<And>x. x \<in> set xs \<union> set ys \<Longrightarrow> \<not> has_id i x"
    have "has_id i old" using old by (auto simp: find_attempt_def find_Some_iff)
    then show ?thesis
      by (intro write_keeps_debts [OF d w])
         (use written_seq [OF m(1,2)] attempt_replace [OF m(4,5) _ m(3,7)] m(6) in \<open>auto split: if_splits\<close>)
  qed
next
  case (RecordEvidence i facts r)
  then obtain b where e: "record_evidence i facts r st = Inr (b, st')" using ex by (auto simp: map_sum_snd_Inr)
  show ?thesis
    using evidence_rows [OF record_evidence_update [OF e]] by (intro same_rows_keep_debts [OF d]) auto
next
  case (RecordRecovery i recovery r)
  then obtain b where e: "record_recovery i recovery r st = Inr (b, st')" using ex by (auto simp: map_sum_snd_Inr)
  show ?thesis
    using evidence_rows [OF record_recovery_update [OF e]] by (intro same_rows_keep_debts [OF d]) auto
next
  case (AckOwner owner r)
  then obtain b where "ack_dirty_owner owner r st = Inr (b, st')" using ex by (auto simp: map_sum_snd_Inr)
  then have "us_marker st' = us_marker st" "us_attempts st' = us_attempts st"
      "\<And>z q. us_dirty_owners st' z = Some q \<Longrightarrow> us_dirty_owners st z = Some q"
    by (auto simp: ack_dirty_owner_def split: if_splits)
  then show ?thesis
    by (intro same_rows_keep_debts [OF d]) (auto simp: attempt_def find_attempt_def)
qed

lemma run_keeps_debts:
  "list_all op_shape ops \<Longrightarrow> money_ok st \<Longrightarrow> debts_ok st \<Longrightarrow> debts_ok (run_money ops st)"
proof (induction ops arbitrary: st)
  case (Cons op ops)
  have "money_ok (money_step op st)" using Cons.prems by (simp add: money_step_keeps_ok)
  moreover have "debts_ok (money_step op st)"
    using Cons.prems exec_keeps_debts by (auto simp: money_step_def split: sum.splits)
  ultimately show ?case using Cons by simp
qed simp

lemma empty_store_debts: "debts_ok empty_store"
  by (simp add: debts_ok_def empty_store_def attempt_def find_attempt_def)

text \<open>C38: An acknowledgement never loses a receipt: when it removes an owner's projection debt at a
  revision, no row of that owner in the store is newer than that revision.\<close>

theorem acknowledged_debt_covers_every_row:
  assumes "list_all op_shape ops" and "ack_dirty_owner owner revision (run_money ops empty_store) = Inr (True, st')"
    and "attempt (run_money ops empty_store) attempt_id = Some row"
    and "owner \<in> {sor (dget row ''task_id''), sor (dget row ''root_task_id'')}" and "owner \<noteq> ''''"
  shows "row_seq row \<le> revision"
proof -
  have "debts_ok (run_money ops empty_store)"
    by (rule run_keeps_debts [OF assms(1) empty_store_ok empty_store_debts])
  moreover have "us_dirty_owners (run_money ops empty_store) owner = Some revision"
    using assms(2) by (auto simp: ack_dirty_owner_def split: if_splits)
  moreover have "owner \<in> owners_of row" using assms(4,5) by (auto simp: owners_of_def)
  ultimately show ?thesis using assms(3) by (auto simp: debts_ok_def)
qed

end
