(* ===== verification/Usage_OneShots.thy ===== *)
theory Usage_OneShots
  imports Usage_Debts
begin

text \<open>
  One-shot records: a call that is recorded once, after the fact, under an identity.  A replay of the same
  identity answers the recorded id and writes nothing; another identity under the same id is refused.
\<close>

section \<open>The identity survives the store\<close>

definition plain_value :: "pyval \<Rightarrow> bool" where
  "plain_value v = (case v of PStr _ \<Rightarrow> True | PInt _ \<Rightarrow> True | PBool _ \<Rightarrow> True | PNone \<Rightarrow> True | _ \<Rightarrow> False)"

definition plain_identity :: "pydict \<Rightarrow> bool" where
  "plain_identity row = list_all (\<lambda>k. plain_value (dget row k)) (one_shot_identity_keys (sor (dget row ''kind'')))"

lemma plain_durable: "plain_value v \<Longrightarrow> durable_literals k v = v"
  by (cases v) (auto simp: plain_value_def)

lemma stored_value_plain:
  "plain_value v \<Longrightarrow> k \<notin> set money_row_fields \<Longrightarrow> k \<notin> set bool_fields \<Longrightarrow> stored_value k v = v"
  by (cases v) (auto simp: plain_value_def stored_value_def column_value_def field_value_def)

lemma identity_keys:
  assumes "k \<in> set (one_shot_identity_keys kind)"
  shows "k \<notin> set money_row_fields" and "k \<notin> set bool_fields" and "k \<noteq> ''revision''" and "k \<notin> set stamped_keys"
  using assms
  by (auto simp: one_shot_identity_keys_def review_attribution_keys_def money_row_fields_def bool_fields_def
      stamped_keys_def split: if_splits)

lemma written_identity:
  assumes shape: "row_shape i row" and plain: "plain_identity row"
    and m: "m = stamp_root_cause st (materialize now n row)" and w: "written_from m a"
  shows "one_shot_identity (attempt_row a) = one_shot_identity row"
    and "sor (dget (attempt_row a) ''kind'') = sor (dget row ''kind'')"
proof -
  have ms: "row_shape i m" unfolding m by (rule materialized_shape [OF shape])
  have "dget (attempt_row a) ''kind'' = dget m ''kind''"
    using ms w by (intro written_from_text) (auto simp: row_shape_def text_fields_def)
  moreover have "dget m ''kind'' = dget row ''kind''"
    unfolding m using shape by (intro materialized_text) (auto simp: row_shape_def stamped_keys_def)
  ultimately have kind: "dget (attempt_row a) ''kind'' = dget row ''kind''" by simp
  then show "sor (dget (attempt_row a) ''kind'') = sor (dget row ''kind'')" by simp
  have "dget (attempt_row a) k = dget row k" if k: "k \<in> set (one_shot_identity_keys (sor (dget row ''kind'')))" for k
  proof -
    have v: "plain_value (dget row k)" using plain k by (auto simp: plain_identity_def list_all_iff)
    have "dget m k = dget row k"
      unfolding m using identity_keys(4) [OF k] plain_durable [OF v] by (simp add: materialized_dget)
    then show ?thesis
      using written_from_dget [OF w identity_keys(3) [OF k]] stored_value_plain [OF v identity_keys(1,2) [OF k]] by simp
  qed
  then show "one_shot_identity (attempt_row a) = one_shot_identity row"
    by (simp add: one_shot_identity_def kind cong: map_cong)
qed

section \<open>The record stays\<close>

text \<open>An id that has an attempt and a one-shot identity.\<close>

definition recorded_as :: "string \<Rightarrow> pydict \<Rightarrow> usage_store \<Rightarrow> bool" where
  "recorded_as i identity st \<longleftrightarrow> us_one_shots st i = Some identity \<and> attempt st i \<noteq> None"

lemma exec_keeps_record:
  assumes ex: "exec_money op st = Inr st'" and shape: "op_shape op" and ok: "money_ok st" and sok: "states_ok st"
    and r: "recorded_as i identity st"
  shows "recorded_as i identity st'"
proof -
  have "attempt st' i \<noteq> None"
    using exec_effect [OF ex shape ok sok, of i] r by (auto simp: recorded_as_def)
  moreover have "us_one_shots st' i = us_one_shots st i"
  proof (cases op)
    case (RecordNew now row)
    then obtain j stored where s: "row_shape j row" and w: "write_row now row None st = Inr (stored, st')"
      using ex shape by (auto simp: map_sum_snd_Inr)
    have "i \<noteq> j"
      using s w
    proof (rule new_write_elim)
      assume "\<And>x. x \<in> set (us_attempts st) \<Longrightarrow> \<not> has_id j x"
      then have "attempt st j = None" by (simp add: attempt_def find_attempt_def find_None_iff)
      then show ?thesis using r by (auto simp: recorded_as_def)
    qed
    from w show ?thesis
    proof (rule write_row_elim)
      fix m
      assume m: "m = stamp_root_cause st (materialize now (snd (us_marker st) + 1) row)"
        and o: "us_one_shots st' = (if (None :: pydict option) = None \<and> is_one_shot_kind (sor (dget stored ''kind''))
                  then (us_one_shots st)(sor (dget m ''attempt_id'') \<mapsto> one_shot_identity stored) else us_one_shots st)"
      have "sor (dget m ''attempt_id'') = j" using materialized_shape [OF s] by (simp add: m row_shape_def)
      then show ?thesis using o \<open>i \<noteq> j\<close> by simp
    qed
  next
    case (RecordNext now j row)
    then obtain s p where "write_row now row (Some p) st = Inr (s, st')"
      using ex by (auto simp: map_sum_snd_Inr split: option.splits)
    then show ?thesis by (rule write_row_elim) simp
  qed (use ex in \<open>auto simp: map_sum_snd_Inr record_evidence_def record_recovery_def ack_dirty_owner_def Let_def
         split: if_splits option.splits\<close>)
  ultimately show ?thesis using r by (simp add: recorded_as_def)
qed

lemma run_keeps_record:
  "list_all op_shape ops \<Longrightarrow> money_ok st \<Longrightarrow> states_ok st \<Longrightarrow> recorded_as i identity st
   \<Longrightarrow> recorded_as i identity (run_money ops st)"
proof (induction ops arbitrary: st)
  case (Cons op ops)
  have "money_ok (money_step op st)" and "states_ok (money_step op st)"
    using run_money_invariants [of "[op]" st] Cons.prems by simp_all
  moreover have "recorded_as i identity (money_step op st)"
    using Cons.prems exec_keeps_record by (auto simp: money_step_def split: sum.splits)
  ultimately show ?case using Cons by simp
qed simp

lemma recorded_one_shot_of:
  assumes "recorded_as i identity st" and "dget row ''attempt_id'' = PStr i"
  shows "recorded_one_shot row st =
     (if identity \<noteq> one_shot_identity row then Inl (UsageAccountingError (''conflicting settled-row identity: '' @ i))
      else Inr (attempt st i))"
  using assms by (simp add: recorded_one_shot_def Let_def recorded_as_def)

text \<open>What a successful record leaves.\<close>

lemma record_one_shot_effect:
  assumes ok: "money_ok st" "states_ok st" and shape: "row_shape i row" and one: "is_one_shot_kind (sor (dget row ''kind''))"
    and plain: "plain_identity row" and rec: "record_one_shot now row st = Inr (j, st')"
  shows "j = i" and "money_ok st'" and "states_ok st'" and "recorded_as i (one_shot_identity row) st'"
proof -
  have id: "py_str (dget row ''attempt_id'') = i" using shape by (simp add: row_shape_def)
  obtain found where found: "recorded_one_shot row st = Inr found"
      and rest: "sbind (case found of Some _ \<Rightarrow> Inr st | None \<Rightarrow> sbind (write_row now row None st) (\<lambda>r. Inr (snd r)))
        (\<lambda>s. Inr (i, s)) = Inr (j, st')"
    using rec unfolding record_one_shot_def id by (auto simp: sbind_Inr_iff)
  then show "j = i" by (auto simp: sbind_Inr_iff)
  have "money_ok st' \<and> states_ok st' \<and> recorded_as i (one_shot_identity row) st'"
  proof (cases found)
    case (Some p)
    then have "st' = st" using rest by simp
    moreover have "recorded_as i (one_shot_identity row) st"
      using found Some by (auto simp: recorded_one_shot_def Let_def id recorded_as_def split: option.splits if_splits)
    ultimately show ?thesis using ok by simp
  next
    case None
    then obtain stored where w: "write_row now row None st = Inr (stored, st')"
      using rest by (auto simp: sbind_Inr_iff)
    then have "st' = run_money [RecordNew now row] st" by (simp add: money_step_def)
    then have "money_ok st' \<and> states_ok st'"
      using run_money_invariants [of "[RecordNew now row]" st] ok shape by auto
    moreover have "attempt st' i = Some stored" by (rule written_attempt [OF w shape])
    moreover have "us_one_shots st' i = Some (one_shot_identity row)"
    proof -
      have stored: "one_shot_identity stored = one_shot_identity row" "sor (dget stored ''kind'') = sor (dget row ''kind'')"
        using new_write_elim [OF shape w] written_identity [OF shape plain] by metis+
      from w show ?thesis
      proof (rule write_row_elim)
        fix m
        assume m: "m = stamp_root_cause st (materialize now (snd (us_marker st) + 1) row)"
          and o: "us_one_shots st' = (if (None :: pydict option) = None \<and> is_one_shot_kind (sor (dget stored ''kind''))
                    then (us_one_shots st)(sor (dget m ''attempt_id'') \<mapsto> one_shot_identity stored) else us_one_shots st)"
        have "sor (dget m ''attempt_id'') = i" using materialized_shape [OF shape] by (simp add: m row_shape_def)
        then show ?thesis using o one stored by simp
      qed
    qed
    ultimately show ?thesis by (simp add: recorded_as_def)
  qed
  then show "money_ok st'" and "states_ok st'" and "recorded_as i (one_shot_identity row) st'" by blast+
qed

text \<open>C39: A one-shot record is idempotent and never overwritten: after it was recorded, and after any
  later operations, recording the same identity again answers the same id and changes nothing, and a row
  with the same id and another identity is refused.\<close>

theorem one_shot_is_recorded_once:
  assumes "list_all op_shape (before @ after)" and "row_shape attempt_id row"
    and "is_one_shot_kind (sor (dget row ''kind''))" and "plain_identity row"
    and "record_one_shot now row (run_money before empty_store) = Inr (recorded_id, st)"
    and "dget other ''attempt_id'' = PStr attempt_id"
  defines "later \<equiv> run_money after st"
  shows "recorded_id = attempt_id
       \<and> record_one_shot again other later
         = (if one_shot_identity other = one_shot_identity row then Inr (attempt_id, later)
            else Inl (UsageAccountingError (''conflicting settled-row identity: '' @ attempt_id)))"
proof -
  have start: "money_ok (run_money before empty_store)" "states_ok (run_money before empty_store)"
    using run_money_invariants [of before empty_store] assms(1) empty_store_ok empty_store_states by simp_all
  note eff = record_one_shot_effect [OF start assms(2-5)]
  have rec: "recorded_as attempt_id (one_shot_identity row) later"
    unfolding later_def using assms(1) eff(2-4) by (intro run_keeps_record) simp_all
  note found = recorded_one_shot_of [OF rec assms(6)]
  have "attempt later attempt_id \<noteq> None" using rec by (simp add: recorded_as_def)
  then show ?thesis using found eff(1) assms(6) by (auto simp: record_one_shot_def)
qed

end
