(* ===== verification/Usage_Steps.thy ===== *)
theory Usage_Steps
  imports Usage_Attempts Usage_OneShots
begin

text \<open>
  The accounting calls as steps over the money store: every row a call writes has the shape the store's
  invariant asks for, so each call is one operation of a run of the store.
\<close>

section \<open>Stored rows keep their shape\<close>

definition row_kept :: "stored_attempt \<Rightarrow> bool" where
  "row_kept a \<longleftrightarrow> distinct (map fst (sa_extra a)) \<and> (\<exists>i. row_shape i (attempt_row a))"

definition rows_ok :: "usage_store \<Rightarrow> bool" where
  "rows_ok st \<longleftrightarrow> (\<forall>a \<in> set (us_attempts st). row_kept a)"

lemma distinct_fold_dset:
  "(\<And>k d. distinct (map fst d) \<Longrightarrow> distinct (map fst (f k d))) \<Longrightarrow> distinct (map fst d) \<Longrightarrow> distinct (map fst (fold f ks d))"
  by (induction ks arbitrary: d) auto

lemma distinct_decode_row:
  "distinct (map fst extra) \<Longrightarrow> distinct (map fst (decode_row columns extra revision))"
  unfolding decode_row_def
  by (intro distinct_dset distinct_fold_dset distinct_dpop) (simp_all split: option.splits)

lemma distinct_filter_keys: "distinct (map fst d) \<Longrightarrow> distinct (map fst (filter P d))"
  by (simp add: distinct_map_filter)

lemma distinct_encode_extra: "distinct (map fst row) \<Longrightarrow> distinct (map fst (encode_extra row))"
  by (simp add: encode_extra_def Let_def distinct_filter_keys)

lemma written_kept:
  assumes "row_shape i m" and "written_from m x"
  shows "row_kept x"
proof -
  have m: "row_ok m" and ex: "sa_extra x = encode_extra m"
    and cols: "map_of (sa_columns x) = map_of (encode_columns m)"
    using assms(2) by (simp_all add: written_from_def)
  have d: "distinct (map fst (sa_extra x))" using m by (simp add: ex row_ok_def distinct_encode_extra)
  have "map_of (attempt_row x) ''__none__'' = None"
    using written_row [OF m cols ex, of "''__none__''"] m by (simp add: row_ok_def dhas_def)
  moreover have "distinct (map fst (attempt_row x))" unfolding attempt_row_def by (rule distinct_decode_row [OF d])
  ultimately have "row_ok (attempt_row x)" by (simp add: row_ok_def dhas_def)
  moreover have "dget (attempt_row x) k = dget m k" if "k \<in> {''attempt_id'', ''kind'', ''state''}" for k
    using that assms by (intro written_from_text) (auto simp: row_shape_def text_or_none_def text_fields_def)
  ultimately have "row_shape i (attempt_row x)" using assms(1) by (simp add: row_shape_def text_or_none_def)
  then show ?thesis using d by (auto simp: row_kept_def)
qed

text \<open>Evidence keeps the shape.\<close>

lemma evidence_kept:
  assumes "row_kept a" and "distinct (map fst e)" and "\<And>k. k \<notin> set evidence_keys \<Longrightarrow> map_of e k = map_of (sa_extra a) k"
  shows "row_kept (a\<lparr>sa_extra := e, sa_revision := r\<rparr>)"
proof -
  let ?b = "a\<lparr>sa_extra := e, sa_revision := r\<rparr>"
  have same: "same_money (attempt_row a) (attempt_row ?b)" using assms(3) by (rule evidence_same_money)
  have "map_of (attempt_row ?b) ''__none__'' = map_of (attempt_row a) ''__none__''"
    using same by (simp add: same_money_def evidence_keys_def)
  moreover have "distinct (map fst (attempt_row ?b))"
    using assms(2) by (simp add: attempt_row_def distinct_decode_row)
  moreover have "dget (attempt_row ?b) k = dget (attempt_row a) k" if "k \<in> {''attempt_id'', ''kind'', ''state''}" for k
    using that by (intro same_money_dget [OF same]) (auto simp: evidence_keys_def)
  ultimately show ?thesis
    using assms(1,2) by (auto simp: row_kept_def row_shape_def row_ok_def dhas_def text_or_none_def)
qed

lemma update_rows_ok:
  assumes "rows_ok st" and "\<And>a. row_kept a \<Longrightarrow> row_kept (f a)"
  shows "rows_ok (st\<lparr>us_attempts := update_attempt f i r (us_attempts st)\<rparr>)"
  using assms by (auto simp: rows_ok_def update_attempt_def)

lemma exec_keeps_rows:
  assumes "exec_money op st = Inr st'" and "op_shape op" and "money_ok st" and "rows_ok st"
  shows "rows_ok st'"
proof (cases op)
  case (RecordNew now row)
  then obtain i stored where shape: "row_shape i row" and w: "write_row now row None st = Inr (stored, st')"
    using assms by (auto simp: map_sum_snd_Inr)
  show ?thesis
    using shape w by (rule new_write_elim) (use assms(4) written_kept in \<open>auto simp: rows_ok_def\<close>)
next
  case (RecordNext now i row)
  then obtain old stored where shape: "row_shape i row" and old: "find_attempt st i = Some old"
      and w: "write_row now row (Some (attempt_row old)) st = Inr (stored, st')"
    using assms by (auto simp: attempt_def map_sum_snd_Inr split: option.splits)
  show ?thesis
    using assms(3) shape old w by (rule next_write_elim) (use assms(4) written_kept in \<open>auto simp: rows_ok_def\<close>)
next
  case (RecordEvidence i facts r)
  then obtain b where ex: "record_evidence i facts r st = Inr (b, st')" using assms(1) by (auto simp: map_sum_snd_Inr)
  show ?thesis
  proof (cases "st' = st")
    case False
    then obtain a fresh where fresh: "fresh = facts \<or> fresh = dpop ''physical_failure'' facts"
        and keys: "\<forall>(k, v) \<in> set facts. k \<in> {''physical_failure'', ''provider_receipt_binding''}"
        and st': "st' = st\<lparr>us_attempts := update_attempt
                   (\<lambda>x. x\<lparr>sa_extra := dmerge (sa_extra x) fresh, sa_revision := sa_revision x + 1\<rparr>) i r (us_attempts st)\<rparr>"
      using ex by (auto simp: record_evidence_def Let_def list_all_iff split: if_splits option.splits)
    have sub: "set (dpop k d) \<subseteq> set d" for k and d :: pydict
      by (induction d) (auto split: if_splits)
    have "fst ` set fresh \<subseteq> set evidence_keys"
      using fresh keys sub [of "''physical_failure''" facts] by (force simp: evidence_keys_def)
    then show ?thesis unfolding st'
      by (intro update_rows_ok [OF assms(4)] evidence_kept) (auto simp: row_kept_def intro!: map_of_dmerge_outside)
  qed (use assms(4) in simp)
next
  case (RecordRecovery i recovery r)
  then obtain b where ex: "record_recovery i recovery r st = Inr (b, st')" using assms(1) by (auto simp: map_sum_snd_Inr)
  show ?thesis
  proof (cases "st' = st")
    case False
    then have st': "st' = st\<lparr>us_attempts := update_attempt
        (\<lambda>x. x\<lparr>sa_extra := dset ''recovery'' (PDict recovery) (sa_extra x), sa_revision := sa_revision x + 1\<rparr>)
        i r (us_attempts st)\<rparr>"
      using ex by (auto simp: record_recovery_def split: if_splits option.splits)
    show ?thesis unfolding st'
      by (intro update_rows_ok [OF assms(4)] evidence_kept) (auto simp: row_kept_def evidence_keys_def)
  qed (use assms(4) in simp)
next
  case (AckOwner owner r)
  then show ?thesis
    using assms(1,4) by (auto simp: map_sum_snd_Inr ack_dirty_owner_def rows_ok_def split: if_splits)
qed

section \<open>The rows the calls write\<close>

definition plain_facts :: "pydict \<Rightarrow> bool" where
  "plain_facts facts \<longleftrightarrow> (\<forall>k \<in> {''attempt_id'', ''kind'', ''state'', ''__none__''}. \<not> dhas facts k)"

lemma plain_facts_dset: "plain_facts f \<Longrightarrow> k \<notin> {''attempt_id'', ''kind'', ''state'', ''__none__''} \<Longrightarrow> plain_facts (dset k v f)"
  by (auto simp: plain_facts_def)

lemma plain_facts_keys: "fst ` set f \<inter> {''attempt_id'', ''kind'', ''state'', ''__none__''} = {} \<Longrightarrow> plain_facts f"
  by (auto simp: plain_facts_def dhas_def map_of_eq_None_iff)

lemma plain_facts_append: "plain_facts (f @ g) \<longleftrightarrow> plain_facts f \<and> plain_facts g"
  by (auto simp: plain_facts_def dhas_def map_add_def split: option.splits)

lemma plain_facts_merge: "plain_facts f \<Longrightarrow> plain_facts g \<Longrightarrow> plain_facts (dmerge f g)"
  by (auto simp: plain_facts_def dhas_dmerge)

lemma kept_effort_plain: "plain_facts f \<Longrightarrow> plain_facts (kept_effort s c f)"
  by (auto simp: kept_effort_def intro!: plain_facts_dset split: pyval.splits)

lemma dget_filter_keys: "P k \<Longrightarrow> distinct (map fst d) \<Longrightarrow> dget (filter (\<lambda>(k, _). P k) d) k = dget d k"
  by (simp add: dget_def map_of_filter_distinct split: option.splits)

lemma not_dhas_filter: "\<not> dhas d k \<Longrightarrow> \<not> dhas (filter P d) k"
  by (auto simp: dhas_def map_of_eq_None_iff)

lemma next_row_shape:
  assumes "row_shape i current" and "plain_facts facts"
  shows "row_shape i (next_row state current facts)" and "dget (next_row state current facts) ''state'' = PStr state"
    and "dget (next_row state current facts) ''kind'' = dget current ''kind''"
proof -
  define c where "c = filter (\<lambda>(k, _). k \<notin> set (replaced_keys state)) current"
  define f where "f = kept_effort state current facts"
  have row: "next_row state current facts = dmerge (dset ''state'' (PStr state) c) f"
    by (simp only: next_row_def c_def f_def)
  have f: "\<not> dhas f ''attempt_id''" "\<not> dhas f ''kind''" "\<not> dhas f ''state''" "\<not> dhas f ''__none__''"
    using kept_effort_plain [OF assms(2)] by (simp_all add: plain_facts_def f_def)
  have d: "distinct (map fst current)" using assms(1) by (simp add: row_shape_def row_ok_def)
  have c: "dget c ''attempt_id'' = dget current ''attempt_id''" "dget c ''kind'' = dget current ''kind''"
    unfolding c_def by (rule dget_filter_keys [where P = "\<lambda>k. k \<notin> set (replaced_keys state)", OF _ d], simp add: replaced_keys_def)+
  have dc: "distinct (map fst c)" unfolding c_def by (rule distinct_filter_keys [OF d])
  have n: "\<not> dhas c ''__none__''"
    unfolding c_def using assms(1) by (intro not_dhas_filter) (simp add: row_shape_def row_ok_def)
  show st: "dget (next_row state current facts) ''state'' = PStr state"
    by (simp add: row dget_dmerge_notin f)
  show k: "dget (next_row state current facts) ''kind'' = dget current ''kind''"
    by (simp add: row dget_dmerge_notin f c)
  have i: "dget (next_row state current facts) ''attempt_id'' = dget current ''attempt_id''"
    by (simp add: row dget_dmerge_notin f c)
  have "row_ok (next_row state current facts)"
    by (simp add: row row_ok_def dhas_dmerge f n dc)
  then show "row_shape i (next_row state current facts)"
    using assms(1) i k st by (simp add: row_shape_def text_or_none_def)
qed

lemma priced_row_shape:
  assumes "row_shape i current"
  shows "row_shape i (priced_row current r cost)"
proof -
  define c where "c = filter (\<lambda>(k, _). k \<notin> {''seq'', ''ts'', ''revision'', ''pre_compaction_seq''}) current"
  have d: "distinct (map fst current)" using assms by (simp add: row_shape_def row_ok_def)
  have k: "dget c ''attempt_id'' = dget current ''attempt_id''" "dget c ''kind'' = dget current ''kind''"
    unfolding c_def
    by (rule dget_filter_keys [where P = "\<lambda>k. k \<notin> {''seq'', ''ts'', ''revision'', ''pre_compaction_seq''}", OF _ d], simp)+
  have dc: "distinct (map fst c)" unfolding c_def by (rule distinct_filter_keys [OF d])
  have n: "\<not> dhas c ''__none__''"
    unfolding c_def using assms by (intro not_dhas_filter) (simp add: row_shape_def row_ok_def)
  have row: "priced_row current r cost = dmerge c
       [(''state'', PStr ''settled''), (''cost_usd'', cost), (''cost_final'', PBool True),
        (''settle_reason'', PStr ''late_receipt''), (''provider_price_receipt'', PDict r)]"
    by (simp only: priced_row_def c_def)
  show ?thesis
    using assms by (simp add: row row_shape_def row_ok_def text_or_none_def k dc n)
qed

lemma attempt_shape:
  assumes "rows_ok st" and "attempt st i = Some current"
  shows "row_shape i current"
proof -
  obtain a where a: "a \<in> set (us_attempts st)" "has_id i a" "current = attempt_row a"
    using assms(2) by (auto simp: attempt_def find_attempt_def find_Some_iff intro: nth_mem)
  have "''attempt_id'' \<notin> set bool_fields" "''attempt_id'' \<notin> set money_row_fields" "is_field ''attempt_id''"
    by (simp_all add: bool_fields_def money_row_fields_def is_field_def column_fields_def text_fields_def)
  then have "dget current ''attempt_id'' = PStr i"
    using a(2,3) by (simp add: attempt_row_def dget_def map_of_decode_row has_id_def field_value_def)
  then show ?thesis using assms(1) a by (auto simp: rows_ok_def row_kept_def row_shape_def)
qed

section \<open>Transitions\<close>

lemma abandon_step_plain:
  "abandon_step c current = Moves state facts \<Longrightarrow> plain_facts (tc_fields c) \<Longrightarrow> plain_facts facts"
  by (auto simp: abandon_step_def Let_def dhas_def intro!: plain_facts_dset split: if_splits)
     (simp add: plain_facts_def dhas_def)

lemma settle_step_plain:
  "settle_step i allow current state facts = Inr (Moves state' facts') \<Longrightarrow> plain_facts facts \<Longrightarrow> plain_facts facts'"
  by (auto simp: settle_step_def Let_def intro!: plain_facts_dset split: if_splits)

lemma decide_transition_plain:
  "decide_transition i c current = Inr (Moves state facts) \<Longrightarrow> plain_facts (tc_fields c) \<Longrightarrow> plain_facts facts"
  by (auto simp: decide_transition_def dest: abandon_step_plain settle_step_plain split: if_splits decision.splits)

definition opened :: "usage_store \<Rightarrow> bool" where
  "opened st \<longleftrightarrow> us_writable st \<and> \<not> us_committed st"

lemma opened_txn: "opened st \<Longrightarrow> open_txn st = st"
  by (simp add: opened_def open_txn_def)

lemma open_txn_commit: "opened st \<Longrightarrow> open_txn (commit st) = st"
  by (simp add: opened_def open_txn_def commit_def)

lemma write_row_opened: "write_row now row previous st = Inr (stored, st') \<Longrightarrow> opened st \<Longrightarrow> opened st'"
  by (erule write_row_elim) (simp add: opened_def)

definition facts_for :: "string \<Rightarrow> pydict \<Rightarrow> pydict \<Rightarrow> pydict" where
  "facts_for state current facts =
     (if state = ''dispatched'' then dmerge facts (map (\<lambda>k. (k, dget current k)) effective_keys) else facts)"

lemma advance_row_elim:
  assumes "advance_row env current state facts st = Inr (row, st')" and "opened st"
  obtains "state = ''dispatched'' \<Longrightarrow> dispatch_checks env current st = Inr ()"
      "state = ''dispatched'' \<Longrightarrow> launch_checks env (row_scope (en_drive_root env) current) = Inr ()"
      "write_row (en_now env) (next_row state current (facts_for state current facts)) (Some current) st = Inr (row, st')"
proof -
  define sends where "sends \<longleftrightarrow> state = ''dispatched''"
  define after where "after = next_row state current (facts_for state current facts)"
  have "sbind (if sends then dispatch_checks env current st else Inr ()) (\<lambda>_.
      sbind (if sends then launch_checks env (row_scope (en_drive_root env) current) else Inr ()) (\<lambda>_.
      sbind (in_store (write_row (en_now env) after (Some current) st)) (\<lambda>(stored, st').
      sbind (shown_axes (if sends then commit st' else st') current) (\<lambda>_.
      Inr (stored, open_txn (if sends then commit st' else st')))))) = Inr (row, st')"
    using assms(1) unfolding advance_row_def Let_def sends_def after_def facts_for_def .
  then obtain st1 where w: "write_row (en_now env) after (Some current) st = Inr (row, st1)"
      and st': "st' = open_txn (if sends then commit st1 else st1)"
      and ch: "sends \<Longrightarrow> dispatch_checks env current st = Inr ()"
        "sends \<Longrightarrow> launch_checks env (row_scope (en_drive_root env) current) = Inr ()"
    by (auto simp: sbind_Inr_iff split: if_splits)
  have "opened st1" using w assms(2) by (rule write_row_opened)
  then have "st' = st1" using st' by (simp add: opened_txn open_txn_commit)
  then show thesis using that w ch by (simp add: sends_def after_def)
qed

lemma transition_once_decides:
  assumes "transition_once env rs c st = Inr r" and "opened st" and "attempt st (rs_attempt_id rs) = Some current"
  obtains d where "decide_transition (rs_attempt_id rs) c current = Inr d"
    and "(case d of Stands \<Rightarrow> Inr (current, st) | Moves state facts \<Rightarrow> advance_row env current state facts st) = Inr r"
  using assms(1)
  unfolding transition_once_def Let_def opened_txn [OF assms(2)] assms(3) option.case sbind_Inr_iff
  by (elim exE conjE) (rule that; assumption)

text \<open>A transition that succeeds answers the current row, or writes its next row.\<close>

lemma transition_once_elim:
  assumes "transition_once env rs c st = Inr (row, st')" and "opened st"
  obtains (unknown) "attempt st (rs_attempt_id rs) = None" "tc_abandon_reason c \<noteq> ''''" "row = [(''state'', PStr ''unknown'')]" "st' = st"
  | (stands) "attempt st (rs_attempt_id rs) = Some row" "decide_transition (rs_attempt_id rs) c row = Inr Stands" "st' = st"
  | (moves) current state facts where "attempt st (rs_attempt_id rs) = Some current"
      "decide_transition (rs_attempt_id rs) c current = Inr (Moves state facts)"
      "state = ''dispatched'' \<Longrightarrow> dispatch_checks env current st = Inr ()"
      "state = ''dispatched'' \<Longrightarrow> launch_checks env (row_scope (en_drive_root env) current) = Inr ()"
      "write_row (en_now env) (next_row state current (facts_for state current facts)) (Some current) st = Inr (row, st')"
proof -
  note o = opened_txn [OF assms(2)]
  show thesis
  proof (cases "attempt st (rs_attempt_id rs)")
    case None
    then have "tc_abandon_reason c \<noteq> '''' \<and> row = [(''state'', PStr ''unknown'')] \<and> st' = st"
      using assms(1) by (simp add: transition_once_def o sbind_Inr_iff split: if_splits)
    then show thesis using None by (intro unknown) simp_all
  next
    case (Some current)
    obtain d where d: "decide_transition (rs_attempt_id rs) c current = Inr d"
      and r: "(case d of Stands \<Rightarrow> Inr (current, st) | Moves state facts \<Rightarrow> advance_row env current state facts st) = Inr (row, st')"
      using assms Some by (rule transition_once_decides)
    show thesis
    proof (cases d)
      case Stands
      then have "row = current" "st' = st" using r by simp_all
      then show thesis using Some d Stands by (intro stands) simp_all
    next
      case (Moves state facts)
      then have "advance_row env current state facts st = Inr (row, st')" using r by simp
      then show thesis
        using assms(2)
      proof (rule advance_row_elim)
        assume "state = ''dispatched'' \<Longrightarrow> dispatch_checks env current st = Inr ()"
          "state = ''dispatched'' \<Longrightarrow> launch_checks env (row_scope (en_drive_root env) current) = Inr ()"
          "write_row (en_now env) (next_row state current (facts_for state current facts)) (Some current) st = Inr (row, st')"
        then show thesis by (rule moves [OF Some d [unfolded Moves]])
      qed
    qed
  qed
qed

lemma effective_plain: "plain_facts (map (\<lambda>k. (k, dget current k)) effective_keys)"
  by (rule plain_facts_keys) (auto simp: effective_keys_def)

text \<open>One transition is no operation or one write of the store.\<close>

lemma transition_is_op:
  assumes "transition_once env rs c st = Inr (row, st')" and "plain_facts (tc_fields c)"
    and "opened st" and "rows_ok st"
  shows "st' = st \<or> (\<exists>op. op_shape op \<and> exec_money op st = Inr st')"
  using assms(1,3)
proof (cases rule: transition_once_elim)
  case (moves current state facts)
  let ?f = "facts_for state current facts"
  have "plain_facts ?f"
    using decide_transition_plain [OF moves(2) assms(2)] effective_plain plain_facts_merge by (simp add: facts_for_def)
  then have "row_shape (rs_attempt_id rs) (next_row state current ?f)"
    using next_row_shape(1) attempt_shape [OF assms(4) moves(1)] by blast
  moreover have "exec_money (RecordNext (en_now env) (rs_attempt_id rs) (next_row state current ?f)) st = Inr st'"
    using moves(1,5) by simp
  ultimately show ?thesis by (intro disjI2 exI [of _ "RecordNext (en_now env) (rs_attempt_id rs) (next_row state current ?f)"]) simp
qed auto

end
