(* ===== verification/Usage_Callers.thy ===== *)
theory Usage_Callers
  imports Usage_Steps "HOL-Library.Sublist"
begin

text \<open>
  Runs of the accounting calls (\<open>ouroboros/usage_accounting.py\<close>): the step relation of the calls that
  succeed (one that raises leaves the store as it was), and the simulation that makes every reachable
  store the result of a run of the money store's operations.
\<close>

section \<open>Reservation\<close>

definition reserved_keys :: "string list" where
  "reserved_keys =
     [''kind'', ''attempt_id'', ''state'', ''model'', ''provider'', ''reservation_upper_bound_usd'', ''pricing_known'',
      ''reservation_basis'', ''task_id'', ''root_task_id'', ''parent_task_id'', ''billing_group_id'',
      ''billing_group_limit_usd'', ''billing_group_limit_source'', ''billing_group_limit_revision'', ''category'']
     @ [''consciousness_cause''] @ [''non_task_operation'']
     @ [''source'', ''review_skill'', ''review_wave_id'', ''review_slot_id'', ''global_limit_usd'',
        ''global_limit_unbounded'', ''global_limit_source'', ''global_limit_revision'', ''root_limit_usd'',
        ''root_limit_source'', ''root_limit_revision'', ''candidate_raw_sha256'', ''candidate_raw_size_bytes'',
        ''candidate_context_sha256'', ''candidate_context_size_bytes'', ''candidate_measurement_kind'', ''physical_context'']
     @ [''provider_receipt_binding''] @ [''effort'']
     @ [''processing_preference'', ''submitted_processing_mode'', ''processing_basis'']"

lemma subseq_optional: "subseq (map fst (if c then xs else [])) (map fst xs)"
  by simp

lemma reserved_row_keys: "subseq (map fst (reserved_row i r s bound gl grp grl)) reserved_keys"
  unfolding reserved_row_def reserved_keys_def map_append
  by (intro list_emb_append_mono) simp_all

lemma subseq_keeps_distinct: "subseq xs ys \<Longrightarrow> distinct ys \<Longrightarrow> distinct xs"
  by (induction rule: list_emb.induct) (auto dest: list_emb_set)

lemma subseq_keeps_set: "subseq xs ys \<Longrightarrow> set xs \<subseteq> set ys"
  by (auto dest: list_emb_set)

lemma reserved_keys_plain: "distinct reserved_keys \<and> ''__none__'' \<notin> set reserved_keys"
  by code_simp

lemma reserved_row_shape: "row_shape i (reserved_row i r s bound gl grp grl)"
proof -
  let ?row = "reserved_row i r s bound gl grp grl"
  have "distinct (map fst ?row)"
    using reserved_row_keys reserved_keys_plain subseq_keeps_distinct by blast
  moreover have "\<not> dhas ?row ''__none__''"
  proof -
    have "''__none__'' \<notin> set (map fst ?row)"
      using subseq_keeps_set [OF reserved_row_keys [of i r s bound gl grp grl]] reserved_keys_plain by blast
    then show ?thesis by (simp add: dhas_def map_of_eq_None_iff)
  qed
  moreover have "dget ?row ''attempt_id'' = PStr i" "dget ?row ''kind'' = PStr ''attempt''" "dget ?row ''state'' = PStr ''reserved''"
    by (simp_all add: reserved_row_def dget_def)
  ultimately show ?thesis by (simp add: row_shape_def row_ok_def text_or_none_def)
qed

text \<open>What a reservation that succeeds has checked and written.\<close>

lemma reserve_attempt_elim:
  assumes "reserve_attempt env request st = Inr (rs, st')" and "opened st"
  obtains r bound s gl grp grl stored where "global_limit_of (en_configured_budget env) (rq_global_limit_usd r) = Inr gl"
    and "check_fences env s = Inr ()" and "admission_checks st s gl = Inr ()" and "scope_group s = Inr (grp, grl)"
    and "write_row (en_now env) (reserved_row (en_attempt_id env) r s bound gl grp grl) None st = Inr (stored, st')"
    and "rs_attempt_id rs = en_attempt_id env" and "rs_scope rs = s" and "rs_upper_bound_usd rs = bound"
proof -
  obtain r s bound where a: "admit_row env r s bound st = Inr st'"
    and e: "rs = \<lparr>rs_attempt_id = en_attempt_id env, rs_model = rq_model r, rs_provider = rq_provider r, rs_upper_bound_usd = bound,
             rs_processing_preference = rq_processing_preference r,
             rs_submitted_processing_mode = rq_submitted_processing_mode r, rs_scope = s\<rparr>"
    using assms(1) unfolding reserve_attempt_def opened_txn [OF assms(2)] by (auto simp: sbind_Inr_iff)
  obtain gl grp grl stored st1 where ch: "check_fences env s = Inr ()" "admission_checks st s gl = Inr ()"
      "global_limit_of (en_configured_budget env) (rq_global_limit_usd r) = Inr gl" "scope_group s = Inr (grp, grl)"
    and w: "write_row (en_now env) (reserved_row (en_attempt_id env) r s bound gl grp grl) None st = Inr (stored, st1)"
    and st': "st' = open_txn st1"
    using a unfolding admit_row_def by (auto simp: sbind_Inr_iff split: prod.splits)
  have "opened st1" using w assms(2) by (rule write_row_opened)
  then have "st' = st1" by (simp add: st' opened_txn)
  then show thesis using that [of r gl s] ch w e by simp
qed

section \<open>The step relation\<close>

text \<open>The fields with which a waiting process binds itself to the answer.\<close>

definition consumer_keys :: "string list" where
  "consumer_keys = [''local_answer_consumer_id'', ''local_answer_task_attempt'', ''local_answer_owner_birth'',
     ''local_answer_owner_proof'']"

inductive accounting_step :: "usage_store \<Rightarrow> usage_store \<Rightarrow> bool" where
  Reserved: "reserve_attempt env request st = Inr (rs, st') \<Longrightarrow> accounting_step st st'"
| Dispatched: "mark_dispatched env rs room ref pid consumer st = (outcome, st')
     \<Longrightarrow> fst ` set consumer \<subseteq> set consumer_keys \<Longrightarrow> accounting_step st st'"
| Released: "release_attempt env rs reason ref proven_unsent st = Inr st' \<Longrightarrow> accounting_step st st'"
| Unresolved: "mark_unresolved redact env rs reason st = Inr st' \<Longrightarrow> accounting_step st st'"
| Settled: "settle_attempt estimate env rs usage cost_usd cost_final expected st = Inr st' \<Longrightarrow> accounting_step st st'"
| Abandoned: "terminalize_abandoned_attempt estimate env rs reason usage expected_seq expected_revision st = Inr (outcome, st')
     \<Longrightarrow> accounting_step st st'"
| Unsent: "release_pre_dispatch_attempt env rs failure expected st = (released, st') \<Longrightarrow> accounting_step st st'"
| Failed: "terminalize_failed_attempt estimate redact read env rs failure st = Inr (outcome, st') \<Longrightarrow> accounting_step st st'"
| Priced: "apply_provider_price_receipt env attempt_id receipt expected st = Inr (status, st') \<Longrightarrow> accounting_step st st'"
| OneShot: "record_one_shot now row st = Inr (recorded_id, st') \<Longrightarrow> row_shape attempt_id row \<Longrightarrow> accounting_step st st'"
| Evidence: "record_evidence attempt_id facts expected_revision st = Inr (known, st') \<Longrightarrow> accounting_step st st'"
| Recovery: "record_recovery attempt_id recovery expected_revision st = Inr (known, st') \<Longrightarrow> accounting_step st st'"
| Acknowledged: "ack_dirty_owner owner revision st = Inr (known, st') \<Longrightarrow> accounting_step st st'"

text \<open>No operation, or one of the store's.\<close>

definition is_op :: "usage_store \<Rightarrow> usage_store \<Rightarrow> bool" where
  "is_op st st' \<longleftrightarrow> st' = st \<or> (\<exists>op. op_shape op \<and> exec_money op st = Inr st')"

lemma is_op_same [simp]: "is_op st st"
  by (simp add: is_op_def)

lemma transition_op:
  "map_sum id snd (transition_once env rs c st) = Inr st' \<Longrightarrow> plain_facts (tc_fields c) \<Longrightarrow> opened st \<Longrightarrow> rows_ok st
   \<Longrightarrow> is_op st st'"
  unfolding is_op_def map_sum_snd_Inr by (elim exE) (rule transition_is_op)

lemma release_op: "release_attempt env rs reason ref unsent st = Inr st' \<Longrightarrow> opened st \<Longrightarrow> rows_ok st \<Longrightarrow> is_op st st'"
  unfolding release_attempt_def
  by (erule transition_op) (auto simp: plain_call_def manifest_field_def intro!: plain_facts_keys)

lemma settlement_fields_form:
  assumes "settlement_fields estimate provider requested submitted usage cost_usd cost_final = Inr facts"
  obtains cost final prompt completion cached written ttl u where
    "facts = [(''cost_usd'', cost), (''cost_final'', PBool final), (''prompt_tokens'', prompt), (''completion_tokens'', completion),
       (''cached_tokens'', cached), (''cache_write_tokens'', written), (''prompt_cache_ttl'', ttl)]
       @ map (\<lambda>k. (k, dget u k)) (filter (dhas u) copied_facts)"
  using assms unfolding settlement_fields_def Let_def sbind_Inr_iff case_prod_beta sum.inject
  by (elim exE conjE) (rule that, erule sym)

lemma settlement_plain:
  assumes "settlement_of estimate rs usage cost_usd cost_final = Inr facts"
  shows "plain_facts facts"
proof -
  have "fst ` set facts \<subseteq> set ([''cost_usd'', ''cost_final'', ''prompt_tokens'', ''completion_tokens'', ''cached_tokens'',
      ''cache_write_tokens'', ''prompt_cache_ttl''] @ copied_facts)"
    using assms unfolding settlement_of_def in_store_Inr by (rule settlement_fields_form) auto
  moreover have "set ([''cost_usd'', ''cost_final'', ''prompt_tokens'', ''completion_tokens'', ''cached_tokens'',
      ''cache_write_tokens'', ''prompt_cache_ttl''] @ copied_facts) \<inter> {''attempt_id'', ''kind'', ''state'', ''__none__''} = {}"
    by (simp add: copied_facts_def)
  ultimately show ?thesis by (intro plain_facts_keys) blast
qed

lemma dispatch_facts_plain:
  assumes "fst ` set consumer \<subseteq> set consumer_keys"
  shows "plain_facts ([(''launch_state'', PStr ''claimed''), (''transport_outcome'', PStr ''unknown'')] @ manifest_field ref
              @ (if pid \<noteq> 0 then [(''local_answer_owner_pid'', PInt pid)] @ consumer else []))"
proof -
  have "set consumer_keys \<inter> {''attempt_id'', ''kind'', ''state'', ''__none__''} = {}" by (simp add: consumer_keys_def)
  then have "plain_facts consumer" using assms by (intro plain_facts_keys) blast
  moreover have "plain_facts [(''launch_state'', PStr ''claimed''), (''transport_outcome'', PStr ''unknown'')]"
    "plain_facts (manifest_field ref)" "plain_facts [(''local_answer_owner_pid'', PInt pid)]" "plain_facts []"
    by (auto simp: manifest_field_def intro!: plain_facts_keys)
  ultimately show ?thesis by (simp only: plain_facts_append split: if_split) blast
qed

lemma dispatch_op:
  assumes "mark_dispatched env rs room ref pid consumer st = (outcome, st')"
    and "fst ` set consumer \<subseteq> set consumer_keys" and "opened st" and "rows_ok st"
  shows "is_op st st'"
proof (cases "room \<and> en_paid_veto env = None")
  case False
  then show ?thesis
    using assms release_op by (auto simp: mark_dispatched_def split: sum.splits if_splits)
next
  case True
  let ?c = "plain_call ''dispatched'' ([(''launch_state'', PStr ''claimed''), (''transport_outcome'', PStr ''unknown'')]
      @ manifest_field ref @ (if pid \<noteq> 0 then [(''local_answer_owner_pid'', PInt pid)] @ consumer else []))"
  have "st' = st \<or> map_sum id snd (transition_once env rs ?c st) = Inr st'"
    using assms(1) True by (auto simp: mark_dispatched_def split: sum.splits)
  then show ?thesis
    using assms(3,4) dispatch_facts_plain [OF assms(2)] transition_op [of env rs ?c st st'] by (auto simp: plain_call_def)
qed

lemma price_op:
  assumes "apply_provider_price_receipt env i receipt expected st = Inr (status, st')" and "opened st" and "rows_ok st"
  shows "is_op st st'"
proof (cases "st' = st")
  case False
  then obtain current r cost stored st1 where c: "attempt st i = Some current"
      and w: "write_row (en_now env) (priced_row current r cost) (Some current) st = Inr (stored, st1)" and st': "st' = open_txn st1"
    using assms(1) unfolding apply_provider_price_receipt_def Let_def opened_txn [OF assms(2)]
    by (auto simp: sbind_Inr_iff split: option.splits if_splits)
  have "opened st1" using w assms(2) by (rule write_row_opened)
  then have "exec_money (RecordNext (en_now env) i (priced_row current r cost)) st = Inr st'"
    using c w by (simp add: st' opened_txn)
  moreover have "op_shape (RecordNext (en_now env) i (priced_row current r cost))"
    using priced_row_shape [OF attempt_shape [OF assms(3) c]] by simp
  ultimately show ?thesis unfolding is_op_def by blast
qed simp

lemma reserve_op:
  assumes "reserve_attempt env request st = Inr (rs, st')" and "opened st"
  shows "is_op st st'"
  using assms
proof (rule reserve_attempt_elim)
  fix r bound s gl grp grl stored
  let ?row = "reserved_row (en_attempt_id env) r s bound gl grp grl"
  assume "write_row (en_now env) ?row None st = Inr (stored, st')"
  then have "exec_money (RecordNew (en_now env) ?row) st = Inr st'" by simp
  moreover have "op_shape (RecordNew (en_now env) ?row)" unfolding op_shape.simps using reserved_row_shape by (rule exI)
  ultimately show ?thesis unfolding is_op_def by blast
qed

lemma one_shot_op:
  assumes "record_one_shot now row st = Inr (i, st')" and "row_shape j row"
  shows "is_op st st'"
proof -
  have "st' = st \<or> exec_money (RecordNew now row) st = Inr st'"
    using assms(1) by (auto simp: record_one_shot_def sbind_Inr_iff split: option.splits)
  moreover have "op_shape (RecordNew now row)" unfolding op_shape.simps using assms(2) by (rule exI)
  ultimately show ?thesis unfolding is_op_def by blast
qed

lemma evidence_ops:
  "record_evidence i facts n st = Inr (known, st') \<Longrightarrow> is_op st st'"
  "record_recovery i recovery n st = Inr (known, st') \<Longrightarrow> is_op st st'"
  "ack_dirty_owner owner n st = Inr (known, st') \<Longrightarrow> is_op st st'"
proof -
  show "record_evidence i facts n st = Inr (known, st') \<Longrightarrow> is_op st st'"
    unfolding is_op_def by (rule disjI2, rule exI [of _ "RecordEvidence i facts n"]) simp
  show "record_recovery i recovery n st = Inr (known, st') \<Longrightarrow> is_op st st'"
    unfolding is_op_def by (rule disjI2, rule exI [of _ "RecordRecovery i recovery n"]) simp
  show "ack_dirty_owner owner n st = Inr (known, st') \<Longrightarrow> is_op st st'"
    unfolding is_op_def by (rule disjI2, rule exI [of _ "AckOwner owner n"]) simp
qed

lemma settle_op:
  assumes "settle_attempt estimate env rs usage cost_usd cost_final expected st = Inr st'" and "opened st" and "rows_ok st"
  shows "is_op st st'"
proof -
  obtain facts where f: "settlement_of estimate rs usage cost_usd cost_final = Inr facts"
    and t: "map_sum id snd (transition_once env rs ((plain_call ''settled'' facts)\<lparr>tc_expected_revision := expected\<rparr>) st) = Inr st'"
    using assms(1) by (auto simp: settle_attempt_def sbind_Inr_iff)
  show ?thesis
    by (rule transition_op [OF t _ assms(2,3)]) (simp add: plain_call_def settlement_plain [OF f])
qed

definition closing_call :: "string \<Rightarrow> pydict \<Rightarrow> int option \<Rightarrow> int option \<Rightarrow> transition_call" where
  "closing_call reason facts expected_seq expected_revision = \<lparr>tc_state = ''settled'', tc_fields = facts,
     tc_expected_seq = expected_seq, tc_expected_revision = expected_revision,
     tc_abandon_reason = (if reason = '''' then ''owner_task_terminal'' else reason), tc_allow_release = False\<rparr>"

lemma abandoned_elim:
  assumes "terminalize_abandoned_attempt estimate env rs reason usage expected_seq expected_revision st = Inr (outcome, st')"
  obtains facts row where "transition_once env rs (closing_call reason facts expected_seq expected_revision) st = Inr (row, st')"
    and "plain_facts facts" and "outcome = py_str (dget row ''state'')"
    and "\<not> measured usage \<longrightarrow> facts = [(''cost_usd'', PNone), (''cost_final'', PBool False), (''settle_reason'', PStr ''abandoned'')]"
proof -
  obtain facts row where f: "(if measured usage then settlement_of estimate rs usage PNone False
            else Inr [(''cost_usd'', PNone), (''cost_final'', PBool False), (''settle_reason'', PStr ''abandoned'')]) = Inr facts"
    and t: "transition_once env rs (closing_call reason facts expected_seq expected_revision) st = Inr (row, st')"
    and o: "outcome = py_str (dget row ''state'')"
    using assms by (auto simp: terminalize_abandoned_attempt_def sbind_Inr_iff closing_call_def)
  have "plain_facts facts"
    using f by (cases "measured usage") (auto intro: settlement_plain plain_facts_keys)
  then show thesis using that t o f by (auto split: if_splits)
qed

lemma abandon_op:
  assumes "terminalize_abandoned_attempt estimate env rs reason usage expected_seq expected_revision st = Inr (outcome, st')"
    and "opened st" and "rows_ok st"
  shows "is_op st st'"
  using assms(1)
proof (rule abandoned_elim)
  fix facts row
  assume t: "transition_once env rs (closing_call reason facts expected_seq expected_revision) st = Inr (row, st')"
    and p: "plain_facts facts"
  show "is_op st st'"
    unfolding is_op_def by (rule transition_is_op [OF t _ assms(2,3)]) (simp add: closing_call_def p)
qed

lemma unresolved_op:
  assumes "mark_unresolved redact env rs reason st = Inr st'" and "opened st" and "rows_ok st"
  shows "is_op st st'"
proof -
  obtain safe where t: "map_sum id snd (transition_once env rs (plain_call ''unresolved'' [(''reason'', PStr safe)]) st) = Inr st'"
    using assms(1) by (simp add: mark_unresolved_def Let_def)
  show ?thesis by (rule transition_op [OF t _ assms(2,3)]) (auto simp: plain_call_def intro!: plain_facts_keys)
qed

lemma unsent_op:
  assumes "release_pre_dispatch_attempt env rs failure expected st = (released, st')" and "opened st" and "rows_ok st"
  shows "is_op st st'"
proof -
  let ?c = "(plain_call ''released'' [(''reason'', PStr (''before_dispatch_failed:'' @ fs_kind failure))])
     \<lparr>tc_expected_revision := expected, tc_allow_release := True\<rparr>"
  have "st' = st \<or> map_sum id snd (transition_once env rs ?c st) = Inr st'"
    using assms(1) by (auto simp: release_pre_dispatch_attempt_def split: sum.splits if_splits)
  moreover have "plain_facts (tc_fields ?c)" by (auto simp: plain_call_def intro!: plain_facts_keys)
  ultimately show ?thesis using transition_op [OF _ _ assms(2,3)] by auto
qed

lemma rejected_op:
  assumes "transition_once env rs (plain_call ''settled'' [(''cost_usd'', PFloat ''0.0''), (''cost_final'', PBool True),
       (''settle_reason'', PStr reason)]) st = Inr (row, st')" and "opened st" and "rows_ok st"
  shows "is_op st st'"
proof -
  let ?c = "plain_call ''settled'' [(''cost_usd'', PFloat ''0.0''), (''cost_final'', PBool True), (''settle_reason'', PStr reason)]"
  have "map_sum id snd (transition_once env rs ?c st) = Inr st'" using assms(1) by simp
  then show ?thesis by (rule transition_op) (auto simp: plain_call_def assms(2,3) intro!: plain_facts_keys)
qed

lemma map_sum_Inr: "map_sum id f r = Inr y \<longleftrightarrow> (\<exists>x. r = Inr x \<and> y = f x)"
  by (cases r) auto

lemma failed_op:
  assumes "terminalize_failed_attempt estimate redact read env rs failure st = Inr (outcome, st')"
    and o: "opened st" and r: "rows_ok st"
  shows "is_op st st'"
proof -
  consider "st' = st" | "release_pre_dispatch_attempt env rs failure None st = (True, st')"
    | usage cost final where "settle_attempt estimate env rs usage cost final None st = Inr st'"
    | reason row where "transition_once env rs (plain_call ''settled'' [(''cost_usd'', PFloat ''0.0''),
        (''cost_final'', PBool True), (''settle_reason'', PStr reason)]) st = Inr (row, st')"
    | "mark_unresolved redact env rs (failure_reason failure) st = Inr st'"
    using assms(1) unfolding terminalize_failed_attempt_def
    by (fastforce simp: sbind_Inr_iff map_sum_Inr split: if_splits prod.splits bool.splits option.splits)
  then show ?thesis
  proof cases
    case 1 then show ?thesis by simp
  next
    case 2 then show ?thesis using o r by (rule unsent_op)
  next
    case 3 then show ?thesis using o r by (rule settle_op)
  next
    case 4 then show ?thesis using o r by (rule rejected_op)
  next
    case 5 then show ?thesis using o r by (rule unresolved_op)
  qed
qed

lemma step_is_op:
  assumes "accounting_step st st'" and o: "opened st" and r: "rows_ok st"
  shows "is_op st st'"
  using assms(1)
proof cases
  case Reserved then show ?thesis using o by (rule reserve_op)
next
  case Dispatched then show ?thesis using o r by (rule dispatch_op)
next
  case Released then show ?thesis using o r by (rule release_op)
next
  case Unresolved then show ?thesis using o r by (rule unresolved_op)
next
  case Settled then show ?thesis using o r by (rule settle_op)
next
  case Abandoned then show ?thesis using o r by (rule abandon_op)
next
  case Unsent then show ?thesis using o r by (rule unsent_op)
next
  case Failed then show ?thesis using o r by (rule failed_op)
next
  case Priced then show ?thesis using o r by (rule price_op)
next
  case OneShot then show ?thesis by (rule one_shot_op)
qed (blast intro: evidence_ops)+

section \<open>The simulation\<close>

definition store_ok :: "usage_store \<Rightarrow> bool" where
  "store_ok st \<longleftrightarrow> opened st \<and> money_ok st \<and> states_ok st \<and> rows_ok st"

lemma exec_money_opened: "exec_money op st = Inr st' \<Longrightarrow> opened st \<Longrightarrow> opened st'"
  by (cases op) (auto simp: map_sum_snd_Inr record_evidence_def record_recovery_def ack_dirty_owner_def opened_def Let_def
      dest!: write_row_opened split: if_splits option.splits)

lemma op_keeps_store_ok: "is_op st st' \<Longrightarrow> store_ok st \<Longrightarrow> store_ok st'"
  by (auto simp: is_op_def store_ok_def intro: exec_money_opened exec_money_keeps_ok exec_keeps_states exec_keeps_rows)

lemma empty_store_all_ok: "store_ok empty_store"
  using empty_store_ok empty_store_states by (simp add: store_ok_def opened_def empty_store_def rows_ok_def)

abbreviation reachable :: "usage_store \<Rightarrow> bool" where
  "reachable \<equiv> accounting_step\<^sup>*\<^sup>* empty_store"

lemma reachable_ok: "reachable st \<Longrightarrow> store_ok st"
  by (induction rule: rtranclp_induct)
     (auto simp: empty_store_all_ok intro: op_keeps_store_ok step_is_op dest: store_ok_def [THEN iffD1])

end
