(* ===== verification/Usage_Roundtrip.thy ===== *)
theory Usage_Roundtrip
  imports Usage_Codec
begin

text \<open>
  The printed decimals: \<open>dec_literal\<close> reads back exactly the sign, coefficient and exponent that
  \<open>decimal_str\<close> printed, so a monetary column holds its amount exactly.
\<close>

section \<open>Parsing a literal part by part\<close>

lemma split_at_notin: "c \<notin> set s \<Longrightarrow> split_at c s = (s, None)"
proof -
  assume "c \<notin> set s"
  then have "dropWhile (\<lambda>x. x \<noteq> c) s = []" by (auto simp: dropWhile_eq_Nil_conv)
  then show ?thesis unfolding split_at_def by (simp only: list.case)
qed

lemma split_at_hit: "c \<notin> set a \<Longrightarrow> split_at c (a @ c # r) = (a, Some r)"
proof -
  assume "c \<notin> set a"
  then have "dropWhile (\<lambda>x. x \<noteq> c) (a @ c # r) = c # r" "takeWhile (\<lambda>x. x \<noteq> c) (a @ c # r) = a"
    by (auto simp: dropWhile_append takeWhile_append dropWhile_eq_Nil_conv)
  then show ?thesis by (simp add: split_at_def)
qed

lemma split_at_join: "split_at c s = (a, b) \<Longrightarrow> s = a @ (case b of None \<Rightarrow> [] | Some r \<Rightarrow> c # r)"
proof (cases "c \<in> set s")
  case True
  then obtain xs ys where "s = xs @ c # ys" "c \<notin> set xs" by (meson split_list_first)
  then show "split_at c s = (a, b) \<Longrightarrow> ?thesis" by (auto simp: split_at_hit)
qed (auto simp: split_at_notin)

definition plain_char :: "char \<Rightarrow> bool" where
  "plain_char c = (is_digit c \<or> c \<in> set ''+-.eE'')"

lemma plain_char_digit [simp]: "is_digit c \<Longrightarrow> plain_char c"
  by (simp add: plain_char_def)

lemma signed_digits_plain: "signed_digits s = Some x \<Longrightarrow> list_all plain_char s"
  by (auto simp: signed_digits_def plain_char_def list_all_iff Let_def split: list.splits if_splits)

lemma dec_literal_plain:
  assumes "dec_literal s0 = Some t"
  shows "list_all plain_char s0" and "s0 \<noteq> ''''"
proof -
  define s where "s = (case s0 of c # cs \<Rightarrow> (if c = CHR ''-'' \<or> c = CHR ''+'' then cs else s0) | [] \<Rightarrow> [])"
  define low where "low = map (\<lambda>c. if c = CHR ''E'' then CHR ''e'' else c) s"
  obtain mant ex where me: "split_at CHR ''e'' low = (mant, ex)" by fastforce
  obtain ip fp where if': "split_at CHR ''.'' mant = (ip, fp)" by fastforce
  let ?f = "case fp of None \<Rightarrow> [] | Some f \<Rightarrow> f"
  have parts: "list_all is_digit ip" "list_all is_digit ?f" "ip @ ?f \<noteq> []"
      "(case ex of None \<Rightarrow> Some 0 | Some t \<Rightarrow> signed_digits t) \<noteq> None"
    using assms unfolding dec_literal_def Let_def s_def [symmetric] low_def [symmetric] me if' prod.case
    by (auto split: option.splits if_splits)
  have "list_all plain_char t" if "ex = Some t" for t
    using parts(4) that by (auto dest: signed_digits_plain)
  moreover have "list_all plain_char mant"
    using split_at_join [OF if'] parts(1,2) by (auto simp: list_all_iff plain_char_def split: option.splits)
  ultimately have "list_all plain_char low"
    unfolding split_at_join [OF me] by (cases ex) (simp_all add: plain_char_def)
  moreover have "plain_char \<circ> (\<lambda>c. if c = CHR ''E'' then CHR ''e'' else c) = plain_char"
    by (auto simp: plain_char_def fun_eq_iff)
  ultimately have "list_all plain_char s" by (simp add: low_def list.pred_map)
  then show "list_all plain_char s0"
    by (auto simp: s_def plain_char_def split: list.splits if_splits)
  show "s0 \<noteq> ''''"
  proof
    assume "s0 = ''''"
    then have "low = ''''" by (simp add: s_def low_def)
    then have "ip @ ?f = []" using split_at_join [OF me] split_at_join [OF if'] by (auto split: option.splits)
    then show False using parts(3) by blast
  qed
qed

lemma plain_char_no_ws: "plain_char c \<Longrightarrow> \<not> is_ws c \<and> c \<noteq> CHR ''_''"
  by (auto simp: plain_char_def is_digit_def is_ws_def code_def Let_def)

lemma decimal_digits_plain:
  assumes "list_all plain_char s" and "s \<noteq> ''''"
  shows "decimal_digits s = s"
proof -
  have "strip s = s"
    using assms plain_char_no_ws by (intro strip_plain) (auto simp: list_all_iff)
  then show ?thesis
    using assms(1) plain_char_no_ws by (auto simp: decimal_digits_def list_all_iff filter_id_conv)
qed

lemma decimal_text_literal: "dec_literal s = Some t \<Longrightarrow> decimal_text s = Some (Finite (decimal_value t))"
  using dec_literal_plain [of s t] decimal_digits_plain [of s] by (simp add: decimal_text_def)

section \<open>Printing and reading\<close>

lemma digits_no_marks: "list_all is_digit s \<Longrightarrow> CHR ''e'' \<notin> set s \<and> CHR ''E'' \<notin> set s \<and> CHR ''.'' \<notin> set s"
  by (auto simp: list_all_iff is_digit_def code_def)

lemma map_lower_e: "CHR ''E'' \<notin> set s \<Longrightarrow> map (\<lambda>c. if c = CHR ''E'' then CHR ''e'' else c) s = s"
  by (rule map_idI) auto

lemma dec_literal_parts:
  assumes "list_all is_digit ip" and "ip \<noteq> []" and "list_all is_digit (case fp of None \<Rightarrow> [] | Some f \<Rightarrow> f)"
    and "case ex of None \<Rightarrow> True | Some t \<Rightarrow> CHR ''E'' \<notin> set t"
  shows "dec_literal ((if neg then ''-'' else '''') @ ip @ (case fp of None \<Rightarrow> [] | Some f \<Rightarrow> CHR ''.'' # f)
            @ (case ex of None \<Rightarrow> [] | Some t \<Rightarrow> CHR ''E'' # t))
       = (case (case ex of None \<Rightarrow> Some 0 | Some t \<Rightarrow> signed_digits t) of None \<Rightarrow> None
          | Some x \<Rightarrow> Some (neg, digits_val 0 (ip @ (case fp of None \<Rightarrow> [] | Some f \<Rightarrow> f)),
                           x - int (length (case fp of None \<Rightarrow> [] | Some f \<Rightarrow> f))))"
proof -
  let ?m = "ip @ (case fp of None \<Rightarrow> [] | Some f \<Rightarrow> CHR ''.'' # f)"
  let ?s = "?m @ (case ex of None \<Rightarrow> [] | Some t \<Rightarrow> CHR ''E'' # t)"
  obtain c cs where ip: "ip = c # cs" "is_digit c" using assms(1,2) by (cases ip) auto
  have c: "c \<noteq> CHR ''-''" "c \<noteq> CHR ''+''" using ip(2) by (auto simp: is_digit_def code_def)
  have m: "CHR ''e'' \<notin> set ?m" "CHR ''E'' \<notin> set ?m"
    using assms(1,3) digits_no_marks by (auto split: option.splits)
  have low: "map (\<lambda>c. if c = CHR ''E'' then CHR ''e'' else c) ?s
      = ?m @ (case ex of None \<Rightarrow> [] | Some t \<Rightarrow> CHR ''e'' # t)"
    using map_lower_e [OF m(2)] assms(4) map_lower_e by (auto split: option.splits)
  have e: "split_at CHR ''e'' (?m @ (case ex of None \<Rightarrow> [] | Some t \<Rightarrow> CHR ''e'' # t)) = (?m, ex)"
    using split_at_notin [OF m(1)] split_at_hit [OF m(1)] by (cases ex) simp_all
  have d: "split_at CHR ''.'' ?m = (ip, fp)"
    using digits_no_marks [OF assms(1)] by (cases fp) (simp_all add: split_at_notin split_at_hit)
  have body: "(case (if neg then ''-'' else '''') @ ?s of x # xs \<Rightarrow> (if x = CHR ''-'' \<or> x = CHR ''+'' then xs else (if neg then ''-'' else '''') @ ?s) | [] \<Rightarrow> []) = ?s"
    and sign: "(case (if neg then ''-'' else '''') @ ?s of x # _ \<Rightarrow> x = CHR ''-'' | [] \<Rightarrow> False) = neg"
    using c by (simp_all add: ip(1))
  show ?thesis
    unfolding append_assoc [symmetric, of ip] dec_literal_def Let_def body sign low e d prod.case
    using assms(1-3) by (simp split: option.splits)
qed

lemma signed_digits_int_str: "signed_digits ((if 0 \<le> k then ''+'' else '''') @ int_str k) = Some k"
  using nat_str_digits by (auto simp: signed_digits_def int_str_def digits_val_nat_str)

lemma nat_str_no_E: "CHR ''E'' \<notin> set (nat_str n)"
  using digits_no_marks [OF nat_str_digits] by blast

theorem dec_literal_decimal_str [simp]: "dec_literal (decimal_str t) = Some t"
proof -
  obtain neg c e where t: "t = (neg, c, e)" by (cases t) auto
  define ds where "ds = nat_str c"
  define left where "left = e + int (length ds)"
  define place where "place = (if e \<le> 0 \<and> - 6 < left then left else 1)"
  define ex where "ex = (if left = place then None else Some ((if 0 \<le> left - place then ''+'' else '''') @ int_str (left - place)))"
  have ds: "list_all is_digit ds" "ds \<noteq> []" "digits_val 0 ds = c"
    by (simp_all add: ds_def nat_str_digits digits_val_nat_str)
  have len: "1 \<le> length ds" using ds(2) by (cases ds) auto
  have exE: "case ex of None \<Rightarrow> True | Some t \<Rightarrow> CHR ''E'' \<notin> set t"
    using nat_str_no_E by (auto simp: ex_def int_str_def)
  have exv: "(case ex of None \<Rightarrow> Some 0 | Some t \<Rightarrow> signed_digits t) = Some (left - place)"
    using signed_digits_int_str [of "left - place"] by (simp add: ex_def)
  have str: "decimal_str t = (if neg then ''-'' else '''') @
      (if place \<le> 0 then ''0.'' @ replicate (nat (- place)) CHR ''0'' @ ds
       else if int (length ds) \<le> place then ds @ replicate (nat place - length ds) CHR ''0''
       else take (nat place) ds @ ''.'' @ drop (nat place) ds)
      @ (case ex of None \<Rightarrow> [] | Some t \<Rightarrow> CHR ''E'' # t)"
    unfolding t decimal_str_def Let_def prod.case ds_def [symmetric] left_def [symmetric] place_def [symmetric] ex_def
    by (cases "left = place") simp_all
  note parts = dec_literal_parts [OF _ _ _ exE, of _ _ neg, unfolded exv option.case(2)]
  consider (small) "place \<le> 0" | (whole) "0 < place" "int (length ds) \<le> place" | (mixed) "0 < place" "place < int (length ds)"
    by linarith
  then show ?thesis
  proof cases
    case small
    then have "left = place" by (auto simp: place_def split: if_splits)
    have zero: "is_digit CHR ''0''" "char_of (48 :: nat) = CHR ''0''" by (simp add: is_digit_def code_def) code_simp
    have "list_all is_digit (replicate (nat (- place)) CHR ''0'' @ ds)"
      using ds(1) zero by (auto simp: list_all_iff set_replicate_conv_if)
    then have "dec_literal (decimal_str t) = Some (neg, digits_val 0 (''0'' @ replicate (nat (- place)) CHR ''0'' @ ds),
        left - place - int (length (replicate (nat (- place)) CHR ''0'' @ ds)))"
      using parts [of "''0''" "Some (replicate (nat (- place)) CHR ''0'' @ ds)"] small zero by (simp add: str)
    moreover have "digits_val 0 (''0'' @ replicate (nat (- place)) CHR ''0'' @ ds) = c"
      using digits_val_zeros [of "Suc (nat (- place))" ds] ds(3) by (simp add: code_def zero(2))
    ultimately show ?thesis using small \<open>left = place\<close> by (simp add: t left_def)
  next
    case whole
    then have p: "place = int (length ds)" and "left - place = e"
      using len by (auto simp: place_def left_def split: if_splits)
    have "dec_literal (decimal_str t) = Some (neg, digits_val 0 ds, left - place)"
      using parts [of ds None] whole ds(1,2) by (simp add: str p)
    then show ?thesis using ds(3) \<open>left - place = e\<close> by (simp add: t)
  next
    case mixed
    have "list_all is_digit (take (nat place) ds)" "list_all is_digit (drop (nat place) ds)" "take (nat place) ds \<noteq> []"
      using mixed(1) ds(1,2) by (auto simp: list_all_iff dest: in_set_takeD in_set_dropD)
    then have "dec_literal (decimal_str t) = Some (neg, digits_val 0 (take (nat place) ds @ drop (nat place) ds),
        left - place - int (length (drop (nat place) ds)))"
      using parts [of "take (nat place) ds" "Some (drop (nat place) ds)"] mixed
      by (simp add: str del: append_take_drop_id)
    then show ?thesis using mixed ds(3) by (simp add: t left_def)
  qed
qed

lemma int_str_decimal: "int_str i = decimal_str (i < 0, nat \<bar>i\<bar>, 0)"
proof -
  have "length (nat_str (nat \<bar>i\<bar>)) \<noteq> 0" by simp
  then show ?thesis by (simp add: decimal_str_def Let_def int_str_def)
qed

lemma decimal_text_int_str: "decimal_text (int_str i) = Some (Finite (of_int i))"
proof -
  have "dec_literal (int_str i) = Some (i < 0, nat \<bar>i\<bar>, 0)" by (simp add: int_str_decimal)
  then have "decimal_text (int_str i) = Some (Finite (decimal_value (i < 0, nat \<bar>i\<bar>, 0)))" by (rule decimal_text_literal)
  then show ?thesis by (simp add: decimal_value_def ten_power_def)
qed

section \<open>A row through the store\<close>

text \<open>The texts a float prints as.\<close>

definition float_shape :: "string \<Rightarrow> bool" where
  "float_shape s = (dec_literal s \<noteq> None \<or> s \<in> {''inf'', ''-inf'', ''nan''})"

lemma decimal_text_special:
  "decimal_text ''inf'' = Some PosInf" "decimal_text ''-inf'' = Some NegInf" "decimal_text ''nan'' = Some NotANumber"
  "decimal_text ''Infinity'' = Some PosInf" "decimal_text ''-Infinity'' = Some NegInf" "decimal_text ''NaN'' = Some NotANumber"
  "dec_literal ''inf'' = None" "dec_literal ''-inf'' = None" "dec_literal ''nan'' = None"
  by code_simp+

lemma money_text_value:
  "decimal_text (money_text (PInt i)) = decimal_of (PInt i)"
  "float_shape s \<Longrightarrow> decimal_text (money_text (PFloat s)) = decimal_of (PFloat s)"
  by (auto simp: money_text_def decimal_of_def decimal_text_int_str float_shape_def decimal_text_special
      decimal_text_literal split: option.splits)

lemma money_row_fields_only:
  assumes "k \<in> set money_row_fields"
  shows "k \<notin> set text_fields \<and> k \<notin> set int_fields \<and> k \<notin> set bool_fields \<and> monetary_key k"
proof -
  have "list_all (\<lambda>k. k \<notin> set text_fields \<and> k \<notin> set int_fields \<and> k \<notin> set bool_fields \<and> monetary_key k) money_row_fields"
    by code_simp
  then show ?thesis using assms by (simp add: list_all_iff)
qed

lemma stored_value_money:
  assumes "k \<in> set money_row_fields" and "\<And>s. v = PFloat s \<Longrightarrow> float_shape s"
  shows "decimal_of (stored_value k v) = decimal_of v"
proof -
  note k = money_row_fields_only [OF assms(1)]
  have lit: "decimal_of (PFloat s) = decimal_text s" for s by (simp add: decimal_of_def)
  show ?thesis
    using k assms by (cases v)
      (simp_all add: stored_value_def column_value_def field_value_def lit money_text_value,
       simp_all add: decimal_of_def)
qed

lemma int_not_bool: "k \<in> set int_fields \<Longrightarrow> k \<notin> set bool_fields"
  by (auto simp: int_fields_def bool_fields_def)

lemma stored_value_other: "k \<notin> set money_row_fields \<Longrightarrow> stored_value k v = durable_literals k v"
  using int_not_bool by (cases v) (simp_all add: stored_value_def column_value_def field_value_def)

text \<open>C40: A row survives the store: the row read back has the keys of the row written and its revision;
  every field that is not monetary has its durable value, and every monetary column has exactly the
  amount that was written (infinities and NaN included).\<close>

theorem stored_row_reads_back:
  fixes row :: pydict and revision :: int and k :: string
  assumes "row_ok row"
    and "\<And>f s. f \<in> set money_row_fields \<Longrightarrow> dget row f = PFloat s \<Longrightarrow> float_shape s"
  defines "back \<equiv> decode_row (encode_columns row) (encode_extra row) revision"
  shows "if k = ''revision'' then dget back k = PInt revision
         else dhas back k = dhas row k
            \<and> (if k \<in> set money_row_fields then decimal_of (dget back k) = decimal_of (dget row k)
               else map_of back k = map_option (durable_literals k) (map_of row k))"
proof -
  note read = decode_encode [OF assms(1), of revision, folded back_def]
  have keys: "k \<noteq> ''revision'' \<Longrightarrow> dhas back k = dhas row k" by (simp add: dhas_def read)
  have other: "k \<noteq> ''revision'' \<Longrightarrow> k \<notin> set money_row_fields \<Longrightarrow> map_of back k = map_option (durable_literals k) (map_of row k)"
    by (simp add: read stored_value_other cong: map_option_cong)
  have money: "decimal_of (dget back k) = decimal_of (dget row k)" if k: "k \<in> set money_row_fields"
  proof -
    have "k \<noteq> ''revision''" using k by (auto simp: money_row_fields_def)
    then show ?thesis
      using assms(2) [OF k] stored_value_money [OF k]
      by (auto simp: dget_def read split: option.splits)
  qed
  have "dget back ''revision'' = PInt revision" by (simp add: dget_def read)
  then show ?thesis using keys other money by simp
qed

end
