(* ===== verification/Usage_Call_Props.thy ===== *)
theory Usage_Call_Props
  imports Usage_Callers Usage_Roundtrip
begin

text \<open>
  What the accounting calls promise: every reachable store is a run of the money store; a reservation and
  a send are admitted only below the limits; a real settlement is authoritative; an abandoned attempt is
  closed without a price; a provider's price is applied once.
\<close>

section \<open>Refinement of the store\<close>

text \<open>C30: Every store that the accounting calls can reach (reservations, sends, releases, unresolved
  outcomes, settlements, failed sends with their free rejections, administrative closures, price receipts,
  one-shot records, evidence, recovery and acknowledgements, in any order and with any arguments) is the
  result of a run of the money store's operations on well-shaped rows, so every property of those runs
  holds of it.\<close>

theorem accounting_refines_store:
  assumes "accounting_step\<^sup>*\<^sup>* empty_store st"
  shows "\<exists>ops. list_all op_shape ops \<and> st = run_money ops empty_store"
  using assms
proof (induction rule: rtranclp_induct)
  case base
  show ?case by (intro exI [of _ "[]"]) simp
next
  case (step st st')
  then obtain ops where ops: "list_all op_shape ops" "st = run_money ops empty_store" by blast
  have "is_op st st'"
    using step_is_op [OF step(2)] reachable_ok [OF step(1)] by (simp add: store_ok_def)
  then consider "st' = st" | op where "op_shape op" "exec_money op st = Inr st'" unfolding is_op_def by blast
  then show ?case
  proof cases
    case 1
    then show ?thesis using ops by blast
  next
    case 2
    then have "list_all op_shape (ops @ [op])" "st' = run_money (ops @ [op]) empty_store"
      using ops by (simp_all add: run_money_def money_step_def)
    then show ?thesis by blast
  qed
qed

section \<open>Admission\<close>

text \<open>The known spend of a scope is below a limit, to within half a micro-dollar.\<close>

definition spend_below :: "usage_store \<Rightarrow> pyval \<Rightarrow> string option \<Rightarrow> string option \<Rightarrow> bool" where
  "spend_below st limit owner grp \<longleftrightarrow> (\<forall>cap t. decimal_of limit = Some (Finite cap) \<and> totals st owner grp = Inr t
     \<longrightarrow> 0 < cap \<and> settled_usd t < cap - 1 / 1000000000 + 1 / 2000000)"

lemma not_exceeded:
  assumes "scope_exceeds_limit st limit owner grp = Inr False"
  shows "spend_below st limit owner grp"
  unfolding spend_below_def
proof (intro allI impI)
  fix cap t
  assume a: "decimal_of limit = Some (Finite cap) \<and> totals st owner grp = Inr t"
  then have e: "exceeds_limit t limit = Inr False" using assms by (simp add: scope_exceeds_limit_def)
  have pos: "0 < cap"
    using e a by (auto simp: exceeds_limit_def sbind_Inr_iff Let_def split: if_splits)
  obtain known where k: "quantize (settled_usd t) = Inr known" using e by (rule exceeds_limit_rounded)
  have "known < cap - 1 / 1000000000"
    using exceeds_limit_finite [OF e _ pos k] a by simp
  then show "0 < cap \<and> settled_usd t < cap - 1 / 1000000000 + 1 / 2000000"
    using pos quantize_bound [OF k] by linarith
qed

lemma group_admitted:
  assumes "raise_group_refusal st s = Inr ()" and "scope_group s = Inr (grp, limit)"
  shows "\<not> stand_in_group grp \<and> (grp \<noteq> '''' \<longrightarrow> spend_below st limit None (Some grp))"
proof -
  have none: "spend_below st PNone None (Some grp)" by (simp add: spend_below_def decimal_of_def)
  show ?thesis
    using assms none
    by (auto simp: raise_group_refusal_def Let_def guard_that_def sbind_Inr_iff intro: not_exceeded split: if_splits)
qed

lemma root_admitted:
  assumes "root_admission st s = Inr ()" and "truthy (sc_root_task_id s)" and "limit_value (sc_root_limit_usd s) = Inr l"
  shows "spend_below st l (axis_key (sc_root_task_id s)) None"
proof -
  have "sc_root_limit_usd s \<noteq> PNone"
    using assms(3) by (auto simp: limit_value_def number_of_def float_of_def in_store_def lift_exc_def)
  then show ?thesis
    using assms by (auto simp: root_admission_def guard_that_def sbind_Inr_iff intro!: not_exceeded split: if_splits)
qed

lemma check_axis_below: "check_axis st axis s limit owner = Inr () \<Longrightarrow> spend_below st limit owner None"
  by (auto simp: check_axis_def guard_that_def sbind_Inr_iff spend_below_def [of _ PNone] decimal_of_def [of PNone]
      intro: not_exceeded split: if_splits)

lemma money_keys: "monetary_key ''global_limit_usd''" "monetary_key ''cost_usd''" "monetary_key ''root_limit_usd''"
  by code_simp+

section \<open>The row a call has written\<close>

text \<open>A stored field is the durable value of the field written.\<close>

definition written_field :: "pydict \<Rightarrow> string \<Rightarrow> pyval" where
  "written_field row k = stored_value k (durable_literals k (dget row k))"

lemma written_field_text: "text_or_none row k \<Longrightarrow> k \<in> set text_fields \<Longrightarrow> written_field row k = dget row k"
  by (cases "dget row k") (auto simp: written_field_def text_or_none_def stored_value_PStr stored_value_PNone)

lemma new_row_written:
  assumes "row_shape i row" and "write_row now row None st = Inr (stored, st')"
  shows "attempt st i = None" and "attempt st' i = Some stored"
    and "\<And>k. k \<notin> set stamped_keys \<Longrightarrow> dget stored k = written_field row k"
proof -
  show "attempt st' i = Some stored" using assms(2,1) by (rule written_attempt)
  show "attempt st i = None"
    using assms by (rule new_write_elim) (simp add: attempt_def find_attempt_def find_None_iff)
  show "dget stored k = written_field row k" if "k \<notin> set stamped_keys" for k
    using assms
  proof (rule new_write_elim)
    fix m a
    assume m: "m = stamp_root_cause st (materialize now (snd (us_marker st) + 1) row)" "written_from m a" "stored = attempt_row a"
    have "k \<noteq> ''revision''" using that by (auto simp: stamped_keys_def)
    then show ?thesis
      using written_from_dget [OF m(2)] m(1,3) that by (simp add: written_field_def materialized_dget)
  qed
qed

text \<open>A next row was lawful after the current one.\<close>

lemma next_row_written:
  assumes "store_ok st" and "attempt st i = Some current" and "row_shape i row"
    and "write_row now row (Some current) st = Inr (stored, st')"
  obtains m where "row_shape i m" and "validate_row_fields m (snd (us_marker st) + 1) = Inr ()"
    and "validate_transition m (Some current) = Inr ()" and "attempt st' i = Some stored"
    and "\<And>k. k \<notin> set stamped_keys \<Longrightarrow> dget m k = durable_literals k (dget row k)"
    and "\<And>k. k \<notin> set stamped_keys \<Longrightarrow> dget stored k = written_field row k"
proof -
  obtain old where old: "find_attempt st i = Some old" "current = attempt_row old"
    using assms(2) by (auto simp: attempt_def)
  have ok: "money_ok st" using assms(1) by (simp add: store_ok_def)
  show thesis
    using ok assms(3) old(1) assms(4) [unfolded old(2)]
  proof (rule next_write_elim)
    fix m new
    assume m: "row_shape i m" "validate_row_fields m (snd (us_marker st) + 1) = Inr ()"
      "m = stamp_root_cause st (materialize now (snd (us_marker st) + 1) row)"
      "validate_transition m (Some (attempt_row old)) = Inr ()" "written_from m new" "stored = attempt_row new"
    have w: "dget stored k = written_field row k" if "k \<notin> set stamped_keys" for k
    proof -
      have "k \<noteq> ''revision''" using that by (auto simp: stamped_keys_def)
      then show ?thesis using written_from_dget [OF m(5)] m(3,6) that by (simp add: written_field_def materialized_dget)
    qed
    show thesis
      by (rule that [OF m(1,2) m(4) [folded old(2)] written_attempt [OF assms(4,3)] _ w])
         (simp_all add: m(3) materialized_dget)
  qed
qed

lemma keys_not_stamped:
  "''state'' \<notin> set stamped_keys" "''kind'' \<notin> set stamped_keys" "''cost_final'' \<notin> set stamped_keys"
  "''cost_usd'' \<notin> set stamped_keys" "''settle_reason'' \<notin> set stamped_keys" "''global_limit_usd'' \<notin> set stamped_keys"
  "''provider_price_receipt'' \<notin> set stamped_keys"
  by (simp_all add: stamped_keys_def)

lemma written_state: "row_shape i row \<Longrightarrow> written_field row ''state'' = dget row ''state''"
  by (rule written_field_text) (simp_all add: row_shape_def text_fields_def)

lemma written_kind: "row_shape i row \<Longrightarrow> written_field row ''kind'' = dget row ''kind''"
  by (rule written_field_text) (simp_all add: row_shape_def text_fields_def)

text \<open>C25: A reservation that succeeds was admitted: no fence refused its scope, and the known spend of
  the whole store, of its root and of its billing group was below the limits that applied; its attempt is
  new, and its row is reserved and records the global limit it was checked against.\<close>

theorem reservation_is_admitted:
  assumes "accounting_step\<^sup>*\<^sup>* empty_store st" and "reserve_attempt env request st = Inr (rs, st')"
  defines "s \<equiv> rs_scope rs"
  shows "attempt st (rs_attempt_id rs) = None
    \<and> (\<exists>row. attempt st' (rs_attempt_id rs) = Some row \<and> dget row ''state'' = PStr ''reserved''
         \<and> spend_below st (dget row ''global_limit_usd'') None None)
    \<and> (\<forall>l. truthy (sc_root_task_id s) \<and> limit_value (sc_root_limit_usd s) = Inr l
         \<longrightarrow> spend_below st l (axis_key (sc_root_task_id s)) None)
    \<and> (\<forall>grp l. scope_group s = Inr (grp, l) \<longrightarrow> \<not> stand_in_group grp \<and> (grp \<noteq> '''' \<longrightarrow> spend_below st l None (Some grp)))
    \<and> en_fence env s = None"
proof -
  have o: "opened st" using reachable_ok [OF assms(1)] by (simp add: store_ok_def)
  show ?thesis
    using assms(2) o
  proof (rule reserve_attempt_elim)
    fix r bound s' gl grp grl stored
    let ?row = "reserved_row (en_attempt_id env) r s' bound gl grp grl"
    assume fence: "check_fences env s' = Inr ()" and adm: "admission_checks st s' gl = Inr ()"
      and grp: "scope_group s' = Inr (grp, grl)" and w: "write_row (en_now env) ?row None st = Inr (stored, st')"
      and rs: "rs_attempt_id rs = en_attempt_id env" "rs_scope rs = s'"
    have checks: "scope_exceeds_limit st gl None None = Inr False" "root_admission st s = Inr ()" "raise_group_refusal st s = Inr ()"
      using adm by (auto simp: admission_checks_def guard_that_def sbind_Inr_iff s_def rs split: if_splits)
    note written = new_row_written [OF reserved_row_shape w]
    have state: "dget stored ''state'' = PStr ''reserved''"
      using written(3) [OF keys_not_stamped(1)] written_state [OF reserved_row_shape]
      by (simp add: reserved_row_def dget_def)
    have "dget ?row ''global_limit_usd'' = (if gl = PFloat ''inf'' then PNone else gl)"
      by (simp add: reserved_row_def dget_def)
    then have "dget stored ''global_limit_usd'' = durable_literals ''global_limit_usd'' (durable_literals ''global_limit_usd''
        (if gl = PFloat ''inf'' then PNone else gl))"
      using written(3) [OF keys_not_stamped(6)]
      by (simp add: written_field_def stored_value_other money_row_fields_def)
    moreover have "decimal_of PNone = None" by (simp add: decimal_of_def)
    ultimately have "decimal_of (dget stored ''global_limit_usd'') = (if gl = PFloat ''inf'' then None else decimal_of gl)"
      by (simp add: money_keys)
    then have glob: "spend_below st (dget stored ''global_limit_usd'') None None"
      using not_exceeded [OF checks(1)] by (simp add: spend_below_def)
    have "en_fence env s = None" using fence by (simp add: check_fences_def s_def rs split: option.splits)
    then show ?thesis
      using written(1,2) state glob root_admitted [OF checks(2)] group_admitted [OF checks(3)] by (auto simp: rs)
  qed
qed

section \<open>Sends\<close>

lemma decide_dispatch:
  assumes "tc_state c = ''dispatched''" and "tc_abandon_reason c = ''''" and "tc_expected_seq c = None"
    and "tc_expected_revision c = None"
  shows "decide_transition i c current = Inr (Moves ''dispatched'' (tc_fields c))"
  using assms by (simp add: decide_transition_def superseded_def abandon_step_def settle_step_def Let_def)

lemma dispatch_transition_elim:
  assumes "transition_once env rs (plain_call ''dispatched'' f) st = Inr (row, st')" and "opened st"
  obtains current where "attempt st (rs_attempt_id rs) = Some current" and "en_fence env (rs_scope rs) = None"
    and "dispatch_checks env current st = Inr ()" and "launch_checks env (row_scope (en_drive_root env) current) = Inr ()"
    and "write_row (en_now env) (next_row ''dispatched'' current (facts_for ''dispatched'' current f)) (Some current) st = Inr (row, st')"
proof -
  define c where "c = plain_call ''dispatched'' f"
  have c: "tc_state c = ''dispatched''" "tc_abandon_reason c = ''''" "tc_expected_seq c = None" "tc_expected_revision c = None"
      "tc_fields c = f"
    by (simp_all add: c_def plain_call_def)
  have d: "decide_transition i c current = Inr (Moves ''dispatched'' f)" for i current
    using decide_dispatch [OF c(1-4)] c(5) by simp
  have t: "transition_once env rs c st = Inr (row, st')" using assms(1) by (simp add: c_def)
  then have fence: "en_fence env (rs_scope rs) = None"
    by (auto simp: transition_once_def c(1) check_fences_def Let_def sbind_Inr_iff split: option.splits)
  from t assms(2) show thesis
  proof (cases rule: transition_once_elim)
    case unknown
    then show thesis using c(2) by simp
  next
    case stands
    then show thesis by (simp add: d)
  next
    case (moves current state facts)
    then have "state = ''dispatched''" "facts = f" by (simp_all add: d)
    then show thesis using that [OF moves(1) fence] moves(3-5) by blast
  qed
qed

lemma dispatch_checks_elim:
  assumes "dispatch_checks env current st = Inr ()" and "s = row_scope (en_drive_root env) current"
  obtains asked gl where "en_member_fence env s = None" and "en_fence env s = None"
    and "dispatch_limit current = Inr asked" and "global_limit_of (en_configured_budget env) asked = Inr gl"
    and "check_axis st ''global'' s gl None = Inr ()"
    and "check_axis st ''root'' s (sc_root_limit_usd s) (axis_key (sc_root_task_id s)) = Inr ()"
    and "raise_group_refusal st s = Inr ()"
  using assms(1) unfolding dispatch_checks_def Let_def assms(2) [symmetric] check_fences_def
  by (auto simp: sbind_Inr_iff split: option.splits)

lemma transition_to_dispatched:
  assumes "validate_transition m (Some p) = Inr ()" and "sor (dget m ''state'') = ''dispatched''"
  shows "sor (dget p ''state'') = ''reserved''"
  using assms
  by (auto simp: validate_transition_def Let_def sbind_Inr_iff terminal_states_def late_receipt_def split: if_splits)

text \<open>No fence, owner pause or launch refusal stands against the row's scope, and the known spend is below
  the global limit that applies, the root limit and the group limit.\<close>

definition send_admitted :: "attempt_env \<Rightarrow> usage_store \<Rightarrow> pydict \<Rightarrow> usage_scope \<Rightarrow> bool" where
  "send_admitted env st current s \<longleftrightarrow>
     en_fence env s = None \<and> en_member_fence env s = None \<and> en_launch env s = None
   \<and> (\<forall>asked gl. dispatch_limit current = Inr asked \<and> global_limit_of (en_configured_budget env) asked = Inr gl
        \<longrightarrow> spend_below st gl None None)
   \<and> spend_below st (sc_root_limit_usd s) (axis_key (sc_root_task_id s)) None
   \<and> (\<forall>grp l. scope_group s = Inr (grp, l) \<longrightarrow> \<not> stand_in_group grp \<and> (grp \<noteq> '''' \<longrightarrow> spend_below st l None (Some grp)))"

text \<open>C26: A send that is marked dispatched was admitted again: the attempt was reserved and is now
  dispatched, the actor had room, no fence, owner pause or launch refusal stood against it, and at that
  moment the known spend was still below the global limit, the root limit and the group limit of the row.\<close>

theorem dispatch_is_admitted:
  assumes "accounting_step\<^sup>*\<^sup>* empty_store st"
    and "mark_dispatched env rs room ref pid consumer st = (Inr (), st')"
    and "fst ` set consumer \<subseteq> set consumer_keys"
  shows "room \<and> en_fence env (rs_scope rs) = None
    \<and> (\<exists>current row. attempt st (rs_attempt_id rs) = Some current \<and> dget current ''state'' = PStr ''reserved''
        \<and> attempt st' (rs_attempt_id rs) = Some row \<and> dget row ''state'' = PStr ''dispatched''
        \<and> send_admitted env st current (row_scope (en_drive_root env) current))"
proof -
  have ok: "store_ok st" using assms(1) by (rule reachable_ok)
  then have o: "opened st" by (simp add: store_ok_def)
  let ?i = "rs_attempt_id rs"
  define f where "f = [(''launch_state'', PStr ''claimed''), (''transport_outcome'', PStr ''unknown'')] @ manifest_field ref
              @ (if pid \<noteq> 0 then [(''local_answer_owner_pid'', PInt pid)] @ consumer else [])"
  have room: room using assms(2) by (auto simp: mark_dispatched_def split: if_splits)
  then obtain row where t: "transition_once env rs (plain_call ''dispatched'' f) st = Inr (row, st')"
    using assms(2) unfolding mark_dispatched_def f_def [symmetric] by (auto split: sum.splits if_splits)
  obtain current where cur: "attempt st ?i = Some current" and fence: "en_fence env (rs_scope rs) = None"
      and checks: "dispatch_checks env current st = Inr ()"
        "launch_checks env (row_scope (en_drive_root env) current) = Inr ()"
      and w: "write_row (en_now env) (next_row ''dispatched'' current (facts_for ''dispatched'' current f)) (Some current) st = Inr (row, st')"
    using t o by (rule dispatch_transition_elim)
  have "plain_facts f" unfolding f_def by (rule dispatch_facts_plain [OF assms(3)])
  then have "plain_facts (facts_for ''dispatched'' current f)"
    using effective_plain plain_facts_merge by (simp add: facts_for_def)
  moreover have "row_shape ?i current" using ok cur by (intro attempt_shape) (simp_all add: store_ok_def)
  ultimately have shape: "row_shape ?i (next_row ''dispatched'' current (facts_for ''dispatched'' current f))"
    and st: "dget (next_row ''dispatched'' current (facts_for ''dispatched'' current f)) ''state'' = PStr ''dispatched''"
    using next_row_shape by blast+
  obtain m where m: "validate_transition m (Some current) = Inr ()" "attempt st' ?i = Some row"
      "dget m ''state'' = durable_literals ''state'' (PStr ''dispatched'')" "dget row ''state'' = PStr ''dispatched''"
    using ok cur shape w
    by (rule next_row_written) (use st written_state [OF shape] keys_not_stamped(1) in auto)
  have "sor (dget current ''state'') = ''reserved''"
    by (rule transition_to_dispatched [OF m(1)]) (simp add: m(3))
  moreover have "text_or_none current ''state''"
    using \<open>row_shape ?i current\<close> by (simp add: row_shape_def)
  ultimately have prior: "dget current ''state'' = PStr ''reserved''"
    by (cases "dget current ''state''") (auto simp: text_or_none_def)
  define s where "s = row_scope (en_drive_root env) current"
  have "en_launch env s = None" using checks(2) by (simp add: launch_checks_def s_def split: option.splits launch_refusal.splits)
  moreover obtain asked gl where g: "en_member_fence env s = None" "en_fence env s = None"
      "dispatch_limit current = Inr asked" "global_limit_of (en_configured_budget env) asked = Inr gl"
      "check_axis st ''global'' s gl None = Inr ()"
      "check_axis st ''root'' s (sc_root_limit_usd s) (axis_key (sc_root_task_id s)) = Inr ()"
      "raise_group_refusal st s = Inr ()"
    using checks(1) s_def by (rule dispatch_checks_elim)
  ultimately have "send_admitted env st current s"
    using check_axis_below [OF g(5)] check_axis_below [OF g(6)] group_admitted [OF g(7)]
    by (simp add: send_admitted_def)
  then show ?thesis using room fence cur prior m(2,4) unfolding s_def by blast
qed

section \<open>Settlements\<close>

lemma settled_refuses:
  assumes "validate_transition m (Some p) = Inr ()" and "dget p ''state'' = PStr ''settled''"
    and "\<not> is_abandoned_settlement p"
  shows "sor (dget m ''state'') = ''settled''"
  using assms
  by (auto simp: validate_transition_def Let_def sbind_Inr_iff late_receipt_eligible_def split: if_splits)

lemma settled_decision:
  assumes "decide_transition i c current = Inr (Moves state facts)" and "dget current ''state'' = PStr ''settled''"
    and "\<not> is_abandoned_settlement current"
  shows "state \<noteq> ''settled''"
  using assms
  by (auto simp: decide_transition_def abandon_step_def settle_step_def Let_def split: if_splits decision.splits)

lemma settled_stands:
  assumes ok: "store_ok st" and cur: "attempt st (rs_attempt_id rs) = Some row"
    and s: "dget row ''state'' = PStr ''settled''" "\<not> is_abandoned_settlement row" and p: "plain_facts (tc_fields c)"
    and t: "transition_once env rs c st = Inr (answer, st')"
  shows "answer = row \<and> st' = st"
proof -
  have o: "opened st" using ok by (simp add: store_ok_def)
  from t o show ?thesis
  proof (cases rule: transition_once_elim)
    case (moves current state facts)
    then have cr: "current = row" using cur by simp
    have ns: "state \<noteq> ''settled''" by (rule settled_decision [OF moves(2)]) (simp_all add: cr s)
    let ?next = "next_row state current (facts_for state current facts)"
    have "plain_facts (facts_for state current facts)"
      using decide_transition_plain [OF moves(2) p] effective_plain plain_facts_merge by (simp add: facts_for_def)
    then have shape: "row_shape (rs_attempt_id rs) ?next" and st: "dget ?next ''state'' = PStr state"
      using next_row_shape attempt_shape [OF _ moves(1)] ok by (simp_all add: store_ok_def)
    have False
      using ok moves(1) shape moves(5)
    proof (rule next_row_written)
      fix m
      assume v: "validate_transition m (Some current) = Inr ()"
        and m: "\<And>k. k \<notin> set stamped_keys \<Longrightarrow> dget m k = durable_literals k (dget ?next k)"
      have "sor (dget m ''state'') = ''settled''"
        by (rule settled_refuses [OF v]) (simp_all add: cr s)
      then show False using m [OF keys_not_stamped(1)] st ns by simp
    qed
    then show ?thesis ..
  qed (use cur in simp_all)
qed

text \<open>C27: A real settlement is authoritative: whatever transition a caller asks for afterwards (a late
  release, a closure by the owner, another settlement, a new send), the call answers the settled row and
  leaves the store as it is, or raises; and a settlement with different facts is refused as a conflict.\<close>

theorem settlement_is_authoritative:
  assumes "accounting_step\<^sup>*\<^sup>* empty_store st" and "attempt st (rs_attempt_id rs) = Some row"
    and "dget row ''state'' = PStr ''settled''" and "\<not> is_abandoned_settlement row" and "plain_facts (tc_fields c)"
  shows "(\<forall>answer st'. transition_once env rs c st = Inr (answer, st') \<longrightarrow> answer = row \<and> st' = st)
    \<and> (tc_state c = ''settled'' \<and> tc_abandon_reason c = '''' \<and> \<not> superseded c row
        \<longrightarrow> transition_once env rs c st =
            (if list_all (\<lambda>(k, v). py_eq (dget row k) v) (tc_fields c) then Inr (row, st)
             else Inl (StoreError (UsageAccountingError (''conflicting usage settlement: '' @ rs_attempt_id rs)))))"
proof (intro conjI impI allI)
  have ok: "store_ok st" using assms(1) by (rule reachable_ok)
  show "answer = row" if "transition_once env rs c st = Inr (answer, st')" for answer st'
    using settled_stands [OF ok assms(2-5) that] ..
  show "st' = st" if "transition_once env rs c st = Inr (answer, st')" for answer st'
    using settled_stands [OF ok assms(2-5) that] ..
  have o: "opened st" using ok by (simp add: store_ok_def)
  assume c: "tc_state c = ''settled'' \<and> tc_abandon_reason c = '''' \<and> \<not> superseded c row"
  then have "decide_transition (rs_attempt_id rs) c row =
      (if list_all (\<lambda>(k, v). py_eq (dget row k) v) (tc_fields c) then Inr Stands
       else Inl (StoreError (UsageAccountingError (''conflicting usage settlement: '' @ rs_attempt_id rs))))"
    using assms(3,4) by (simp add: decide_transition_def abandon_step_def settle_step_def Let_def)
  then show "transition_once env rs c st =
            (if list_all (\<lambda>(k, v). py_eq (dget row k) v) (tc_fields c) then Inr (row, st)
             else Inl (StoreError (UsageAccountingError (''conflicting usage settlement: '' @ rs_attempt_id rs))))"
    using c by (simp add: transition_once_def opened_txn [OF o] assms(2))
qed

section \<open>Administrative closure\<close>

lemma superseded_closing: "superseded (closing_call reason facts n m) = superseded (closing_call [] [] n m)"
  by (simp add: superseded_def closing_call_def fun_eq_iff)

lemma closing_decision:
  assumes "decide_transition i (closing_call reason facts n r) current = Inr d"
    and fresh: "\<not> superseded (closing_call reason facts n r) current"
  shows "(dget current ''state'' \<in> {PStr ''released'', PStr ''settled''} \<and> d = Stands)
    \<or> (dget current ''state'' = PStr ''reserved'' \<and> (\<exists>f. d = Moves ''released'' f))
    \<or> (dget current ''state'' \<noteq> PStr ''reserved'' \<and> (\<exists>f. d = Moves ''settled'' f
          \<and> (distinct (map fst facts) \<and> dget facts ''settle_reason'' = PStr ''abandoned''
              \<longrightarrow> distinct (map fst f) \<and> dget f ''settle_reason'' = PStr ''abandoned'')))"
proof -
  let ?v = "dget current ''state''" and ?a = "is_abandoned_settlement current" and ?c = "closing_call reason facts n r"
  define f where "f = (let g = dset ''reason'' (PStr (tc_abandon_reason ?c)) facts in
      if truthy (dget current ''reason'') \<and> \<not> truthy (dget current ''unresolved_reason'')
      then dset ''unresolved_reason'' (dget current ''reason'') g else g)"
  have f: "dget f ''settle_reason'' = dget facts ''settle_reason''" "distinct (map fst facts) \<Longrightarrow> distinct (map fst f)"
    by (simp_all add: f_def Let_def)
  have c: "tc_state ?c = ''settled''" "tc_abandon_reason ?c \<noteq> ''''" "tc_fields ?c = facts" "\<not> superseded ?c current"
    using fresh by (simp_all add: closing_call_def)
  have a: "?a \<Longrightarrow> ?v = PStr ''settled''" by (simp add: is_abandoned_settlement_def)
  have d: "(case abandon_step ?c current of Stands \<Rightarrow> Inr Stands
      | Moves state g \<Rightarrow> settle_step i (tc_allow_release ?c) current state g) = Inr d"
    using assms by (simp add: decide_transition_def c(1,4))
  have step: "abandon_step ?c current =
     (if ?v = PStr ''released'' \<or> (?v = PStr ''settled'' \<and> \<not> ?a) then Stands
      else if ?v = PStr ''reserved'' then Moves ''released'' [(''reason'', PStr (tc_abandon_reason ?c))]
      else if ?a \<and> dget facts ''settle_reason'' = PStr ''abandoned'' then Stands else Moves ''settled'' f)"
    using c(2) by (simp add: abandon_step_def Let_def c(1,3) f_def)
  consider (stands) "?v = PStr ''released'' \<or> (?v = PStr ''settled'' \<and> \<not> ?a)" | (reserved) "?v = PStr ''reserved''"
    | (closed) "?a" "dget facts ''settle_reason'' = PStr ''abandoned''"
    | (moves) "?v \<noteq> PStr ''released''" "?v \<noteq> PStr ''reserved''" "\<not> (?v = PStr ''settled'' \<and> \<not> ?a)"
        "\<not> (?a \<and> dget facts ''settle_reason'' = PStr ''abandoned'')"
    by blast
  then show ?thesis
  proof cases
    case stands
    then show ?thesis using d by (simp add: step) blast
  next
    case reserved
    then show ?thesis using d a by (auto simp: step settle_step_def Let_def)
  next
    case closed
    then show ?thesis using d a by (simp add: step)
  next
    case moves
    then have "abandon_step ?c current = Moves ''settled'' f" unfolding step by auto
    then have "settle_step i (tc_allow_release ?c) current ''settled'' f = Inr d" using d by simp
    then have "\<exists>g. d = Moves ''settled'' g \<and> (g = f \<or> dget f ''settle_reason'' \<noteq> PStr ''abandoned'')"
      using moves(3) by (auto simp: settle_step_def Let_def split: if_splits)
    then show ?thesis using moves(2) f by auto
  qed
qed

lemma closed_reason:
  assumes "distinct (map fst f)" and "dget f ''settle_reason'' = PStr ''abandoned''"
  shows "dget (next_row ''settled'' current (facts_for ''settled'' current f)) ''settle_reason'' = PStr ''abandoned''"
proof -
  have "distinct (map fst (kept_effort ''settled'' current f))"
    using assms(1) by (simp add: kept_effort_def split: pyval.splits)
  moreover have "dget (kept_effort ''settled'' current f) ''settle_reason'' = PStr ''abandoned''"
    using assms(2) by (simp add: kept_effort_def split: pyval.splits)
  moreover from this have "dhas (kept_effort ''settled'' current f) ''settle_reason''"
    by (auto simp: dget_def dhas_def split: option.splits)
  ultimately show ?thesis by (simp add: next_row_def facts_for_def dget_dmerge_distinct)
qed

text \<open>The row of a transition that moves.\<close>

lemma moved_row:
  assumes ok: "store_ok st" and cur: "attempt st i = Some current" and f: "plain_facts facts"
    and w: "write_row now (next_row state current (facts_for state current facts)) (Some current) st = Inr (row, st')"
  shows "attempt st' i = Some row" and "dget row ''state'' = PStr state"
    and "\<lbrakk>dget (next_row state current (facts_for state current facts)) ''settle_reason'' = PStr ''abandoned''\<rbrakk>
         \<Longrightarrow> is_abandoned_settlement row"
proof -
  let ?next = "next_row state current (facts_for state current facts)"
  have "plain_facts (facts_for state current facts)"
    using f effective_plain plain_facts_merge by (simp add: facts_for_def)
  then have shape: "row_shape i ?next" and st: "dget ?next ''state'' = PStr state"
    using next_row_shape attempt_shape [OF _ cur] ok by (simp_all add: store_ok_def)
  obtain m where m: "row_shape i m" "validate_row_fields m (snd (us_marker st) + 1) = Inr ()" "attempt st' i = Some row"
      "\<And>k. k \<notin> set stamped_keys \<Longrightarrow> dget m k = durable_literals k (dget ?next k)"
      "\<And>k. k \<notin> set stamped_keys \<Longrightarrow> dget row k = written_field ?next k"
    using ok cur shape w by (rule next_row_written) blast
  show "attempt st' i = Some row" by (rule m(3))
  show state: "dget row ''state'' = PStr state" using m(5) [OF keys_not_stamped(1)] written_state [OF shape] st by simp
  assume reason: "dget ?next ''settle_reason'' = PStr ''abandoned''"
  have "is_abandoned_settlement m"
    using m(2) m(4) [OF keys_not_stamped(5)] reason by (simp add: validate_row_fields_def sbind_Inr_iff guard_that_def split: if_splits)
  moreover have k: "dget row k = stored_value k (dget m k)" if "k \<notin> set stamped_keys" for k
    using m(4,5) [OF that] by (simp add: written_field_def)
  moreover have "dget row ''kind'' = dget m ''kind''"
    using k [OF keys_not_stamped(2)] m(1) stored_value_text_or_none by (simp add: row_shape_def text_fields_def)
  then have "row_kind row = row_kind m" by (simp add: row_kind_def)
  moreover have "dget m ''state'' = PStr state" using m(4) [OF keys_not_stamped(1)] st by simp
  ultimately show "is_abandoned_settlement row"
    using state k [OF keys_not_stamped(3)] k [OF keys_not_stamped(4)] k [OF keys_not_stamped(5)]
    by (simp add: is_abandoned_settlement_def)
qed

text \<open>C28: An owner's closure closes what it has seen.  When it succeeds and names no sequence number or
  revision other than the attempt's current one, the attempt is unknown, or it was already settled or
  released, or a reservation is released and everything else is settled: no send stays open, and an attempt
  closed without measured tokens is settled administratively, without a price.  When the row has moved past
  the sequence number or the revision that the caller saw, the closure leaves the store as it is and answers
  the state of the row that won.\<close>

theorem closure_closes_attempt:
  assumes "accounting_step\<^sup>*\<^sup>* empty_store st"
    and "terminalize_abandoned_attempt estimate env rs reason usage expected_seq expected_revision st = Inr (outcome, st')"
  shows "case attempt st (rs_attempt_id rs) of
      None \<Rightarrow> outcome = ''unknown'' \<and> st' = st
    | Some current \<Rightarrow>
        if superseded (closing_call reason [] expected_seq expected_revision) current
        then outcome = py_str (dget current ''state'') \<and> st' = st
        else \<exists>row. attempt st' (rs_attempt_id rs) = Some row \<and> dget row ''state'' = PStr outcome
        \<and> outcome \<in> {''released'', ''settled''}
        \<and> (dget current ''state'' = PStr ''reserved'' \<longrightarrow> outcome = ''released'')
        \<and> (dget current ''state'' \<in> {PStr ''dispatched'', PStr ''unresolved''} \<longrightarrow> outcome = ''settled'')
        \<and> (dget current ''state'' \<in> {PStr ''dispatched'', PStr ''unresolved''} \<and> \<not> measured usage
             \<longrightarrow> is_abandoned_settlement row)
        \<and> (dget current ''state'' = PStr ''settled'' \<and> \<not> is_abandoned_settlement current \<longrightarrow> row = current \<and> st' = st)"
proof -
  have ok: "store_ok st" using assms(1) by (rule reachable_ok)
  then have o: "opened st" by (simp add: store_ok_def)
  let ?i = "rs_attempt_id rs"
  obtain facts row where t: "transition_once env rs (closing_call reason facts expected_seq expected_revision) st = Inr (row, st')"
    and p: "plain_facts facts" and out: "outcome = py_str (dget row ''state'')"
    and facts: "\<not> measured usage \<longrightarrow> facts = [(''cost_usd'', PNone), (''cost_final'', PBool False), (''settle_reason'', PStr ''abandoned'')]"
    using assms(2) by (rule abandoned_elim) blast
  let ?stale = "superseded (closing_call reason [] expected_seq expected_revision)"
  have stale: "superseded (closing_call reason facts expected_seq expected_revision) = ?stale"
    unfolding superseded_closing [of reason facts] superseded_closing [of reason "[]"] ..
  from t o show ?thesis
  proof (cases rule: transition_once_elim)
    case unknown
    then show ?thesis by (simp add: out)
  next
    case stands
    then have "\<not> ?stale row \<longrightarrow> dget row ''state'' \<in> {PStr ''released'', PStr ''settled''}"
      using closing_decision unfolding stale [symmetric] by blast
    then show ?thesis using stands by (auto simp: out)
  next
    case (moves current state f)
    have pf: "plain_facts f" using decide_transition_plain [OF moves(2)] p by (simp add: closing_call_def)
    note row = moved_row [OF ok moves(1) pf moves(5)]
    have fresh: "\<not> superseded (closing_call reason facts expected_seq expected_revision) current"
      using moves(2) by (auto simp: decide_transition_def)
    have dec: "(dget current ''state'' = PStr ''reserved'' \<and> state = ''released'')
        \<or> (dget current ''state'' \<noteq> PStr ''reserved'' \<and> state = ''settled''
            \<and> (distinct (map fst facts) \<and> dget facts ''settle_reason'' = PStr ''abandoned''
               \<longrightarrow> distinct (map fst f) \<and> dget f ''settle_reason'' = PStr ''abandoned''))"
      using closing_decision [OF moves(2) fresh] by auto
    have "is_abandoned_settlement row" if "dget current ''state'' \<noteq> PStr ''reserved''" "\<not> measured usage"
    proof -
      have "distinct (map fst facts) \<and> dget facts ''settle_reason'' = PStr ''abandoned''"
        using facts that(2) by (simp add: dget_def)
      then have "state = ''settled''" "distinct (map fst f)" "dget f ''settle_reason'' = PStr ''abandoned''"
        using dec that(1) by blast+
      then show ?thesis using row(3) closed_reason by blast
    qed
    moreover have "row = current \<and> st' = st" if "dget current ''state'' = PStr ''settled''" "\<not> is_abandoned_settlement current"
      using settled_stands [OF ok moves(1) that _ t] p by (simp add: closing_call_def)
    moreover have "outcome = state" using row(2) by (simp add: out)
    ultimately show ?thesis using moves(1) row(1,2) dec fresh unfolding stale by auto
  qed
qed

end
