(* ===== verification/Usage_Prices.thy ===== *)
theory Usage_Prices
  imports Usage_Call_Props
begin

text \<open>
  The provider's price receipt: a price that a receipt has brought is stored exactly, stays, and answers
  every later receipt as a duplicate or a conflict.
\<close>

section \<open>A printed float is a literal\<close>

lemma int_digits_digits: "list_all is_digit (int_digits n)"
proof (induction n rule: int_digits.induct)
  case (1 n)
  have d: "is_digit (digit_char (nat k))" if "k < 10" for k
    using that by (simp add: is_digit_def code_digit_char)
  then show ?case using 1 by (subst int_digits.simps) auto
qed

lemma float_repr_positive_plain: "list_all plain_char (float_repr_positive v) \<and> float_repr_positive v \<noteq> ''''"
proof -
  obtain m e where me: "shortest_digits v 17 0 = (m, e)" by fastforce
  have d: "list_all plain_char (int_digits (strip_zeros m))" "list_all plain_char (nat_str k)" for k
    using int_digits_digits nat_str_digits by (auto simp: list_all_iff)
  have z: "plain_char CHR ''0''" "plain_char CHR ''.''" "plain_char CHR ''e''" "plain_char CHR ''+''" "plain_char CHR ''-''"
    "char_of (48 :: nat) = CHR ''0''"
    by code_simp+
  have t: "list_all plain_char (take k xs)" "list_all plain_char (drop k xs)" if "list_all plain_char xs" for k xs
    using that by (auto simp: list_all_iff dest: in_set_takeD in_set_dropD)
  have r: "list_all plain_char (replicate k CHR ''0'')" for k using z(1) by (induction k) auto
  have n: "int_digits (strip_zeros m) \<noteq> []" by (subst int_digits.simps) auto
  show ?thesis
    unfolding float_repr_positive_def me prod.case Let_def
    by (simp add: z(1-5) d t r n zpad_def z(6))
qed

lemma finite_text_literal:
  "list_all plain_char s \<Longrightarrow> s \<noteq> '''' \<Longrightarrow> decimal_text s = Some (Finite x) \<Longrightarrow> dec_literal s \<noteq> None"
  by (auto simp: decimal_text_def decimal_digits_plain split: option.splits if_splits)

lemma float_repr_literal:
  assumes "dec_literal s = Some t" and "decimal_text (float_repr s) = Some (Finite x)"
  shows "dec_literal (float_repr s) \<noteq> None"
proof -
  have m: "plain_char CHR ''-''" by code_simp
  have z: "dec_literal ''0.0'' \<noteq> None" "dec_literal ''-0.0'' \<noteq> None" by code_simp+
  show ?thesis
  proof (cases "double_of \<bar>decimal_value t\<bar>")
    case None
    then show ?thesis using assms by (auto simp: float_repr_def decimal_text_special split: if_splits)
  next
    case (Some v)
    show ?thesis
    proof (cases "v = 0")
      case True
      then show ?thesis using Some assms(1) z by (simp add: float_repr_def)
    next
      case False
      then have r: "float_repr s = (if take 1 s = ''-'' then ''-'' else '''') @ float_repr_positive v"
        using Some assms(1) by (simp add: float_repr_def)
      have "list_all plain_char (float_repr s)" "float_repr s \<noteq> ''''"
        using float_repr_positive_plain [of v] m by (simp_all add: r)
      then show ?thesis using assms(2) by (rule finite_text_literal)
    qed
  qed
qed

lemma durable_price_shape:
  assumes "dec_literal s = Some t" and "durable_literals ''cost_usd'' (PFloat s) = PFloat u"
  shows "float_shape u"
proof -
  have u: "u = float_repr s" "decimal_text (float_repr s) = decimal_text s"
    using assms(2) money_keys(2) by (auto split: if_splits)
  then have "decimal_text (float_repr s) = Some (Finite (decimal_value t))"
    using decimal_text_literal [OF assms(1)] by simp
  then show ?thesis using float_repr_literal [OF assms(1)] u(1) by (simp add: float_shape_def)
qed

section \<open>Trusted prices\<close>

lemma provider_cost_literal:
  assumes "provider_cost_value v = Some cost"
  obtains s t where "cost = PFloat s" and "dec_literal s = Some t"
proof -
  obtain x where f: "float_of v = Inr cost" and x: "float_value cost = Finite x"
    using assms by (auto simp: provider_cost_value_def split: if_splits sum.splits decimal.splits)
  obtain s where "cost = PFloat s" using f by (auto simp: float_of_def split: pyval.splits if_splits option.splits decimal.splits)
  then show thesis using x that by (auto simp: float_value_def split: option.splits if_splits)
qed

lemma provider_cost_amount: "provider_cost_value v = Some cost \<Longrightarrow> \<exists>a. amount cost = Inr a"
  by (erule provider_cost_literal) (simp add: amount_def decimal_of_def decimal_text_literal)

lemma written_price:
  assumes "provider_cost_value v = Some cost" and "dget row ''cost_usd'' = cost"
  shows "amount (written_field row ''cost_usd'') = amount cost"
proof -
  obtain s t where c: "cost = PFloat s" "dec_literal s = Some t" using assms(1) by (rule provider_cost_literal)
  have "''cost_usd'' \<in> set money_row_fields" by (simp add: money_row_fields_def)
  then have "decimal_of (written_field row ''cost_usd'') = decimal_of (durable_literals ''cost_usd'' cost)"
    unfolding written_field_def assms(2) using durable_price_shape c by (intro stored_value_money) auto
  then show ?thesis by (simp add: amount_def money_keys)
qed

lemma price_fact_facts:
  assumes "price_fact i receipt = Some (r, cost)"
  shows "receipt = PDict r" and "provider_cost_value (dget r ''cost_usd'') = Some cost"
  using assms by (auto simp: price_fact_def split: pyval.splits option.splits if_splits)

text \<open>What an applied price has written.\<close>

lemma price_applied:
  assumes ok: "store_ok st" and ap: "apply_provider_price_receipt env i receipt expected st = Inr (Applied stored, st')"
  obtains r cost where "price_fact i receipt = Some (r, cost)" and "attempt st' i = Some stored"
    and "dget stored ''state'' = PStr ''settled''" and "dget stored ''cost_final'' = PBool True"
    and "amount (dget stored ''cost_usd'') = amount cost" and "is_op st st'"
proof -
  have o: "opened st" and rk: "rows_ok st" using ok by (simp_all add: store_ok_def)
  obtain r cost where pf: "price_fact i receipt = Some (r, cost)"
    using ap by (auto simp: apply_provider_price_receipt_def Let_def split: option.splits)
  obtain current st1 where c: "attempt st i = Some current"
      and w: "write_row (en_now env) (priced_row current r cost) (Some current) st = Inr (stored, st1)" and st': "st' = open_txn st1"
    using ap unfolding apply_provider_price_receipt_def Let_def opened_txn [OF o] pf option.case prod.case
    by (auto simp: sbind_Inr_iff split: option.splits if_splits)
  have shape: "row_shape i (priced_row current r cost)" using attempt_shape [OF rk c] by (rule priced_row_shape)
  obtain m where m: "attempt st1 i = Some stored"
      "\<And>k. k \<notin> set stamped_keys \<Longrightarrow> dget stored k = written_field (priced_row current r cost) k"
    using ok c shape w by (rule next_row_written) blast
  have row: "dget (priced_row current r cost) ''state'' = PStr ''settled''" "dget (priced_row current r cost) ''cost_final'' = PBool True"
      "dget (priced_row current r cost) ''cost_usd'' = cost"
    by (simp_all add: priced_row_def)
  have "opened st1" using w o by (rule write_row_opened)
  then have "attempt st' i = Some stored" using m(1) by (simp add: st' opened_txn)
  moreover have "dget stored ''state'' = PStr ''settled''"
    using m(2) [OF keys_not_stamped(1)] written_state [OF shape] row(1) by simp
  moreover have "dget stored ''cost_final'' = PBool True"
    using m(2) [OF keys_not_stamped(3)] row(2) by (simp add: written_field_def)
  moreover have "amount (dget stored ''cost_usd'') = amount cost"
    using m(2) [OF keys_not_stamped(4)] written_price [OF price_fact_facts(2) [OF pf] row(3)] by simp
  ultimately show thesis using that pf price_op [OF ap o rk] by blast
qed

text \<open>A final row keeps its money through every later call.\<close>

lemma final_row_stays:
  assumes "accounting_step\<^sup>*\<^sup>* st later" and "store_ok st" and "attempt st i = Some p" and "progress p = 5"
  shows "store_ok later \<and> (\<exists>p'. attempt later i = Some p' \<and> same_money p p')"
  using assms(1)
proof (induction rule: rtranclp_induct)
  case base
  show ?case using assms(2,3) by auto
next
  case (step u v)
  then obtain q where q: "attempt u i = Some q" "same_money p q" and u: "store_ok u" by blast
  have isop: "is_op u v" using step(2) u by (intro step_is_op) (simp_all add: store_ok_def)
  have "\<exists>p'. attempt v i = Some p' \<and> same_money q p'"
  proof (cases "v = u")
    case False
    then obtain op where "op_shape op" "exec_money op u = Inr v" using isop by (auto simp: is_op_def)
    moreover from this have "money_step op u = v" by (simp add: money_step_def)
    moreover have "progress q = 5" using same_money_progress(1) [OF q(2)] assms(4) by simp
    ultimately show ?thesis using terminal_step [of op u i q] u q(1) by (auto simp: store_ok_def)
  qed (use q in auto)
  then show ?case using op_keeps_store_ok [OF isop u] q(2) same_money_trans by blast
qed

lemma price_answered:
  assumes o: "opened st" and a: "attempt st i = Some row" and f: "dget row ''cost_final'' = PBool True"
    and pf: "price_fact i receipt = Some (r, new)"
    and b: "dget row ''provider_receipt_binding'' \<noteq> PNone" "py_eq (dget r ''binding'') (dget row ''provider_receipt_binding'')"
      "py_eq (dget r ''provider'') (dget row ''provider'')"
    and old: "amount (dget row ''cost_usd'') = Inr old"
  shows "apply_provider_price_receipt env i receipt expected st
       = Inr (if amount new = amount (dget row ''cost_usd'') then Duplicate row else Conflict row, st)"
proof -
  obtain n where n: "amount new = Inr n" using provider_cost_amount [OF price_fact_facts(2) [OF pf]] by blast
  show ?thesis
    unfolding apply_provider_price_receipt_def Let_def opened_txn [OF o] pf option.case prod.case a
    using b f old n by (auto simp: in_store_def)
qed

text \<open>C29: A provider's price is applied once: when a receipt has been applied, the attempt is settled at
  exactly the receipt's amount, finally, and it stays so through every later call; a later receipt for
  the same binding and provider changes nothing, and is answered as a duplicate when it names the same
  amount and as a conflict when it names another.\<close>

theorem price_is_applied_once:
  assumes "accounting_step\<^sup>*\<^sup>* empty_store st"
    and "apply_provider_price_receipt env attempt_id receipt expected st = Inr (Applied stored, st')"
    and "accounting_step\<^sup>*\<^sup>* st' later"
  shows "\<exists>r cost row. price_fact attempt_id receipt = Some (r, cost) \<and> attempt later attempt_id = Some row
    \<and> dget row ''state'' = PStr ''settled'' \<and> dget row ''cost_final'' = PBool True
    \<and> amount (dget row ''cost_usd'') = amount cost
    \<and> (\<forall>env2 again r2 cost2 expected2. price_fact attempt_id again = Some (r2, cost2)
         \<and> dget row ''provider_receipt_binding'' \<noteq> PNone
         \<and> py_eq (dget r2 ''binding'') (dget row ''provider_receipt_binding'')
         \<and> py_eq (dget r2 ''provider'') (dget row ''provider'')
         \<longrightarrow> apply_provider_price_receipt env2 attempt_id again expected2 later
             = Inr (if amount cost2 = amount cost then Duplicate row else Conflict row, later))"
proof -
  have ok: "store_ok st" using assms(1) by (rule reachable_ok)
  obtain r cost where p: "price_fact attempt_id receipt = Some (r, cost)" "attempt st' attempt_id = Some stored"
      "dget stored ''state'' = PStr ''settled''" "dget stored ''cost_final'' = PBool True"
      "amount (dget stored ''cost_usd'') = amount cost" "is_op st st'"
    using ok assms(2) by (rule price_applied)
  have ok': "store_ok st'" using p(6) ok by (rule op_keeps_store_ok)
  have "progress stored = 5"
    using p(3,4) by (auto simp: progress_def Let_def dest: abandoned_cost)
  then obtain row where row: "attempt later attempt_id = Some row" "same_money stored row" and l: "store_ok later"
    using final_row_stays [OF assms(3) ok' p(2)] by blast
  have k: "dget row k = dget stored k" if "k \<in> {''state'', ''cost_final'', ''cost_usd''}" for k
    using that by (intro same_money_dget [OF row(2)]) (auto simp: evidence_keys_def)
  obtain old where "amount cost = Inr old" using provider_cost_amount [OF price_fact_facts(2) [OF p(1)]] by blast
  then have amt: "amount (dget row ''cost_usd'') = Inr old" using p(5) k by simp
  have o: "opened later" using l by (simp add: store_ok_def)
  have fin: "dget row ''cost_final'' = PBool True" using p(4) k by simp
  have "amount (dget row ''cost_usd'') = amount cost" using p(5) k by simp
  moreover note price_answered [OF o row(1) fin _ _ _ _ amt]
  moreover have "dget row ''state'' = PStr ''settled''" using p(3) k by simp
  ultimately show ?thesis using p(1) row(1) fin by metis
qed

end
