(* ===== verification/Usage_Progress.thy ===== *)
theory Usage_Progress
  imports Usage_Prices
begin

text \<open>
  A lawful row is accepted: in a store of at most one attempt, a row that the validators pass and whose
  contribution is exact is written.  The concrete runs of the accounting calls rest on it, so that only
  rows have to be evaluated and never a whole store.
\<close>

section \<open>Exact contributions\<close>

definition exact_delta :: "bucket \<Rightarrow> bool" where
  "exact_delta d \<longleftrightarrow> list_all (fits 60) (cash_list (bk_cash d))
     \<and> list_all (exact_pair Map.empty (bk_amounts d) 1) processing_amounts"

lemma fits_zero: "fits 60 0"
  by code_simp

lemma bucket_add_ok:
  assumes "list_all (fits 60) (cash_list (bk_cash d))" and "list_all (fits 60) (cash_list (bk_cash b + Usage_Rows.signed s (bk_cash d)))"
    and "list_all (exact_pair (bk_amounts b) (bk_amounts d) s) processing_amounts"
  shows "\<exists>x. bucket_add b d s cap = Inr x"
  using assms by (simp add: bucket_add_def exact_cash_def guard_that_def)

lemma add_to_empty: "exact_delta d \<Longrightarrow> \<exists>x. bucket_add empty_bucket d 1 cap = Inr x"
  by (rule bucket_add_ok) (simp_all add: exact_delta_def empty_bucket_def Usage_Rows.signed_def)

lemma remove_single:
  assumes "exact_delta d" and "wf_delta d"
  shows "\<exists>x. bucket_add (aggregate [(d, c)]) d (- 1) cap = Inr x"
proof (rule bucket_add_ok)
  show "list_all (fits 60) (cash_list (bk_cash d))" using assms(1) by (simp add: exact_delta_def)
  show "list_all (fits 60) (cash_list (bk_cash (aggregate [(d, c)]) + Usage_Rows.signed (- 1) (bk_cash d)))"
    by (simp add: aggregate_def Usage_Rows.signed_def cash_list_def fits_zero)
  have w: "wf_pairs (bk_amounts d)" using assms(2) by (simp add: wf_delta_def)
  have z: "v = 0" if "bk_amounts d k = Some (v, 0)" for v k
  proof -
    have "snd (pair_at (bk_amounts d) k) = 0 \<longrightarrow> fst (pair_at (bk_amounts d) k) = 0"
      using w unfolding wf_pairs_def by blast
    then show ?thesis using that by (simp add: pair_at_def)
  qed
  have "exact_pair (bk_amounts (aggregate [(d, c)])) (bk_amounts d) (- 1) k"
    if "exact_pair Map.empty (bk_amounts d) 1 k" for k
    using that
    by (auto simp: exact_pair_def aggregate_def sum_pairs_def pairs_of_def pair_at_def fits_zero dest: z
        split: option.splits)
  then show "list_all (exact_pair (bk_amounts (aggregate [(d, c)])) (bk_amounts d) (- 1)) processing_amounts"
    using assms(1) by (auto simp: exact_delta_def list_all_iff)
qed

definition held :: "(address \<Rightarrow> bucket option) \<Rightarrow> address \<Rightarrow> bucket" where
  "held m a = (case m a of None \<Rightarrow> empty_bucket | Some b \<Rightarrow> b)"

lemma summaries_added:
  assumes "distinct (map fst es)" and "\<And>a cap. (a, cap) \<in> set es \<Longrightarrow> \<exists>x. bucket_add (held m a) d s (if cap_scope a then cap else None) = Inr x"
  shows "\<exists>m'. sfold (add_to_summary d s) es m = Inr m'"
  using assms
proof (induction es arbitrary: m)
  case (Cons e es)
  obtain a cap where e: "e = (a, cap)" by fastforce
  obtain x where x: "bucket_add (held m a) d s (if cap_scope a then cap else None) = Inr x"
    using Cons.prems(2) [of a cap] by (auto simp: e)
  have same: "held (m(a \<mapsto> x)) a' = held m a'" if "(a', cap') \<in> set es" for a' cap'
    using that Cons.prems(1) by (force simp: e held_def)
  have "\<exists>m'. sfold (add_to_summary d s) es (m(a \<mapsto> x)) = Inr m'"
  proof (rule Cons.IH)
    show "distinct (map fst es)" using Cons.prems(1) by simp
    show "\<exists>y. bucket_add (held (m(a \<mapsto> x)) a') d s (if cap_scope a' then cap' else None) = Inr y"
      if "(a', cap') \<in> set es" for a' cap'
      unfolding same [OF that] using Cons.prems(2) that by simp
  qed
  moreover have "add_to_summary d s (a, cap) m = Inr (m(a \<mapsto> x))"
    using x by (simp add: add_to_summary_pair held_def)
  ultimately show ?case by (simp add: e)
qed simp

text \<open>What the store needs of the one row it holds.\<close>

definition exact_row :: "pydict \<Rightarrow> bool" where
  "exact_row r \<longleftrightarrow> (case summary_delta r of Inl _ \<Rightarrow> False | Inr d \<Rightarrow> exact_delta d) \<and> distinct (map fst (summary_keys r))"

lemma exact_row_delta:
  assumes "exact_row r"
  obtains d where "summary_delta r = Inr d" and "exact_delta d" and "distinct (map fst (summary_keys r))"
  using assms by (auto simp: exact_row_def split: sum.splits)

lemma row_added:
  assumes "exact_row r" and "represents m (\<lambda>_. [])"
  shows "\<exists>m'. apply_row (Some r) 1 m = Inr m'"
proof -
  obtain d where d: "summary_delta r = Inr d" "exact_delta d" "distinct (map fst (summary_keys r))"
    using assms(1) by (rule exact_row_delta)
  have "held m a = empty_bucket" for a using represents_at [OF assms(2)] by (simp add: held_def)
  then have "\<exists>m'. sfold (add_to_summary d 1) (summary_keys r) m = Inr m'"
    using d(2,3) by (intro summaries_added) (simp_all add: add_to_empty)
  then show ?thesis by (simp add: apply_row_def d(1))
qed

lemma entry_single:
  "distinct (map fst es) \<Longrightarrow> (a, cap) \<in> set es \<Longrightarrow> entry_contributions a d es = [(d, if cap_scope a then cap else None)]"
proof (induction es)
  case (Cons e es)
  have none: "a \<notin> fst ` set es \<Longrightarrow> entry_contributions a d es = []" for es
    by (induction es) (auto split: prod.splits)
  then show ?case using Cons by (cases e) (force split: if_splits)
qed simp

lemma row_removed:
  assumes "exact_row r" and "represents m (\<lambda>a. row_contributions a r)" and "\<not> is_one_shot_kind (row_kind r)"
  shows "\<exists>m'. apply_row (Some r) (- 1) m = Inr m' \<and> represents m' (\<lambda>_. [])"
proof -
  obtain d where d: "summary_delta r = Inr d" "exact_delta d" "distinct (map fst (summary_keys r))"
    using assms(1) by (rule exact_row_delta)
  note wf = summary_delta_wf [OF d(1)]
  have rep: "represents m (\<lambda>a. [] @ entry_contributions a d (summary_keys r) @ [])"
    using assms(2) d(1) by (simp add: row_contributions_def delta_of_def)
  have "held m a = aggregate [(d, if cap_scope a then cap else None)]" if "(a, cap) \<in> set (summary_keys r)" for a cap
    using represents_at [OF rep, of a] entry_single [OF d(3) that] by (simp add: held_def)
  then have "\<exists>m'. sfold (add_to_summary d (- 1)) (summary_keys r) m = Inr m'"
    using d(2,3) wf by (intro summaries_added) (auto intro: remove_single)
  then obtain m' where m': "sfold (add_to_summary d (- 1)) (summary_keys r) m = Inr m'" by blast
  have "represents m' (\<lambda>a. [] @ [])"
    by (rule entries_removed [OF m' rep]) (use wf no_window [OF d(1) assms(3)] in simp_all)
  then show ?thesis using m' by (simp add: apply_row_def d(1))
qed

section \<open>Accepted rows\<close>

lemma held_nothing:
  assumes "store_ok st" and "us_attempts st = []"
  shows "represents (us_summaries st) (\<lambda>_. [])"
  using assms by (auto simp: store_ok_def money_ok_def summaries_exact_def represents_def stored_rows_def)

lemma held_one:
  assumes "store_ok st" and "us_attempts st = [old]"
  shows "represents (us_summaries st) (\<lambda>a. row_contributions a (attempt_row old))"
  using assms summaries_exact_represents [of st] by (simp add: store_ok_def money_ok_def stored_rows_def)

lemma opened_writable: "store_ok st \<Longrightarrow> writable st"
  by (simp add: store_ok_def opened_def writable_def)

lemma first_write_accepted:
  assumes ok: "store_ok st" and none: "us_attempts st = []" and shape: "row_shape i row"
    and n: "n = snd (us_marker st) + 1" and m: "m = stamp_root_cause st (materialize now n row)"
    and v: "validate_row_fields m n = Inr ()" "validate_transition m None = Inr ()"
    and a: "derived_attempt m None 1 n = Inr a" "integers_fit (sa_columns a)" and ex: "exact_row (attempt_row a)"
  shows "\<exists>st'. write_row now row None st = Inr (attempt_row a, st') \<and> us_attempts st' = [a] \<and> snd (us_marker st') = n
    \<and> us_bindings st' = bind_root_attribution (attempt_row a) (us_bindings st)"
proof -
  have ms: "row_shape i m" unfolding m by (rule materialized_shape [OF shape])
  then have id: "sor (dget m ''attempt_id'') = i" by (simp add: row_shape_def)
  have cols: "sa_columns a = encode_columns m"
    using a(1) by (auto simp: derived_attempt_def sbind_Inr_iff Let_def)
  then have hid: "has_id i a" using encode_columns_id [OF ms] by (simp add: has_id_def)
  obtain s where s: "apply_row (Some (attempt_row a)) 1 (us_summaries st) = Inr s"
    using row_added [OF ex held_nothing [OF ok none]] by blast
  have "attempt (st\<lparr>us_attempts := [a]\<rparr>) i = Some (attempt_row a)"
    using hid by (simp add: attempt_def find_attempt_def)
  then show ?thesis
    unfolding write_row_def Let_def
    by (simp add: guard_that_def opened_writable [OF ok] next_revision_def n [symmetric] m [symmetric] v a id none
        put_attempt_def apply_row_def [of None] s)
qed

lemma next_write_accepted:
  assumes ok: "store_ok st" and one: "us_attempts st = [old]" and hid: "has_id i old" and shape: "row_shape i row"
    and rev: "next_revision (Some (attempt_row old)) = Inr r"
    and n: "n = snd (us_marker st) + 1" and m: "m = stamp_root_cause st (materialize now n row)"
    and v: "validate_row_fields m n = Inr ()" "validate_transition m (Some (attempt_row old)) = Inr ()"
    and a: "derived_attempt m (Some old) r (sa_seq_first old) = Inr a" "integers_fit (sa_columns a)"
    and new: "new = a\<lparr>sa_columns := dset ''attempt_id'' (PStr i) (sa_columns a)\<rparr>"
    and ex: "exact_row (attempt_row old)" "exact_row (attempt_row new)"
  shows "\<exists>st'. write_row now row (Some (attempt_row old)) st = Inr (attempt_row new, st') \<and> us_attempts st' = [new]
    \<and> snd (us_marker st') = n \<and> us_bindings st' = bind_root_attribution (attempt_row new) (us_bindings st)"
proof -
  have ms: "row_shape i m" unfolding m by (rule materialized_shape [OF shape])
  then have id: "sor (dget m ''attempt_id'') = i" by (simp add: row_shape_def)
  have old_ok: "attempt_ok old" using ok one by (simp add: store_ok_def money_ok_def)
  have rid: "row_shape i (attempt_row old)"
  proof -
    have "attempt st i = Some (attempt_row old)" using hid by (simp add: attempt_def find_attempt_def one)
    from attempt_shape [OF _ this] show ?thesis using ok by (simp add: store_ok_def)
  qed
  then have pid: "py_str (dget (attempt_row old) ''attempt_id'') = i" by (simp add: row_shape_def)
  have find: "find_attempt st i = Some old" using hid by (simp add: find_attempt_def one)
  have "dget (attempt_row old) ''revision'' = PInt (sa_revision old)"
    by (simp add: attempt_row_def dget_def map_of_decode_row)
  then have r: "r = sa_revision old + 1"
    using rev by (simp add: next_revision_def py_int_def sbind_Inr_iff)
  have not_one: "\<not> is_one_shot_kind (row_kind (attempt_row old))"
    using validate_transition_previous [OF v(2)] old_ok attempt_kind_not_one_shot by (auto simp: attempt_ok_def)
  obtain s1 where s1: "apply_row (Some (attempt_row old)) (- 1) (us_summaries st) = Inr s1" "represents s1 (\<lambda>_. [])"
    using row_removed [OF ex(1) held_one [OF ok one] not_one] by blast
  obtain s2 where s2: "apply_row (Some (attempt_row new)) 1 s1 = Inr s2"
    using row_added [OF ex(2) s1(2)] by blast
  have "has_id i new" by (simp add: new has_id_def)
  then have at: "attempt (st\<lparr>us_attempts := [new]\<rparr>) i = Some (attempt_row new)"
    by (simp add: attempt_def find_attempt_def)
  have put: "put_attempt i False (r - 1) a (us_attempts st) = Inr [new]"
    using hid by (simp add: put_attempt_def one r update_attempt_def new)
  show ?thesis
    unfolding write_row_def Let_def
    by (simp add: guard_that_def opened_writable [OF ok] rev n [symmetric] m [symmetric] v a id pid find put s1(1) s2 at)
qed

end
