(* ===== verification/Usage_Props.thy ===== *)
theory Usage_Props
  imports Usage_Invariant
begin

text \<open>
  The properties of the money store's sums: what a summary holds, that it is what the reducer computes
  from the stored rows, that no cash is lost between scopes, and what the limit rule refuses.
\<close>

section \<open>The summary of a scope\<close>

text \<open>C24: In a store that any sequence of writes, evidence records and acknowledgements of well-shaped
  rows has produced, every summary is exactly the sum of the contributions of the rows the store holds
  now (each transition has taken the old row out and put the new one in), and an address that no row
  contributes to has no summary.\<close>

theorem summaries_are_exact:
  assumes "list_all op_shape ops"
  shows "us_summaries (run_money ops empty_store) address
       = (let xs = contributions address (stored_rows (run_money ops empty_store))
          in if xs = [] then None else Some (aggregate xs))"
  using run_money_keeps_ok [OF assms empty_store_ok] unfolding money_ok_def summaries_exact_def by blast

lemma bucket_at_exact:
  assumes "money_ok st"
  shows "bucket_at st address = aggregate (contributions address (stored_rows st))"
proof -
  have "us_summaries st address = (let xs = contributions address (stored_rows st)
      in if xs = [] then None else Some (aggregate xs))"
    using assms unfolding money_ok_def summaries_exact_def by blast
  then show ?thesis by (simp add: bucket_at_def Let_def)
qed

section \<open>The reducer\<close>

lemma fold_row_Inr: "fold_row r b = Inr c \<longleftrightarrow> (\<exists>d. summary_delta r = Inr d \<and> bucket_add b d 1 None = Inr c)"
  by (simp add: fold_row_def sbind_Inr_iff)

lemma fold_rows_aggregate:
  assumes "sfold fold_row rows (aggregate xs) = Inr b" and "wf_contributions xs"
  shows "b = aggregate (xs @ map (\<lambda>r. (delta_of r, None)) rows)"
  using assms
proof (induction rows arbitrary: xs)
  case (Cons r rows)
  then obtain d c where d: "summary_delta r = Inr d" and c: "bucket_add (aggregate (xs @ [])) d 1 None = Inr c"
      and rest: "sfold fold_row rows c = Inr b"
    by (auto simp: fold_row_Inr sbind_Inr_iff)
  have "c = aggregate (xs @ [(d, None)])"
    by (rule bucket_add_inserts [OF c]) (use Cons.prems(2) in auto)
  then show ?case
    using Cons.IH [of "xs @ [(d, None)]"] rest Cons.prems(2) summary_delta_wf [OF d] d by (simp add: delta_of_def)
qed simp

text \<open>A row contributes once to the global scope, and once to its root and its group.\<close>

lemma axis_contributions_other:
  assumes "scope \<notin> {axis, ''unattributed'', ''root_'' @ axis, ''task_'' @ axis}"
  shows "entry_contributions (scope, key) d (axis_keys row owner task legacy axis) = []"
proof -
  have "axis \<noteq> scope" "''unattributed'' \<noteq> scope" "''root_'' @ axis \<noteq> scope" "''task_'' @ axis \<noteq> scope"
    using assms by blast+
  then show ?thesis by (simp only: axis_keys_def Let_def entry_contributions_def prod.case list.map concat.simps
      prod.inject append.simps if_False if_cancel simp_thms map_append concat_append split: if_split)
qed

lemma entry_contributions_append [simp]:
  "entry_contributions a d (es @ fs) = entry_contributions a d es @ entry_contributions a d fs"
  by (simp add: entry_contributions_def)

lemma entry_contributions_if:
  "entry_contributions a d (if b then es else fs) = (if b then entry_contributions a d es else entry_contributions a d fs)"
  by simp

lemma row_contributions_main:
  "row_contributions (''global'', '''') r = [(delta_of r, None)]"
  "row_contributions (''root'', k) r
   = (if monetary_scope_key r = k then [(delta_of r, cap_text (dget r ''root_limit_usd''))] else [])"
  "row_contributions (''group'', k) r
   = (if billing_group_key r = k then [(delta_of r, cap_text (dget_default r ''billing_group_limit_usd'' (dget r ''root_limit_usd'')))] else [])"
  unfolding row_contributions_def summary_keys_def Let_def list.map concat.simps entry_contributions_append
    entry_contributions_if
  by (subst axis_contributions_other, simp (no_asm), subst axis_contributions_other, simp (no_asm),
      subst axis_contributions_other, simp (no_asm), simp (no_asm) add: cap_scope_def)+

lemma global_contributions: "contributions (''global'', '''') rows = map (\<lambda>r. (delta_of r, None)) rows"
  by (induction rows) (simp_all add: row_contributions_main)

text \<open>C31: The global summary that the store maintains row by row is the bucket that the reducer
  computes by folding the stored rows from the start.\<close>

theorem incremental_equals_fold:
  assumes "list_all op_shape ops" and "fold_rows (stored_rows (run_money ops empty_store)) = Inr b"
  shows "bucket_at (run_money ops empty_store) (''global'', '''') = b"
proof -
  let ?rows = "stored_rows (run_money ops empty_store)"
  have "b = aggregate (map (\<lambda>r. (delta_of r, None)) ?rows)"
    using fold_rows_aggregate [of ?rows "[]" b] assms(2) by (simp add: fold_rows_def)
  moreover note global_contributions [of ?rows]
  ultimately show ?thesis
    using bucket_at_exact [OF run_money_keeps_ok [OF assms(1) empty_store_ok]] by simp
qed

section \<open>Conservation of cash\<close>

lemma aggregate_cash: "bk_cash (aggregate xs) = (\<Sum>x\<leftarrow>xs. bk_cash (fst x))"
  by (simp add: aggregate_def)

definition row_cash :: "pydict \<Rightarrow> cash" where
  "row_cash r = bk_cash (delta_of r)"

lemma sum_list_by_key:
  "finite K \<Longrightarrow> key ` set rows \<subseteq> K
   \<Longrightarrow> (\<Sum>k\<in>K. \<Sum>r\<leftarrow>filter (\<lambda>r. key r = k) rows. f r) = (\<Sum>r\<leftarrow>rows. (f r :: 'a :: comm_monoid_add))"
proof (induction rows)
  case (Cons r rows)
  have "(\<Sum>k\<in>K. \<Sum>r\<leftarrow>filter (\<lambda>r. key r = k) (r # rows). f r)
      = (\<Sum>k\<in>K. (if key r = k then f r else 0) + (\<Sum>r\<leftarrow>filter (\<lambda>r. key r = k) rows. f r))"
    by (intro sum.cong) auto
  also have "\<dots> = f r + (\<Sum>r\<leftarrow>rows. f r)"
    using Cons by (simp add: sum.distrib)
  finally show ?case by simp
qed simp

lemma scope_contributions:
  assumes "\<And>k r. row_contributions (scope, k) r = (if key r = k then [(delta_of r, cap r)] else [])"
  shows "contributions (scope, k) rows = map (\<lambda>r. (delta_of r, cap r)) (filter (\<lambda>r. key r = k) rows)"
  by (induction rows) (auto simp: assms)

lemma scope_conserves_cash:
  assumes ok: "money_ok st"
    and one: "\<And>k r. row_contributions (scope, k) r = (if key r = k then [(delta_of r, cap r)] else [])"
  shows "finite {k. us_summaries st (scope, k) \<noteq> None}"
    and "(\<Sum>k | us_summaries st (scope, k) \<noteq> None. bk_cash (bucket_at st (scope, k))) = (\<Sum>r\<leftarrow>stored_rows st. row_cash r)"
proof -
  let ?rows = "stored_rows st"
  have keys: "{k. us_summaries st (scope, k) \<noteq> None} = key ` set ?rows"
    using ok by (auto simp: money_ok_def summaries_exact_def Let_def scope_contributions [OF one] filter_empty_conv)
  then show "finite {k. us_summaries st (scope, k) \<noteq> None}" by simp
  have "bk_cash (bucket_at st (scope, k)) = (\<Sum>r\<leftarrow>filter (\<lambda>r. key r = k) ?rows. row_cash r)" for k
    by (simp add: bucket_at_exact [OF ok] scope_contributions [OF one] aggregate_cash row_cash_def comp_def)
  then show "(\<Sum>k | us_summaries st (scope, k) \<noteq> None. bk_cash (bucket_at st (scope, k))) = (\<Sum>r\<leftarrow>?rows. row_cash r)"
    unfolding keys by (simp add: sum_list_by_key)
qed

text \<open>C32: No cash is lost or counted twice between scopes: the roots that have a summary are finitely
  many, and their cash adds up to the global cash; the same holds of the billing groups.\<close>

theorem cash_is_conserved:
  assumes "list_all op_shape ops"
  defines "st \<equiv> run_money ops empty_store"
  shows "(\<Sum>k | us_summaries st (''root'', k) \<noteq> None. bk_cash (bucket_at st (''root'', k)))
         = bk_cash (bucket_at st (''global'', ''''))
       \<and> (\<Sum>k | us_summaries st (''group'', k) \<noteq> None. bk_cash (bucket_at st (''group'', k)))
         = bk_cash (bucket_at st (''global'', ''''))
       \<and> finite {k. us_summaries st (''root'', k) \<noteq> None} \<and> finite {k. us_summaries st (''group'', k) \<noteq> None}"
proof -
  have ok: "money_ok st" unfolding st_def by (rule run_money_keeps_ok [OF assms(1) empty_store_ok])
  have g: "bk_cash (bucket_at st (''global'', '''')) = (\<Sum>r\<leftarrow>stored_rows st. row_cash r)"
    by (simp add: bucket_at_exact [OF ok] global_contributions aggregate_cash row_cash_def comp_def)
  note root = scope_conserves_cash [OF ok row_contributions_main(2)]
  note grp = scope_conserves_cash [OF ok row_contributions_main(3)]
  show ?thesis by (simp only: root grp g simp_thms)
qed

section \<open>The sign of cash\<close>

lemma cash_nonneg_add: "cash_nonneg a \<Longrightarrow> cash_nonneg b \<Longrightarrow> cash_nonneg (a + b)"
  by (simp add: cash_nonneg_def cash_list_def)

lemma cash_nonneg_zero [simp]: "cash_nonneg 0"
  by (simp add: cash_nonneg_def cash_list_def)

lemma contribution_cash:
  assumes "x \<in> set (contributions z (map attempt_row as))" and "\<forall>a \<in> set as. attempt_ok a"
  shows "cash_nonneg (bk_cash (fst x)) \<and> settled_usd (bk_cash (fst x)) = confirmed_usd (bk_cash (fst x)) + estimated_usd (bk_cash (fst x))"
proof -
  obtain a where a: "a \<in> set as" "x \<in> set (row_contributions z (attempt_row a))"
    using assms(1) by (auto simp: contributions_def)
  then obtain d where d: "summary_delta (attempt_row a) = Inr d"
    using assms(2) by (auto simp: attempt_ok_def)
  have "fst x = d"
    using a(2) d by (auto simp: row_contributions_def entry_contributions_def delta_of_def split: if_splits)
  then show ?thesis
    using summary_delta_cash [OF d] cash_contribution_nonneg cash_contribution_split by auto
qed

text \<open>C33: Every cash member of every summary is non-negative, and the settled member is exactly the
  confirmed one plus the estimated one.\<close>

theorem summary_cash_is_sound:
  fixes address :: address
  assumes "list_all op_shape ops"
  defines "c \<equiv> bk_cash (bucket_at (run_money ops empty_store) address)"
  shows "cash_nonneg c \<and> settled_usd c = confirmed_usd c + estimated_usd c"
proof -
  let ?st = "run_money ops empty_store"
  have ok: "money_ok ?st" by (rule run_money_keeps_ok [OF assms(1) empty_store_ok])
  let ?xs = "contributions address (stored_rows ?st)"
  have c: "c = (\<Sum>x\<leftarrow>?xs. bk_cash (fst x))"
    by (simp add: c_def bucket_at_exact [OF ok] aggregate_cash)
  have each: "\<forall>x \<in> set ?xs. cash_nonneg (bk_cash (fst x))
      \<and> settled_usd (bk_cash (fst x)) = confirmed_usd (bk_cash (fst x)) + estimated_usd (bk_cash (fst x))"
    using ok by (auto simp: money_ok_def stored_rows_def dest: contribution_cash)
  have "cash_nonneg (\<Sum>x\<leftarrow>ys. bk_cash (fst x))
      \<and> settled_usd (\<Sum>x\<leftarrow>ys. bk_cash (fst x)) = confirmed_usd (\<Sum>x\<leftarrow>ys. bk_cash (fst x)) + estimated_usd (\<Sum>x\<leftarrow>ys. bk_cash (fst x))"
    if "set ys \<subseteq> set ?xs" for ys
    using that each by (induction ys) (auto simp: cash_nonneg_add)
  then show ?thesis unfolding c by blast
qed

end
