(* ===== verification/Usage_Witnesses.thy ===== *)
theory Usage_Witnesses
  imports Usage_Props Usage_OneShots Usage_Roundtrip
begin

text \<open>
  Concrete runs that satisfy the hypotheses of the money properties: one externally metered call, and an
  attempt that takes all six rows a life can have.
\<close>

section \<open>One recorded call\<close>

definition sample_now :: string where
  "sample_now = ''2026-08-11T10:00:00+00:00''"

definition sample_call :: pydict where
  "sample_call = [(''attempt_id'', PStr ''s1''), (''kind'', PStr ''external_unmetered''), (''state'', PStr ''settled''),
     (''root_task_id'', PStr ''r1''), (''cost_usd'', PFloat ''0.5''), (''cost_final'', PBool True), (''root_limit_usd'', PInt 5)]"

definition call_ops :: "money_op list" where
  "call_ops = [RecordNew sample_now sample_call]"

definition one_call :: usage_store where
  "one_call = run_money call_ops empty_store"

definition stored_call :: pydict where
  "stored_call = [(''attempt_id'', PStr ''s1''), (''kind'', PStr ''external_unmetered''), (''state'', PStr ''settled''),
     (''root_task_id'', PStr ''r1''), (''ts'', PStr ''2026-08-11T10:00:00+00:00''), (''seq'', PInt 1), (''cost_final'', PBool True),
     (''cost_usd'', PFloat ''0.5''), (''root_limit_usd'', PFloat ''5''), (''revision'', PInt 1)]"

lemma one_call_state:
  "let st = one_call in
     attempt st ''s1'' = Some stored_call \<and> is_one_shot_kind (row_kind stored_call)
   \<and> bk_cash (bucket_at st (''root'', ''r1'')) = Cash (1 / 2) (1 / 2) 0 0 0
   \<and> us_bindings st (''root'', ''r1'') \<noteq> None \<and> us_dirty_owners st ''r1'' = Some 1
   \<and> isl (fold_rows (stored_rows st)) = False
   \<and> scope_exceeds_limit st (PInt 1) (Some ''r1'') None = Inr False
   \<and> writable st"
  by code_simp

lemma call_facts:
  "attempt one_call ''s1'' = Some stored_call" "is_one_shot_kind (row_kind stored_call)"
  "bk_cash (bucket_at one_call (''root'', ''r1'')) = Cash (1 / 2) (1 / 2) 0 0 0"
  "us_bindings one_call (''root'', ''r1'') \<noteq> None" "us_dirty_owners one_call ''r1'' = Some 1"
  "\<exists>b. fold_rows (stored_rows one_call) = Inr b"
  "scope_exceeds_limit one_call (PInt 1) (Some ''r1'') None = Inr False" "writable one_call"
  using one_call_state by (auto simp: Let_def isl_def) (metis sumE)

lemma sample_call_shape: "row_shape ''s1'' sample_call"
  by (simp add: row_shape_def row_ok_def sample_call_def text_or_none_def)

lemma call_ops_shape: "list_all op_shape call_ops"
  using sample_call_shape by (auto simp: call_ops_def)

section \<open>A life of six rows\<close>

definition sample_reserved :: pydict where
  "sample_reserved = [(''attempt_id'', PStr ''a1''), (''kind'', PStr ''attempt''), (''state'', PStr ''reserved''),
     (''root_task_id'', PStr ''r1''), (''provider'', PStr ''p''), (''reservation_upper_bound_usd'', PInt 2),
     (''cost_final'', PBool False)]"

definition receipt_binding :: pydict where
  "receipt_binding = [(''request_id'', PStr ''q1'')]"

definition settled_row :: "string \<Rightarrow> pyval \<Rightarrow> bool \<Rightarrow> pydict \<Rightarrow> pydict" where
  "settled_row reason cost final row = dset ''settle_reason'' (PStr reason) (dset ''cost_usd'' cost
     (dset ''cost_final'' (PBool final) (dset ''state'' (PStr ''settled'') row)))"

definition sample_receipt :: pyval where
  "sample_receipt = PDict [(''attempt_id'', PStr ''a1''), (''provider'', PStr ''p''), (''evidence_ref'', PStr ''e1''),
     (''cost_usd'', PFloat ''1.25''), (''binding'', PDict receipt_binding)]"

definition lifecycle_rows :: "pydict list" where
  "lifecycle_rows =
     (let live = dset ''provider_receipt_binding'' (PDict receipt_binding) sample_reserved
      in [dset ''state'' (PStr ''dispatched'') live, dset ''state'' (PStr ''unresolved'') live,
          settled_row ''abandoned'' PNone False live, settled_row ''late_receipt'' (PFloat ''1.5'') False live,
          dset ''provider_price_receipt'' sample_receipt (settled_row ''late_receipt'' (PFloat ''1.25'') True live)])"

definition lifecycle_ops :: "money_op list" where
  "lifecycle_ops = RecordNew sample_now sample_reserved # map (RecordNext sample_now ''a1'') lifecycle_rows"

lemma row_shape_dset:
  "row_shape i row \<Longrightarrow> k \<notin> {''attempt_id'', ''kind'', ''state'', ''__none__''} \<Longrightarrow> row_shape i (dset k v row)"
  "row_shape i row \<Longrightarrow> row_shape i (dset ''state'' (PStr s) row)"
  by (auto simp: row_shape_def row_ok_def text_or_none_def)

lemma lifecycle_shape: "list_all op_shape lifecycle_ops"
proof -
  have "row_shape ''a1'' sample_reserved"
    by (simp add: row_shape_def row_ok_def sample_reserved_def text_or_none_def)
  then show ?thesis
    by (auto simp: lifecycle_ops_def lifecycle_rows_def settled_row_def Let_def intro!: row_shape_dset)
qed

section \<open>Witnesses\<close>

theorem summaries_are_exact_witness:
  "us_summaries one_call (''root'', ''r1'')
     = (let xs = contributions (''root'', ''r1'') (stored_rows one_call)
        in if xs = [] then None else Some (aggregate xs))
   \<and> bk_cash (bucket_at one_call (''root'', ''r1'')) = Cash (1 / 2) (1 / 2) 0 0 0"
  using summaries_are_exact [OF call_ops_shape, of "(''root'', ''r1'')", folded one_call_def] call_facts(3) by blast

theorem incremental_equals_fold_witness:
  "\<exists>b. fold_rows (stored_rows one_call) = Inr b \<and> bucket_at one_call (''global'', '''') = b"
  using incremental_equals_fold [OF call_ops_shape] call_facts(6) unfolding one_call_def by blast

theorem cash_is_conserved_witness:
  "(\<Sum>k | us_summaries (run_money lifecycle_ops empty_store) (''root'', k) \<noteq> None.
       bk_cash (bucket_at (run_money lifecycle_ops empty_store) (''root'', k)))
     = bk_cash (bucket_at (run_money lifecycle_ops empty_store) (''global'', ''''))"
  using cash_is_conserved [OF lifecycle_shape] by blast

theorem summary_cash_is_sound_witness:
  "cash_nonneg (bk_cash (bucket_at one_call (''root'', ''r1'')))
   \<and> bk_cash (bucket_at one_call (''root'', ''r1'')) = Cash (1 / 2) (1 / 2) 0 0 0"
  using summary_cash_is_sound [OF call_ops_shape, of "(''root'', ''r1'')", folded one_call_def] call_facts(3) by blast

theorem attempt_takes_at_most_six_rows_witness:
  "length lifecycle_ops = 6 \<and> writes_of ''a1'' lifecycle_ops empty_store \<le> 6"
  using attempt_takes_at_most_six_rows [OF lifecycle_shape] by (simp add: lifecycle_ops_def lifecycle_rows_def Let_def)

theorem final_row_is_immutable_witness:
  "\<exists>later. attempt (run_money (call_ops @ [RecordNext sample_now ''s1'' (dset ''cost_usd'' (PInt 9) sample_call)]) empty_store)
       ''s1'' = Some later \<and> map_of later ''cost_usd'' = map_of stored_call ''cost_usd''"
proof -
  have shape: "list_all op_shape (call_ops @ [RecordNext sample_now ''s1'' (dset ''cost_usd'' (PInt 9) sample_call)])"
    using call_ops_shape sample_call_shape by (auto intro!: row_shape_dset)
  have cost: "''cost_usd'' \<notin> set evidence_keys" by (simp add: evidence_keys_def)
  show ?thesis
    using final_row_is_immutable [OF shape, of "''s1''" stored_call] call_facts(1,2) cost
    unfolding one_call_def by blast
qed

theorem limit_counts_only_known_spend_witness:
  "totals one_call (Some ''r1'') None = Inr (Cash (1 / 2) (1 / 2) 0 0 0)
   \<and> scope_exceeds_limit one_call (PInt 1) (Some ''r1'') None = Inr False
   \<and> settled_usd (Cash (1 / 2) (1 / 2) 0 0 0) < 1 - 1 / 1000000000 + 1 / 2000000"
proof -
  have t: "totals one_call (Some ''r1'') None = Inr (Cash (1 / 2) (1 / 2) 0 0 0)"
    by (simp add: totals_def call_facts(3))
  have cap: "decimal_of (PInt 1) = Some (Finite 1)" "(0 :: rat) < 1" by (simp_all add: decimal_of_def)
  show ?thesis
    using limit_counts_only_known_spend [OF cap t call_facts(7)] t call_facts(7) by simp
qed

theorem first_binding_is_permanent_witness:
  "us_bindings (run_money (call_ops @ lifecycle_ops) empty_store) (''root'', ''r1'') = us_bindings one_call (''root'', ''r1'')
   \<and> us_bindings one_call (''root'', ''r1'') \<noteq> None"
  using first_binding_is_permanent [of call_ops "(''root'', ''r1'')" _ lifecycle_ops] call_facts(4)
  unfolding one_call_def by fastforce

theorem acknowledged_debt_covers_every_row_witness:
  "\<exists>st'. ack_dirty_owner ''r1'' 1 one_call = Inr (True, st') \<and> row_seq stored_call \<le> 1"
proof -
  obtain st' where ack: "ack_dirty_owner ''r1'' 1 one_call = Inr (True, st')"
    using call_facts(5,8) by (auto simp: ack_dirty_owner_def)
  have "row_seq stored_call \<le> 1"
    by (rule acknowledged_debt_covers_every_row [OF call_ops_shape ack [unfolded one_call_def] call_facts(1) [unfolded one_call_def]])
       (simp_all add: stored_call_def)
  then show ?thesis using ack by blast
qed

theorem one_shot_is_recorded_once_witness:
  "record_one_shot sample_now sample_call empty_store = Inr (''s1'', one_call)
   \<and> record_one_shot sample_now sample_call one_call = Inr (''s1'', one_call)
   \<and> record_one_shot sample_now (dset ''model'' (PStr ''other'') sample_call) one_call
       = Inl (UsageAccountingError ''conflicting settled-row identity: s1'')"
proof -
  have none: "recorded_one_shot sample_call empty_store = Inr None"
    by (simp add: recorded_one_shot_def Let_def empty_store_def attempt_def find_attempt_def sample_call_def)
  have "attempt empty_store ''s1'' = None"
    by (simp add: empty_store_def attempt_def find_attempt_def)
  then have "one_call \<noteq> empty_store" using call_facts(1) by auto
  then obtain stored where "write_row sample_now sample_call None empty_store = Inr (stored, one_call)"
    by (auto simp: one_call_def call_ops_def money_step_def map_sum_snd_Inr split: sum.splits)
  then have first: "record_one_shot sample_now sample_call (run_money [] empty_store) = Inr (''s1'', one_call)"
    using none by (simp add: record_one_shot_def sample_call_def)
  have one: "is_one_shot_kind (sor (dget sample_call ''kind''))" "plain_identity sample_call"
    by code_simp+
  have differs: "one_shot_identity (dset ''model'' (PStr ''other'') sample_call) \<noteq> one_shot_identity sample_call"
    by code_simp
  have shape: "list_all op_shape ([] @ [])" by simp
  note once = one_shot_is_recorded_once [OF shape sample_call_shape one first]
  show ?thesis
    using first once [of sample_call] once [of "dset ''model'' (PStr ''other'') sample_call"] differs
    by (simp add: sample_call_def)
qed

theorem stored_row_reads_back_witness:
  "decimal_of (dget (decode_row (encode_columns sample_call) (encode_extra sample_call) 1) ''cost_usd'') = Some (Finite (1 / 2))"
proof -
  have ok: "row_ok sample_call" using sample_call_shape by (simp add: row_shape_def)
  have half: "dec_literal ''0.5'' = Some (False, 5, - 1)" by code_simp
  have lit: "float_shape s" if "dget sample_call f = PFloat s" "f \<in> set money_row_fields" for f s
    using that half by (auto simp: sample_call_def float_shape_def money_row_fields_def)
  have "decimal_of (PFloat ''0.5'') = Some (Finite (1 / 2))"
    using decimal_text_literal [OF half] by (simp add: decimal_of_def decimal_value_def ten_power_def)
  then show ?thesis
    using stored_row_reads_back [OF ok lit, where k = "''cost_usd''" and revision = 1]
    by (simp add: sample_call_def money_row_fields_def)
qed

end
