(* ===== verification/Usage_Call_Witnesses.thy ===== *)
theory Usage_Call_Witnesses
  imports Usage_Progress Usage_Witnesses
begin

text \<open>
  Concrete runs of the accounting calls: one attempt that is opened, sent and priced or closed, and one
  reservation.
  Every row is evaluated by itself; \<open>first_write_accepted\<close> and \<open>next_write_accepted\<close> say that the store
  takes it.
\<close>

section \<open>Surroundings\<close>

definition plain_scope :: usage_scope where
  "plain_scope = \<lparr>sc_drive_root = PNone, sc_task_id = PStr '''', sc_root_task_id = PStr '''', sc_parent_task_id = PStr '''',
     sc_category = PStr ''task'', sc_source = PStr ''llm'', sc_non_task_operation = False, sc_review_skill = PStr '''',
     sc_review_wave_id = PStr '''', sc_review_slot_id = PStr '''', sc_global_limit_usd = PNone, sc_root_limit_usd = PNone,
     sc_root_cost_ceiling_usd = PNone, sc_global_limit_source = PStr '''', sc_global_limit_revision = PNone,
     sc_billing_group_id = PStr '''', sc_billing_group_limit_usd = PNone, sc_billing_group_limit_source = PStr '''',
     sc_billing_group_limit_revision = PNone, sc_root_limit_source = PStr '''', sc_root_limit_revision = PNone,
     sc_consciousness_cause = PStr ''''\<rparr>"

definition sample_env :: attempt_env where
  "sample_env = \<lparr>en_now = sample_now, en_attempt_id = ''a1'', en_drive_root = PNone, en_bound_scope = plain_scope,
     en_configured_budget = PFloat ''10.0'', en_billing = (\<lambda>_. Inr []), en_tariff = (\<lambda>_. PNone), en_fence = (\<lambda>_. None),
     en_member_fence = (\<lambda>_. None), en_launch = (\<lambda>_. None), en_paid_veto = None\<rparr>"

lemma env_facts [simp]:
  "en_now sample_env = sample_now" "en_attempt_id sample_env = ''a1''" "en_drive_root sample_env = PNone"
  "en_bound_scope sample_env = plain_scope" "en_configured_budget sample_env = PFloat ''10.0''"
  "en_billing sample_env s = Inr []" "en_tariff sample_env r = PNone" "en_fence sample_env s = None"
  "en_member_fence sample_env s = None" "en_launch sample_env s = None" "en_paid_veto sample_env = None" "check_fences sample_env s = Inr ()"
  by (simp_all add: sample_env_def check_fences_def)

definition handle_of :: "string \<Rightarrow> attempt_reservation" where
  "handle_of i = \<lparr>rs_attempt_id = i, rs_model = PStr ''m'', rs_provider = PStr ''p'', rs_upper_bound_usd = PFloat ''0.5'',
     rs_processing_preference = PStr '''', rs_submitted_processing_mode = PStr '''', rs_scope = plain_scope\<rparr>"

section \<open>An open attempt\<close>

definition sample_open :: pydict where
  "sample_open = [(''attempt_id'', PStr ''a1''), (''kind'', PStr ''attempt''), (''state'', PStr ''reserved''),
     (''root_task_id'', PStr ''r1''), (''provider'', PStr ''p''), (''reservation_upper_bound_usd'', PFloat ''0.5''),
     (''global_limit_source'', PStr ''''), (''provider_receipt_binding'', PDict [(''request_id'', PStr ''q1'')])]"

definition open_written :: pydict where
  "open_written =
     [(''attempt_id'', PStr ''a1''), (''kind'', PStr ''attempt''), (''state'', PStr ''reserved''), (''root_task_id'',
     PStr ''r1''), (''provider'', PStr ''p''), (''reservation_upper_bound_usd'', PFloat ''0.5''),
     (''global_limit_source'', PStr []), (''provider_receipt_binding'', PDict [(''request_id'', PStr ''q1'')]),
     (''seq'', PInt 1), (''ts'', PStr ''2026-08-11T10:00:00+00:00'')]"

definition open_att :: stored_attempt where
  "open_att =
     \<lparr>sa_columns = [(''attempt_id'', PStr ''a1''), (''kind'', PStr ''attempt''), (''state'',
     PStr ''reserved''), (''root_task_id'', PStr ''r1''), (''provider'', PStr ''p''),
     (''reservation_upper_bound_usd'', PStr ''0.5''), (''seq'', PInt 1), (''ts'',
     PStr ''2026-08-11T10:00:00+00:00'')], sa_extra = [(''global_limit_source'', PStr []),
     (''provider_receipt_binding'', PDict [(''request_id'', PStr ''q1'')])], sa_revision = 1, sa_seq_first = 1,
     sa_ts_reserved = Some ''2026-08-11T10:00:00+00:00'', sa_ts_dispatched = None, sa_ts_final = None,
     sa_ts_last_us = Some 1786442400000000, sa_late_receipt = False, sa_weight = 1, sa_has_root_limit = False,
     sa_has_group_limit = False\<rparr>"

definition open_row :: pydict where
  "open_row =
     [(''global_limit_source'', PStr []), (''provider_receipt_binding'', PDict [(''request_id'', PStr ''q1'')]),
     (''attempt_id'', PStr ''a1''), (''kind'', PStr ''attempt''), (''state'', PStr ''reserved''), (''root_task_id'',
     PStr ''r1''), (''provider'', PStr ''p''), (''ts'', PStr ''2026-08-11T10:00:00+00:00''), (''seq'', PInt 1),
     (''reservation_upper_bound_usd'', PFloat ''0.5''), (''revision'', PInt 1)]"

lemma open_evaluated:
  "materialize sample_now 1 sample_open = open_written"
  "validate_row_fields open_written 1 = Inr ()"
  "validate_transition open_written None = Inr ()"
  "derived_attempt open_written None 1 1 = Inr open_att"
  "integers_fit (sa_columns open_att)"
  "attempt_row open_att = open_row"
  "exact_row open_row"
  by code_simp+

lemma open_shape: "row_shape ''a1'' sample_open"
  by (simp add: row_shape_def row_ok_def sample_open_def text_or_none_def)

lemma no_cause:
  "root_cause st ''r1'' = '''' \<Longrightarrow> dget row ''root_task_id'' = PStr ''r1'' \<Longrightarrow> dget row ''consciousness_cause'' = PNone
   \<Longrightarrow> category_cause (dget row ''category'') = '''' \<Longrightarrow> stamp_root_cause st row = row"
  by (simp add: stamp_root_cause_def valid_cause_def)

lemma open_stamped: "stamp_root_cause empty_store open_written = open_written"
  by (rule no_cause)
     (simp_all add: root_cause_def empty_store_def open_written_def dget_def category_cause_def)

definition open_store :: usage_store where
  "open_store = (case record_one_shot sample_now sample_open empty_store of Inr (_, st) \<Rightarrow> st | Inl _ \<Rightarrow> empty_store)"

lemma open_recorded:
  "record_one_shot sample_now sample_open empty_store = Inr (''a1'', open_store)"
  "us_attempts open_store = [open_att]" "snd (us_marker open_store) = 1"
  "us_bindings open_store = bind_root_attribution open_row (us_bindings empty_store)"
proof -
  have n: "snd (us_marker empty_store) = 0" "us_attempts empty_store = []" by (simp_all add: empty_store_def)
  have none: "recorded_one_shot sample_open empty_store = Inr None"
    by (simp add: recorded_one_shot_def Let_def empty_store_def attempt_def find_attempt_def sample_open_def)
  obtain st where w: "write_row sample_now sample_open None empty_store = Inr (open_row, st)" "us_attempts st = [open_att]"
      "snd (us_marker st) = 1" "us_bindings st = bind_root_attribution open_row (us_bindings empty_store)"
    using first_write_accepted [OF empty_store_all_ok n(2) open_shape, of 1 open_written sample_now open_att]
    by (auto simp: n open_evaluated open_stamped)
  have r: "record_one_shot sample_now sample_open empty_store = Inr (''a1'', st)"
    using none w(1) by (simp add: record_one_shot_def sample_open_def)
  then have "open_store = st" by (simp add: open_store_def)
  then show "record_one_shot sample_now sample_open empty_store = Inr (''a1'', open_store)"
    "us_attempts open_store = [open_att]" "snd (us_marker open_store) = 1"
    "us_bindings open_store = bind_root_attribution open_row (us_bindings empty_store)"
    using r w(2-4) by simp_all
qed

lemma open_reachable: "accounting_step\<^sup>*\<^sup>* empty_store open_store"
  using accounting_step.OneShot [OF open_recorded(1) open_shape] by (rule r_into_rtranclp)

section \<open>Reads of a store with one row\<close>

lemma one_row_cash:
  assumes "store_ok st" and "us_attempts st = [a]"
  shows "bk_cash (bucket_at st (''global'', '''')) = bk_cash (delta_of (attempt_row a))"
    and "monetary_scope_key (attempt_row a) = k \<Longrightarrow> bk_cash (bucket_at st (''root'', k)) = bk_cash (delta_of (attempt_row a))"
    and "billing_group_key (attempt_row a) = k \<Longrightarrow> bk_cash (bucket_at st (''group'', k)) = bk_cash (delta_of (attempt_row a))"
proof -
  have m: "money_ok st" using assms(1) by (simp add: store_ok_def)
  note b = bucket_at_exact [OF m]
  have c: "aggregate [(d, cap)] = aggregate [(d, cap)] \<Longrightarrow> bk_cash (aggregate [(d, cap)]) = bk_cash d" for d cap
    by (simp add: aggregate_def)
  show "bk_cash (bucket_at st (''global'', '''')) = bk_cash (delta_of (attempt_row a))"
    by (simp add: b stored_rows_def assms(2) row_contributions_main c)
  show "monetary_scope_key (attempt_row a) = k \<Longrightarrow> bk_cash (bucket_at st (''root'', k)) = bk_cash (delta_of (attempt_row a))"
    by (simp add: b stored_rows_def assms(2) row_contributions_main c)
  show "billing_group_key (attempt_row a) = k \<Longrightarrow> bk_cash (bucket_at st (''group'', k)) = bk_cash (delta_of (attempt_row a))"
    by (simp add: b stored_rows_def assms(2) row_contributions_main c)
qed

lemma not_isl: "\<not> isl s \<Longrightarrow> (\<And>x. s = Inr x \<Longrightarrow> P) \<Longrightarrow> P"
  by (cases s) auto

lemma one_row_shown:
  assumes "store_ok st" and "us_attempts st = [a]" and "\<not> isl (rounded_cash (bk_cash (delta_of (attempt_row a))))"
  shows "monetary_scope_key (attempt_row a) = k \<Longrightarrow> shown st (Some k) None = Inr ()"
    and "billing_group_key (attempt_row a) = k \<Longrightarrow> shown st None (Some k) = Inr ()"
proof -
  obtain x where x: "rounded_cash (bk_cash (delta_of (attempt_row a))) = Inr x" using assms(3) by (rule not_isl)
  note cash = one_row_cash(2,3) [OF assms(1,2)]
  show "monetary_scope_key (attempt_row a) = k \<Longrightarrow> shown st (Some k) None = Inr ()"
    "billing_group_key (attempt_row a) = k \<Longrightarrow> shown st None (Some k) = Inr ()"
    by (simp_all add: shown_def totals_def cash x in_store_def)
qed

lemma shown_commit: "shown (commit st) r g = shown st r g"
  by (cases r; cases g) (simp_all add: shown_def totals_def bucket_at_def commit_def)

text \<open>A written row leaves a lawful store.\<close>

lemma written_ok:
  assumes "store_ok st" and "attempt st i = Some current" and "row_shape i row"
    and "write_row now row (Some current) st = Inr (stored, st')"
  shows "store_ok st'"
proof -
  have "exec_money (RecordNext now i row) st = Inr st'" using assms(2,4) by simp
  moreover have "op_shape (RecordNext now i row)" using assms(3) by simp
  ultimately have "is_op st st'" unfolding is_op_def by blast
  then show ?thesis using assms(1) by (rule op_keeps_store_ok)
qed

lemma bindings_without_cause:
  "dget row ''consciousness_cause'' = PNone \<Longrightarrow> bind_root_attribution row m (''consciousness'', k) = m (''consciousness'', k)"
  by (simp add: bind_root_attribution_def insert_binding_def Let_def split: option.split)

section \<open>A send\<close>

definition sent_fields :: pydict where
  "sent_fields =
     [(''global_limit_source'', PStr []), (''provider_receipt_binding'', PDict [(''request_id'', PStr ''q1'')]),
     (''attempt_id'', PStr ''a1''), (''kind'', PStr ''attempt''), (''state'', PStr ''dispatched''), (''root_task_id'',
     PStr ''r1''), (''provider'', PStr ''p''), (''reservation_upper_bound_usd'', PFloat ''0.5''), (''launch_state'',
     PStr ''claimed''), (''transport_outcome'', PStr ''unknown''), (''root_limit_usd'', PNone),
     (''root_limit_source'', PNone), (''root_limit_revision'', PNone), (''billing_group_id'', PNone),
     (''billing_group_limit_usd'', PNone), (''billing_group_limit_source'', PNone), (''billing_group_limit_revision'',
     PNone)]"

definition sent_written :: pydict where
  "sent_written =
     [(''global_limit_source'', PStr []), (''provider_receipt_binding'', PDict [(''request_id'', PStr ''q1'')]),
     (''attempt_id'', PStr ''a1''), (''kind'', PStr ''attempt''), (''state'', PStr ''dispatched''), (''root_task_id'',
     PStr ''r1''), (''provider'', PStr ''p''), (''reservation_upper_bound_usd'', PFloat ''0.5''), (''launch_state'',
     PStr ''claimed''), (''transport_outcome'', PStr ''unknown''), (''root_limit_usd'', PNone),
     (''root_limit_source'', PNone), (''root_limit_revision'', PNone), (''billing_group_id'', PNone),
     (''billing_group_limit_usd'', PNone), (''billing_group_limit_source'', PNone), (''billing_group_limit_revision'',
     PNone), (''seq'', PInt 2), (''ts'', PStr ''2026-08-11T10:00:00+00:00'')]"

definition sent_att :: stored_attempt where
  "sent_att =
     \<lparr>sa_columns = [(''attempt_id'', PStr ''a1''), (''kind'', PStr ''attempt''), (''state'',
     PStr ''dispatched''), (''root_task_id'', PStr ''r1''), (''provider'', PStr ''p''),
     (''reservation_upper_bound_usd'', PStr ''0.5''), (''seq'', PInt 2), (''ts'',
     PStr ''2026-08-11T10:00:00+00:00'')], sa_extra = [(''global_limit_source'', PStr []),
     (''provider_receipt_binding'', PDict [(''request_id'', PStr ''q1'')]), (''launch_state'', PStr ''claimed''),
     (''transport_outcome'', PStr ''unknown''), (''root_limit_source'', PNone), (''root_limit_revision'', PNone),
     (''__none__'', PList [PStr ''root_limit_usd'', PStr ''billing_group_id'', PStr ''billing_group_limit_usd'',
     PStr ''billing_group_limit_source'', PStr ''billing_group_limit_revision''])], sa_revision = 2, sa_seq_first = 1,
     sa_ts_reserved = Some ''2026-08-11T10:00:00+00:00'', sa_ts_dispatched = Some ''2026-08-11T10:00:00+00:00'',
     sa_ts_final = None, sa_ts_last_us = Some 1786442400000000, sa_late_receipt = False, sa_weight = 1,
     sa_has_root_limit = True, sa_has_group_limit = True\<rparr>"

definition sent_row :: pydict where
  "sent_row =
     [(''global_limit_source'', PStr []), (''provider_receipt_binding'', PDict [(''request_id'', PStr ''q1'')]),
     (''launch_state'', PStr ''claimed''), (''transport_outcome'', PStr ''unknown''), (''root_limit_source'', PNone),
     (''root_limit_revision'', PNone), (''root_limit_usd'', PNone), (''billing_group_id'', PNone),
     (''billing_group_limit_usd'', PNone), (''billing_group_limit_source'', PNone), (''billing_group_limit_revision'',
     PNone), (''attempt_id'', PStr ''a1''), (''kind'', PStr ''attempt''), (''state'', PStr ''dispatched''),
     (''root_task_id'', PStr ''r1''), (''provider'', PStr ''p''), (''ts'', PStr ''2026-08-11T10:00:00+00:00''),
     (''seq'', PInt 2), (''reservation_upper_bound_usd'', PFloat ''0.5''), (''revision'', PInt 2)]"

definition send_facts :: pydict where
  "send_facts = [(''launch_state'', PStr ''claimed''), (''transport_outcome'', PStr ''unknown'')]"

lemma sent_written_evaluated:
  "next_row ''dispatched'' open_row (facts_for ''dispatched'' open_row send_facts) = sent_fields"
  "row_shape ''a1'' sent_fields"
  "materialize sample_now 2 sent_fields = sent_written"
  "validate_row_fields sent_written 2 = Inr ()"
  "validate_transition sent_written (Some open_row) = Inr ()"
  by code_simp+

lemma sent_stored_evaluated:
  "derived_attempt sent_written (Some open_att) 2 1 = Inr sent_att"
  "integers_fit (sa_columns sent_att)"
  "sent_att\<lparr>sa_columns := dset ''attempt_id'' (PStr ''a1'') (sa_columns sent_att)\<rparr> = sent_att"
  "attempt_row sent_att = sent_row"
  "exact_row sent_row"
  "next_revision (Some open_row) = Inr 2"
  by code_simp+

lemmas sent_evaluated = sent_written_evaluated sent_stored_evaluated

lemma open_facts:
  "bk_cash (delta_of open_row) = Cash 0 0 0 (1 / 2) 0" "monetary_scope_key open_row = ''r1''" "billing_group_key open_row = ''r1''"
  "exceeds_limit (Cash 0 0 0 (1 / 2) 0) (PFloat ''10.0'') = Inr False"
  "\<not> isl (rounded_cash (Cash 0 0 0 (1 / 2) 0))"
  "bk_cash (delta_of sent_row) = Cash 0 0 0 0 (1 / 2)" "\<not> isl (rounded_cash (Cash 0 0 0 0 (1 / 2)))" "monetary_scope_key sent_row = ''r1''" "billing_group_key sent_row = ''r1''"
  by code_simp+

lemma open_ok: "store_ok open_store"
  using open_reachable by (rule reachable_ok)

lemma open_attempt: "attempt open_store ''a1'' = Some open_row"
  by (simp add: attempt_def find_attempt_def open_recorded(2) open_evaluated(6) [symmetric])
     (simp add: has_id_def open_att_def)

lemma open_att_id: "has_id ''a1'' open_att" and open_att_seq: "sa_seq_first open_att = 1"
  by code_simp+

lemma open_att_columns:
  "column open_att ''task_id'' = PNone" "column open_att ''root_task_id'' = PStr ''r1''"
  "extracted (dget (sa_extra open_att) ''consciousness_cause'') = ''''" "category_cause (column open_att ''category'') = ''''"
  by code_simp+

lemma sent_stamped: "stamp_root_cause open_store sent_written = sent_written"
proof (rule no_cause)
  have "us_bindings open_store (''consciousness'', ''r1'') = None"
    by (simp add: open_recorded(4) bindings_without_cause open_row_def dget_def empty_store_def)
  then show "root_cause open_store ''r1'' = ''''"
    by (simp add: root_cause_def open_recorded(2) Let_def open_att_columns)
qed (simp_all add: sent_written_def dget_def category_cause_def)

lemma sent_written_ok:
  "\<exists>st. write_row sample_now sent_fields (Some open_row) open_store = Inr (sent_row, st) \<and> us_attempts st = [sent_att]
     \<and> snd (us_marker st) = 2 \<and> us_bindings st = bind_root_attribution sent_row (us_bindings open_store)"
proof -
  have "\<exists>st. write_row sample_now sent_fields (Some (attempt_row open_att)) open_store = Inr (attempt_row sent_att, st)
      \<and> us_attempts st = [sent_att] \<and> snd (us_marker st) = 2
      \<and> us_bindings st = bind_root_attribution (attempt_row sent_att) (us_bindings open_store)"
  proof (rule next_write_accepted [OF open_ok open_recorded(2) open_att_id sent_evaluated(2)])
    show "sent_written = stamp_root_cause open_store (materialize sample_now 2 sent_fields)"
      unfolding sent_evaluated(3) sent_stamped ..
    show "derived_attempt sent_written (Some open_att) 2 (sa_seq_first open_att) = Inr sent_att"
      unfolding open_att_seq by (rule sent_evaluated(6))
    show "next_revision (Some (attempt_row open_att)) = Inr 2"
      unfolding open_evaluated(6) by (rule sent_evaluated(11))
    show "validate_transition sent_written (Some (attempt_row open_att)) = Inr ()"
      unfolding open_evaluated(6) by (rule sent_evaluated(5))
    show "exact_row (attempt_row open_att)" "exact_row (attempt_row sent_att)"
      unfolding open_evaluated(6) sent_evaluated(9) by (rule open_evaluated(7) sent_evaluated(10))+
    show "2 = snd (us_marker open_store) + 1" unfolding open_recorded(3) by simp
  qed (rule sent_evaluated(8) [symmetric] sent_evaluated(4,7))+
  then show ?thesis unfolding open_evaluated(6) sent_evaluated(9) .
qed

lemma open_checked: "dispatch_checks sample_env open_row open_store = Inr ()"
proof -
  let ?s = "row_scope PNone open_row"
  have t: "totals open_store None None = Inr (Cash 0 0 0 (1 / 2) 0)"
    using one_row_cash(1) [OF open_ok open_recorded(2)] by (simp add: totals_def open_evaluated(6) open_facts(1))
  have g: "dispatch_limit open_row = Inr PNone" "global_limit_of (PFloat ''10.0'') PNone = Inr (PFloat ''10.0'')"
    "scope_group ?s = Inr (''r1'', PNone)" "sc_root_limit_usd ?s = PNone" "\<not> stand_in_group ''r1''"
    by code_simp+
  have "check_axis open_store ''global'' ?s (PFloat ''10.0'') None = Inr ()"
    by (simp add: check_axis_def scope_exceeds_limit_def t open_facts(4) in_store_def guard_that_def)
  moreover have "raise_group_refusal open_store ?s = Inr ()"
    by (simp add: raise_group_refusal_def g Let_def)
  ultimately show ?thesis
    by (simp add: dispatch_checks_def Let_def g check_axis_def [of _ "''root''"])
qed

definition sent_store :: usage_store where
  "sent_store = snd (mark_dispatched sample_env (handle_of ''a1'') True PNone 0 [] open_store)"

lemma sent_marked:
  "mark_dispatched sample_env (handle_of ''a1'') True PNone 0 [] open_store = (Inr (), sent_store)"
  "us_attempts sent_store = [sent_att]" "snd (us_marker sent_store) = 2"
  "us_bindings sent_store = bind_root_attribution sent_row (us_bindings open_store)"
proof -
  obtain st where w: "write_row sample_now sent_fields (Some open_row) open_store = Inr (sent_row, st)"
    and st: "us_attempts st = [sent_att]" "snd (us_marker st) = 2"
      "us_bindings st = bind_root_attribution sent_row (us_bindings open_store)"
    using sent_written_ok by blast
  have o: "opened open_store" using open_ok by (simp add: store_ok_def)
  have ok: "store_ok st" by (rule written_ok [OF open_ok open_attempt sent_evaluated(2) w])
  have "shown st (Some ''r1'') None = Inr ()" "shown st None (Some ''r1'') = Inr ()"
    using one_row_shown [OF ok st(1)] by (simp_all add: sent_evaluated(9) open_facts)
  then have axes: "shown_axes (commit st) open_row = Inr ()"
    by (simp add: shown_axes_def shown_commit open_facts(3)) (simp add: open_row_def dget_def)
  have "open_txn (commit st) = st" using ok by (intro open_txn_commit) (simp add: store_ok_def)
  then have adv: "advance_row sample_env open_row ''dispatched'' send_facts open_store = Inr (sent_row, st)"
    unfolding advance_row_def Let_def facts_for_def [symmetric]
    using w axes by (simp add: open_checked sent_evaluated(1) in_store_def launch_checks_def)
  have d: "decide_transition ''a1'' (plain_call ''dispatched'' send_facts) open_row = Inr (Moves ''dispatched'' send_facts)"
    using decide_dispatch [of "plain_call ''dispatched'' send_facts"] by (simp add: plain_call_def)
  have "transition_once sample_env (handle_of ''a1'') (plain_call ''dispatched'' send_facts) open_store = Inr (sent_row, st)"
    unfolding transition_once_def Let_def opened_txn [OF o]
    by (simp add: handle_of_def open_attempt d adv)
  then have "mark_dispatched sample_env (handle_of ''a1'') True PNone 0 [] open_store = (Inr (), st)"
    by (simp add: mark_dispatched_def send_facts_def manifest_field_def)
  then show "mark_dispatched sample_env (handle_of ''a1'') True PNone 0 [] open_store = (Inr (), sent_store)"
    "us_attempts sent_store = [sent_att]" "snd (us_marker sent_store) = 2"
    "us_bindings sent_store = bind_root_attribution sent_row (us_bindings open_store)"
    using st by (simp_all add: sent_store_def)
qed

lemma sent_reachable: "accounting_step\<^sup>*\<^sup>* empty_store sent_store"
proof -
  have "accounting_step open_store sent_store" using accounting_step.Dispatched [OF sent_marked(1)] by simp
  then show ?thesis using open_reachable by simp
qed

lemma sent_ok: "store_ok sent_store"
  using sent_reachable by (rule reachable_ok)

lemma sent_attempt: "attempt sent_store ''a1'' = Some sent_row"
proof -
  have "has_id ''a1'' sent_att" by (simp add: has_id_def sent_att_def)
  then show ?thesis by (simp add: attempt_def find_attempt_def sent_marked(2) sent_evaluated(9))
qed

section \<open>A price\<close>

definition priced_fields :: pydict where
  "priced_fields =
     [(''global_limit_source'', PStr []), (''provider_receipt_binding'', PDict [(''request_id'', PStr ''q1'')]),
     (''launch_state'', PStr ''claimed''), (''transport_outcome'', PStr ''unknown''), (''root_limit_source'', PNone),
     (''root_limit_revision'', PNone), (''root_limit_usd'', PNone), (''billing_group_id'', PNone),
     (''billing_group_limit_usd'', PNone), (''billing_group_limit_source'', PNone), (''billing_group_limit_revision'',
     PNone), (''attempt_id'', PStr ''a1''), (''kind'', PStr ''attempt''), (''state'', PStr ''settled''),
     (''root_task_id'', PStr ''r1''), (''provider'', PStr ''p''), (''reservation_upper_bound_usd'', PFloat ''0.5''),
     (''cost_usd'', PFloat ''1.25''), (''cost_final'', PBool True), (''settle_reason'', PStr ''late_receipt''),
     (''provider_price_receipt'', PDict [(''attempt_id'', PStr ''a1''), (''provider'', PStr ''p''), (''evidence_ref'',
     PStr ''e1''), (''cost_usd'', PFloat ''1.25''), (''binding'', PDict [(''request_id'', PStr ''q1'')])])]"

definition priced_written :: pydict where
  "priced_written =
     [(''global_limit_source'', PStr []), (''provider_receipt_binding'', PDict [(''request_id'', PStr ''q1'')]),
     (''launch_state'', PStr ''claimed''), (''transport_outcome'', PStr ''unknown''), (''root_limit_source'', PNone),
     (''root_limit_revision'', PNone), (''root_limit_usd'', PNone), (''billing_group_id'', PNone),
     (''billing_group_limit_usd'', PNone), (''billing_group_limit_source'', PNone), (''billing_group_limit_revision'',
     PNone), (''attempt_id'', PStr ''a1''), (''kind'', PStr ''attempt''), (''state'', PStr ''settled''),
     (''root_task_id'', PStr ''r1''), (''provider'', PStr ''p''), (''reservation_upper_bound_usd'', PFloat ''0.5''),
     (''cost_usd'', PFloat ''1.25''), (''cost_final'', PBool True), (''settle_reason'', PStr ''late_receipt''),
     (''provider_price_receipt'', PDict [(''attempt_id'', PStr ''a1''), (''provider'', PStr ''p''), (''evidence_ref'',
     PStr ''e1''), (''cost_usd'', PFloat ''1.25''), (''binding'', PDict [(''request_id'', PStr ''q1'')])]), (''seq'',
     PInt 3), (''ts'', PStr ''2026-08-11T10:00:00+00:00'')]"

definition priced_att :: stored_attempt where
  "priced_att =
     \<lparr>sa_columns = [(''attempt_id'', PStr ''a1''), (''kind'', PStr ''attempt''), (''state'', PStr ''settled''),
     (''root_task_id'', PStr ''r1''), (''provider'', PStr ''p''), (''reservation_upper_bound_usd'', PStr ''0.5''),
     (''cost_usd'', PStr ''1.25''), (''cost_final'', PInt 1), (''settle_reason'', PStr ''late_receipt''), (''seq'',
     PInt 3), (''ts'', PStr ''2026-08-11T10:00:00+00:00'')], sa_extra = [(''global_limit_source'', PStr []),
     (''provider_receipt_binding'', PDict [(''request_id'', PStr ''q1'')]), (''launch_state'', PStr ''claimed''),
     (''transport_outcome'', PStr ''unknown''), (''root_limit_source'', PNone), (''root_limit_revision'', PNone),
     (''provider_price_receipt'', PDict [(''attempt_id'', PStr ''a1''), (''provider'', PStr ''p''), (''evidence_ref'',
     PStr ''e1''), (''cost_usd'', PFloat ''1.25''), (''binding'', PDict [(''request_id'', PStr ''q1'')])]),
     (''__none__'', PList [PStr ''root_limit_usd'', PStr ''billing_group_id'', PStr ''billing_group_limit_usd'',
     PStr ''billing_group_limit_source'', PStr ''billing_group_limit_revision''])], sa_revision = 3, sa_seq_first = 1,
     sa_ts_reserved = Some ''2026-08-11T10:00:00+00:00'', sa_ts_dispatched = Some ''2026-08-11T10:00:00+00:00'',
     sa_ts_final = Some ''2026-08-11T10:00:00+00:00'', sa_ts_last_us = Some 1786442400000000, sa_late_receipt = True,
     sa_weight = 1, sa_has_root_limit = True, sa_has_group_limit = True\<rparr>"

definition priced_final :: pydict where
  "priced_final =
     [(''global_limit_source'', PStr []), (''provider_receipt_binding'', PDict [(''request_id'', PStr ''q1'')]),
     (''launch_state'', PStr ''claimed''), (''transport_outcome'', PStr ''unknown''), (''root_limit_source'', PNone),
     (''root_limit_revision'', PNone), (''provider_price_receipt'', PDict [(''attempt_id'', PStr ''a1''),
     (''provider'', PStr ''p''), (''evidence_ref'', PStr ''e1''), (''cost_usd'', PFloat ''1.25''), (''binding'',
     PDict [(''request_id'', PStr ''q1'')])]), (''root_limit_usd'', PNone), (''billing_group_id'', PNone),
     (''billing_group_limit_usd'', PNone), (''billing_group_limit_source'', PNone), (''billing_group_limit_revision'',
     PNone), (''attempt_id'', PStr ''a1''), (''kind'', PStr ''attempt''), (''state'', PStr ''settled''),
     (''root_task_id'', PStr ''r1''), (''provider'', PStr ''p''), (''settle_reason'', PStr ''late_receipt''), (''ts'',
     PStr ''2026-08-11T10:00:00+00:00''), (''seq'', PInt 3), (''cost_final'', PBool True), (''cost_usd'',
     PFloat ''1.25''), (''reservation_upper_bound_usd'', PFloat ''0.5''), (''revision'', PInt 3)]"

definition receipt_fields :: pydict where
  "receipt_fields = [(''attempt_id'', PStr ''a1''), (''provider'', PStr ''p''), (''evidence_ref'', PStr ''e1''),
     (''cost_usd'', PFloat ''1.25''), (''binding'', PDict receipt_binding)]"

lemma priced_written_evaluated:
  "price_fact ''a1'' sample_receipt = Some (receipt_fields, PFloat ''1.25'')"
  "priced_row sent_row receipt_fields (PFloat ''1.25'') = priced_fields"
  "row_shape ''a1'' priced_fields"
  "materialize sample_now 3 priced_fields = priced_written"
  "validate_row_fields priced_written 3 = Inr ()"
  "validate_transition priced_written (Some sent_row) = Inr ()"
  by code_simp+

lemma priced_stored_evaluated:
  "derived_attempt priced_written (Some sent_att) 3 1 = Inr priced_att"
  "integers_fit (sa_columns priced_att)"
  "priced_att\<lparr>sa_columns := dset ''attempt_id'' (PStr ''a1'') (sa_columns priced_att)\<rparr> = priced_att"
  "attempt_row priced_att = priced_final"
  "exact_row priced_final"
  "next_revision (Some sent_row) = Inr 3"
  by code_simp+

lemmas priced_evaluated = priced_written_evaluated priced_stored_evaluated

lemma sent_facts:
  "dget sent_row ''provider_receipt_binding'' \<noteq> PNone" "dget sent_row ''cost_final'' \<noteq> PBool True"
  "py_eq (dget receipt_fields ''binding'') (dget sent_row ''provider_receipt_binding'')"
  "py_eq (dget receipt_fields ''provider'') (dget sent_row ''provider'')"
  "provider_price_refinable sent_row" "axis_key (dget sent_row ''root_task_id'') = Some ''r1''"
  "\<not> isl (rounded_cash (bk_cash (delta_of priced_final)))"
  "monetary_scope_key priced_final = ''r1''" "billing_group_key priced_final = ''r1''"
  by code_simp+

lemma sent_att_facts:
  "has_id ''a1'' sent_att" "sa_seq_first sent_att = 1"
  "column sent_att ''task_id'' = PNone" "column sent_att ''root_task_id'' = PStr ''r1''"
  "extracted (dget (sa_extra sent_att) ''consciousness_cause'') = ''''" "category_cause (column sent_att ''category'') = ''''"
  by code_simp+

lemma sent_without_cause: "root_cause sent_store ''r1'' = []"
proof -
  have "us_bindings sent_store (''consciousness'', ''r1'') = None"
    by (simp add: sent_marked(4) open_recorded(4) bindings_without_cause open_row_def sent_row_def dget_def empty_store_def)
  then show ?thesis
    by (simp add: root_cause_def sent_marked(2) Let_def sent_att_facts)
qed

lemma priced_stamped: "stamp_root_cause sent_store priced_written = priced_written"
  by (rule no_cause [OF sent_without_cause]) (simp_all add: priced_written_def dget_def category_cause_def)

lemma priced_written_ok:
  "\<exists>st. write_row sample_now priced_fields (Some sent_row) sent_store = Inr (priced_final, st) \<and> us_attempts st = [priced_att]
     \<and> snd (us_marker st) = 3 \<and> us_bindings st = bind_root_attribution priced_final (us_bindings sent_store)"
proof -
  have "\<exists>st. write_row sample_now priced_fields (Some (attempt_row sent_att)) sent_store = Inr (attempt_row priced_att, st)
      \<and> us_attempts st = [priced_att] \<and> snd (us_marker st) = 3
      \<and> us_bindings st = bind_root_attribution (attempt_row priced_att) (us_bindings sent_store)"
  proof (rule next_write_accepted [OF sent_ok sent_marked(2) sent_att_facts(1) priced_evaluated(3)])
    show "priced_written = stamp_root_cause sent_store (materialize sample_now 3 priced_fields)"
      unfolding priced_evaluated(4) priced_stamped ..
    show "derived_attempt priced_written (Some sent_att) 3 (sa_seq_first sent_att) = Inr priced_att"
      unfolding sent_att_facts(2) by (rule priced_evaluated(7))
    show "next_revision (Some (attempt_row sent_att)) = Inr 3"
      unfolding sent_evaluated(9) by (rule priced_evaluated(12))
    show "validate_transition priced_written (Some (attempt_row sent_att)) = Inr ()"
      unfolding sent_evaluated(9) by (rule priced_evaluated(6))
    show "exact_row (attempt_row sent_att)" "exact_row (attempt_row priced_att)"
      unfolding sent_evaluated(9) priced_evaluated(10) by (rule sent_evaluated(10) priced_evaluated(11))+
    show "3 = snd (us_marker sent_store) + 1" unfolding sent_marked(3) by simp
  qed (rule priced_evaluated(9) [symmetric] priced_evaluated(5,8))+
  then show ?thesis unfolding sent_evaluated(9) priced_evaluated(10) .
qed

lemma price_applied_to_send:
  "\<exists>st. apply_provider_price_receipt sample_env ''a1'' sample_receipt None sent_store = Inr (Applied priced_final, st)
     \<and> attempt st ''a1'' = Some priced_final"
proof -
  obtain st where w: "write_row sample_now priced_fields (Some sent_row) sent_store = Inr (priced_final, st)"
    and st: "us_attempts st = [priced_att]"
    using priced_written_ok by blast
  have o: "opened sent_store" using sent_ok by (simp add: store_ok_def)
  have ok: "store_ok st" by (rule written_ok [OF sent_ok sent_attempt priced_evaluated(3) w])
  have "shown st (Some ''r1'') None = Inr ()" "shown st None (Some ''r1'') = Inr ()"
    using one_row_shown [OF ok st] by (simp_all add: priced_evaluated(10) sent_facts)
  then have p: "shown_prices st sent_row = Inr ()"
    by (simp add: shown_prices_def sent_facts(6) open_facts(9))
  have "has_id ''a1'' priced_att" by (simp add: has_id_def priced_att_def)
  then have "attempt (open_txn st) ''a1'' = Some priced_final"
    by (simp add: attempt_def find_attempt_def open_txn_def st priced_evaluated(10))
  moreover have "apply_provider_price_receipt sample_env ''a1'' sample_receipt None sent_store = Inr (Applied priced_final, open_txn st)"
    unfolding apply_provider_price_receipt_def Let_def opened_txn [OF o] priced_evaluated(1) option.case prod.case sent_attempt
    by (simp add: sent_facts(1-5) priced_evaluated(2) w p in_store_def)
  ultimately show ?thesis by blast
qed

section \<open>A closure\<close>

definition closed_fields :: pydict where
  "closed_fields =
     [(''global_limit_source'', PStr []), (''provider_receipt_binding'', PDict [(''request_id'', PStr ''q1'')]),
     (''launch_state'', PStr ''claimed''), (''transport_outcome'', PStr ''unknown''), (''root_limit_source'', PNone),
     (''root_limit_revision'', PNone), (''root_limit_usd'', PNone), (''billing_group_id'', PNone),
     (''billing_group_limit_usd'', PNone), (''billing_group_limit_source'', PNone), (''billing_group_limit_revision'',
     PNone), (''attempt_id'', PStr ''a1''), (''kind'', PStr ''attempt''), (''state'', PStr ''settled''),
     (''root_task_id'', PStr ''r1''), (''provider'', PStr ''p''), (''reservation_upper_bound_usd'', PFloat ''0.5''),
     (''cost_usd'', PNone), (''cost_final'', PBool False), (''settle_reason'', PStr ''abandoned''),
     (''reason'', PStr ''owner_task_terminal'')]"

definition closed_written :: pydict where
  "closed_written = closed_fields @ [(''seq'', PInt 3), (''ts'', PStr ''2026-08-11T10:00:00+00:00'')]"

definition closing_facts :: pydict where
  "closing_facts = [(''cost_usd'', PNone), (''cost_final'', PBool False), (''settle_reason'', PStr ''abandoned''),
     (''reason'', PStr ''owner_task_terminal'')]"

definition closed_att :: stored_attempt where
  "closed_att =
     \<lparr>sa_columns = [(''attempt_id'', PStr ''a1''), (''kind'', PStr ''attempt''), (''state'', PStr ''settled''),
     (''root_task_id'', PStr ''r1''), (''provider'', PStr ''p''), (''reservation_upper_bound_usd'', PStr ''0.5''),
     (''cost_final'', PInt 0), (''settle_reason'', PStr ''abandoned''), (''seq'', PInt 3), (''ts'',
     PStr ''2026-08-11T10:00:00+00:00'')], sa_extra = [(''global_limit_source'', PStr []),
     (''provider_receipt_binding'', PDict [(''request_id'', PStr ''q1'')]), (''launch_state'', PStr ''claimed''),
     (''transport_outcome'', PStr ''unknown''), (''root_limit_source'', PNone), (''root_limit_revision'', PNone),
     (''reason'', PStr ''owner_task_terminal''),
     (''__none__'', PList [PStr ''root_limit_usd'', PStr ''billing_group_id'', PStr ''billing_group_limit_usd'',
     PStr ''billing_group_limit_source'', PStr ''billing_group_limit_revision'', PStr ''cost_usd''])], sa_revision = 3,
     sa_seq_first = 1, sa_ts_reserved = Some ''2026-08-11T10:00:00+00:00'',
     sa_ts_dispatched = Some ''2026-08-11T10:00:00+00:00'', sa_ts_final = Some ''2026-08-11T10:00:00+00:00'',
     sa_ts_last_us = Some 1786442400000000, sa_late_receipt = False, sa_weight = 1, sa_has_root_limit = True,
     sa_has_group_limit = True\<rparr>"

definition closed_row :: pydict where
  "closed_row =
     [(''global_limit_source'', PStr []), (''provider_receipt_binding'', PDict [(''request_id'', PStr ''q1'')]),
     (''launch_state'', PStr ''claimed''), (''transport_outcome'', PStr ''unknown''), (''root_limit_source'', PNone),
     (''root_limit_revision'', PNone), (''reason'', PStr ''owner_task_terminal''), (''root_limit_usd'', PNone),
     (''billing_group_id'', PNone), (''billing_group_limit_usd'', PNone), (''billing_group_limit_source'', PNone),
     (''billing_group_limit_revision'', PNone), (''cost_usd'', PNone), (''attempt_id'', PStr ''a1''), (''kind'',
     PStr ''attempt''), (''state'', PStr ''settled''), (''root_task_id'', PStr ''r1''), (''provider'', PStr ''p''),
     (''settle_reason'', PStr ''abandoned''), (''ts'', PStr ''2026-08-11T10:00:00+00:00''), (''seq'', PInt 3),
     (''cost_final'', PBool False), (''reservation_upper_bound_usd'', PFloat ''0.5''), (''revision'', PInt 3)]"

lemma closed_written_evaluated:
  "next_row ''settled'' sent_row closing_facts = closed_fields"
  "row_shape ''a1'' closed_fields"
  "materialize sample_now 3 closed_fields = closed_written"
  "validate_row_fields closed_written 3 = Inr ()"
  "validate_transition closed_written (Some sent_row) = Inr ()"
  by code_simp+

lemma closed_stored_evaluated:
  "derived_attempt closed_written (Some sent_att) 3 1 = Inr closed_att"
  "integers_fit (sa_columns closed_att)"
  "closed_att\<lparr>sa_columns := dset ''attempt_id'' (PStr ''a1'') (sa_columns closed_att)\<rparr> = closed_att"
  "attempt_row closed_att = closed_row"
  "exact_row closed_row"
  by code_simp+

lemma closed_facts:
  "\<not> isl (rounded_cash (bk_cash (delta_of closed_row)))"
  "monetary_scope_key closed_row = ''r1''" "billing_group_key closed_row = ''r1''"
  "abandon_step (closing_call [] (take 3 closing_facts) None (Some 2)) sent_row = Moves ''settled'' closing_facts"
  "\<not> superseded (closing_call [] (take 3 closing_facts) None (Some 2)) sent_row"
  "superseded (closing_call [] (take 3 closing_facts) None (Some 1)) sent_row"
  "settle_step ''a1'' False sent_row ''settled'' closing_facts = Inr (Moves ''settled'' closing_facts)"
  "\<not> measured []" "py_str (dget sent_row ''state'') = ''dispatched''" "dget sent_row ''state'' = PStr ''dispatched''"
  by code_simp+

lemma closed_stamped: "stamp_root_cause sent_store closed_written = closed_written"
  by (rule no_cause [OF sent_without_cause])
     (simp_all add: closed_written_def closed_fields_def dget_def category_cause_def)

lemma closed_written_ok:
  "\<exists>st. write_row sample_now closed_fields (Some sent_row) sent_store = Inr (closed_row, st) \<and> us_attempts st = [closed_att]"
proof -
  have "\<exists>st. write_row sample_now closed_fields (Some (attempt_row sent_att)) sent_store = Inr (attempt_row closed_att, st)
      \<and> us_attempts st = [closed_att] \<and> snd (us_marker st) = 3
      \<and> us_bindings st = bind_root_attribution (attempt_row closed_att) (us_bindings sent_store)"
  proof (rule next_write_accepted [OF sent_ok sent_marked(2) sent_att_facts(1) closed_written_evaluated(2)])
    show "closed_written = stamp_root_cause sent_store (materialize sample_now 3 closed_fields)"
      unfolding closed_written_evaluated(3) closed_stamped ..
    show "derived_attempt closed_written (Some sent_att) 3 (sa_seq_first sent_att) = Inr closed_att"
      unfolding sent_att_facts(2) by (rule closed_stored_evaluated(1))
    show "next_revision (Some (attempt_row sent_att)) = Inr 3"
      unfolding sent_evaluated(9) by (rule priced_evaluated(12))
    show "validate_transition closed_written (Some (attempt_row sent_att)) = Inr ()"
      unfolding sent_evaluated(9) by (rule closed_written_evaluated(5))
    show "exact_row (attempt_row sent_att)" "exact_row (attempt_row closed_att)"
      unfolding sent_evaluated(9) closed_stored_evaluated(4) by (rule sent_evaluated(10) closed_stored_evaluated(5))+
    show "3 = snd (us_marker sent_store) + 1" unfolding sent_marked(3) by simp
  qed (rule closed_stored_evaluated(3) [symmetric] closed_written_evaluated(4) closed_stored_evaluated(2))+
  then show ?thesis unfolding sent_evaluated(9) closed_stored_evaluated(4) by blast
qed

lemma sent_is_closed:
  "\<exists>st. terminalize_abandoned_attempt (\<lambda>_ _. PNone) sample_env (handle_of ''a1'') [] [] None (Some 2) sent_store
     = Inr (''settled'', st)"
proof -
  obtain st where w: "write_row sample_now closed_fields (Some sent_row) sent_store = Inr (closed_row, st)"
    and st: "us_attempts st = [closed_att]"
    using closed_written_ok by blast
  have o: "opened sent_store" using sent_ok by (simp add: store_ok_def)
  have ok: "store_ok st" by (rule written_ok [OF sent_ok sent_attempt closed_written_evaluated(2) w])
  have "shown st (Some ''r1'') None = Inr ()" "shown st None (Some ''r1'') = Inr ()"
    using one_row_shown [OF ok st] by (simp_all add: closed_stored_evaluated(4) closed_facts)
  then have "shown_axes st sent_row = Inr ()"
    by (simp add: shown_axes_def open_facts) (simp add: sent_row_def dget_def)
  then have adv: "advance_row sample_env sent_row ''settled'' closing_facts sent_store = Inr (closed_row, open_txn st)"
    using w by (simp add: advance_row_def Let_def closed_written_evaluated(1) in_store_def)
  let ?c = "closing_call [] (take 3 closing_facts) None (Some 2)"
  have d: "decide_transition ''a1'' ?c sent_row = Inr (Moves ''settled'' closing_facts)"
    using closed_facts(4,5,7) by (simp add: decide_transition_def closing_call_def)
  have "transition_once sample_env (handle_of ''a1'') ?c sent_store = Inr (closed_row, open_txn st)"
    unfolding transition_once_def Let_def opened_txn [OF o]
    by (simp add: handle_of_def sent_attempt d adv)
  then show ?thesis
    by (simp add: terminalize_abandoned_attempt_def closed_facts(8) closing_call_def closing_facts_def
        closed_row_def dget_def)
qed

section \<open>A reservation\<close>

definition sample_request :: attempt_request where
  "sample_request = \<lparr>rq_model = PStr ''m'', rq_provider = PStr ''p'', rq_reservation_usd = PFloat ''0.5'', rq_max_budget_usd = PNone,
     rq_global_limit_usd = PNone, rq_drive_root = PNone, rq_task_id = PStr ''t1'', rq_root_task_id = PStr ''r1'',
     rq_parent_task_id = PNone, rq_category = PNone, rq_source = PNone, rq_root_limit_usd = PFloat ''5.0'',
     rq_force_unknown_reservation = False, rq_candidate_raw_sha256 = PNone, rq_candidate_raw_size_bytes = PNone,
     rq_candidate_context_sha256 = PNone, rq_candidate_context_size_bytes = PNone,
     rq_candidate_measurement_kind = PStr ''opaque'', rq_physical_context = PNone, rq_global_limit_source = PNone,
     rq_global_limit_revision = PNone, rq_processing_preference = PStr '''', rq_submitted_processing_mode = PStr '''',
     rq_processing_basis = PNone, rq_effort = PNone,
     rq_provider_receipt_binding = PDict [(''request_id'', PStr ''q1'')]\<rparr>"

definition merged_sample :: usage_scope where
  "merged_sample =
     \<lparr>sc_drive_root = PNone, sc_task_id = PStr ''t1'', sc_root_task_id = PStr ''r1'',
     sc_parent_task_id = PStr [], sc_category = PStr ''task'', sc_source = PStr ''llm'',
     sc_non_task_operation = False, sc_review_skill = PStr [], sc_review_wave_id = PStr [],
     sc_review_slot_id = PStr [], sc_global_limit_usd = PNone, sc_root_limit_usd = PFloat ''5.0'',
     sc_root_cost_ceiling_usd = PNone, sc_global_limit_source = PStr [], sc_global_limit_revision = PNone,
     sc_billing_group_id = PStr [], sc_billing_group_limit_usd = PNone, sc_billing_group_limit_source = PStr [],
     sc_billing_group_limit_revision = PNone, sc_root_limit_source = PStr [], sc_root_limit_revision = PNone,
     sc_consciousness_cause = PStr []\<rparr>"

definition reserved_fields :: pydict where
  "reserved_fields =
     [(''kind'', PStr ''attempt''), (''attempt_id'', PStr ''a1''), (''state'', PStr ''reserved''), (''model'',
     PStr ''m''), (''provider'', PStr ''p''), (''reservation_upper_bound_usd'', PFloat ''0.5''), (''pricing_known'',
     PBool True), (''reservation_basis'', PStr ''linear_pricing''), (''task_id'', PStr ''t1''), (''root_task_id'',
     PStr ''r1''), (''parent_task_id'', PStr []), (''billing_group_id'', PStr ''r1''), (''billing_group_limit_usd'',
     PFloat ''5.0''), (''billing_group_limit_source'', PStr []), (''billing_group_limit_revision'', PNone),
     (''category'', PStr ''task''), (''source'', PStr ''llm''), (''review_skill'', PStr []), (''review_wave_id'',
     PStr []), (''review_slot_id'', PStr []), (''global_limit_usd'', PFloat ''10.0''), (''global_limit_unbounded'',
     PBool False), (''global_limit_source'', PStr ''settings_budget_resolver''), (''global_limit_revision'', PNone),
     (''root_limit_usd'', PFloat ''5.0''), (''root_limit_source'', PStr []), (''root_limit_revision'', PNone),
     (''candidate_raw_sha256'', PNone), (''candidate_raw_size_bytes'', PNone), (''candidate_context_sha256'', PNone),
     (''candidate_context_size_bytes'', PNone), (''candidate_measurement_kind'', PStr ''opaque''),
     (''physical_context'', PNone), (''provider_receipt_binding'', PDict [(''request_id'', PStr ''q1'')])]"

definition reserved_att :: stored_attempt where
  "reserved_att =
     \<lparr>sa_columns = [(''kind'', PStr ''attempt''), (''attempt_id'', PStr ''a1''), (''state'',
     PStr ''reserved''), (''model'', PStr ''m''), (''provider'', PStr ''p''), (''reservation_upper_bound_usd'',
     PStr ''0.5''), (''pricing_known'', PInt 1), (''task_id'', PStr ''t1''), (''root_task_id'', PStr ''r1''),
     (''parent_task_id'', PStr []), (''billing_group_id'', PStr ''r1''), (''billing_group_limit_usd'', PStr ''5.0''),
     (''billing_group_limit_source'', PStr []), (''category'', PStr ''task''), (''source'', PStr ''llm''),
     (''review_skill'', PStr []), (''review_wave_id'', PStr []), (''review_slot_id'', PStr []), (''root_limit_usd'',
     PStr ''5.0''), (''seq'', PInt 1), (''ts'', PStr ''2026-08-11T10:00:00+00:00'')],
     sa_extra = [(''reservation_basis'', PStr ''linear_pricing''), (''global_limit_usd'', PFloat ''10.0''),
     (''global_limit_unbounded'', PBool False), (''global_limit_source'', PStr ''settings_budget_resolver''),
     (''global_limit_revision'', PNone), (''root_limit_source'', PStr []), (''root_limit_revision'', PNone),
     (''candidate_raw_sha256'', PNone), (''candidate_raw_size_bytes'', PNone), (''candidate_context_sha256'', PNone),
     (''candidate_context_size_bytes'', PNone), (''candidate_measurement_kind'', PStr ''opaque''),
     (''physical_context'', PNone), (''provider_receipt_binding'', PDict [(''request_id'', PStr ''q1'')]),
     (''__none__'', PList [PStr ''billing_group_limit_revision''])], sa_revision = 1, sa_seq_first = 1,
     sa_ts_reserved = Some ''2026-08-11T10:00:00+00:00'', sa_ts_dispatched = None, sa_ts_final = None,
     sa_ts_last_us = Some 1786442400000000, sa_late_receipt = False, sa_weight = 1, sa_has_root_limit = True,
     sa_has_group_limit = True\<rparr>"

definition reserved_stored :: pydict where
  "reserved_stored =
     [(''reservation_basis'', PStr ''linear_pricing''), (''global_limit_usd'', PFloat ''10.0''),
     (''global_limit_unbounded'', PBool False), (''global_limit_source'', PStr ''settings_budget_resolver''),
     (''global_limit_revision'', PNone), (''root_limit_source'', PStr []), (''root_limit_revision'', PNone),
     (''candidate_raw_sha256'', PNone), (''candidate_raw_size_bytes'', PNone), (''candidate_context_sha256'', PNone),
     (''candidate_context_size_bytes'', PNone), (''candidate_measurement_kind'', PStr ''opaque''),
     (''physical_context'', PNone), (''provider_receipt_binding'', PDict [(''request_id'', PStr ''q1'')]),
     (''billing_group_limit_revision'', PNone), (''attempt_id'', PStr ''a1''), (''kind'', PStr ''attempt''),
     (''state'', PStr ''reserved''), (''task_id'', PStr ''t1''), (''root_task_id'', PStr ''r1''), (''parent_task_id'',
     PStr []), (''billing_group_id'', PStr ''r1''), (''model'', PStr ''m''), (''provider'', PStr ''p''),
     (''category'', PStr ''task''), (''source'', PStr ''llm''), (''billing_group_limit_source'', PStr []),
     (''review_skill'', PStr []), (''review_wave_id'', PStr []), (''review_slot_id'', PStr []), (''ts'',
     PStr ''2026-08-11T10:00:00+00:00''), (''seq'', PInt 1), (''pricing_known'', PBool True),
     (''reservation_upper_bound_usd'', PFloat ''0.5''), (''root_limit_usd'', PFloat ''5.0''),
     (''billing_group_limit_usd'', PFloat ''5.0''), (''revision'', PInt 1)]"

definition reserved_written :: pydict where
  "reserved_written = reserved_fields @ [(''seq'', PInt 1), (''ts'', PStr sample_now)]"

lemma reserved_built:
  "reserved_row ''a1'' sample_request merged_sample (PFloat ''0.5'') (PFloat ''10.0'') ''r1'' (PFloat ''5.0'') = reserved_fields"
  "materialize sample_now 1 reserved_fields = reserved_written"
  by code_simp+

lemma reserved_valid:
  "validate_row_fields reserved_written 1 = Inr ()"
  "validate_transition reserved_written None = Inr ()"
  by code_simp+

lemma reserved_derived:
  "derived_attempt reserved_written None 1 1 = Inr reserved_att"
  "integers_fit (sa_columns reserved_att)"
  by code_simp+

lemma reserved_exact:
  "attempt_row reserved_att = reserved_stored"
  "exact_row reserved_stored"
  by code_simp+

lemmas reserved_evaluated = reserved_built reserved_valid reserved_derived reserved_exact

lemma reserved_facts:
  "\<not> isl (rounded_cash (bk_cash (delta_of reserved_stored)))"
  "monetary_scope_key reserved_stored = ''r1''" "billing_group_key reserved_stored = ''r1''"
  by code_simp+

lemma request_admitted:
  "merge_scope (\<lambda>_. Inr []) plain_scope sample_request = Inr (sample_request, merged_sample)"
  "reservation_cost (\<lambda>_. PNone) sample_request = Inr (PFloat ''0.5'')"
  "global_limit_of (PFloat ''10.0'') (rq_global_limit_usd sample_request) = Inr (PFloat ''10.0'')"
  "admission_checks empty_store merged_sample (PFloat ''10.0'') = Inr ()"
  "scope_group merged_sample = Inr (''r1'', PFloat ''5.0'')"
  "truthy (sc_root_task_id merged_sample)" "axis_key (sc_root_task_id merged_sample) = Some ''r1''"
  by code_simp+

lemma reserved_stamped: "stamp_root_cause empty_store reserved_written = reserved_written"
  by (rule no_cause)
     (simp_all add: root_cause_def empty_store_def reserved_written_def reserved_fields_def dget_def category_cause_def)

definition reserved_handle :: attempt_reservation where
  "reserved_handle = \<lparr>rs_attempt_id = ''a1'', rs_model = PStr ''m'', rs_provider = PStr ''p'', rs_upper_bound_usd = PFloat ''0.5'',
     rs_processing_preference = PStr '''', rs_submitted_processing_mode = PStr '''', rs_scope = merged_sample\<rparr>"

lemma sample_reserves: "\<exists>st. reserve_attempt sample_env sample_request empty_store = Inr (reserved_handle, st)"
proof -
  have n: "snd (us_marker empty_store) = 0" "us_attempts empty_store = []" by (simp_all add: empty_store_def)
  have shape: "row_shape ''a1'' reserved_fields"
    unfolding reserved_evaluated(1) [symmetric] by (rule reserved_row_shape)
  obtain st where w: "write_row sample_now reserved_fields None empty_store = Inr (reserved_stored, st)"
      and st: "us_attempts st = [reserved_att]"
    using first_write_accepted [OF empty_store_all_ok n(2) shape, of 1 reserved_written sample_now reserved_att]
    by (auto simp: n reserved_evaluated reserved_stamped)
  have "exec_money (RecordNew sample_now reserved_fields) empty_store = Inr st" using w by simp
  moreover have "op_shape (RecordNew sample_now reserved_fields)" using shape by auto
  ultimately have "is_op empty_store st" unfolding is_op_def by blast
  then have ok: "store_ok st" using empty_store_all_ok by (rule op_keeps_store_ok)
  have "shown st (Some ''r1'') None = Inr ()" "shown st None (Some ''r1'') = Inr ()"
    using one_row_shown [OF ok st] by (simp_all add: reserved_evaluated(7) reserved_facts)
  then have "admit_row sample_env sample_request merged_sample (PFloat ''0.5'') empty_store = Inr (open_txn st)"
    unfolding admit_row_def env_facts by (simp add: request_admitted reserved_evaluated(1) w in_store_def)
  moreover have "open_txn empty_store = empty_store"
    using empty_store_all_ok by (intro opened_txn) (simp add: store_ok_def)
  moreover have "rq_model sample_request = PStr ''m''" "rq_provider sample_request = PStr ''p''"
    "rq_processing_preference sample_request = PStr ''''" "rq_submitted_processing_mode sample_request = PStr ''''"
    by (simp_all add: sample_request_def)
  moreover have e: "en_billing sample_env = (\<lambda>_. Inr [])" "en_tariff sample_env = (\<lambda>_. PNone)" by (simp_all add: sample_env_def)
  ultimately show ?thesis
    unfolding reserve_attempt_def e env_facts
    by (simp add: request_admitted reserved_handle_def)
qed

section \<open>Witnesses\<close>

theorem accounting_refines_store_witness:
  "\<exists>ops. list_all op_shape ops \<and> sent_store = run_money ops empty_store"
  by (rule accounting_refines_store [OF sent_reachable])

theorem reservation_is_admitted_witness:
  "\<exists>st row. attempt st ''a1'' = Some row \<and> dget row ''state'' = PStr ''reserved''
     \<and> spend_below empty_store (PFloat ''5.0'') None (Some ''r1'')"
proof -
  obtain st where r: "reserve_attempt sample_env sample_request empty_store = Inr (reserved_handle, st)"
    using sample_reserves by blast
  have h: "rs_attempt_id reserved_handle = ''a1''" "rs_scope reserved_handle = merged_sample"
    by (simp_all add: reserved_handle_def)
  show ?thesis
    using reservation_is_admitted [OF rtranclp.rtrancl_refl r] request_admitted(5) unfolding h by blast
qed

theorem dispatch_is_admitted_witness:
  "\<exists>row. attempt sent_store ''a1'' = Some row \<and> dget row ''state'' = PStr ''dispatched''
     \<and> send_admitted sample_env open_store open_row (row_scope PNone open_row)"
proof -
  have h: "rs_attempt_id (handle_of ''a1'') = ''a1''" by (simp add: handle_of_def)
  show ?thesis
    using dispatch_is_admitted [OF open_reachable sent_marked(1)] open_attempt by (auto simp: h)
qed

lemma one_call_reachable: "accounting_step\<^sup>*\<^sup>* empty_store one_call"
proof -
  have none: "recorded_one_shot sample_call empty_store = Inr None"
    by (simp add: recorded_one_shot_def Let_def empty_store_def attempt_def find_attempt_def sample_call_def)
  have "attempt empty_store ''s1'' = None"
    by (simp add: empty_store_def attempt_def find_attempt_def)
  then have "one_call \<noteq> empty_store" using call_facts(1) by auto
  then obtain stored where "write_row sample_now sample_call None empty_store = Inr (stored, one_call)"
    by (auto simp: one_call_def call_ops_def money_step_def map_sum_snd_Inr split: sum.splits)
  then have "record_one_shot sample_now sample_call empty_store = Inr (''s1'', one_call)"
    using none by (simp add: record_one_shot_def sample_call_def)
  then show ?thesis using sample_call_shape by (blast intro: accounting_step.OneShot)
qed

lemma stored_call_facts:
  "dget stored_call ''state'' = PStr ''settled''" "\<not> is_abandoned_settlement stored_call" "dget stored_call ''cost_usd'' = PFloat ''0.5''"
  "dget stored_call ''seq'' = PInt 1"
  by code_simp+

theorem settlement_is_authoritative_witness:
  "transition_once sample_env (handle_of ''s1'') (plain_call ''settled'' [(''cost_usd'', PFloat ''0.75'')]) one_call
     = Inl (StoreError (UsageAccountingError ''conflicting usage settlement: s1''))
   \<and> transition_once sample_env (handle_of ''s1'') (plain_call ''settled'' [(''cost_usd'', PFloat ''0.5'')]) one_call
     = Inr (stored_call, one_call)"
proof -
  have h: "rs_attempt_id (handle_of ''s1'') = ''s1''" by (simp add: handle_of_def)
  have eq: "\<not> py_eq (PFloat ''0.5'') (PFloat ''0.75'')" "py_eq (PFloat ''0.5'') (PFloat ''0.5'')" by code_simp+
  have p: "plain_facts (tc_fields (plain_call ''settled'' [(''cost_usd'', v)]))" for v
    by (simp add: plain_call_def plain_facts_def)
  have c: "tc_state (plain_call ''settled'' f) = ''settled''" "tc_abandon_reason (plain_call ''settled'' f) = ''''"
    "\<not> superseded (plain_call ''settled'' f) row" "tc_fields (plain_call ''settled'' f) = f" for f row
    by (simp_all add: plain_call_def superseded_def)
  have "transition_once sample_env (handle_of ''s1'') (plain_call ''settled'' [(''cost_usd'', v)]) one_call
      = (if py_eq (PFloat ''0.5'') v then Inr (stored_call, one_call)
         else Inl (StoreError (UsageAccountingError ''conflicting usage settlement: s1'')))" for v
    using settlement_is_authoritative [OF one_call_reachable, of "handle_of ''s1''" stored_call, unfolded h,
        OF call_facts(1) stored_call_facts(1,2) p, of sample_env v]
    by (simp add: c stored_call_facts(3) del: py_eq.simps)
  then show ?thesis using eq by (simp del: py_eq.simps)
qed

theorem closure_closes_attempt_witness:
  "(\<exists>st row. terminalize_abandoned_attempt (\<lambda>_ _. PNone) sample_env (handle_of ''a1'') [] [] None (Some 2) sent_store
        = Inr (''settled'', st) \<and> attempt st ''a1'' = Some row \<and> is_abandoned_settlement row)
   \<and> terminalize_abandoned_attempt (\<lambda>_ _. PNone) sample_env (handle_of ''a1'') [] [] None (Some 1) sent_store
        = Inr (''dispatched'', sent_store)"
proof
  have h: "rs_attempt_id (handle_of ''a1'') = ''a1''" by (simp add: handle_of_def)
  have fresh: "\<not> superseded (closing_call [] [] None (Some 2)) sent_row" "superseded (closing_call [] [] None (Some 1)) sent_row"
    using closed_facts(5,6) by (simp_all add: superseded_closing [of _ "take 3 closing_facts"])
  obtain st where t: "terminalize_abandoned_attempt (\<lambda>_ _. PNone) sample_env (handle_of ''a1'') [] [] None (Some 2) sent_store
      = Inr (''settled'', st)" using sent_is_closed by blast
  show "\<exists>st row. terminalize_abandoned_attempt (\<lambda>_ _. PNone) sample_env (handle_of ''a1'') [] [] None (Some 2) sent_store
        = Inr (''settled'', st) \<and> attempt st ''a1'' = Some row \<and> is_abandoned_settlement row"
    using closure_closes_attempt [OF sent_reachable t] t
    by (auto simp: h sent_attempt fresh closed_facts(8,10))
  have o: "opened sent_store" using sent_ok by (simp add: store_ok_def)
  have "transition_once sample_env (handle_of ''a1'') (closing_call [] (take 3 closing_facts) None (Some 1)) sent_store
      = Inr (sent_row, sent_store)"
    unfolding transition_once_def Let_def opened_txn [OF o]
    using closed_facts(6) by (simp add: h sent_attempt decide_transition_def)
  then obtain outcome st' where s: "terminalize_abandoned_attempt (\<lambda>_ _. PNone) sample_env (handle_of ''a1'') [] [] None (Some 1) sent_store
      = Inr (outcome, st')"
    by (simp add: terminalize_abandoned_attempt_def closed_facts(8) closing_call_def closing_facts_def)
  show "terminalize_abandoned_attempt (\<lambda>_ _. PNone) sample_env (handle_of ''a1'') [] [] None (Some 1) sent_store
      = Inr (''dispatched'', sent_store)"
    using closure_closes_attempt [OF sent_reachable s] s
    by (simp add: h sent_attempt fresh(2) closed_facts(9))
qed

theorem price_is_applied_once_witness:
  "\<exists>st row. apply_provider_price_receipt sample_env ''a1'' sample_receipt None sent_store = Inr (Applied row, st)
     \<and> dget row ''cost_final'' = PBool True
     \<and> apply_provider_price_receipt sample_env ''a1'' sample_receipt None st = Inr (Duplicate row, st)"
proof -
  obtain st where a: "apply_provider_price_receipt sample_env ''a1'' sample_receipt None sent_store = Inr (Applied priced_final, st)"
    and stored: "attempt st ''a1'' = Some priced_final"
    using price_applied_to_send by blast
  have b: "dget priced_final ''provider_receipt_binding'' \<noteq> PNone"
    "py_eq (dget receipt_fields ''binding'') (dget priced_final ''provider_receipt_binding'')"
    "py_eq (dget receipt_fields ''provider'') (dget priced_final ''provider'')"
    by code_simp+
  have "dget priced_final ''cost_final'' = PBool True
      \<and> apply_provider_price_receipt sample_env ''a1'' sample_receipt None st = Inr (Duplicate priced_final, st)"
    using price_is_applied_once [OF sent_reachable a rtranclp.rtrancl_refl] stored priced_evaluated(1) b by fastforce
  then show ?thesis using a by blast
qed

end
