(* ===== verification/Fence_Model.thy ===== *)
theory Fence_Model
  imports Task_Results Py_Decimal
begin

text \<open>
  The admission fence of a finished root (\<open>supervisor/queue_transitions.py\<close>): a root that asks for the
  acceptance of its work holds a fence, under which no new task of its tree is admitted; an owner message
  that arrives meanwhile moves the fence's generation, so that a seal which has not seen it is refused.
  A live direct turn counts its messages on its own agent instead (\<open>supervisor/steering.py\<close>,
  \<open>ouroboros/server_owner_routing.py\<close>), and the author's seal compares that count
  (\<open>ouroboros/delivery_seal.py\<close>).  The state is \<open>ACCEPTANCE_FENCES\<close>, a dictionary from root ids to rows, and
  the direct turns.  What an operation reads beside it under the queue lock is a \<open>queue_view\<close>.  The
  snapshot each change writes is left out.
\<close>

section \<open>What an operation reads\<close>

datatype fence_exc = PyRaise exc | MissingAttribute | MissingKey

type_synonym fence_map = pydict

record worker_slot =
  wk_busy_task_id :: pyval
  wk_pid :: int
  wk_alive :: bool
  wk_reaping :: bool

text \<open>\<open>qv_result\<close> is the durable result of a task; \<open>None\<close> is a failed read.\<close>

record queue_view =
  qv_pending :: "pyval list"
  qv_running :: pydict
  qv_workers :: "pyval \<Rightarrow> worker_slot option"
  qv_budget_roots :: "string list"
  qv_result :: "string \<Rightarrow> pydict option"
  qv_now :: string

definition or_val :: "pyval \<Rightarrow> pyval \<Rightarrow> pyval" where
  "or_val a b = (if truthy a then a else b)"

definition fields_of :: "pyval \<Rightarrow> fence_exc + pydict" where
  "fields_of v = (case v of PDict d \<Rightarrow> Inr d | _ \<Rightarrow> Inl MissingAttribute)"

definition int_value :: "pyval \<Rightarrow> fence_exc + int" where
  "int_value v = map_sum PyRaise id (py_int v)"

definition running_task :: "queue_view \<Rightarrow> string \<Rightarrow> (pydict \<times> pydict) option" where
  "running_task q task_id = (case dget (qv_running q) task_id of
      PDict meta \<Rightarrow> (case dget meta ''task'' of PDict task \<Rightarrow> Some (meta, task) | _ \<Rightarrow> None)
    | _ \<Rightarrow> None)"

section \<open>Descendants\<close>

text \<open>The parent chain through RUNNING, at most 25 hops.\<close>

fun climbs_to :: "nat \<Rightarrow> queue_view \<Rightarrow> string \<Rightarrow> pydict \<Rightarrow> bool" where
  "climbs_to 0 q ancestor cur = False"
| "climbs_to (Suc n) q ancestor cur =
     (let pid = sor (dget cur ''parent_task_id'') in
      if pid = '''' then False else if pid = ancestor then True
      else case running_task q pid of None \<Rightarrow> False | Some (_, parent) \<Rightarrow> climbs_to n q ancestor parent)"

definition is_descendant_of :: "queue_view \<Rightarrow> pyval \<Rightarrow> string \<Rightarrow> bool" where
  "is_descendant_of q task ancestor = (case task of
      PDict t \<Rightarrow> ancestor \<noteq> '''' \<and> (sor (dget t ''root_task_id'') = ancestor \<or> climbs_to 25 q ancestor t)
    | _ \<Rightarrow> False)"

definition descendant_row :: "string \<Rightarrow> string \<Rightarrow> pyval" where
  "descendant_row task_id status =
     PDict [(''task_id'', PStr task_id), (''status'', PStr status), (''source'', PStr ''supervisor_queue'')]"

definition live_descendants :: "queue_view \<Rightarrow> string \<Rightarrow> string \<Rightarrow> pyval list" where
  "live_descendants q rid exclude =
     map (\<lambda>t. descendant_row (sor (dget (the_dict t) ''id'')) ''pending'')
       (filter (\<lambda>t. let i = (if is_dict t then sor (dget (the_dict t) ''id'') else '''') in
          i \<noteq> '''' \<and> i \<noteq> exclude \<and> is_descendant_of q t rid) (qv_pending q))
   @ map (\<lambda>(i, _). descendant_row i ''running'')
       (filter (\<lambda>(i, _). i \<noteq> '''' \<and> i \<noteq> exclude
          \<and> (case running_task q i of None \<Rightarrow> False | Some (_, t) \<Rightarrow> is_descendant_of q (PDict t) rid)) (qv_running q))"

section \<open>Owners\<close>

text \<open>The requester is the current RUNNING attempt of a live worker.\<close>

definition current_acceptance_owner :: "queue_view \<Rightarrow> string \<Rightarrow> string \<Rightarrow> pyval \<Rightarrow> fence_exc + bool" where
  "current_acceptance_owner q task_id root_id owner = (case (running_task q task_id, owner) of
      (Some (meta, task), PDict own) \<Rightarrow>
        (case (dget own ''task_attempt'', dget own ''pid'') of
           (PInt attempt, PInt pid) \<Rightarrow>
             sbind (int_value (or_val (dget meta ''attempt'') (or_val (dget task ''_attempt'') (PInt 1)))) (\<lambda>n.
             Inr (attempt = n \<and> dget task ''id'' = PStr task_id
               \<and> py_str (or_val (dget task ''root_task_id'') (PStr task_id)) = root_id
               \<and> (case qv_workers q (dget meta ''worker_id'') of
                    None \<Rightarrow> False
                  | Some w \<Rightarrow> wk_busy_task_id w = PStr task_id \<and> wk_pid w = pid \<and> wk_alive w \<and> \<not> wk_reaping w)))
         | _ \<Rightarrow> Inr False)
    | _ \<Rightarrow> Inr False)"

definition handoff_keys :: "string list" where
  "handoff_keys = [''pause_id'', ''pause_generation'', ''source_ref'']"

text \<open>\<open>in _TRULY_TERMINAL_STATUSES\<close>.\<close>

definition is_terminal_value :: "pyval \<Rightarrow> fence_exc + bool" where
  "is_terminal_value v = (case v of
      PStr s \<Rightarrow> Inr (s \<in> set truly_terminal_statuses)
    | PList _ \<Rightarrow> Inl (PyRaise (TypeError ''unhashable type: list''))
    | PDict _ \<Rightarrow> Inl (PyRaise (TypeError ''unhashable type: dict''))
    | _ \<Rightarrow> Inr False)"

text \<open>The durable side of a handoff: the pause this fence was parked under was resumed by the grant the
  running task carries, and that grant was consumed.\<close>

definition resumed_by :: "pydict \<Rightarrow> string \<Rightarrow> pydict \<Rightarrow> pydict \<Rightarrow> pydict \<Rightarrow> fence_exc + bool" where
  "resumed_by fence task_id own resume result =
     sbind (fields_of (or_val (dget result ''budget_pause'') (PDict []))) (\<lambda>row.
     if dget result ''task_id'' \<noteq> PStr task_id then Inr False else
     sbind (is_terminal_value (dget result ''status'')) (\<lambda>terminal.
     if \<not> terminal \<and> dget row ''state'' = PStr ''resumed''
        \<and> py_eq (dget row ''root_task_id'') (dget fence ''root_task_id'')
        \<and> py_eq (dget row ''task_attempt'') (dget own ''task_attempt'')
        \<and> py_eq (dget row ''pause_id'') (dget resume ''pause_id'') \<and> truthy (dget row ''source_ref'')
        \<and> py_eq (dget row ''source_ref'') (dget resume ''source_ref'')
        \<and> py_eq (dget row ''pause_generation'') (dget resume ''pause_generation'')
     then sbind (fields_of (or_val (dget row ''grant'') (PDict []))) (\<lambda>grant.
          Inr (truthy (dget grant ''grant_id'') \<and> py_eq (dget grant ''grant_id'') (dget resume ''grant_id'')
            \<and> py_eq (dget grant ''generation'') (dget resume ''grant_generation'')
            \<and> truthy (dget grant ''consumed_at'') \<and> \<not> truthy (dget grant ''revoked_at'')))
     else Inr False))"

definition consumed_acceptance_handoff :: "queue_view \<Rightarrow> pydict \<Rightarrow> string \<Rightarrow> pyval \<Rightarrow> fence_exc + bool" where
  "consumed_acceptance_handoff q fence task_id owner = (case owner of
      PDict own \<Rightarrow>
        if (case dget fence ''root_task_id'' of PStr r \<Rightarrow> r \<in> set (qv_budget_roots q) | _ \<Rightarrow> False) then Inr False
        else (case running_task q task_id of
          None \<Rightarrow> Inl MissingKey
        | Some (_, task) \<Rightarrow>
            (let binding = the_dict (dget fence ''paused_continuation'');
                 pooled = dhas fence ''pooled_owner'';
                 parked = dget binding (if pooled then ''pooled_owner'' else ''direct_owner'');
                 rest = dpop (if pooled then ''pooled_owner'' else ''direct_owner'') binding in
             case parked of
               PDict p \<Rightarrow>
                 if pooled \<and> \<not> py_eq parked (dget fence ''pooled_owner'') then Inr False else
                 sbind (fields_of (or_val (dget task ''_budget_pause_resume'') (PDict []))) (\<lambda>resume.
                 if \<not> py_eq (PDict rest) (PDict (map (\<lambda>k. (k, dget resume k)) handoff_keys))
                    \<or> \<not> py_eq (dget p ''task_attempt'') (dget own ''task_attempt'') then Inr False
                 else (case qv_result q task_id of None \<Rightarrow> Inr False | Some result \<Rightarrow> resumed_by fence task_id own resume result))
             | _ \<Rightarrow> Inr False))
    | _ \<Rightarrow> Inr False)"

section \<open>The transition of a fence\<close>

record fence_call =
  fc_action :: string
  fc_token :: string
  fc_root_task_id :: string
  fc_task_id :: string
  fc_outcome :: string
  fc_expected_generation :: "int option"
  fc_pooled_owner :: pyval

definition fence_status :: "pydict \<Rightarrow> string" where
  "fence_status row = py_str (or_val (dget row ''status'') (PStr ''active''))"

definition fence_generation :: "pydict \<Rightarrow> fence_exc + int" where
  "fence_generation row = map_sum PyRaise id (int_or0 (dget row ''owner_message_generation''))"

definition refusal :: "string \<Rightarrow> string \<Rightarrow> pydict" where
  "refusal status error = [(''ok'', PBool False), (''status'', PStr status), (''error'', PStr error)]"

definition new_fence :: "queue_view \<Rightarrow> fence_call \<Rightarrow> string \<Rightarrow> string \<Rightarrow> string \<Rightarrow> pydict" where
  "new_fence q c token rid requester =
     [(''token'', PStr token), (''root_task_id'', PStr rid), (''task_id'', PStr requester), (''status'', PStr ''active''),
      (''opened_at'', PStr (qv_now q)), (''owner_message_generation'', PInt 0)]
     @ (if fc_pooled_owner c \<noteq> PNone then [(''pooled_owner'', fc_pooled_owner c)] else [])"

text \<open>Binding a row to its owner's new request.\<close>

definition rebound_fence :: "fence_call \<Rightarrow> string \<Rightarrow> pydict \<Rightarrow> pydict" where
  "rebound_fence c token row =
     dpop ''paused_continuation''
       (let r = dset ''token'' (PStr token) row in
        if fc_pooled_owner c \<noteq> PNone then dset ''pooled_owner'' (fc_pooled_owner c) r else r)"

datatype begin_step = Refused pydict | Held pydict

definition adopt_fence :: "queue_view \<Rightarrow> fence_call \<Rightarrow> string \<Rightarrow> string \<Rightarrow> string \<Rightarrow> pydict \<Rightarrow> fence_exc + begin_step" where
  "adopt_fence q c token rid requester row =
     (let owner = fc_pooled_owner c; status = fence_status row;
          same_owner = py_eq (dget row ''pooled_owner'') owner;
          refused = Refused (refusal status (''acceptance fence already '' @ status @ '' for root '' @ rid)) in
      if sor (dget row ''token'') = token \<and> same_owner then Inr (Held row)
      else if status \<noteq> ''active'' \<or> sor (dget row ''task_id'') \<noteq> requester then Inr refused
      else if same_owner then Inr (Held (rebound_fence c token row))
      else if dget row ''token'' = PStr token then Inr refused
      else sbind (consumed_acceptance_handoff q row requester owner) (\<lambda>consumed.
           Inr (if consumed then Held (rebound_fence c token row) else refused)))"

definition begin_fence :: "queue_view \<Rightarrow> fence_call \<Rightarrow> string \<Rightarrow> string \<Rightarrow> fence_map \<Rightarrow> fence_exc + begin_step" where
  "begin_fence q c token rid fences =
     (let requester = (if fc_task_id c \<noteq> '''' then fc_task_id c else rid); owner = fc_pooled_owner c in
      sbind (if owner = PNone then Inr True else current_acceptance_owner q requester rid owner) (\<lambda>current.
      if \<not> current
      then Inr (Refused (refusal ''stale_attempt'' ''acceptance requester is not the current worker attempt''))
      else case dget fences rid of
             PDict row \<Rightarrow> adopt_fence q c token rid requester row
           | _ \<Rightarrow> Inr (Held (new_fence q c token rid requester))))"

definition fence_answer :: "string \<Rightarrow> string \<Rightarrow> string \<Rightarrow> pydict" where
  "fence_answer status rid token =
     [(''ok'', PBool True), (''status'', PStr status), (''root_task_id'', PStr rid), (''token'', PStr token)]"

text \<open>The answer of \<open>begin\<close> and \<open>inspect\<close>: the generation and the live tasks of the tree.\<close>

definition open_answer :: "queue_view \<Rightarrow> string \<Rightarrow> string \<Rightarrow> pydict \<Rightarrow> int \<Rightarrow> pydict" where
  "open_answer q rid token row g =
     fence_answer (fence_status row) rid token
     @ [(''owner_message_generation'', PInt g),
        (''queue_descendants'', PList (live_descendants q rid (py_str (or_val (dget row ''task_id'') (PStr rid)))))]"

definition fence_of_token :: "string \<Rightarrow> fence_map \<Rightarrow> (string \<times> pydict) option" where
  "fence_of_token token fences =
     (case find (\<lambda>(_, row). sor (dget (the_dict row) ''token'') = token) fences of
        Some (rid, PDict row) \<Rightarrow> if rid = '''' then None else Some (rid, row)
      | _ \<Rightarrow> None)"

definition sealed_fence :: "queue_view \<Rightarrow> string \<Rightarrow> pydict \<Rightarrow> pydict" where
  "sealed_fence q outcome row =
     dmerge row [(''status'', PStr ''sealed''), (''outcome'', PStr (if outcome = '''' then ''terminal'' else outcome)),
       (''sealed_at'', PStr (qv_now q))]"

definition end_fence :: "queue_view \<Rightarrow> fence_call \<Rightarrow> string \<Rightarrow> string \<Rightarrow> pydict \<Rightarrow> int \<Rightarrow> fence_map \<Rightarrow> pydict \<times> fence_map" where
  "end_fence q c token rid row g fences =
     (let outcome = lower (strip (fc_outcome c)) in
      if outcome = ''revision'' then (fence_answer ''released'' rid token, dpop rid fences)
      else if fc_expected_generation c \<notin> {None, Some g} then
        (fence_answer ''released'' rid token
           @ [(''generation_mismatch'', PBool True), (''expected_generation'', PInt (the (fc_expected_generation c))),
              (''owner_message_generation'', PInt g)], dpop rid fences)
      else (fence_answer ''sealed'' rid token, dset rid (PDict (sealed_fence q outcome row)) fences))"

definition fence_action :: "fence_call \<Rightarrow> string" where
  "fence_action c = lower (strip (fc_action c))"

definition fence_root :: "fence_call \<Rightarrow> string" where
  "fence_root c = strip (if fc_root_task_id c \<noteq> '''' then fc_root_task_id c else fc_task_id c)"

definition transition_acceptance_fence :: "queue_view \<Rightarrow> fence_call \<Rightarrow> fence_map \<Rightarrow> (fence_exc + pydict) \<times> fence_map" where
  "transition_acceptance_fence q c fences =
     (let action = fence_action c; token = strip (fc_token c);
          rid = fence_root c in
      if token = '''' \<or> action \<notin> {''begin'', ''inspect'', ''end''}
      then (Inr (refusal ''error'' ''invalid acceptance fence event''), fences)
      else if action = ''begin'' then
        (if rid = '''' then (Inr (refusal ''error'' ''missing root_task_id''), fences)
         else case begin_fence q c token rid fences of
           Inl e \<Rightarrow> (Inl e, fences)
         | Inr (Refused answer) \<Rightarrow> (Inr answer, fences)
         | Inr (Held row) \<Rightarrow>
             (map_sum id (open_answer q rid token row) (fence_generation row), dset rid (PDict row) fences))
      else case fence_of_token token fences of
        None \<Rightarrow> (Inr [(''ok'', PBool True), (''status'', PStr ''released''), (''token'', PStr token), (''row_absent'', PBool True)], fences)
      | Some (matched, row) \<Rightarrow>
          (case fence_generation row of
             Inl e \<Rightarrow> (Inl e, fences)
           | Inr g \<Rightarrow> if action = ''inspect'' then (Inr (open_answer q matched token row g), fences)
                      else map_prod Inr id (end_fence q c token matched row g fences)))"

section \<open>Other operations on the fences\<close>

text \<open>The fence of an attempt whose end is proven.\<close>

definition ended_attempt_row :: "string \<Rightarrow> int \<Rightarrow> int option \<Rightarrow> string list \<Rightarrow> string \<times> pyval \<Rightarrow> bool" where
  "ended_attempt_row task_id attempt pid paused_roots entry = (case entry of
      (key, PDict row) \<Rightarrow>
        (case dget row ''pooled_owner'' of
           PDict owner \<Rightarrow> dget row ''status'' = PStr ''active'' \<and> dget row ''task_id'' = PStr task_id
             \<and> py_eq (dget owner ''task_attempt'') (PInt attempt)
             \<and> (case pid of None \<Rightarrow> True | Some p \<Rightarrow> py_eq (dget owner ''pid'') (PInt p))
             \<and> py_str (or_val (dget row ''root_task_id'') (PStr key)) \<notin> set paused_roots
         | _ \<Rightarrow> False)
    | _ \<Rightarrow> False)"

definition release_ended_attempt_fences :: "string \<Rightarrow> int \<Rightarrow> int option \<Rightarrow> string list \<Rightarrow> fence_map \<Rightarrow> bool \<times> fence_map" where
  "release_ended_attempt_fences task_id attempt pid paused_roots fences =
     (case find (ended_attempt_row task_id attempt pid paused_roots) fences of
        None \<Rightarrow> (False, fences)
      | Some (key, _) \<Rightarrow> (True, dpop key fences))"

definition clear_fence_for_root :: "string \<Rightarrow> fence_map \<Rightarrow> bool \<times> fence_map" where
  "clear_fence_for_root rid fences =
     (let r = strip rid in
      if r = '''' then (False, fences) else (dget fences r \<noteq> PNone, dpop r fences))"

text \<open>The pause of a root binds its owner's fence to the exact continuation.  \<open>pause\<close> is the durable
  pause row, which its writer gives the three handoff keys; \<open>direct\<close> says that the parked actor is a turn
  of this process.\<close>

definition parked_owner :: "queue_view \<Rightarrow> string \<Rightarrow> int \<Rightarrow> bool \<Rightarrow> pyval \<Rightarrow> pydict \<Rightarrow> pydict" where
  "parked_owner q task_id attempt direct worker_id fence =
     (case (dget fence ''pooled_owner'', qv_workers q worker_id) of
        (PDict owner, Some w) \<Rightarrow>
          if \<not> direct \<and> wk_busy_task_id w = PStr task_id \<and> dget owner ''pid'' = PInt (wk_pid w)
             \<and> dget owner ''task_attempt'' = PInt attempt then [(''pooled_owner'', PDict owner)]
          else []
      | _ \<Rightarrow> if direct \<and> \<not> dhas fence ''pooled_owner'' then [(''direct_owner'', PDict [(''task_attempt'', PInt attempt)])]
             else [])"

definition bind_paused_fence ::
  "queue_view \<Rightarrow> string \<Rightarrow> string \<Rightarrow> int \<Rightarrow> bool \<Rightarrow> pyval \<Rightarrow> pydict \<Rightarrow> fence_map \<Rightarrow> fence_map" where
  "bind_paused_fence q rid task_id attempt direct worker_id pause fences =
     (case dget fences rid of
        PDict fence \<Rightarrow>
          (let parked = parked_owner q task_id attempt direct worker_id fence in
           if parked \<noteq> [] \<and> dget fence ''status'' = PStr ''active'' \<and> dget fence ''task_id'' = PStr task_id
           then dset rid (PDict (dset ''paused_continuation''
                  (PDict (parked @ map (\<lambda>k. (k, dget pause k)) handoff_keys)) fence)) fences
           else fences)
      | _ \<Rightarrow> fences)"

section \<open>Readers\<close>

text \<open>The gate of \<open>enqueue_task\<close>: the task as it is turned away, or \<open>None\<close>.\<close>

definition fence_admission_block :: "pydict \<Rightarrow> fence_map \<Rightarrow> pydict option" where
  "fence_admission_block t fences =
     (let rid = strip (sor (dget t ''root_task_id'')) in
      case (if rid = '''' then PNone else dget fences rid) of
        PDict fence \<Rightarrow>
          if sor (dget fence ''status'') \<in> {''active'', ''sealed''}
          then Some (dmerge t [(''_admission_blocked'', PStr ''task_acceptance_fence''),
                 (''_acceptance_fence_token'', PStr (sor (dget fence ''token''))),
                 (''_acceptance_fence_status'', PStr (fence_status fence))])
          else None
      | _ \<Rightarrow> None)"

section \<open>Owner messages\<close>

text \<open>A direct turn is an actor of the supervisor's own process: its agent counts the owner messages it was
  given, and a task of the queue has them counted on its root's fence.  A turn that has ended keeps its
  agent, closed.\<close>

record direct_turn =
  dt_busy :: bool
  dt_accepting :: bool
  dt_task_id :: string
  dt_generation :: int

record admission =
  ad_fences :: fence_map
  ad_turns :: "string \<Rightarrow> direct_turn option"

definition turn_open :: "admission \<Rightarrow> string \<Rightarrow> bool" where
  "turn_open st target = (case ad_turns st target of
      None \<Rightarrow> False | Some a \<Rightarrow> dt_busy a \<and> dt_accepting a \<and> dt_task_id a = target)"

definition turn_generation :: "admission \<Rightarrow> string \<Rightarrow> int" where
  "turn_generation st target = (case ad_turns st target of None \<Rightarrow> 0 | Some a \<Rightarrow> dt_generation a)"

definition count_on_turn :: "string \<Rightarrow> admission \<Rightarrow> admission" where
  "count_on_turn target st = (case ad_turns st target of
      None \<Rightarrow> st
    | Some a \<Rightarrow> st\<lparr>ad_turns := (ad_turns st)(target \<mapsto> a\<lparr>dt_generation := dt_generation a + 1\<rparr>)\<rparr>)"

definition count_on_fence :: "string \<Rightarrow> fence_map \<Rightarrow> fence_exc + fence_map" where
  "count_on_fence rid fences = (case dget fences rid of
      PDict fence \<Rightarrow>
        if sor (dget fence ''status'') = ''active''
        then sbind (fence_generation fence) (\<lambda>g.
             Inr (dset rid (PDict (dset ''owner_message_generation'' (PInt (g + 1)) fence)) fences))
        else Inr fences
    | _ \<Rightarrow> Inr fences)"

definition fence_sealed :: "string \<Rightarrow> fence_map \<Rightarrow> bool" where
  "fence_sealed rid fences = (case dget fences rid of PDict fence \<Rightarrow> sor (dget fence ''status'') = ''sealed'' | _ \<Rightarrow> False)"

datatype steering = SteerRefused string | SteerDelivered

text \<open>A steering message to \<open>target\<close>, a direct turn (\<open>direct\<close>) or a queued or running task of \<open>rid\<close>.
  \<open>gone\<close>: no live row, or a settled result; \<open>cancelling\<close>: its stop is pending; \<open>written\<close>: the relay's write
  (\<open>None\<close> failed, \<open>Some True\<close> new); \<open>quotes\<close>: it quotes the owner.\<close>

definition steer_task ::
  "bool \<Rightarrow> bool \<Rightarrow> bool \<Rightarrow> bool option \<Rightarrow> bool \<Rightarrow> string \<Rightarrow> string \<Rightarrow> admission \<Rightarrow> steering \<times> admission" where
  "steer_task direct gone cancelling written quotes target rid st =
     (if direct \<and> \<not> turn_open st target then (SteerRefused ''target_closed'', st)
      else if \<not> direct \<and> gone then (SteerRefused ''target_finished'', st)
      else if \<not> direct \<and> fence_sealed rid (ad_fences st) then (SteerRefused ''acceptance_fence_sealed'', st)
      else if cancelling then (SteerRefused ''cancel_pending'', st)
      else case written of
        None \<Rightarrow> (SteerRefused ''mailbox_write_failed'', st)
      | Some new \<Rightarrow>
          if \<not> (new \<and> quotes) then (SteerDelivered, st)
          else if direct then (SteerDelivered, count_on_turn target st)
          else (case count_on_fence rid (ad_fences st) of
                  Inl _ \<Rightarrow> (SteerRefused ''mailbox_write_failed'', st)
                | Inr fences \<Rightarrow> (SteerDelivered, st\<lparr>ad_fences := fences\<rparr>)))"

text \<open>Ordinary room input to its one reader.  \<open>reading\<close>: the reader still drains its mailbox; \<open>written\<close>: the
  mailbox took the message.\<close>

definition route_owner_message ::
  "bool \<Rightarrow> bool \<Rightarrow> bool \<Rightarrow> bool \<Rightarrow> string \<Rightarrow> string \<Rightarrow> admission \<Rightarrow> bool \<times> admission" where
  "route_owner_message direct reading cancelling written target rid st =
     (if direct \<and> \<not> turn_open st target then (False, st)
      else if cancelling \<or> \<not> reading then (False, st)
      else if \<not> direct \<and> fence_sealed rid (ad_fences st) then (False, st)
      else if \<not> written then (False, st)
      else if direct then (True, count_on_turn target st)
      else case count_on_fence rid (ad_fences st) of
             Inl _ \<Rightarrow> (False, st)
           | Inr fences \<Rightarrow> (True, st\<lparr>ad_fences := fences\<rparr>))"

text \<open>The turn's lifecycle moves its flags and never its count; a new agent counts from zero.\<close>

definition move_turn :: "string \<Rightarrow> bool \<Rightarrow> bool \<Rightarrow> string \<Rightarrow> admission \<Rightarrow> admission" where
  "move_turn turn busy accepting task_id st =
     st\<lparr>ad_turns := (ad_turns st)(turn \<mapsto>
          \<lparr>dt_busy = busy, dt_accepting = accepting, dt_task_id = task_id, dt_generation = turn_generation st turn\<rparr>)\<rparr>"

section \<open>The author's seal\<close>

text \<open>The end that a root with a token asks for (\<open>ouroboros/delivery_seal.py\<close>): it becomes a revision when
  the owner wrote meanwhile.  What the root notes in its own context afterwards is left out.  \<open>stale\<close>: the acknowledged owner source changed or owner mail is pending; \<open>bound\<close>: the direct
  turn whose count the root remembers.\<close>

definition seal_call :: "bool \<Rightarrow> (string \<times> int) option \<Rightarrow> admission \<Rightarrow> fence_call \<Rightarrow> fence_call" where
  "seal_call stale bound st c =
     (let mismatch = stale \<or> (case bound of None \<Rightarrow> False | Some (turn, expected) \<Rightarrow> turn_generation st turn \<noteq> expected) in
      c\<lparr>fc_action := ''end'', fc_outcome := if mismatch then ''revision'' else fc_outcome c\<rparr>)"

definition end_seal ::
  "queue_view \<Rightarrow> fence_call \<Rightarrow> bool \<Rightarrow> (string \<times> int) option \<Rightarrow> admission \<Rightarrow> (fence_exc + pydict) \<times> admission" where
  "end_seal q c stale bound st =
     (let (answer, fences) = transition_acceptance_fence q (seal_call stale bound st c) (ad_fences st)
      in (answer, st\<lparr>ad_fences := fences\<rparr>))"

section \<open>Fence events\<close>

text \<open>The token and the request id of a worker's fence event name the acknowledgement file.\<close>

definition fence_event_part_ok :: "string \<Rightarrow> bool" where
  "fence_event_part_ok part \<longleftrightarrow> part \<noteq> '''' \<and> length part \<le> 64 \<and> list_all (\<lambda>c. c \<in> set ''0123456789abcdef'') part"

section \<open>The fences of a saved queue\<close>

text \<open>The roots that a saved queue holds fenced, in order; \<open>None\<close> when a row is malformed.\<close>

fun restored_acceptance :: "pyval list \<Rightarrow> string list \<Rightarrow> string list \<times> bool" where
  "restored_acceptance [] roots = (roots, False)"
| "restored_acceptance (v # vs) roots = (case v of
      PDict fence \<Rightarrow>
        (let status = sor (dget fence ''status''); rid = sor (dget fence ''root_task_id'') in
         if status \<in> {''active'', ''sealed''} then
           (if rid = '''' then (roots, True)
            else restored_acceptance vs
              (if (status \<noteq> ''sealed'' \<or> dget fence ''outcome'' \<noteq> PStr ''author_stop'') \<and> rid \<notin> set roots
               then roots @ [rid] else roots))
         else restored_acceptance vs roots)
    | _ \<Rightarrow> (roots, True))"

definition restored_budget_fence :: "string \<Rightarrow> pydict \<Rightarrow> string \<Rightarrow> string \<Rightarrow> pydict" where
  "restored_budget_fence now fence rid fence_id =
     [(''status'', PStr ''paused''), (''scope'', PStr ''root''), (''root_task_id'', PStr rid), (''fence_id'', PStr fence_id),
      (''auto_resume'', PBool False), (''paused_at'', PStr (py_str (or_val (dget fence ''paused_at'') (PStr now))))]
     @ (if dget fence ''cause'' = PStr ''owner_pause'' then [(''cause'', PStr ''owner_pause'')] else [])"

fun restored_budget :: "string \<Rightarrow> pyval list \<Rightarrow> pydict \<Rightarrow> pydict option" where
  "restored_budget now [] acc = Some acc"
| "restored_budget now (v # vs) acc = (case v of
      PDict fence \<Rightarrow>
        (let rid = strip (sor (dget fence ''root_task_id'')); fence_id = strip (sor (dget fence ''fence_id'')) in
         if sor (dget fence ''status'') \<in> {''active'', ''paused''} then
           (if rid = '''' \<or> fence_id = '''' then None
            else restored_budget now vs (dset rid (PDict (restored_budget_fence now fence rid fence_id)) acc))
         else restored_budget now vs acc)
    | _ \<Rightarrow> None)"

definition restore_queue_fences :: "string \<Rightarrow> pyval \<Rightarrow> pyval \<Rightarrow> pydict \<Rightarrow> (string list \<times> bool \<times> bool) \<times> pydict" where
  "restore_queue_fences now raw_acceptance raw_budget budget_fences =
     (let (roots, bad) = (case raw_acceptance of PList xs \<Rightarrow> restored_acceptance xs [] | _ \<Rightarrow> ([], True));
          restored = (case raw_budget of PList xs \<Rightarrow> restored_budget now xs [] | _ \<Rightarrow> None) in
      case restored of
        None \<Rightarrow> ((roots, bad, True), budget_fences)
      | Some fences \<Rightarrow> ((roots, bad, False), fences))"

end
