(* ===== verification/Fence_Runs.thy ===== *)
theory Fence_Runs
  imports Fence_Model
begin

text \<open>
  The contract of an operation on the admission state, as a locale: it leaves the fences alone, drops one
  row, or writes one well-formed row, and the counts of fences and direct turns move by exactly the owner
  messages it delivered.  An operation on the fences alone has a simpler contract, which gives the general
  one.  Every operation of \<open>Fence_Model\<close> is interpreted, and a run of them inherits the contract.
\<close>

section \<open>Well-formed fences\<close>

definition wf_fence :: "string \<Rightarrow> pydict \<Rightarrow> bool" where
  "wf_fence rid row \<longleftrightarrow> rid \<noteq> '''' \<and> dget row ''root_task_id'' = PStr rid
     \<and> (\<exists>t. t \<noteq> '''' \<and> dget row ''token'' = PStr t)
     \<and> dget row ''status'' \<in> {PStr ''active'', PStr ''sealed''}
     \<and> (\<exists>g. 0 \<le> g \<and> dget row ''owner_message_generation'' = PInt g)"

definition wf_fences :: "fence_map \<Rightarrow> bool" where
  "wf_fences f \<longleftrightarrow> distinct (map fst f) \<and> (\<forall>rid v. map_of f rid = Some v \<longrightarrow> (\<exists>row. v = PDict row \<and> wf_fence rid row))"

definition row_generation :: "pydict \<Rightarrow> int" where
  "row_generation row = (case dget row ''owner_message_generation'' of PInt g \<Rightarrow> g | _ \<Rightarrow> 0)"

definition generation_at :: "fence_map \<Rightarrow> string \<Rightarrow> int" where
  "generation_at f rid = (case dget f rid of PDict row \<Rightarrow> row_generation row | _ \<Rightarrow> 0)"

lemma wf_fences_Nil [simp]: "wf_fences []"
  by (simp add: wf_fences_def)

lemma wf_fences_row: "wf_fences f \<Longrightarrow> dget f rid = PDict row \<Longrightarrow> wf_fence rid row"
  by (fastforce simp: wf_fences_def dget_def split: option.splits)

lemma wf_fences_cases:
  assumes "wf_fences f"
  obtains "\<not> dhas f rid" and "dget f rid = PNone" | row where "dhas f rid" and "dget f rid = PDict row" and "wf_fence rid row"
proof (cases "map_of f rid")
  case None
  then show thesis using that(1) by (simp add: dhas_def dget_def)
next
  case (Some v)
  then obtain row where "v = PDict row" "wf_fence rid row" using assms unfolding wf_fences_def by (metis option.inject)
  then show thesis using that(2) Some by (simp add: dhas_def dget_def)
qed

lemma wf_fence_generation: "wf_fence rid row \<Longrightarrow> fence_generation row = Inr (row_generation row) \<and> 0 \<le> row_generation row"
  by (auto simp: wf_fence_def fence_generation_def row_generation_def)

lemma wf_fences_dpop: "wf_fences f \<Longrightarrow> wf_fences (dpop rid f)"
  by (auto simp: wf_fences_def dhas_def)

lemma wf_fences_dset: "wf_fences f \<Longrightarrow> wf_fence rid row \<Longrightarrow> wf_fences (dset rid (PDict row) f)"
  by (auto simp: wf_fences_def dhas_def)

section \<open>The contract\<close>

locale admission_operation =
  fixes act :: "admission \<Rightarrow> admission" and told :: "admission \<Rightarrow> string \<Rightarrow> nat" and said :: "admission \<Rightarrow> string \<Rightarrow> nat"
  assumes one_row: "wf_fences (ad_fences st) \<Longrightarrow>
      (ad_fences (act st) = ad_fences st \<and> (\<forall>r. dhas (ad_fences st) r \<longrightarrow> told st r = 0))
    \<or> (\<exists>rid. ad_fences (act st) = dpop rid (ad_fences st) \<and> (\<forall>r. told st r = 0))
    \<or> (\<exists>rid row. ad_fences (act st) = dset rid (PDict row) (ad_fences st) \<and> wf_fence rid row
         \<and> (\<forall>r. r \<noteq> rid \<longrightarrow> told st r = 0)
         \<and> row_generation row = generation_at (ad_fences st) rid + int (told st rid))"
    and turn_counts: "turn_generation (act st) t = turn_generation st t + int (said st t)"
begin

lemma keeps_wf: "wf_fences (ad_fences st) \<Longrightarrow> wf_fences (ad_fences (act st))"
  using one_row [of st] wf_fences_dpop wf_fences_dset by metis

lemma counts:
  assumes "wf_fences (ad_fences st)" and "dhas (ad_fences st) rid" and "dhas (ad_fences (act st)) rid"
  shows "generation_at (ad_fences (act st)) rid = generation_at (ad_fences st) rid + int (told st rid)"
  using one_row [OF assms(1)] assms(2,3) by (auto simp: generation_at_def)

end

text \<open>An operation on the fences alone: it delivers no message.\<close>

locale fence_operation =
  fixes fence_act :: "fence_map \<Rightarrow> fence_map"
  assumes one_fence: "wf_fences f \<Longrightarrow> fence_act f = f \<or> (\<exists>rid. fence_act f = dpop rid f)
    \<or> (\<exists>rid row. fence_act f = dset rid (PDict row) f \<and> wf_fence rid row \<and> row_generation row = generation_at f rid)"

sublocale fence_operation \<subseteq> lifted: admission_operation
  "\<lambda>st. st\<lparr>ad_fences := fence_act (ad_fences st)\<rparr>" "\<lambda>_ _. 0" "\<lambda>_ _. 0"
proof
  fix st assume "wf_fences (ad_fences st)"
  then show "(ad_fences (st\<lparr>ad_fences := fence_act (ad_fences st)\<rparr>) = ad_fences st \<and> (\<forall>r. dhas (ad_fences st) r \<longrightarrow> (0 :: nat) = 0))
    \<or> (\<exists>rid. ad_fences (st\<lparr>ad_fences := fence_act (ad_fences st)\<rparr>) = dpop rid (ad_fences st) \<and> (\<forall>r :: string. (0 :: nat) = 0))
    \<or> (\<exists>rid row. ad_fences (st\<lparr>ad_fences := fence_act (ad_fences st)\<rparr>) = dset rid (PDict row) (ad_fences st) \<and> wf_fence rid row
         \<and> (\<forall>r. r \<noteq> rid \<longrightarrow> (0 :: nat) = 0) \<and> row_generation row = generation_at (ad_fences st) rid + int 0)"
    using one_fence [of "ad_fences st"] by auto
qed (simp add: turn_generation_def)

section \<open>The operations keep it\<close>

lemma fence_of_token_wf:
  assumes "wf_fences f" and "fence_of_token token f = Some (rid, row)"
  shows "dget f rid = PDict row" and "wf_fence rid row" and "sor (dget row ''token'') = token"
proof -
  have "(rid, PDict row) \<in> set f" and t: "sor (dget row ''token'') = token"
    using assms(2) by (auto simp: fence_of_token_def find_Some_iff split: option.splits pyval.splits if_splits intro: nth_mem)
      (metis nth_mem)
  then show "dget f rid = PDict row" using assms(1) by (simp add: wf_fences_def dget_def)
  then show "wf_fence rid row" using assms(1) by (rule wf_fences_row [rotated])
  show "sor (dget row ''token'') = token" by (rule t)
qed

lemma wf_new_fence: "rid \<noteq> '''' \<Longrightarrow> token \<noteq> '''' \<Longrightarrow> wf_fence rid (new_fence q c token rid requester)"
  by (auto simp: wf_fence_def new_fence_def)

lemma wf_rebound: "wf_fence rid row \<Longrightarrow> token \<noteq> '''' \<Longrightarrow> wf_fence rid (rebound_fence c token row)"
  by (auto simp: wf_fence_def rebound_fence_def Let_def)

lemma wf_sealed: "wf_fence rid row \<Longrightarrow> wf_fence rid (sealed_fence q outcome row)"
  by (auto simp: wf_fence_def sealed_fence_def)

lemma same_generation [simp]:
  "row_generation (new_fence q c token rid requester) = 0"
  "row_generation (rebound_fence c token row) = row_generation row"
  "row_generation (sealed_fence q outcome row) = row_generation row"
  by (simp_all add: row_generation_def new_fence_def rebound_fence_def sealed_fence_def Let_def)

lemma adopt_fence_held:
  "adopt_fence q c token rid requester row = Inr (Held row') \<Longrightarrow> row' = row \<or> row' = rebound_fence c token row"
  by (cases "consumed_acceptance_handoff q row requester (fc_pooled_owner c)")
     (auto simp: adopt_fence_def Let_def split: if_splits)

lemma begin_fence_held:
  assumes "begin_fence q c token rid f = Inr (Held row)" and "wf_fences f" and "rid \<noteq> ''''" and "token \<noteq> ''''"
  shows "wf_fence rid row \<and> row_generation row = generation_at f rid"
  using assms(2)
proof (cases rule: wf_fences_cases [of f rid])
  case 1
  then obtain requester where "row = new_fence q c token rid requester"
    using assms(1) by (auto simp: begin_fence_def Let_def sbind_Inr_iff split: if_splits)
  then show ?thesis using assms(3,4) 1 by (simp add: wf_new_fence generation_at_def)
next
  case (2 old)
  then obtain requester where "adopt_fence q c token rid requester old = Inr (Held row)"
    using assms(1) by (auto simp: begin_fence_def Let_def sbind_Inr_iff split: if_splits)
  then have "row = old \<or> row = rebound_fence c token old" by (rule adopt_fence_held)
  then show ?thesis using 2 assms(4) by (auto simp: generation_at_def intro: wf_rebound)
qed

lemma transition_cases:
  assumes "wf_fences f"
  obtains "snd (transition_acceptance_fence q c f) = f"
  | row where "fence_action c = ''begin''" "strip (fc_token c) \<noteq> ''''"
      "begin_fence q c (strip (fc_token c)) (fence_root c) f = Inr (Held row)"
      "fence_root c \<noteq> ''''"
      "snd (transition_acceptance_fence q c f)
         = dset (fence_root c) (PDict row) f"
  | rid row where "fence_action c = ''end''" "fence_of_token (strip (fc_token c)) f = Some (rid, row)"
      "transition_acceptance_fence q c f = map_prod Inr id (end_fence q c (strip (fc_token c)) rid row (row_generation row) f)"
proof (cases "strip (fc_token c) = '''' \<or> fence_action c \<notin> {''begin'', ''inspect'', ''end''}")
  case True
  then show thesis using that(1) by (simp add: transition_acceptance_fence_def Let_def)
next
  case ok: False
  show thesis
  proof (cases "fence_action c = ''begin''")
    case True
    show thesis
    proof (cases "\<exists>row. fence_root c \<noteq> [] \<and> begin_fence q c (strip (fc_token c)) (fence_root c) f = Inr (Held row)")
      case held: True
      then obtain row where r: "fence_root c \<noteq> []" "begin_fence q c (strip (fc_token c)) (fence_root c) f = Inr (Held row)" by blast
      show thesis by (rule that(2) [of row]) (use r ok True in \<open>simp_all add: transition_acceptance_fence_def Let_def\<close>)
    next
      case False
      then have "snd (transition_acceptance_fence q c f) = f"
        using ok True by (auto simp: transition_acceptance_fence_def Let_def split: sum.split begin_step.split)
      then show thesis by (rule that(1))
    qed
  next
    case False
    show thesis
    proof (cases "fence_of_token (strip (fc_token c)) f")
      case None
      then show thesis using that(1) ok False by (simp add: transition_acceptance_fence_def Let_def)
    next
      case (Some p)
      obtain rid row where p: "p = (rid, row)" by fastforce
      have "wf_fence rid row" using fence_of_token_wf(2) [OF assms] Some p by simp
      then have g: "fence_generation row = Inr (row_generation row)" by (simp add: wf_fence_generation)
      show thesis
      proof (cases "fence_action c = ''inspect''")
        case True
        then show thesis using that(1) ok Some p g by (simp add: transition_acceptance_fence_def Let_def)
      next
        case no: False
        then have e: "fence_action c = ''end''" using ok False by auto
        have "transition_acceptance_fence q c f
            = map_prod Inr id (end_fence q c (strip (fc_token c)) rid row (row_generation row) f)"
          using ok e Some p g by (simp add: transition_acceptance_fence_def Let_def)
        then show thesis using that(3) e Some p by blast
      qed
    qed
  qed
qed

lemma end_fence_cases:
  "snd (end_fence q c token rid row g f) = dpop rid f
   \<or> snd (end_fence q c token rid row g f) = dset rid (PDict (sealed_fence q (lower (strip (fc_outcome c))) row)) f"
  by (simp add: end_fence_def Let_def)

interpretation transition: fence_operation "\<lambda>f. snd (transition_acceptance_fence q c f)" for q c
proof
  fix f assume wf: "wf_fences f"
  let ?act = "snd (transition_acceptance_fence q c f)"
  show "?act = f \<or> (\<exists>rid. ?act = dpop rid f)
    \<or> (\<exists>rid row. ?act = dset rid (PDict row) f \<and> wf_fence rid row \<and> row_generation row = generation_at f rid)"
    using wf
  proof (cases rule: transition_cases [of f q c])
    case (2 row)
    then show ?thesis using begin_fence_held [OF 2(3) wf 2(4,2)] by blast
  next
    case (3 rid row)
    then have r: "dget f rid = PDict row" "wf_fence rid row" using fence_of_token_wf [OF wf] by blast+
    have "?act = snd (end_fence q c (strip (fc_token c)) rid row (row_generation row) f)" by (simp add: 3(3))
    then consider "?act = dpop rid f" | "?act = dset rid (PDict (sealed_fence q (lower (strip (fc_outcome c))) row)) f"
      using end_fence_cases [of q c "strip (fc_token c)" rid row "row_generation row" f] by auto
    then show ?thesis
    proof cases
      case 2
      moreover have "row_generation (sealed_fence q (lower (strip (fc_outcome c))) row) = generation_at f rid"
        by (simp add: generation_at_def r(1))
      ultimately show ?thesis using wf_sealed [OF r(2)] by blast
    qed blast
  qed simp
qed

lemma wf_message: "wf_fence rid row \<Longrightarrow> wf_fence rid (dset ''owner_message_generation'' (PInt (row_generation row + 1)) row)"
  using wf_fence_generation [of rid row] by (auto simp: wf_fence_def)

lemma count_on_fence_wf:
  assumes "wf_fences f"
  obtains "\<not> dhas f rid" and "count_on_fence rid f = Inr f"
  | row where "dget f rid = PDict row" and "wf_fence rid row" and "fence_sealed rid f" and "count_on_fence rid f = Inr f"
  | row where "dget f rid = PDict row" and "wf_fence rid row" and "\<not> fence_sealed rid f"
      and "count_on_fence rid f = Inr (dset rid (PDict (dset ''owner_message_generation'' (PInt (row_generation row + 1)) row)) f)"
  using assms
proof (cases rule: wf_fences_cases [of f rid])
  case 1
  then show thesis using that(1) by (simp add: count_on_fence_def)
next
  case (2 row)
  then have "dget row ''status'' = PStr ''active'' \<or> dget row ''status'' = PStr ''sealed''"
    by (auto simp: wf_fence_def)
  then show thesis
    using that(2,3) [OF 2(2,3)] 2(2) wf_fence_generation [OF 2(3)] by (auto simp: fence_sealed_def count_on_fence_def)
qed

lemma turn_generation_counted:
  "turn_generation (count_on_turn target st) t = turn_generation st t + (if t = target \<and> ad_turns st target \<noteq> None then 1 else 0)"
  by (auto simp: turn_generation_def count_on_turn_def split: option.splits)

lemma turn_open_known: "turn_open st target \<Longrightarrow> ad_turns st target \<noteq> None"
  by (auto simp: turn_open_def split: option.splits)

lemma count_on_turn_fences [simp]: "ad_fences (count_on_turn target st) = ad_fences st"
  by (simp add: count_on_turn_def split: option.split)

lemma turn_generation_fences [simp]: "turn_generation (st\<lparr>ad_fences := f\<rparr>) t = turn_generation st t"
  by (simp add: turn_generation_def)

text \<open>A count on the fence of a root, as a step of that root.\<close>

lemma counted_row:
  assumes "wf_fences f" and "\<not> fence_sealed rid f" and "count_on_fence rid f = Inr f'" and "\<And>r. n r = (if r = rid then 1 else 0 :: nat)"
  shows "(f' = f \<and> (\<forall>r. dhas f r \<longrightarrow> n r = 0)) \<or> (\<exists>k. f' = dpop k f \<and> (\<forall>r. n r = 0))
    \<or> (\<exists>k row. f' = dset k (PDict row) f \<and> wf_fence k row \<and> (\<forall>r. r \<noteq> k \<longrightarrow> n r = 0)
         \<and> row_generation row = generation_at f k + int (n k))"
  using assms(1)
proof (cases rule: count_on_fence_wf [of f rid])
  case (3 row)
  let ?row = "dset ''owner_message_generation'' (PInt (row_generation row + 1)) row"
  have "f' = dset rid (PDict ?row) f" using 3(4) assms(3) by simp
  moreover have "wf_fence rid ?row" by (rule wf_message [OF 3(2)])
  moreover have "row_generation ?row = generation_at f rid + int (n rid)"
    by (simp add: generation_at_def 3(1) row_generation_def assms(4))
  moreover have "\<forall>r. r \<noteq> rid \<longrightarrow> n r = 0" by (simp add: assms(4))
  ultimately show ?thesis by blast
qed (use assms in auto)

text \<open>An owner message that was newly written and delivered: to a task of the queue, told to its root; to a
  direct turn, said to the turn.\<close>

definition steered :: "bool \<Rightarrow> bool option \<Rightarrow> bool \<Rightarrow> steering \<times> admission \<Rightarrow> nat" where
  "steered wanted written quotes r = (if wanted \<and> written = Some True \<and> quotes \<and> fst r = SteerDelivered then 1 else 0)"

definition routed :: "bool \<Rightarrow> bool \<times> admission \<Rightarrow> nat" where
  "routed wanted r = (if wanted \<and> fst r then 1 else 0)"

interpretation steering: admission_operation
  "\<lambda>st. snd (steer_task direct gone cancelling written quotes target rid st)"
  "\<lambda>st r. steered (\<not> direct \<and> r = rid) written quotes (steer_task direct gone cancelling written quotes target rid st)"
  "\<lambda>st t. steered (direct \<and> t = target) written quotes (steer_task direct gone cancelling written quotes target rid st)"
  for direct gone cancelling written quotes target rid
proof
  fix st t
  let ?s = "steer_task direct gone cancelling written quotes target rid st"
  let ?told = "\<lambda>r. steered (\<not> direct \<and> r = rid) written quotes ?s"
  show "turn_generation (snd ?s) t = turn_generation st t + int (steered (direct \<and> t = target) written quotes ?s)"
    by (auto simp: steer_task_def steered_def turn_generation_counted dest: turn_open_known split: option.split sum.split)
  assume wf: "wf_fences (ad_fences st)"
  show "(ad_fences (snd ?s) = ad_fences st \<and> (\<forall>r. dhas (ad_fences st) r \<longrightarrow> ?told r = 0))
    \<or> (\<exists>k. ad_fences (snd ?s) = dpop k (ad_fences st) \<and> (\<forall>r. ?told r = 0))
    \<or> (\<exists>k row. ad_fences (snd ?s) = dset k (PDict row) (ad_fences st) \<and> wf_fence k row \<and> (\<forall>r. r \<noteq> k \<longrightarrow> ?told r = 0)
         \<and> row_generation row = generation_at (ad_fences st) k + int (?told k))"
  proof (cases "\<not> direct \<and> \<not> gone \<and> \<not> fence_sealed rid (ad_fences st) \<and> \<not> cancelling \<and> written = Some True \<and> quotes")
    case True
    obtain f' where f': "count_on_fence rid (ad_fences st) = Inr f'"
      using wf by (cases rule: count_on_fence_wf [of "ad_fences st" rid]) auto
    then have s: "?s = (SteerDelivered, st\<lparr>ad_fences := f'\<rparr>)" using True by (simp add: steer_task_def)
    have "\<And>r. ?told r = (if r = rid then 1 else 0)" unfolding s steered_def using True by simp
    then show ?thesis
      using counted_row [OF wf _ f', of ?told] True unfolding s by simp
  next
    case False
    then have "ad_fences (snd ?s) = ad_fences st \<and> (\<forall>r. ?told r = 0)"
      by (auto simp: steer_task_def steered_def split: option.split sum.split)
    then show ?thesis by simp
  qed
qed

interpretation routing: admission_operation
  "\<lambda>st. snd (route_owner_message direct reading cancelling written target rid st)"
  "\<lambda>st r. routed (\<not> direct \<and> r = rid) (route_owner_message direct reading cancelling written target rid st)"
  "\<lambda>st t. routed (direct \<and> t = target) (route_owner_message direct reading cancelling written target rid st)"
  for direct reading cancelling written target rid
proof
  fix st t
  let ?s = "route_owner_message direct reading cancelling written target rid st"
  let ?told = "\<lambda>r. routed (\<not> direct \<and> r = rid) ?s"
  show "turn_generation (snd ?s) t = turn_generation st t + int (routed (direct \<and> t = target) ?s)"
    by (auto simp: route_owner_message_def routed_def turn_generation_counted dest: turn_open_known split: sum.split)
  assume wf: "wf_fences (ad_fences st)"
  show "(ad_fences (snd ?s) = ad_fences st \<and> (\<forall>r. dhas (ad_fences st) r \<longrightarrow> ?told r = 0))
    \<or> (\<exists>k. ad_fences (snd ?s) = dpop k (ad_fences st) \<and> (\<forall>r. ?told r = 0))
    \<or> (\<exists>k row. ad_fences (snd ?s) = dset k (PDict row) (ad_fences st) \<and> wf_fence k row \<and> (\<forall>r. r \<noteq> k \<longrightarrow> ?told r = 0)
         \<and> row_generation row = generation_at (ad_fences st) k + int (?told k))"
  proof (cases "\<not> direct \<and> reading \<and> \<not> cancelling \<and> \<not> fence_sealed rid (ad_fences st) \<and> written")
    case True
    obtain f' where f': "count_on_fence rid (ad_fences st) = Inr f'"
      using wf by (cases rule: count_on_fence_wf [of "ad_fences st" rid]) auto
    then have s: "?s = (True, st\<lparr>ad_fences := f'\<rparr>)" using True by (simp add: route_owner_message_def)
    have "\<And>r. ?told r = (if r = rid then 1 else 0)" unfolding s routed_def using True by simp
    then show ?thesis
      using counted_row [OF wf _ f', of ?told] True unfolding s by simp
  next
    case False
    then have "ad_fences (snd ?s) = ad_fences st \<and> (\<forall>r. ?told r = 0)"
      by (auto simp: route_owner_message_def routed_def split: sum.split)
    then show ?thesis by simp
  qed
qed

interpretation moved: admission_operation "move_turn turn busy accepting task_id" "\<lambda>_ _. 0" "\<lambda>_ _. 0"
  for turn busy accepting task_id
  by unfold_locales (auto simp: move_turn_def turn_generation_def)

interpretation sealing: admission_operation "\<lambda>st. snd (end_seal q c stale bound st)" "\<lambda>_ _. 0" "\<lambda>_ _. 0"
  for q c stale bound
proof
  fix st t
  show "turn_generation (snd (end_seal q c stale bound st)) t = turn_generation st t + int 0"
    by (simp add: end_seal_def case_prod_beta)
  assume "wf_fences (ad_fences st)"
  from transition.one_fence [OF this, of q "seal_call stale bound st c"]
  show "(ad_fences (snd (end_seal q c stale bound st)) = ad_fences st \<and> (\<forall>r. dhas (ad_fences st) r \<longrightarrow> (0 :: nat) = 0))
    \<or> (\<exists>k. ad_fences (snd (end_seal q c stale bound st)) = dpop k (ad_fences st) \<and> (\<forall>r :: string. (0 :: nat) = 0))
    \<or> (\<exists>k row. ad_fences (snd (end_seal q c stale bound st)) = dset k (PDict row) (ad_fences st) \<and> wf_fence k row
         \<and> (\<forall>r. r \<noteq> k \<longrightarrow> (0 :: nat) = 0) \<and> row_generation row = generation_at (ad_fences st) k + int 0)"
    by (auto simp: end_seal_def case_prod_beta)
qed

interpretation ended: fence_operation "\<lambda>f. snd (release_ended_attempt_fences task_id attempt pid paused_roots f)"
  for task_id attempt pid paused_roots
  by unfold_locales (auto simp: release_ended_attempt_fences_def split: option.splits)

interpretation cleared: fence_operation "\<lambda>f. snd (clear_fence_for_root rid f)" for rid
  by unfold_locales (auto simp: clear_fence_for_root_def Let_def)

lemma wf_parked: "wf_fence rid row \<Longrightarrow> wf_fence rid (dset ''paused_continuation'' v row)"
  by (simp add: wf_fence_def)

interpretation parked: fence_operation "bind_paused_fence q rid task_id attempt direct worker_id pause"
  for q rid task_id attempt direct worker_id pause
proof
  fix f assume wf: "wf_fences f"
  let ?act = "bind_paused_fence q rid task_id attempt direct worker_id pause f"
  show "?act = f \<or> (\<exists>rid. ?act = dpop rid f)
    \<or> (\<exists>rid row. ?act = dset rid (PDict row) f \<and> wf_fence rid row \<and> row_generation row = generation_at f rid)"
    using wf
  proof (cases rule: wf_fences_cases [of f rid])
    case (2 row)
    have "?act = f \<or> (\<exists>v. ?act = dset rid (PDict (dset ''paused_continuation'' v row)) f)"
      by (simp add: bind_paused_fence_def Let_def 2(2)) blast
    moreover have "row_generation (dset ''paused_continuation'' v row) = generation_at f rid" for v
      by (simp add: generation_at_def row_generation_def 2(2))
    ultimately show ?thesis using wf_parked [OF 2(3)] by blast
  qed (simp add: bind_paused_fence_def)
qed

section \<open>The fences of a saved queue\<close>

definition keeps_root_fenced :: "pydict \<Rightarrow> bool" where
  "keeps_root_fenced fence \<longleftrightarrow> sor (dget fence ''status'') \<in> {''active'', ''sealed''}
     \<and> (sor (dget fence ''status'') \<noteq> ''sealed'' \<or> dget fence ''outcome'' \<noteq> PStr ''author_stop'')"

lemma restored_roots_exact:
  "restored_acceptance vs roots = (rs, False)
   \<Longrightarrow> set rs = set roots \<union> {sor (dget fence ''root_task_id'') | fence. PDict fence \<in> set vs \<and> keeps_root_fenced fence}"
proof (induction vs arbitrary: roots)
  case (Cons v vs)
  then obtain fence where v: "v = PDict fence" by (cases v) auto
  show ?case
    using Cons.prems Cons.IH [of roots] Cons.IH [of "roots @ [sor (dget fence ''root_task_id'')]"]
    by (auto simp: v keeps_root_fenced_def Let_def split: if_splits)
qed simp

text \<open>A malformed budget list changes nothing; a good one is the whole new map, each row paused.\<close>

lemma restored_budget_paused:
  "restored_budget now vs acc = Some fences \<Longrightarrow> (\<And>k. dhas acc k \<Longrightarrow> \<exists>r. dget acc k = PDict r \<and> dget r ''status'' = PStr ''paused'')
   \<Longrightarrow> dhas fences k \<Longrightarrow> \<exists>r. dget fences k = PDict r \<and> dget r ''status'' = PStr ''paused''"
proof (induction vs arbitrary: acc)
  case (Cons v vs)
  then obtain fence where v: "v = PDict fence" by (cases v) auto
  let ?rid = "strip (sor (dget fence ''root_task_id''))" and ?fid = "strip (sor (dget fence ''fence_id''))"
  let ?acc = "dset ?rid (PDict (restored_budget_fence now fence ?rid ?fid)) acc"
  have "\<exists>r. dget ?acc k = PDict r \<and> dget r ''status'' = PStr ''paused''" if "dhas ?acc k" for k
    using that Cons.prems(2) [of k] by (cases "k = ?rid") (auto simp: restored_budget_fence_def)
  then show ?case
    using Cons.prems Cons.IH [of ?acc] Cons.IH [of acc] by (auto simp: v Let_def split: if_splits)
qed simp

end
