(* ===== verification/Fence_Props.thy ===== *)
theory Fence_Props
  imports Fence_Runs
begin

text \<open>
  What the admission fences promise over runs of their operations: a seal has seen every owner message, the
  tasks of a sealed root take neither work nor messages, and a fence belongs to the live attempt that asked for it.
\<close>

section \<open>Runs\<close>

datatype fence_event =
    Transition queue_view fence_call
  | AuthorEnd queue_view fence_call bool "(string \<times> int) option"
  | Steered bool bool bool "bool option" bool string string
  | Routed bool bool bool bool string string
  | TurnMoved string bool bool string
  | AttemptEnded string int "int option" "string list"
  | RootCleared string
  | Parked queue_view string string int bool pyval pydict

definition on_fences :: "(fence_map \<Rightarrow> fence_map) \<Rightarrow> admission \<Rightarrow> admission" where
  "on_fences h st = st\<lparr>ad_fences := h (ad_fences st)\<rparr>"

lemma on_fences_simps [simp]: "ad_fences (on_fences h st) = h (ad_fences st)" "ad_turns (on_fences h st) = ad_turns st"
  by (simp_all add: on_fences_def)

fun exec_fence :: "fence_event \<Rightarrow> admission \<Rightarrow> admission" where
  "exec_fence (Transition q c) st = on_fences (\<lambda>f. snd (transition_acceptance_fence q c f)) st"
| "exec_fence (AuthorEnd q c stale bound) st = snd (end_seal q c stale bound st)"
| "exec_fence (Steered direct gone cancelling written quotes target rid) st
     = snd (steer_task direct gone cancelling written quotes target rid st)"
| "exec_fence (Routed direct reading cancelling written target rid) st
     = snd (route_owner_message direct reading cancelling written target rid st)"
| "exec_fence (TurnMoved turn busy accepting task_id) st = move_turn turn busy accepting task_id st"
| "exec_fence (AttemptEnded task_id attempt pid paused) st
     = on_fences (\<lambda>f. snd (release_ended_attempt_fences task_id attempt pid paused f)) st"
| "exec_fence (RootCleared rid) st = on_fences (\<lambda>f. snd (clear_fence_for_root rid f)) st"
| "exec_fence (Parked q rid task_id attempt direct worker_id pause) st
     = on_fences (bind_paused_fence q rid task_id attempt direct worker_id pause) st"

text \<open>The new owner messages an event delivers to the queued or running tasks of a root, and to a direct turn.\<close>

fun told_by :: "fence_event \<Rightarrow> admission \<Rightarrow> string \<Rightarrow> nat" where
  "told_by (Steered direct gone cancelling written quotes target rid) st r
     = steered (\<not> direct \<and> r = rid) written quotes (steer_task direct gone cancelling written quotes target rid st)"
| "told_by (Routed direct reading cancelling written target rid) st r
     = routed (\<not> direct \<and> r = rid) (route_owner_message direct reading cancelling written target rid st)"
| "told_by _ st r = 0"

fun said_by :: "fence_event \<Rightarrow> admission \<Rightarrow> string \<Rightarrow> nat" where
  "said_by (Steered direct gone cancelling written quotes target rid) st t
     = steered (direct \<and> t = target) written quotes (steer_task direct gone cancelling written quotes target rid st)"
| "said_by (Routed direct reading cancelling written target rid) st t
     = routed (direct \<and> t = target) (route_owner_message direct reading cancelling written target rid st)"
| "said_by _ st t = 0"

interpretation event: admission_operation "exec_fence e" "told_by e" "said_by e" for e
proof (cases e)
  case (Transition q c)
  then show "admission_operation (exec_fence e) (told_by e) (said_by e)"
    using transition.lifted.admission_operation_axioms [of q c]
    by (simp add: exec_fence.simps [abs_def] told_by.simps [abs_def] said_by.simps [abs_def] on_fences_def [abs_def])
next
  case (AuthorEnd q c stale bound)
  then show "admission_operation (exec_fence e) (told_by e) (said_by e)"
    using sealing.admission_operation_axioms [of q c stale bound]
    by (simp add: exec_fence.simps [abs_def] told_by.simps [abs_def] said_by.simps [abs_def])
next
  case (Steered direct gone cancelling written quotes target rid)
  then show "admission_operation (exec_fence e) (told_by e) (said_by e)"
    using steering.admission_operation_axioms [of direct gone cancelling written quotes target rid]
    by (simp add: exec_fence.simps [abs_def] told_by.simps [abs_def] said_by.simps [abs_def])
next
  case (Routed direct reading cancelling written target rid)
  then show "admission_operation (exec_fence e) (told_by e) (said_by e)"
    using routing.admission_operation_axioms [of direct reading cancelling written target rid]
    by (simp add: exec_fence.simps [abs_def] told_by.simps [abs_def] said_by.simps [abs_def])
next
  case (TurnMoved turn busy accepting task_id)
  then show "admission_operation (exec_fence e) (told_by e) (said_by e)"
    using moved.admission_operation_axioms [of turn busy accepting task_id]
    by (simp add: exec_fence.simps [abs_def] told_by.simps [abs_def] said_by.simps [abs_def])
next
  case (AttemptEnded task_id attempt pid paused)
  then show "admission_operation (exec_fence e) (told_by e) (said_by e)"
    using ended.lifted.admission_operation_axioms [of task_id attempt pid paused]
    by (simp add: exec_fence.simps [abs_def] told_by.simps [abs_def] said_by.simps [abs_def] on_fences_def [abs_def])
next
  case (RootCleared rid)
  then show "admission_operation (exec_fence e) (told_by e) (said_by e)"
    using cleared.lifted.admission_operation_axioms [of rid]
    by (simp add: exec_fence.simps [abs_def] told_by.simps [abs_def] said_by.simps [abs_def] on_fences_def [abs_def])
next
  case (Parked q rid task_id attempt direct worker_id pause)
  then show "admission_operation (exec_fence e) (told_by e) (said_by e)"
    using parked.lifted.admission_operation_axioms [of q rid task_id attempt direct worker_id pause]
    by (simp add: exec_fence.simps [abs_def] told_by.simps [abs_def] said_by.simps [abs_def] on_fences_def [abs_def])
qed

definition run_fences :: "fence_event list \<Rightarrow> admission \<Rightarrow> admission" where
  "run_fences es st = fold exec_fence es st"

lemma run_fences_simps [simp]: "run_fences [] st = st" "run_fences (e # es) st = run_fences es (exec_fence e st)"
  by (simp_all add: run_fences_def)

lemma run_fences_append [simp]: "run_fences (es @ fs) st = run_fences fs (run_fences es st)"
  by (simp add: run_fences_def)

text \<open>A supervisor that has just started holds no fence.\<close>

definition started :: "(string \<Rightarrow> direct_turn option) \<Rightarrow> admission" where
  "started turns = \<lparr>ad_fences = [], ad_turns = turns\<rparr>"

lemma run_wf: "wf_fences (ad_fences st) \<Longrightarrow> wf_fences (ad_fences (run_fences es st))"
  by (induction es arbitrary: st) (simp_all add: event.keeps_wf)

lemma reached_wf: "wf_fences (ad_fences (run_fences es (started turns)))"
  by (rule run_wf) (simp add: started_def)

text \<open>The root is fenced before and after every event of the run.\<close>

fun stays_fenced :: "string \<Rightarrow> fence_event list \<Rightarrow> admission \<Rightarrow> bool" where
  "stays_fenced rid [] st = dhas (ad_fences st) rid"
| "stays_fenced rid (e # es) st = (dhas (ad_fences st) rid \<and> stays_fenced rid es (exec_fence e st))"

fun messages :: "string \<Rightarrow> fence_event list \<Rightarrow> admission \<Rightarrow> nat" where
  "messages rid [] st = 0"
| "messages rid (e # es) st = told_by e st rid + messages rid es (exec_fence e st)"

fun turn_messages :: "string \<Rightarrow> fence_event list \<Rightarrow> admission \<Rightarrow> nat" where
  "turn_messages turn [] st = 0"
| "turn_messages turn (e # es) st = said_by e st turn + turn_messages turn es (exec_fence e st)"

lemma stays_fenced_start: "stays_fenced rid es st \<Longrightarrow> dhas (ad_fences st) rid"
  by (cases es) simp_all

lemma generation_counts:
  "wf_fences (ad_fences st) \<Longrightarrow> stays_fenced rid es st
   \<Longrightarrow> generation_at (ad_fences (run_fences es st)) rid = generation_at (ad_fences st) rid + int (messages rid es st)"
proof (induction es arbitrary: st)
  case (Cons e es)
  then have "dhas (ad_fences st) rid" "dhas (ad_fences (exec_fence e st)) rid" by (auto dest: stays_fenced_start)
  then have "generation_at (ad_fences (exec_fence e st)) rid = generation_at (ad_fences st) rid + int (told_by e st rid)"
    by (rule event.counts [OF Cons.prems(1)])
  then show ?case using Cons.IH [OF event.keeps_wf [OF Cons.prems(1)]] Cons.prems(2) by simp
qed simp

lemma turn_counts: "turn_generation (run_fences es st) turn = turn_generation st turn + int (turn_messages turn es st)"
  by (induction es arbitrary: st) (simp_all add: event.turn_counts)

section \<open>Seals\<close>

lemma strip_end: "lower (strip ''end'') = ''end''" and strip_revision: "lower (strip ''revision'') = ''revision''"
  by code_simp+

lemma open_answer_fields:
  "dget (open_answer q rid token row g) ''owner_message_generation'' = PInt g"
  "dget (open_answer q rid token row g) ''root_task_id'' = PStr rid"
  by (simp_all add: open_answer_def fence_answer_def)

lemma transition_end:
  assumes "wf_fences f" and "fence_action c = ''end''"
  shows "transition_acceptance_fence q c f =
    (if strip (fc_token c) = '''' then (Inr (refusal ''error'' ''invalid acceptance fence event''), f)
     else case fence_of_token (strip (fc_token c)) f of
       None \<Rightarrow> (Inr [(''ok'', PBool True), (''status'', PStr ''released''), (''token'', PStr (strip (fc_token c))), (''row_absent'', PBool True)], f)
     | Some (rid, row) \<Rightarrow> map_prod Inr id (end_fence q c (strip (fc_token c)) rid row (row_generation row) f))"
proof (cases "fence_of_token (strip (fc_token c)) f")
  case (Some p)
  obtain rid row where p: "p = (rid, row)" by fastforce
  have "wf_fence rid row" using fence_of_token_wf(2) [OF assms(1)] Some p by simp
  then have "fence_generation row = Inr (row_generation row)" by (simp add: wf_fence_generation)
  then show ?thesis using assms(2) Some p by (simp add: transition_acceptance_fence_def Let_def)
qed (use assms(2) in \<open>simp add: transition_acceptance_fence_def Let_def\<close>)

lemma begin_transition:
  assumes "fence_action c = ''begin''" and "strip (fc_token c) \<noteq> ''''" and "fence_root c \<noteq> ''''"
  shows "transition_acceptance_fence q c f = (case begin_fence q c (strip (fc_token c)) (fence_root c) f of
           Inl e \<Rightarrow> (Inl e, f)
         | Inr (Refused answer) \<Rightarrow> (Inr answer, f)
         | Inr (Held row) \<Rightarrow> (map_sum id (open_answer q (fence_root c) (strip (fc_token c)) row) (fence_generation row),
                              dset (fence_root c) (PDict row) f))"
  using assms by (simp add: transition_acceptance_fence_def Let_def)

lemma adopt_fence_refused:
  "adopt_fence q c token rid requester row = Inr (Refused a) \<Longrightarrow> \<exists>s e. a = refusal s e"
  by (cases "consumed_acceptance_handoff q row requester (fc_pooled_owner c)")
     (auto simp: adopt_fence_def Let_def split: if_splits)

lemma begin_fence_refused: "begin_fence q c token rid f = Inr (Refused a) \<Longrightarrow> \<exists>s e. a = refusal s e"
  by (auto simp: begin_fence_def Let_def sbind_Inr_iff split: if_splits pyval.splits dest: adopt_fence_refused)

text \<open>A begin that its answer grants holds the row it wrote.\<close>

lemma begin_granted:
  assumes "wf_fences f" and "fence_action c = ''begin''" and "transition_acceptance_fence q c f = (Inr answer, f')"
    and "dget answer ''ok'' = PBool True"
  obtains row where "strip (fc_token c) \<noteq> ''''" and "fence_root c \<noteq> ''''"
    and "begin_fence q c (strip (fc_token c)) (fence_root c) f = Inr (Held row)" and "wf_fence (fence_root c) row"
    and "row_generation row = generation_at f (fence_root c)"
    and "answer = open_answer q (fence_root c) (strip (fc_token c)) row (row_generation row)"
    and "f' = dset (fence_root c) (PDict row) f"
proof -
  have ok: "strip (fc_token c) \<noteq> ''''" "fence_root c \<noteq> ''''"
    using assms(2-4) by (auto simp: transition_acceptance_fence_def Let_def refusal_def split: if_splits)
  note t = assms(3) [unfolded begin_transition [OF assms(2) ok]]
  obtain step where s: "begin_fence q c (strip (fc_token c)) (fence_root c) f = Inr step"
    using t by (cases "begin_fence q c (strip (fc_token c)) (fence_root c) f") auto
  have "step \<noteq> Refused a" for a
    using t assms(4) begin_fence_refused [of q c "strip (fc_token c)" "fence_root c" f a] by (auto simp: s refusal_def)
  then obtain row where h: "step = Held row" by (cases step) auto
  have w: "wf_fence (fence_root c) row" "row_generation row = generation_at f (fence_root c)"
    using begin_fence_held [OF s [unfolded h] assms(1) ok(2,1)] by simp_all
  show thesis using that ok s h w t wf_fence_generation [OF w(1)] by simp
qed

text \<open>The generation an answer tells is the row's.\<close>

lemma told_generation:
  assumes wf: "wf_fences f" and t: "transition_acceptance_fence q c f = (Inr told, f')"
    and g: "dget told ''owner_message_generation'' = PInt g" and k: "dget told ''ok'' = PBool True"
    and r: "dget told ''root_task_id'' = PStr rid" and there: "dhas f' rid"
  shows "generation_at f' rid = g"
proof -
  have ok: "strip (fc_token c) \<noteq> ''''" "fence_action c \<in> {''begin'', ''inspect'', ''end''}"
    using t g by (auto simp: transition_acceptance_fence_def Let_def refusal_def split: if_splits)
  consider "fence_action c = ''begin''" | "fence_action c = ''inspect''" | "fence_action c = ''end''" using ok(2) by blast
  then show ?thesis
  proof cases
    case 1
    from wf 1 t k show ?thesis
      by (rule begin_granted) (use r g in \<open>auto simp: open_answer_fields generation_at_def\<close>)
  next
    case 2
    then obtain row where row: "fence_of_token (strip (fc_token c)) f = Some (rid, row)"
        and g': "fence_generation row = Inr g" and "f' = f"
      using t ok(1) r g
      by (auto simp: transition_acceptance_fence_def Let_def open_answer_fields split: option.splits sum.splits)
    moreover have "dget f rid = PDict row" "wf_fence rid row" using fence_of_token_wf [OF wf row] by blast+
    ultimately show ?thesis using wf_fence_generation [of rid row] by (simp add: generation_at_def)
  next
    case 3
    then obtain matched row where "fence_of_token (strip (fc_token c)) f = Some (matched, row)"
        and e: "end_fence q c (strip (fc_token c)) matched row (row_generation row) f = (told, f')"
      using t ok(1) g transition_end [OF wf 3, of q]
      by (auto simp: map_prod_def split: option.splits prod.splits)
    then have "rid = matched \<and> f' = dpop matched f"
      using r g by (auto simp: end_fence_def Let_def fence_answer_def split: if_splits)
    then show ?thesis using there by simp
  qed
qed

text \<open>A sealing answer was checked against the row's generation.\<close>

lemma sealed_generation:
  assumes wf: "wf_fences f" and e: "fence_action c = ''end''" and x: "fc_expected_generation c = Some g"
    and t: "transition_acceptance_fence q c f = (Inr answer, f')"
    and r: "dget answer ''root_task_id'' = PStr rid" and s: "dget answer ''status'' = PStr ''sealed''"
  shows "generation_at f rid = g"
proof -
  obtain matched row where row: "fence_of_token (strip (fc_token c)) f = Some (matched, row)"
      and e: "end_fence q c (strip (fc_token c)) matched row (row_generation row) f = (answer, f')"
    using t s transition_end [OF wf e, of q]
    by (auto simp: map_prod_def refusal_def split: option.splits prod.splits if_splits)
  have "rid = matched" "row_generation row = g"
    using e r s x by (auto simp: end_fence_def Let_def fence_answer_def split: if_splits)
  moreover have "dget f matched = PDict row" using fence_of_token_wf [OF wf row] by blast
  ultimately show ?thesis by (simp add: generation_at_def)
qed

text \<open>A sealing answer was asked with the turn's own count.\<close>

lemma revision_never_seals:
  assumes wf: "wf_fences f" and e: "fence_action c = ''end''" and o: "lower (strip (fc_outcome c)) = ''revision''"
    and t: "transition_acceptance_fence q c f = (Inr answer, f')"
  shows "dget answer ''status'' \<noteq> PStr ''sealed''"
  using t unfolding transition_end [OF wf e]
  by (auto simp: o end_fence_def Let_def fence_answer_def refusal_def split: if_splits option.splits prod.splits)

text \<open>C9: A seal has seen every owner message.  A root was told its fence's generation, after it had read the
  count of the direct turn it is bound to (if any), and its fence stayed since then through any operations.
  When its author's end, which names that generation and that count, seals the fence, no new owner
  message was delivered in between: neither to a queued or running task of the root nor to the turn,
  by steering or by ordinary room input.\<close>

theorem seal_has_seen_every_message:
  assumes "read = run_fences history (started turns)" and "asking = run_fences before read"
    and "transition_acceptance_fence q c (ad_fences asking) = (Inr told, f)"
    and "dget told ''owner_message_generation'' = PInt g" and "dget told ''ok'' = PBool True"
    and "dget told ''root_task_id'' = PStr rid" and "asked = asking\<lparr>ad_fences := f\<rparr>" and "stays_fenced rid es asked"
    and "bound \<in> {None, Some (turn, turn_generation read turn)}" and "fc_expected_generation d = Some g"
    and "end_seal q' d stale bound (run_fences es asked) = (Inr answer, sealed)"
    and "dget answer ''root_task_id'' = PStr rid" and "dget answer ''status'' = PStr ''sealed''"
  shows "messages rid es asked = 0
    \<and> (bound \<noteq> None \<longrightarrow> turn_messages turn before read = 0 \<and> turn_messages turn es asked = 0)"
proof
  let ?late = "run_fences es asked" and ?d = "seal_call stale bound (run_fences es asked) d"
  have wf: "wf_fences (ad_fences asking)" using assms(1,2) run_wf [OF reached_wf] by simp
  then have wfa: "wf_fences (ad_fences asked)"
    using transition.lifted.keeps_wf [of asking q c] assms(3,7) by simp
  have wfe: "wf_fences (ad_fences ?late)" using wfa by (rule run_wf)
  obtain f' where t: "transition_acceptance_fence q' ?d (ad_fences ?late) = (Inr answer, f')"
    using assms(11) by (auto simp: end_seal_def split: prod.splits)
  have e: "fence_action ?d = ''end''" "fc_expected_generation ?d = Some g"
    using assms(10) strip_end by (simp_all add: seal_call_def Let_def fence_action_def)
  have "generation_at (ad_fences asked) rid = g"
    using told_generation [OF wf assms(3-6)] stays_fenced_start [OF assms(8)] assms(7) by simp
  moreover have "generation_at (ad_fences ?late) rid = g"
    using wfe e t assms(12,13) by (rule sealed_generation)
  ultimately show "messages rid es asked = 0" using generation_counts [OF wfa assms(8)] by simp
  show "bound \<noteq> None \<longrightarrow> turn_messages turn before read = 0 \<and> turn_messages turn es asked = 0"
  proof
    assume "bound \<noteq> None"
    then have b: "bound = Some (turn, turn_generation read turn)" using assms(9) by blast
    have "turn_generation ?late turn = turn_generation read turn"
    proof (rule ccontr)
      assume "turn_generation ?late turn \<noteq> turn_generation read turn"
      then have "lower (strip (fc_outcome ?d)) = ''revision''" using strip_revision by (simp add: seal_call_def b)
      then show False using revision_never_seals [OF wfe e(1) _ t] assms(13) by simp
    qed
    then show "turn_messages turn before read = 0 \<and> turn_messages turn es asked = 0"
      by (simp add: turn_counts assms(2,7))
  qed
qed

section \<open>Sealed roots\<close>

text \<open>What may lift the fence of a root: its own end, or the end of the root.\<close>

fun lifts :: "string \<Rightarrow> string \<Rightarrow> fence_event \<Rightarrow> bool" where
  "lifts rid token (Transition q c) \<longleftrightarrow> fence_action c = ''end'' \<and> strip (fc_token c) = token"
| "lifts rid token (AuthorEnd q c stale bound) \<longleftrightarrow> strip (fc_token c) = token"
| "lifts rid token (RootCleared r) \<longleftrightarrow> strip r = rid"
| "lifts rid token _ \<longleftrightarrow> False"

lemma transition_keeps_sealed:
  assumes wf: "wf_fences f" and r: "dget f rid = PDict row" and s: "dget row ''status'' = PStr ''sealed''"
    and n: "\<not> (fence_action c = ''end'' \<and> strip (fc_token c) = sor (dget row ''token''))"
  shows "dget (snd (transition_acceptance_fence q c f)) rid = PDict row"
  using wf
proof (cases rule: transition_cases [of f q c])
  case 1
  then show ?thesis using r by simp
next
  case (2 row')
  show ?thesis
  proof (cases "fence_root c = rid")
    case True
    then obtain requester where "adopt_fence q c (strip (fc_token c)) rid requester row = Inr (Held row')"
      using 2(3) r by (auto simp: begin_fence_def Let_def sbind_Inr_iff split: if_splits)
    then have "row' = row" using s by (auto simp: adopt_fence_def Let_def fence_status_def or_val_def split: if_splits)
    then show ?thesis using 2(5) True by simp
  qed (use 2(5) r in simp)
next
  case (3 matched row')
  have m: "dget f matched = PDict row'" "sor (dget row' ''token'') = strip (fc_token c)"
    using fence_of_token_wf [OF wf 3(2)] by blast+
  have "matched \<noteq> rid" using m r n 3(1) by auto
  moreover have "snd (transition_acceptance_fence q c f) = snd (end_fence q c (strip (fc_token c)) matched row' (row_generation row') f)"
    using 3(3) by simp
  ultimately show ?thesis
    using end_fence_cases [of q c "strip (fc_token c)" matched row' "row_generation row'" f] r by auto
qed

lemma counting_keeps_sealed:
  assumes "count_on_fence k f = Inr f'" and "dget f rid = PDict row" and "dget row ''status'' = PStr ''sealed''"
  shows "dget f' rid = PDict row"
  using assms by (auto simp: count_on_fence_def sbind_Inr_iff split: pyval.splits if_splits)

lemma release_keeps_sealed:
  assumes wf: "wf_fences f" and r: "dget f rid = PDict row" and s: "dget row ''status'' = PStr ''sealed''"
  shows "dget (snd (release_ended_attempt_fences task_id attempt pid paused f)) rid = PDict row"
proof (cases "find (ended_attempt_row task_id attempt pid paused) f")
  case (Some p)
  obtain key v where p: "p = (key, v)" by fastforce
  then have "(key, v) \<in> set f" and e: "ended_attempt_row task_id attempt pid paused (key, v)"
    using Some by (auto simp: find_Some_iff in_set_conv_nth)
  then have "dget f key = v" using wf by (simp add: wf_fences_def dget_def)
  then have "key \<noteq> rid" using e r s by (auto simp: ended_attempt_row_def split: pyval.splits)
  then show ?thesis using r Some p by (simp add: release_ended_attempt_fences_def)
qed (use r in \<open>simp add: release_ended_attempt_fences_def\<close>)

lemma sealed_kept:
  assumes wf: "wf_fences (ad_fences st)" and r: "dget (ad_fences st) rid = PDict row" and s: "dget row ''status'' = PStr ''sealed''"
    and n: "\<not> lifts rid (sor (dget row ''token'')) e"
  shows "dget (ad_fences (exec_fence e st)) rid = PDict row"
proof (cases e)
  case (Transition q c)
  then show ?thesis using transition_keeps_sealed [OF wf r s] n by simp
next
  case (AuthorEnd q c stale bound)
  then have "strip (fc_token (seal_call stale bound st c)) \<noteq> sor (dget row ''token'')"
    using n by (simp add: seal_call_def Let_def)
  then show ?thesis
    using transition_keeps_sealed [OF wf r s, of "seal_call stale bound st c" q] AuthorEnd
    by (simp add: end_seal_def case_prod_beta)
next
  case (Steered direct gone cancelling written quotes target k)
  then show ?thesis
    using counting_keeps_sealed [OF _ r s, of k] r by (auto simp: steer_task_def split: option.split sum.split)
next
  case (Routed direct reading cancelling written target k)
  then show ?thesis
    using counting_keeps_sealed [OF _ r s, of k] r by (auto simp: route_owner_message_def split: sum.split)
next
  case (TurnMoved turn busy accepting task_id)
  then show ?thesis using r by (simp add: move_turn_def)
next
  case (AttemptEnded task_id attempt pid paused)
  then show ?thesis using release_keeps_sealed [OF wf r s] by simp
next
  case (RootCleared k)
  then show ?thesis using r n by (simp add: clear_fence_for_root_def Let_def)
next
  case (Parked q k task_id attempt direct worker_id pause)
  then show ?thesis
    using r s by (auto simp: bind_paused_fence_def Let_def split: pyval.split)
qed

text \<open>C10: A sealed root takes no more work: until its own token ends it again or the root itself is cleared,
  no operation changes its fence, no task of the root passes the queue's admission, and no message reaches
  a queued or running task of the root, by steering or by ordinary room input.  (A message to a live
  direct turn is decided by the turn and moves the turn's count, not the fence.)\<close>

theorem sealed_root_takes_no_work:
  assumes "st = run_fences history (started turns)" and "dget (ad_fences st) rid = PDict row"
    and "dget row ''status'' = PStr ''sealed''" and "\<forall>e \<in> set es. \<not> lifts rid (sor (dget row ''token'')) e"
    and "later = run_fences es st"
  shows "dget (ad_fences later) rid = PDict row
    \<and> (\<forall>t. strip (sor (dget t ''root_task_id'')) = rid \<longrightarrow> fence_admission_block t (ad_fences later) \<noteq> None)
    \<and> (\<forall>gone cancelling written quotes target. \<exists>reason.
         steer_task False gone cancelling written quotes target rid later = (SteerRefused reason, later))
    \<and> (\<forall>reading cancelling written target.
         route_owner_message False reading cancelling written target rid later = (False, later))"
proof -
  have kept: "dget (ad_fences (run_fences es st)) rid = PDict row" if "wf_fences (ad_fences st)" "dget (ad_fences st) rid = PDict row"
      "\<forall>e \<in> set es. \<not> lifts rid (sor (dget row ''token'')) e" for es st
    using that
  proof (induction es arbitrary: st)
    case (Cons e es)
    have "dget (ad_fences (exec_fence e st)) rid = PDict row" using Cons.prems assms(3) by (intro sealed_kept) simp_all
    then show ?case using Cons.IH [OF event.keeps_wf [OF Cons.prems(1)]] Cons.prems(3) by simp
  qed simp
  have wf: "wf_fences (ad_fences st)" using assms(1) reached_wf by simp
  have r: "dget (ad_fences later) rid = PDict row" unfolding assms(5) by (rule kept [OF wf assms(2,4)])
  then have "fence_sealed rid (ad_fences later)" using assms(3) by (simp add: fence_sealed_def)
  moreover have "rid \<noteq> ''''" using wf_fences_row [OF wf assms(2)] by (simp add: wf_fence_def)
  ultimately show ?thesis
    using r assms(3) by (auto simp: fence_admission_block_def Let_def steer_task_def route_owner_message_def)
qed

section \<open>Owners\<close>

definition requester :: "fence_call \<Rightarrow> string" where
  "requester c = (if fc_task_id c \<noteq> '''' then fc_task_id c else fence_root c)"

text \<open>The row a granted begin holds, and how it came to it.\<close>

lemma held_row:
  assumes "begin_fence q c token (fence_root c) f = Inr (Held row)" and "py_eq (fc_pooled_owner c) (fc_pooled_owner c)"
    and "wf_fences f" and "token \<noteq> ''''"
  shows "sor (dget row ''token'') = token" and "py_eq (dget row ''pooled_owner'') (fc_pooled_owner c)"
    and "fc_pooled_owner c \<noteq> PNone \<Longrightarrow> current_acceptance_owner q (requester c) (fence_root c) (fc_pooled_owner c) = Inr True"
    and "\<lbrakk>dget f (fence_root c) = PDict old; \<not> py_eq (dget old ''pooled_owner'') (fc_pooled_owner c)\<rbrakk>
         \<Longrightarrow> consumed_acceptance_handoff q old (requester c) (fc_pooled_owner c) = Inr True"
proof -
  have current: "(if fc_pooled_owner c = PNone then Inr True
      else current_acceptance_owner q (requester c) (fence_root c) (fc_pooled_owner c)) = Inr True"
    and step: "case dget f (fence_root c) of PDict r \<Rightarrow> adopt_fence q c token (fence_root c) (requester c) r = Inr (Held row)
                 | _ \<Rightarrow> row = new_fence q c token (fence_root c) (requester c)"
    using assms(1) by (auto simp: begin_fence_def Let_def sbind_Inr_iff requester_def split: if_splits pyval.splits)
  show "fc_pooled_owner c \<noteq> PNone \<Longrightarrow> current_acceptance_owner q (requester c) (fence_root c) (fc_pooled_owner c) = Inr True"
    using current by simp
  have adopted: "sor (dget row ''token'') = token \<and> py_eq (dget row ''pooled_owner'') (fc_pooled_owner c)
      \<and> (\<not> py_eq (dget old ''pooled_owner'') (fc_pooled_owner c)
          \<longrightarrow> consumed_acceptance_handoff q old (requester c) (fc_pooled_owner c) = Inr True)"
    if a: "adopt_fence q c token (fence_root c) (requester c) old = Inr (Held row)" for old
  proof (cases "py_eq (dget old ''pooled_owner'') (fc_pooled_owner c)")
    case True
    then show ?thesis using a assms(2)
      by (auto simp: adopt_fence_def Let_def rebound_fence_def split: if_splits)
  next
    case False
    then have h: "consumed_acceptance_handoff q old (requester c) (fc_pooled_owner c) = Inr True"
        and r: "row = rebound_fence c token old"
      using a by (auto simp: adopt_fence_def Let_def sbind_Inr_iff split: if_splits)
    then have "fc_pooled_owner c \<noteq> PNone" by (auto simp: consumed_acceptance_handoff_def)
    then show ?thesis using h r assms(2) by (simp add: rebound_fence_def Let_def)
  qed
  from assms(3) have "sor (dget row ''token'') = token \<and> py_eq (dget row ''pooled_owner'') (fc_pooled_owner c)"
  proof (cases rule: wf_fences_cases [of f "fence_root c"])
    case 1
    then show ?thesis using step assms(2) by (auto simp: new_fence_def)
  next
    case (2 r)
    then show ?thesis using step adopted [of r] by simp
  qed
  then show "sor (dget row ''token'') = token" "py_eq (dget row ''pooled_owner'') (fc_pooled_owner c)" by blast+
  show "\<lbrakk>dget f (fence_root c) = PDict old; \<not> py_eq (dget old ''pooled_owner'') (fc_pooled_owner c)\<rbrakk>
      \<Longrightarrow> consumed_acceptance_handoff q old (requester c) (fc_pooled_owner c) = Inr True"
    using step adopted [of old] by simp
qed

text \<open>A row that already carries the token and the owner is held as it is.\<close>

lemma begin_again:
  assumes "begin_fence q c token (fence_root c) f = Inr (Held row)" and "dget f' (fence_root c) = PDict row"
    and "sor (dget row ''token'') = token" and "py_eq (dget row ''pooled_owner'') (fc_pooled_owner c)"
  shows "begin_fence q c token (fence_root c) f' = Inr (Held row)"
proof -
  let ?r = "if fc_task_id c \<noteq> '''' then fc_task_id c else fence_root c"
  have current: "(if fc_pooled_owner c = PNone then Inr True
      else current_acceptance_owner q ?r (fence_root c) (fc_pooled_owner c)) = Inr True"
    using assms(1) by (auto simp: begin_fence_def Let_def sbind_Inr_iff split: if_splits)
  have "adopt_fence q c token (fence_root c) ?r row = Inr (Held row)"
    unfolding adopt_fence_def Let_def using assms(3,4) by simp
  then show ?thesis unfolding begin_fence_def Let_def current assms(2) by simp
qed

text \<open>C11: A fence belongs to the live attempt that asked for it: a begin that is granted leaves the root a row
  with the requester's token and owner and the generation it had, and touches no other root; a pooled owner
  is the current attempt of a live worker, a fence passes to another owner only by the Resume that was
  consumed, and the same request again is granted the same and changes nothing.  A refused begin changes
  nothing either.\<close>

theorem begin_grants_the_live_attempt:
  assumes "f = ad_fences (run_fences history (started turns))" and "fence_action c = ''begin''"
    and "transition_acceptance_fence q c f = (Inr answer, f')" and "py_eq (fc_pooled_owner c) (fc_pooled_owner c)"
  shows "if dget answer ''ok'' = PBool True
    then (\<exists>row. f' = dset (fence_root c) (PDict row) f \<and> sor (dget row ''token'') = strip (fc_token c)
            \<and> py_eq (dget row ''pooled_owner'') (fc_pooled_owner c) \<and> row_generation row = generation_at f (fence_root c))
       \<and> (fc_pooled_owner c \<noteq> PNone \<longrightarrow>
            current_acceptance_owner q (requester c) (fence_root c) (fc_pooled_owner c) = Inr True)
       \<and> (\<forall>old. dget f (fence_root c) = PDict old \<and> \<not> py_eq (dget old ''pooled_owner'') (fc_pooled_owner c)
            \<longrightarrow> consumed_acceptance_handoff q old (requester c) (fc_pooled_owner c) = Inr True)
       \<and> transition_acceptance_fence q c f' = (Inr answer, f')
    else f' = f"
proof (cases "dget answer ''ok'' = PBool True")
  case True
  have wf: "wf_fences f" using assms(1) reached_wf by simp
  obtain row where ok: "strip (fc_token c) \<noteq> ''''" "fence_root c \<noteq> ''''"
    and b: "begin_fence q c (strip (fc_token c)) (fence_root c) f = Inr (Held row)"
    and w: "wf_fence (fence_root c) row" "row_generation row = generation_at f (fence_root c)"
    and a: "answer = open_answer q (fence_root c) (strip (fc_token c)) row (row_generation row)"
    and f': "f' = dset (fence_root c) (PDict row) f"
    using wf assms(2,3) True by (rule begin_granted)
  note h = held_row [OF b assms(4) wf ok(1)]
  have "begin_fence q c (strip (fc_token c)) (fence_root c) f' = Inr (Held row)"
    by (rule begin_again [OF b]) (use h f' in simp_all)
  then have "transition_acceptance_fence q c f' = (Inr answer, f')"
    unfolding begin_transition [OF assms(2) ok]
    using a f' wf_fence_generation [OF w(1)] by (simp add: dset_def update_last)
  moreover have "\<exists>row. f' = dset (fence_root c) (PDict row) f \<and> sor (dget row ''token'') = strip (fc_token c)
      \<and> py_eq (dget row ''pooled_owner'') (fc_pooled_owner c) \<and> row_generation row = generation_at f (fence_root c)"
    using f' h(1,2) w(2) by (intro exI [of _ row] conjI)
  moreover note h(3,4)
  ultimately show ?thesis using True by presburger
next
  case False
  have "f' = f"
  proof (cases "strip (fc_token c) = '''' \<or> fence_root c = ''''")
    case True
    then have "snd (transition_acceptance_fence q c f) = f"
      using assms(2) by (auto simp: transition_acceptance_fence_def Let_def)
    then show ?thesis using assms(3) by simp
  next
    case ok: False
    then have n: "strip (fc_token c) \<noteq> ''''" "fence_root c \<noteq> ''''" by simp_all
    note t = assms(3) [unfolded begin_transition [OF assms(2) n]]
    have "step \<noteq> Held row" if "begin_fence q c (strip (fc_token c)) (fence_root c) f = Inr step" for step row
    proof
      assume "step = Held row"
      then have "map_sum id (open_answer q (fence_root c) (strip (fc_token c)) row) (fence_generation row) = Inr answer"
        using t that by simp
      then show False using False by (cases "fence_generation row") (auto simp: open_answer_def fence_answer_def)
    qed
    then show ?thesis using t by (auto split: sum.splits begin_step.splits)
  qed
  then show ?thesis using False by simp
qed

section \<open>Witnesses\<close>

definition sample_worker :: worker_slot where
  "sample_worker = \<lparr>wk_busy_task_id = PStr ''r1'', wk_pid = 7, wk_alive = True, wk_reaping = False\<rparr>"

definition sample_view :: queue_view where
  "sample_view = \<lparr>qv_pending = [], qv_running = [(''r1'', PDict [(''worker_id'', PInt 0), (''attempt'', PInt 1),
       (''task'', PDict [(''id'', PStr ''r1'')])])],
     qv_workers = (\<lambda>w. if w = PInt 0 then Some sample_worker else None), qv_budget_roots = [], qv_result = (\<lambda>_. None),
     qv_now = ''2026-08-11T10:00:00+00:00''\<rparr>"

definition sample_fence_call :: "string \<Rightarrow> int option \<Rightarrow> fence_call" where
  "sample_fence_call action expected = \<lparr>fc_action = action, fc_token = ''aa'', fc_root_task_id = ''r1'', fc_task_id = ''r1'',
     fc_outcome = '''', fc_expected_generation = expected,
     fc_pooled_owner = PDict [(''task_attempt'', PInt 1), (''pid'', PInt 7)]\<rparr>"

definition sample_turns :: "string \<Rightarrow> direct_turn option" where
  "sample_turns t = (if t = ''d1'' then Some \<lparr>dt_busy = True, dt_accepting = True, dt_task_id = ''d1'', dt_generation = 3\<rparr> else None)"

definition fresh :: admission where "fresh = started sample_turns"

definition begun :: admission where
  "begun = run_fences [Transition sample_view (sample_fence_call ''begin'' None)] fresh"

definition begun_answer :: pydict where
  "begun_answer = [(''ok'', PBool True), (''status'', PStr ''active''), (''root_task_id'', PStr ''r1''), (''token'', PStr ''aa''),
     (''owner_message_generation'', PInt 0), (''queue_descendants'', PList [])]"

definition sealed_answer :: pydict where
  "sealed_answer = [(''ok'', PBool True), (''status'', PStr ''sealed''), (''root_task_id'', PStr ''r1''), (''token'', PStr ''aa'')]"

text \<open>Messages that count nothing: context without a quote, one to a turn that is not there, a failed write.\<close>

definition idle_messages :: "fence_event list" where
  "idle_messages = [Steered False False False (Some True) False ''r1'' ''r1'', Routed True True False True ''d2'' ''d2'',
     Routed False True False False ''r1'' ''r1'']"

definition sample_end :: "fence_event list \<Rightarrow> fence_exc + pydict" where
  "sample_end es = fst (end_seal sample_view (sample_fence_call '''' (Some 0)) False (Some (''d1'', 3)) (run_fences es begun))"

definition answered :: "string \<Rightarrow> fence_exc + pydict \<Rightarrow> pyval" where
  "answered key r = (case r of Inl _ \<Rightarrow> PNone | Inr d \<Rightarrow> dget d key)"

lemma begun_evaluated:
  "transition_acceptance_fence sample_view (sample_fence_call ''begin'' None) [] = (Inr begun_answer, ad_fences begun)"
  "fence_action (sample_fence_call ''begin'' None) = ''begin''"
  "py_eq (fc_pooled_owner (sample_fence_call ''begin'' None)) (fc_pooled_owner (sample_fence_call ''begin'' None))"
  "turn_generation fresh ''d1'' = 3"
  by code_simp+

lemma seal_evaluated:
  "stays_fenced ''r1'' idle_messages begun" "sample_end idle_messages = Inr sealed_answer"
  "answered ''status'' (sample_end [Routed True True False True ''d1'' ''d1'']) = PStr ''released''"
  "answered ''generation_mismatch'' (sample_end [Steered False False False (Some True) True ''r1'' ''r1'']) = PBool True"
  by code_simp+

lemma begun_is_asked: "begun = fresh\<lparr>ad_fences := ad_fences begun\<rparr>"
  by (simp add: begun_def on_fences_def)

theorem seal_has_seen_every_message_witness:
  "messages ''r1'' idle_messages begun = 0 \<and> turn_messages ''d1'' idle_messages begun = 0
   \<and> answered ''status'' (sample_end [Routed True True False True ''d1'' ''d1'']) = PStr ''released''
   \<and> answered ''generation_mismatch'' (sample_end [Steered False False False (Some True) True ''r1'' ''r1'']) = PBool True"
proof -
  obtain sealed where s: "end_seal sample_view (sample_fence_call '''' (Some 0)) False (Some (''d1'', 3)) (run_fences idle_messages begun)
      = (Inr sealed_answer, sealed)"
    using seal_evaluated(2) unfolding sample_end_def by (metis prod.collapse)
  have n: "fresh = run_fences [] (started sample_turns)" "fresh = run_fences [] fresh" by (simp_all add: fresh_def)
  have h: "transition_acceptance_fence sample_view (sample_fence_call ''begin'' None) (ad_fences fresh) = (Inr begun_answer, ad_fences begun)"
    using begun_evaluated(1) by (simp add: fresh_def started_def)
  have told: "dget begun_answer ''owner_message_generation'' = PInt 0" "dget begun_answer ''ok'' = PBool True"
    "dget begun_answer ''root_task_id'' = PStr ''r1''"
    and answer: "dget sealed_answer ''root_task_id'' = PStr ''r1''" "dget sealed_answer ''status'' = PStr ''sealed''"
    by (simp_all add: begun_answer_def sealed_answer_def)
  have b: "Some (''d1'', 3) \<in> {None, Some (''d1'', turn_generation fresh ''d1'')}" by (simp add: begun_evaluated(4))
  have x: "fc_expected_generation (sample_fence_call '''' (Some 0)) = Some 0" by (simp add: sample_fence_call_def)
  show ?thesis
    using seal_has_seen_every_message [OF n h told begun_is_asked seal_evaluated(1) b x s answer] seal_evaluated(3,4) by simp
qed

definition sealed_history :: "fence_event list" where
  "sealed_history = [Transition sample_view (sample_fence_call ''begin'' None),
     AuthorEnd sample_view (sample_fence_call '''' (Some 0)) False (Some (''d1'', 3))]"

definition sealed_row :: pydict where
  "sealed_row = the_dict (dget (ad_fences (run_fences sealed_history fresh)) ''r1'')"

definition later_events :: "fence_event list" where
  "later_events = [Transition sample_view (sample_fence_call ''begin'' None), Routed True True False True ''d1'' ''d1'',
     AttemptEnded ''r1'' 1 None []]"

lemma sealed_evaluated:
  "dget (ad_fences (run_fences sealed_history fresh)) ''r1'' = PDict sealed_row" "dget sealed_row ''status'' = PStr ''sealed''"
  "sor (dget sealed_row ''token'') = ''aa''" "strip ''r1'' = ''r1''"
  by code_simp+

theorem sealed_root_takes_no_work_witness:
  "fence_admission_block [(''id'', PStr ''t2''), (''root_task_id'', PStr ''r1'')]
     (ad_fences (run_fences later_events (run_fences sealed_history fresh))) \<noteq> None"
proof -
  have "\<forall>e \<in> set later_events. \<not> lifts ''r1'' (sor (dget sealed_row ''token'')) e"
    by (simp add: later_events_def begun_evaluated(2))
  from sealed_root_takes_no_work [OF refl sealed_evaluated(1) [unfolded fresh_def] sealed_evaluated(2) this refl]
  show ?thesis by (simp add: sealed_evaluated(4) fresh_def)
qed

theorem begin_grants_the_live_attempt_witness:
  "current_acceptance_owner sample_view ''r1'' ''r1'' (PDict [(''task_attempt'', PInt 1), (''pid'', PInt 7)]) = Inr True
   \<and> transition_acceptance_fence sample_view (sample_fence_call ''begin'' None) (ad_fences begun)
       = (Inr begun_answer, ad_fences begun)"
proof -
  have h: "[] = ad_fences (run_fences [] (started sample_turns))" by (simp add: started_def)
  have c: "requester (sample_fence_call ''begin'' None) = ''r1''" "fence_root (sample_fence_call ''begin'' None) = ''r1''"
    "fc_pooled_owner (sample_fence_call ''begin'' None) = PDict [(''task_attempt'', PInt 1), (''pid'', PInt 7)]"
    using sealed_evaluated(4) by (simp_all add: requester_def fence_root_def sample_fence_call_def)
  have "dget begun_answer ''ok'' = PBool True" by (simp add: begun_answer_def)
  then show ?thesis
    using begin_grants_the_live_attempt [OF h begun_evaluated(2,1,3)] by (simp add: c)
qed

end
