(* ===== verification/Spec2Isabelle.thy ===== *)
theory Spec2Isabelle
  imports Cancel_Witnesses Review_Witnesses Usage_Call_Witnesses Fence_Props
begin

text \<open>
  Ouroboros agent runtime: the durable decision core.

  Ouroboros runs a language-model agent as a supervisor with worker processes, an agent loop, reviewers
  and a web surface.  What makes the runtime trustworthy is a small set of durable authorities that every
  process reads and writes under a lock.  This development models four of them, and the helpers they use:

  \<^item> cancel custody: which task has to be stopped, who is stopping it, and when the request is over
    (\<open>ouroboros/cancel_intents.py\<close> over \<open>ouroboros/task_results.py\<close> and \<open>ouroboros/utils.py\<close>,
    with the stop receipts of \<open>supervisor/followup_policy.py\<close>);
  \<^item> the review ledger: attempts, obligations, readiness debts and the custody of in-flight reviewers
    (\<open>ouroboros/review_state_records.py\<close>, \<open>review_state_model.py\<close>, \<open>review_state_custody.py\<close>), and the
    commit gate that reads it (\<open>ouroboros/tools/commit_gate.py\<close>);
  \<^item> the money store: the rows of every physical model call, their exact sums, the caps and the projection
    debts (\<open>ouroboros/_usage_money.py\<close>, \<open>_usage_rows.py\<close>, \<open>usage_ledger.py\<close>, \<open>usage_store.py\<close>,
    \<open>usage_origin.py\<close>), and the accounting calls over it, from the reservation of an attempt to its
    settlement (\<open>usage_accounting.py\<close>, \<open>_usage_response.py\<close>, \<open>usage_admission.py\<close>, and the release of an
    unsent attempt in \<open>transport_custody.py\<close>);
  \<^item> the acceptance fences of the queue, under which a root that asks for the acceptance of its work admits
    no more work (\<open>supervisor/queue_transitions.py\<close>, and what \<open>queue.py\<close>, \<open>steering.py\<close>,
    \<open>events_budget.py\<close>, \<open>task_lifecycle.py\<close>, \<open>ouroboros/server_owner_routing.py\<close> and
    \<open>ouroboros/delivery_seal.py\<close> do to them), with the direct turns that count owner messages themselves.

  They interact through values: a cancel settles against task results; a gate decision is a pure reading
  of the ledger that records attempts; the money of an attempt is written by the accounting calls, whose
  admission reads the sums of every attempt before it; a fence reads the durable result of its task.  Each
  is a state record with one Isabelle function for each operation of the code.

  \<^bold>\<open>Theories and sources.\<close>

  Prelude.  \<open>Py_Base\<close>: values of JSON shape, dicts in insertion order, \<open>str\<close>, \<open>repr\<close>, \<open>int()\<close>,
  truthiness, \<open>strip\<close>.  \<open>Py_Time\<close>: \<open>datetime.fromisoformat\<close> to microseconds.  \<open>Py_Hash\<close>: SHA-256 on
  32-bit words, and the canonical JSON text it digests.  \<open>Py_Decimal\<close>: \<open>Decimal(text)\<close>, \<open>str(Decimal)\<close>,
  binary64 rounding and \<open>repr(float)\<close>, equality of values.  These model the language, not the program.

  Cancel custody.  \<open>Task_Results\<close> (statuses, the order of statuses, lineage, schema admission, strict and
  fail-soft readers, reopening a placeholder), \<open>Json_Store\<close> (\<open>update_json_locked\<close>), \<open>Cancel_Lineage\<close> (the
  two bounded lineage walks, stop receipts), \<open>Cancel_Intents\<close> (the projection, its readers, requests),
  \<open>Cancel_Ops\<close> (drain, scope, claim, release, settle, ownership check).  \<open>Cancel_Spec\<close> is the abstract
  specification: \<open>row_step\<close> says what may happen to one active row and \<open>intents_step\<close> to the projection;
  every operation refines it.  \<open>Cancel_Runs\<close> states that as a locale and interprets it on each operation;
  \<open>Cancel_Props\<close> holds the properties.

  Review.  \<open>Review_Records\<close> (record types, fingerprints, ids, scope), \<open>Review_Custody\<close> (reviewer rows,
  merge, compaction), \<open>Review_Model\<close> (the state, coalescing and folding of obligations), \<open>Review_Ledger\<close>
  (debts, history, expiry, reconciliation, stale marker), \<open>Commit_Block_Class\<close> and \<open>Commit_Gate\<close>
  (block classes, the identical-diff refusal, the paid-cycle ceiling).  \<open>Review_History\<close>,
  \<open>Review_Obligations\<close> and \<open>Obligation_Ids\<close> hold the lemmas (the last one the locale of an id source,
  interpreted on both allocators); \<open>Gate_Props\<close>, \<open>Review_Props\<close>, \<open>Debt_Props\<close> and \<open>Custody_Props\<close> the
  properties.

  Money.  \<open>Usage_Money\<close> (amounts, cash, rounding, the limit rule), \<open>Usage_Rows\<close> (\<open>Bucket.add\<close>,
  \<open>summary_delta\<close>, the fold), \<open>Usage_Ledger\<close> (the rules of a row and the transition table), \<open>Usage_Store\<close>
  (codec, summary scopes, bindings, evidence, the write).  \<open>Usage_Summary\<close> is the abstract specification of
  a summary, the aggregate of a list of contributions: adding a row appends one, taking it out removes it
  from the middle.  \<open>Usage_Deltas\<close> and \<open>Usage_Codec\<close> connect rows to contributions and to columns;
  \<open>Usage_Runs\<close> and \<open>Usage_Invariant\<close> hold runs of operations and the invariant \<open>money_ok\<close>; \<open>Usage_Props\<close>
  (sums), \<open>Usage_Lifecycle\<close> (one attempt), \<open>Usage_Debts\<close> (limits, bindings, debts), \<open>Usage_OneShots\<close> and
  \<open>Usage_Roundtrip\<close> the properties of the store.

  Accounting calls.  \<open>Usage_Response\<close> (what a provider's answer says of price, tokens and processing),
  \<open>Usage_Admission\<close> (the scope of a call and its merge, the billing-group rule, the price of a reservation),
  \<open>Usage_Attempts\<close> (\<open>reserve_attempt\<close>, every transition of \<open>_transition_once\<close>, settlement, closure, the
  terminal state of a failed send (\<open>_terminalize_failed_attempt\<close>) and price receipts, each one transaction over the store).  \<open>Usage_Steps\<close> and \<open>Usage_Progress\<close> hold the lemmas on one
  call; \<open>Usage_Callers\<close> shows that the calls are runs of the store's operations, so that the invariant of
  the store carries over; \<open>Usage_Call_Props\<close> and \<open>Usage_Prices\<close> hold the properties.

  Queue.  \<open>Fence_Model\<close> (the operations on the fence map, the two routes of an owner message with their
  direct-turn branch, and the author's seal), \<open>Fence_Runs\<close> (their contract as a locale,
  interpreted on each operation), \<open>Fence_Props\<close> (runs of them, the properties and their witnesses).

  The \<open>_Witnesses\<close> theories run the operations on concrete data.

  \<^bold>\<open>What is shown.\<close>  Of cancel custody: every run keeps the projection well formed, a request gets only
  stricter and is lost only by a settle, a live claim is exclusive and a superseded claimant is fenced off,
  a cascade ends only by its postcondition.  Of the review ledger: recording keeps every paid, verdict or
  in-flight row and, under the conditions it names, never lowers the paid count; the identical-diff refusal is exactly its specification;
  obligations are unique by repository and fingerprint and their ids are never issued again; the open debts
  are exactly the current observations; expiry and reconciliation spare paid and delegated work.  Of the
  money store: each summary is the exact aggregate of the stored rows, hence equal to the reducer's fold,
  and cash is neither lost nor doubled between scopes; an attempt takes at most six rows and a final one
  never changes; a limit counts settled spend alone and is monotone in it; bindings are permanent, an acknowledged debt covers
  every row, a one-shot record is idempotent, and a row survives its codec.  Of the accounting calls: a
  reservation and a send pass every fence and every limit, a real settlement is authoritative, an owner's
  closure of the row it has seen leaves no send open and a stale one changes nothing, a provider's price is
  applied once, and every store the calls can reach is a run of the store's operations.  Of the fences: a
  seal has seen every owner message, to the root's tasks and to its own direct turn; the tasks of a sealed
  root take neither work nor messages; and a fence belongs to the live attempt that asked for it.

  \<^bold>\<open>Conventions and bounds.\<close>  Text is Latin-1, on which \<open>lower\<close>, \<open>strip\<close> and \<open>repr\<close> are exact; code points
  beyond it in messages are stood for by unused control characters.  Times are integer microseconds and an
  operation reads the clock once, from its environment argument; \<open>fromisoformat\<close> has the grammar of
  Python 3.10, the oldest version the package supports.  Fresh identifiers, liveness of processes, lock and
  write outcomes are arguments.  A float is the text of its literal; sums are exact rationals and the
  60-digit context is the test \<open>exact\<close> on each result; the exponent range of a context is left out.  JSON
  columns are kept as values and dictionaries that the code compares as dictionaries are compared without
  order.  An operation that raises answers \<open>Inl\<close> and its transaction leaves the state as it was.  The
  lineage walks are bounded by the code's own hop limit and use it as fuel; every other recursion is
  structural or has a measure, so no operation needs fuel of the model's own.

  \<^bold>\<open>Not modelled.\<close>  Locks, files, SQLite, processes, sockets and model providers; the boot migration of
  latches and \<open>write_task_result\<close>; the review start checkpoint; the import and export of the usage journal
  and the rendered views.  Of the accounting calls: the builders of the unmetered external row and of a
  subscription session (the one-shot record they write is modelled), process-local telemetry, the retries of
  a busy store and the texts of budget refusals; reading a provider's response (\<open>usage_from_response\<close>) and
  classifying an exception as never sent are arguments.  Two simplifications make the model accept no less
  than the code: one answer of the dispatch fences stands for the check before a transaction and the one
  inside it, and the write does not repeat the rounding of a summary's cash, which raises in the code for
  amounts beyond the 60-digit context.  Of the queue: the snapshots and acknowledgement files of a
  fence change, the mailbox writes and receipts of a message (their answers are arguments), and the
  enqueueing and parking around the fences.  The remaining subsystems
  (supervisor processes, evolution and update, the agent loop, delegation, memory and dialogue, tools and
  skills, server and user interface) are orchestration of those effects: their decisions are interleaved with
  calls to processes, providers and the file system, whose behaviour is not in the repository.
\<close>

end
